(* ===== verification/Prelude.thy ===== *)
theory Prelude
  imports Main "HOL-Library.Sublist"
begin

text \<open>
  What every component of the development shares: the collections of rewrite rules
  (\<open>go_simps\<close> for the Go library, \<open>cmd_simps\<close> for the command builders),
  results as sums (\<open>Inl\<close> is Go's non-nil error, \<open>Inr\<close> the value), and a few generic
  facts on lists and sums.
\<close>

named_theorems go_simps "rules that evaluate the modelled Go library on closed terms"
named_theorems cmd_simps "definitions of the iptables command builders"

section \<open>Results\<close>

type_synonym ('e, 'a) result = "'e + 'a"

fun is_ok :: "('e, 'a) result \<Rightarrow> bool" where
  "is_ok (Inl _) = False"
| "is_ok (Inr _) = True"

lemma is_ok_iff: "is_ok r \<longleftrightarrow> (\<exists>x. r = Inr x)"
  by (cases r) auto

lemma not_is_ok_iff: "\<not> is_ok r \<longleftrightarrow> (\<exists>e. r = Inl e)"
  by (cases r) auto

text \<open>The values of the successful results of a list, in order.\<close>

fun oks :: "('e, 'a) result list \<Rightarrow> 'a list" where
  "oks [] = []"
| "oks (Inl _ # rs) = oks rs"
| "oks (Inr x # rs) = x # oks rs"

lemma oks_append [simp]: "oks (rs @ rs') = oks rs @ oks rs'"
  by (induction rs rule: oks.induct) auto

lemma set_oks: "set (oks rs) = {x. Inr x \<in> set rs}"
  by (induction rs rule: oks.induct) auto

lemma oks_eq_Nil_iff: "oks rs = [] \<longleftrightarrow> (\<forall>r \<in> set rs. \<not> is_ok r)"
  by (induction rs rule: oks.induct) auto

section \<open>Effects on a world\<close>

text \<open>A step that may read and change the world \<open>'w\<close> and returns an error or a value;
  sequencing stops at the first error, as an early return does.\<close>

type_synonym ('w, 'e, 'a) io = "'w \<Rightarrow> ('e, 'a) result \<times> 'w"

definition returnE :: "'a \<Rightarrow> ('w, 'e, 'a) io" where
  "returnE x w = (Inr x, w)"

definition throwE :: "'e \<Rightarrow> ('w, 'e, 'a) io" where
  "throwE e w = (Inl e, w)"

definition bindE :: "('w, 'e, 'a) io \<Rightarrow> ('a \<Rightarrow> ('w, 'e, 'b) io) \<Rightarrow> ('w, 'e, 'b) io" where
  "bindE m f w = (case m w of (Inl e, w') \<Rightarrow> (Inl e, w') | (Inr x, w') \<Rightarrow> f x w')"

text \<open>The same step with its error put under a constructor of the caller's error type.\<close>

definition wrapE :: "('e \<Rightarrow> 'f) \<Rightarrow> ('w, 'e, 'a) io \<Rightarrow> ('w, 'f, 'a) io" where
  "wrapE c m w = (case m w of (Inl e, w') \<Rightarrow> (Inl (c e), w') | (Inr x, w') \<Rightarrow> (Inr x, w'))"

text \<open>A step whose error is returned only after a clean-up, the result of which is ignored.\<close>

definition onErrorE :: "('w, 'e, 'a) io \<Rightarrow> ('w, 'f, 'b) io \<Rightarrow> ('w, 'e, 'a) io" where
  "onErrorE m c w = (case m w of (Inl e, w') \<Rightarrow> (Inl e, snd (c w')) | (Inr x, w') \<Rightarrow> (Inr x, w'))"

lemma onErrorE_eq_Inr: "onErrorE m c w = (Inr x, w') \<longleftrightarrow> m w = (Inr x, w')"
  by (auto simp: onErrorE_def split: prod.splits sum.splits)

text \<open>A pure result as a step.\<close>

definition liftE :: "('e, 'a) result \<Rightarrow> ('w, 'e, 'a) io" where
  "liftE r w = (r, w)"

lemma bindE_Inl: "m w = (Inl e, w') \<Longrightarrow> bindE m f w = (Inl e, w')"
  and bindE_Inr: "m w = (Inr x, w') \<Longrightarrow> bindE m f w = f x w'"
  by (simp_all add: bindE_def)

lemma wrapE_Inl: "m w = (Inl e, w') \<Longrightarrow> wrapE c m w = (Inl (c e), w')"
  and wrapE_Inr: "m w = (Inr x, w') \<Longrightarrow> wrapE c m w = (Inr x, w')"
  by (simp_all add: wrapE_def)

lemma bindE_simps [simp]:
  "bindE (returnE x) f = f x" "bindE (throwE e) f = throwE e" "bindE (liftE (Inr x)) f = f x"
  "bindE (liftE (Inl e)) f = throwE e"
  by (simp_all add: bindE_def returnE_def throwE_def liftE_def fun_eq_iff)

lemma wrapE_simps [simp]:
  "wrapE c (liftE (Inr x)) = liftE (Inr x)" "wrapE c (liftE (Inl e)) = liftE (Inl (c e))"
  "wrapE c (returnE x) = returnE x" "wrapE c (throwE e) = throwE (c e)"
  by (simp_all add: wrapE_def returnE_def throwE_def liftE_def fun_eq_iff)

lemma bindE_assoc: "bindE (bindE m f) g = bindE m (\<lambda>x. bindE (f x) g)"
  by (auto simp: bindE_def fun_eq_iff split: prod.splits sum.splits)

lemma bindE_eq_Inr:
  "bindE m f w = (Inr y, w'') \<longleftrightarrow> (\<exists>x w'. m w = (Inr x, w') \<and> f x w' = (Inr y, w''))"
  by (auto simp: bindE_def split: prod.splits sum.splits)

lemma wrapE_eq_Inr: "wrapE c m w = (Inr y, w') \<longleftrightarrow> m w = (Inr y, w')"
  by (auto simp: wrapE_def split: prod.splits sum.splits)


text \<open>A property of every value a step can return, whatever the world.\<close>

definition ensures :: "('a \<Rightarrow> bool) \<Rightarrow> ('w, 'e, 'a) io \<Rightarrow> bool" where
  "ensures P m \<longleftrightarrow> (\<forall>w x w'. m w = (Inr x, w') \<longrightarrow> P x)"

lemma ensures_simps [simp]: "ensures P (returnE x) = P x" "ensures P (throwE e)"
  by (simp_all add: ensures_def returnE_def throwE_def)

lemma ensures_bindE: "(\<And>x. ensures P (f x)) \<Longrightarrow> ensures P (bindE m f)"
  by (auto simp: ensures_def bindE_eq_Inr)

lemma ensures_case_sum:
  "(\<And>e. ensures P (f e)) \<Longrightarrow> (\<And>x. ensures P (g x)) \<Longrightarrow> ensures P (case r of Inl e \<Rightarrow> f e | Inr x \<Rightarrow> g x)"
  by (cases r) simp_all

lemma ensuresD: "ensures P m \<Longrightarrow> m w = (Inr x, w') \<Longrightarrow> P x"
  by (auto simp: ensures_def)

section \<open>Lists\<close>

lemma set_map_oks_subset: "x \<in> set (oks (map f xs)) \<Longrightarrow> \<exists>y \<in> set xs. f y = Inr x"
  by (auto simp: set_oks)

lemma find_append: "find P (xs @ ys) = (case find P xs of None \<Rightarrow> find P ys | Some x \<Rightarrow> Some x)"
  by (induction xs) auto

lemma find_None_iff_ball: "find P xs = None \<longleftrightarrow> (\<forall>x \<in> set xs. \<not> P x)"
  by (induction xs) auto

lemma find_SomeD: "find P xs = Some x \<Longrightarrow> x \<in> set xs \<and> P x"
  by (induction xs) (auto split: if_splits)

lemma prefix_append_iff_drop: "prefix p s \<longleftrightarrow> (\<exists>r. s = p @ r)"
  by (auto simp: prefix_def)

end
