(* ===== verification/Go_Strings.thy ===== *)
theory Go_Strings
  imports Prelude
begin

text \<open>
  The part of Go's standard library that the program uses on strings: \<open>strings.Split\<close>,
  \<open>strings.Join\<close>, \<open>strings.HasPrefix\<close>, \<open>strings.HasSuffix\<close>, \<open>strings.Contains\<close>,
  \<open>strings.TrimSpace\<close>, \<open>strconv.Itoa\<close> and \<open>strconv.Atoi\<close>. A Go string is a byte
  sequence; a \<open>char\<close> of HOL is a byte, so a string is a \<open>char list\<close> here. A Go \<open>int\<close>
  is a 64-bit integer: \<open>int\<close> here, with the range check of \<open>Atoi\<close> written out.
\<close>

section \<open>Split and Join\<close>

fun Split :: "string \<Rightarrow> char \<Rightarrow> string list" where
  "Split [] sep = [[]]"
| "Split (c # cs) sep =
     (if c = sep then [] # Split cs sep
      else (case Split cs sep of [] \<Rightarrow> [[c]] | w # ws \<Rightarrow> (c # w) # ws))"

fun Join :: "string list \<Rightarrow> string \<Rightarrow> string" where
  "Join [] sep = []"
| "Join [w] sep = w"
| "Join (w # v # ws) sep = w @ sep @ Join (v # ws) sep"

lemma Split_nonempty [simp]: "Split s sep \<noteq> []"
  by (induction s) (auto split: list.splits)

lemma Split_no_sep: "sep \<notin> set s \<Longrightarrow> Split s sep = [s]"
  by (induction s) auto

lemma Split_append_sep:
  "sep \<notin> set w \<Longrightarrow> Split (w @ sep # s) sep = w # Split s sep"
  by (induction w) auto

lemma Split_fields_no_sep: "w \<in> set (Split s sep) \<Longrightarrow> sep \<notin> set w"
proof (induction s arbitrary: w)
  case (Cons c cs)
  obtain v vs where *: "Split cs sep = v # vs" by (cases "Split cs sep") auto
  show ?case
  proof (cases "c = sep")
    case True
    then show ?thesis using Cons by auto
  next
    case False
    then show ?thesis using Cons * by auto
  qed
qed simp

text \<open>Joining the fields with the separator gives the string back, and splitting a join of
  separator-free fields gives the fields back.\<close>

lemma Join_Cons: "ws \<noteq> [] \<Longrightarrow> Join (w # ws) sep = w @ sep @ Join ws sep"
  by (cases ws) auto

lemma Join_Split: "Join (Split s sep) [sep] = s"
proof (induction s)
  case (Cons c cs)
  obtain v vs where *: "Split cs sep = v # vs" by (cases "Split cs sep") auto
  show ?case
  proof (cases "c = sep")
    case True
    then show ?thesis using Cons by (simp add: Join_Cons)
  next
    case False
    then show ?thesis using Cons * by (cases vs) auto
  qed
qed simp

lemma Split_Join:
  "ws \<noteq> [] \<Longrightarrow> \<forall>w \<in> set ws. sep \<notin> set w \<Longrightarrow> Split (Join ws [sep]) sep = ws"
  by (induction ws "[sep]" rule: Join.induct) (auto simp: Split_no_sep Split_append_sep)

lemma Split_two_iff: "Split s sep = [a, b] \<longleftrightarrow> s = a @ sep # b \<and> sep \<notin> set a \<and> sep \<notin> set b"
proof
  assume *: "Split s sep = [a, b]"
  then have "s = a @ sep # b" using Join_Split [of s sep] by simp
  moreover have "sep \<notin> set a" "sep \<notin> set b"
    using * Split_fields_no_sep [of a s sep] Split_fields_no_sep [of b s sep] by auto
  ultimately show "s = a @ sep # b \<and> sep \<notin> set a \<and> sep \<notin> set b" by simp
next
  assume "s = a @ sep # b \<and> sep \<notin> set a \<and> sep \<notin> set b"
  then show "Split s sep = [a, b]" by (simp add: Split_append_sep Split_no_sep)
qed

lemma Split_one_iff: "Split s sep = [a] \<longleftrightarrow> s = a \<and> sep \<notin> set a"
proof
  assume *: "Split s sep = [a]"
  then show "s = a \<and> sep \<notin> set a"
    using Join_Split [of s sep] Split_fields_no_sep [of a s sep] by auto
next
  assume "s = a \<and> sep \<notin> set a"
  then show "Split s sep = [a]" by (auto simp: Split_no_sep)
qed

section \<open>Prefixes, suffixes and substrings\<close>

definition HasPrefix :: "string \<Rightarrow> string \<Rightarrow> bool" where
  "HasPrefix s p = prefix p s"

definition HasSuffix :: "string \<Rightarrow> string \<Rightarrow> bool" where
  "HasSuffix s p = suffix p s"

fun Contains :: "string \<Rightarrow> string \<Rightarrow> bool" where
  "Contains [] sub = (sub = [])"
| "Contains (c # cs) sub = (prefix sub (c # cs) \<or> Contains cs sub)"

lemma Contains_iff: "Contains s sub \<longleftrightarrow> (\<exists>a b. s = a @ sub @ b)"
proof (induction s)
  case (Cons c cs)
  have "(\<exists>a b. c # cs = a @ sub @ b) \<longleftrightarrow> prefix sub (c # cs) \<or> (\<exists>a b. cs = a @ sub @ b)"
    by (auto simp: prefix_def Cons_eq_append_conv)
  then show ?case using Cons by simp
qed auto

section \<open>White space\<close>

text \<open>
  \<open>TrimSpace\<close> trims the runes of \<open>unicode.IsSpace\<close>, given here by their UTF-8 bytes
  (UTF-8 is self-synchronising, so a string starts or ends with such a rune exactly when it
  starts or ends with its bytes).
\<close>

definition space_runes :: "string list" where
  "space_runes = map (map char_of)
     ([[9], [10], [11], [12], [13], [32], [0xC2, 0x85], [0xC2, 0xA0], [0xE1, 0x9A, 0x80],
       [0xE2, 0x80, 0x80], [0xE2, 0x80, 0x81], [0xE2, 0x80, 0x82], [0xE2, 0x80, 0x83],
       [0xE2, 0x80, 0x84], [0xE2, 0x80, 0x85], [0xE2, 0x80, 0x86], [0xE2, 0x80, 0x87],
       [0xE2, 0x80, 0x88], [0xE2, 0x80, 0x89], [0xE2, 0x80, 0x8A], [0xE2, 0x80, 0xA8],
       [0xE2, 0x80, 0xA9], [0xE2, 0x80, 0xAF], [0xE2, 0x81, 0x9F], [0xE3, 0x80, 0x80]]
      :: nat list list)"

definition leading :: "string list \<Rightarrow> string \<Rightarrow> nat" where
  "leading us s = (case find (\<lambda>u. prefix u s) us of None \<Rightarrow> 0 | Some u \<Rightarrow> length u)"

function trim_start :: "string list \<Rightarrow> string \<Rightarrow> string" where
  "trim_start us s =
     (if leading us s = 0 \<or> s = [] then s else trim_start us (drop (leading us s) s))"
  by pat_completeness auto
termination
  by (relation "measure (\<lambda>(us, s). length s)") auto

declare trim_start.simps [simp del]

definition TrimSpace :: "string \<Rightarrow> string" where
  "TrimSpace s = rev (trim_start (map rev space_runes) (rev (trim_start space_runes s)))"

lemma trim_start_suffix: "suffix (trim_start us s) s"
proof (induction us s rule: trim_start.induct)
  case (1 us s)
  show ?case
  proof (cases "leading us s = 0 \<or> s = []")
    case True
    then show ?thesis by (simp add: trim_start.simps [of us s])
  next
    case False
    with 1 have "suffix (trim_start us (drop (leading us s) s)) (drop (leading us s) s)" by simp
    with False show ?thesis
      by (simp add: trim_start.simps [of us s]) (meson suffix_drop suffix_order.trans)
  qed
qed

lemma trim_start_leading: "trim_start us s \<noteq> [] \<Longrightarrow> leading us (trim_start us s) = 0"
proof (induction us s rule: trim_start.induct)
  case (1 us s)
  then show ?case by (cases "leading us s = 0 \<or> s = []") (auto simp: trim_start.simps [of us s])
qed

lemma trim_start_id: "leading us s = 0 \<Longrightarrow> trim_start us s = s"
  by (simp add: trim_start.simps [of us s])

lemma TrimSpace_sublist: "sublist (TrimSpace s) s"
proof -
  let ?t = "trim_start space_runes s"
  have "prefix (TrimSpace s) ?t"
    using trim_start_suffix [of "map rev space_runes" "rev ?t"]
    by (simp add: TrimSpace_def suffix_to_prefix)
  moreover have "suffix ?t s" by (rule trim_start_suffix)
  ultimately show ?thesis 
    by (meson prefix_imp_sublist sublist_order.order.trans suffix_imp_sublist)
qed

end
