(* ===== verification/Go_Strconv.thy ===== *)
theory Go_Strconv
  imports Go_Strings
begin

text \<open>
  \<open>strconv.Itoa\<close> and \<open>strconv.Atoi\<close>. \<open>Atoi\<close> accepts an optional sign and decimal
  digits, and fails on anything else and on values outside the 64-bit range; the two error
  kinds are those of \<open>strconv.NumError\<close>, reported in the order the digit loop meets them.
\<close>

section \<open>Digits\<close>

definition isDigit :: "char \<Rightarrow> bool" where
  "isDigit c \<longleftrightarrow> 48 \<le> (of_char c :: nat) \<and> (of_char c :: nat) \<le> 57"

definition digitVal :: "char \<Rightarrow> nat" where
  "digitVal c = of_char c - 48"

definition digitChar :: "nat \<Rightarrow> char" where
  "digitChar d = char_of (48 + d)"

fun natToDec :: "nat \<Rightarrow> string" where
  "natToDec n = (if n < 10 then [digitChar n] else natToDec (n div 10) @ [digitChar (n mod 10)])"

declare natToDec.simps [simp del]

definition Itoa :: "int \<Rightarrow> string" where
  "Itoa i = (if i < 0 then CHR ''-'' # natToDec (nat (- i)) else natToDec (nat i))"

section \<open>Atoi\<close>

datatype num_error = ErrSyntax | ErrRange

text \<open>The digit loop of \<open>strconv.ParseUint\<close> at base 10 and 64 bits.\<close>

fun parseUint :: "nat \<Rightarrow> string \<Rightarrow> (num_error, nat) result" where
  "parseUint n [] = Inr n"
| "parseUint n (c # cs) =
     (if \<not> isDigit c then Inl ErrSyntax
      else if n * 10 + digitVal c \<ge> 2 ^ 64 then Inl ErrRange
      else parseUint (n * 10 + digitVal c) cs)"

fun Atoi :: "string \<Rightarrow> (num_error, int) result" where
  "Atoi [] = Inl ErrSyntax"
| "Atoi (c # cs) =
     (let neg = (c = CHR ''-'');
          body = (if c = CHR ''+'' \<or> c = CHR ''-'' then cs else c # cs)
      in if body = [] then Inl ErrSyntax
         else case parseUint 0 body of
           Inl e \<Rightarrow> Inl e
         | Inr un \<Rightarrow>
             if \<not> neg \<and> un \<ge> 2 ^ 63 then Inl ErrRange
             else if neg \<and> un > 2 ^ 63 then Inl ErrRange
             else Inr (if neg then - int un else int un))"

declare isDigit_def [go_simps] digitVal_def [go_simps] digitChar_def [go_simps]
  char_of_def [go_simps] bit_0 [go_simps] Itoa_def [go_simps] natToDec.simps [go_simps] Let_def [go_simps]

section \<open>Digit characters\<close>

lemma of_char_digitChar: "d < 10 \<Longrightarrow> (of_char (digitChar d) :: nat) = 48 + d"
  by (simp add: digitChar_def)

lemma isDigit_digitChar [simp]: "d < 10 \<Longrightarrow> isDigit (digitChar d)"
  by (simp add: isDigit_def of_char_digitChar)

lemma digitVal_digitChar [simp]: "d < 10 \<Longrightarrow> digitVal (digitChar d) = d"
  by (simp add: digitVal_def of_char_digitChar)

lemma natToDec_nonempty [simp]: "natToDec n \<noteq> []"
  by (subst natToDec.simps) simp

lemma natToDec_digits: "c \<in> set (natToDec n) \<Longrightarrow> isDigit c"
proof (induction n rule: natToDec.induct)
  case (1 n)
  then show ?case
    by (cases "n < 10") (auto simp: natToDec.simps [of n])
qed

lemma natToDec_no_char: "\<not> isDigit c \<Longrightarrow> c \<notin> set (natToDec n)"
  using natToDec_digits by blast

lemma not_digits [simp]:
  "\<not> isDigit CHR ''-''" "\<not> isDigit CHR ''+''" "\<not> isDigit CHR '',''" "\<not> isDigit CHR '':''"
  "\<not> isDigit CHR '' ''" "\<not> isDigit CHR ''/''" "\<not> isDigit CHR ''.''"
  by (simp_all add: isDigit_def)

lemma digitVal_less: "isDigit c \<Longrightarrow> digitVal c < 10"
  unfolding isDigit_def digitVal_def by linarith

section \<open>Round trip\<close>

lemma parseUint_append:
  "parseUint n (s @ t) = (case parseUint n s of Inl e \<Rightarrow> Inl e | Inr m \<Rightarrow> parseUint m t)"
  by (induction n s rule: parseUint.induct) auto

lemma parseUint_natToDec: "n < 2 ^ 64 \<Longrightarrow> parseUint 0 (natToDec n) = Inr n"
proof (induction n rule: natToDec.induct)
  case (1 n)
  show ?case
  proof (cases "n < 10")
    case True
    then show ?thesis by (simp add: natToDec.simps [of n])
  next
    case False
    with 1 have "parseUint 0 (natToDec (n div 10)) = Inr (n div 10)" by simp
    with False 1(2) show ?thesis
      by (simp add: natToDec.simps [of n] parseUint_append)
  qed
qed

lemma Itoa_nonempty [simp]: "Itoa i \<noteq> []"
  by (simp add: Itoa_def)

lemma Itoa_nonneg_digits: "0 \<le> i \<Longrightarrow> c \<in> set (Itoa i) \<Longrightarrow> isDigit c"
  by (auto simp: Itoa_def dest: natToDec_digits)

lemma Itoa_nonneg_no_char: "0 \<le> i \<Longrightarrow> \<not> isDigit c \<Longrightarrow> c \<notin> set (Itoa i)"
  using Itoa_nonneg_digits by blast

text \<open>Printing a 64-bit integer and reading it back gives the integer.\<close>

lemma Atoi_Itoa:
  assumes "- (2 ^ 63) \<le> i" and "i < 2 ^ 63"
  shows "Atoi (Itoa i) = Inr i"
proof (cases "i < 0")
  case True
  have "nat (- i) \<le> 2 ^ 63" using assms by (simp add: nat_le_iff)
  then have "parseUint 0 (natToDec (nat (- i))) = Inr (nat (- i))"
    by (intro parseUint_natToDec) simp
  with True \<open>nat (- i) \<le> 2 ^ 63\<close> show ?thesis by (simp add: Itoa_def)
next
  case False
  obtain c cs where s: "natToDec (nat i) = c # cs" by (cases "natToDec (nat i)") auto
  then have "isDigit c" using natToDec_digits [of c "nat i"] by simp
  then have c: "c \<noteq> CHR ''-''" "c \<noteq> CHR ''+''" by auto
  have "nat i < 2 ^ 63" using False assms by (simp add: nat_less_iff)
  moreover from this have "parseUint 0 (natToDec (nat i)) = Inr (nat i)"
    by (intro parseUint_natToDec) simp
  ultimately have "Atoi (c # cs) = Inr (int (nat i))" using s c by simp
  with False s show ?thesis by (simp add: Itoa_def)
qed

lemma Itoa_inj:
  assumes "- (2 ^ 63) \<le> i" "i < 2 ^ 63" "- (2 ^ 63) \<le> j" "j < 2 ^ 63"
  shows "Itoa i = Itoa j \<longleftrightarrow> i = j"
proof
  assume "Itoa i = Itoa j"
  then have "Atoi (Itoa i) = Atoi (Itoa j)" by (rule arg_cong)
  then show "i = j" by (simp only: Atoi_Itoa [OF assms(1,2)] Atoi_Itoa [OF assms(3,4)] sum.inject)
qed simp

text \<open>What \<open>Atoi\<close> accepts: an optional sign, then digits.\<close>

lemma parseUint_digits: "parseUint n s = Inr m \<Longrightarrow> \<forall>c \<in> set s. isDigit c"
  by (induction n s rule: parseUint.induct) (auto split: if_splits)

lemma Atoi_Inr_chars:
  assumes "Atoi s = Inr i"
  shows "\<forall>c \<in> set s. isDigit c \<or> c = CHR ''-'' \<or> c = CHR ''+''"
proof (cases s)
  case (Cons c cs)
  then show ?thesis using assms
    by (auto simp: Let_def split: if_splits sum.splits dest!: parseUint_digits)
qed simp

lemma Atoi_range: "Atoi s = Inr i \<Longrightarrow> - (2 ^ 63) \<le> i \<and> i < 2 ^ 63"
  by (cases s) (auto simp: Let_def split: if_splits sum.splits)

end
