(* ===== verification/Port_Range.thy ===== *)
theory Port_Range
  imports Go_Strconv
begin

text \<open>
  \<open>pkg/util/portrange.go\<close>: the type \<open>PortRange\<close>, \<open>IsValidPort\<close>, \<open>ParsePort\<close> and
  \<open>ParsePortRange\<close>. The values the Go functions return beside a non-nil error (\<open>-1\<close> and
  the zero range) are dropped: every caller looks at the error first. Each \<open>fmt.Errorf\<close> is
  a constructor of \<open>port_error\<close> with the arguments of its format string.
\<close>

record PortRange =
  LowerBound :: int
  UpperBound :: int

datatype port_error =
    NotAPort string \<comment> \<open>is not a valid TCP port\<close>
  | RangeShape \<comment> \<open>ranges expected as lower-upper\<close>
  | BadLower string \<comment> \<open>is not a valid lower-bound\<close>
  | BadUpper string \<comment> \<open>is not a valid upper-bound\<close>
  | UpperBelowLower string \<comment> \<open>upper-bound must be greater than or equal to lower-bound\<close>

definition IsValidPort :: "int \<Rightarrow> bool" where
  "IsValidPort port \<longleftrightarrow> port \<ge> 0 \<and> port \<le> 65535"

definition ParsePort :: "string \<Rightarrow> (port_error, int) result" where
  "ParsePort port =
     (case Atoi port of
        Inl _ \<Rightarrow> Inl (NotAPort port)
      | Inr i \<Rightarrow> if \<not> IsValidPort i then Inl (NotAPort port) else Inr i)"

definition ParsePortRange :: "string \<Rightarrow> (port_error, PortRange) result" where
  "ParsePortRange portRange =
     (let bounds = Split portRange CHR ''-'' in
      if length bounds > 2 then Inl RangeShape
      else let bounds = (if length bounds = 1 then bounds @ [bounds ! 0] else bounds) in
      case Atoi (bounds ! 0) of
        Inl _ \<Rightarrow> Inl (BadLower (bounds ! 0))
      | Inr lower \<Rightarrow>
          if \<not> IsValidPort lower then Inl (BadLower (bounds ! 0))
          else case Atoi (bounds ! 1) of
            Inl _ \<Rightarrow> Inl (BadUpper (bounds ! 1))
          | Inr upper \<Rightarrow>
              if \<not> IsValidPort upper then Inl (BadUpper (bounds ! 1))
              else if upper < lower then Inl (UpperBelowLower portRange)
              else Inr \<lparr>LowerBound = lower, UpperBound = upper\<rparr>)"

declare IsValidPort_def [go_simps] ParsePortRange_def [go_simps]

section \<open>What a range denotes\<close>

text \<open>The set of ports a range stands for, and the ranges the parser may return.\<close>

definition in_range :: "PortRange \<Rightarrow> int \<Rightarrow> bool" where
  "in_range r p \<longleftrightarrow> LowerBound r \<le> p \<and> p \<le> UpperBound r"

definition valid_range :: "PortRange \<Rightarrow> bool" where
  "valid_range r \<longleftrightarrow> 0 \<le> LowerBound r \<and> LowerBound r \<le> UpperBound r \<and> UpperBound r \<le> 65535"

lemma split_shape:
  obtains (one) "Split s CHR ''-'' = [s]" "CHR ''-'' \<notin> set s"
  | (two) a b where "Split s CHR ''-'' = [a, b]" "s = a @ CHR ''-'' # b"
      "CHR ''-'' \<notin> set a" "CHR ''-'' \<notin> set b"
  | (more) "length (Split s CHR ''-'') > 2"
proof (cases "Split s CHR ''-''")
  case Nil
  then show thesis by simp
next
  case (Cons a as)
  show thesis
  proof (cases as)
    case Nil
    with Cons show thesis using one Split_one_iff [of s "CHR ''-''" a] by auto
  next
    case (Cons b bs)
    with \<open>Split s CHR ''-'' = a # as\<close> show thesis
      using two [of a b] more Split_two_iff [of s "CHR ''-''" a b] by (cases bs) auto
  qed
qed

text \<open>A string with one dash is cut in one way only.\<close>

lemma one_dash_unique:
  assumes "a @ CHR ''-'' # b = a' @ CHR ''-'' # b'"
    and "CHR ''-'' \<notin> set a" "CHR ''-'' \<notin> set b" "CHR ''-'' \<notin> set a'" "CHR ''-'' \<notin> set b'"
  shows "a' = a \<and> b' = b"
proof -
  have "Split (a @ CHR ''-'' # b) CHR ''-'' = [a, b]"
    unfolding Split_two_iff using assms by blast
  moreover have "Split (a @ CHR ''-'' # b) CHR ''-'' = [a', b']"
    unfolding Split_two_iff using assms by blast
  ultimately show ?thesis by simp
qed

lemma one_dash_ex:
  assumes "CHR ''-'' \<notin> set a" "CHR ''-'' \<notin> set b"
  shows "(\<exists>a' b'. a @ CHR ''-'' # b = a' @ CHR ''-'' # b' \<and> CHR ''-'' \<notin> set a' \<and>
      CHR ''-'' \<notin> set b' \<and> P a' b') \<longleftrightarrow> P a b"
proof
  assume "\<exists>a' b'. a @ CHR ''-'' # b = a' @ CHR ''-'' # b' \<and> CHR ''-'' \<notin> set a' \<and>
      CHR ''-'' \<notin> set b' \<and> P a' b'"
  then obtain a' b' where eq: "a @ CHR ''-'' # b = a' @ CHR ''-'' # b'"
    and "CHR ''-'' \<notin> set a'" "CHR ''-'' \<notin> set b'" and P: "P a' b'" by blast
  then have "a' = a \<and> b' = b" using one_dash_unique [OF eq assms] by blast
  with P show "P a b" by simp
next
  assume "P a b"
  then show "\<exists>a' b'. a @ CHR ''-'' # b = a' @ CHR ''-'' # b' \<and> CHR ''-'' \<notin> set a' \<and>
      CHR ''-'' \<notin> set b' \<and> P a' b'"
    using assms by blast
qed

lemma more_dash_ex:
  assumes "length (Split s CHR ''-'') > 2"
  shows "\<not> (\<exists>a b. s = a @ CHR ''-'' # b \<and> CHR ''-'' \<notin> set a \<and> CHR ''-'' \<notin> set b \<and> P a b)"
proof
  assume "\<exists>a b. s = a @ CHR ''-'' # b \<and> CHR ''-'' \<notin> set a \<and> CHR ''-'' \<notin> set b \<and> P a b"
  then obtain a b where "Split s CHR ''-'' = [a, b]" unfolding Split_two_iff by blast
  with assms show False by simp
qed

lemma ParsePortRange_one:
  "CHR ''-'' \<notin> set s \<Longrightarrow> ParsePortRange s =
     (case Atoi s of
        Inl _ \<Rightarrow> Inl (BadLower s)
      | Inr p \<Rightarrow> if IsValidPort p then Inr \<lparr>LowerBound = p, UpperBound = p\<rparr> else Inl (BadLower s))"
  by (simp add: ParsePortRange_def Split_no_sep split: sum.splits)

lemma ParsePortRange_two:
  assumes "CHR ''-'' \<notin> set a" and "CHR ''-'' \<notin> set b"
  shows "ParsePortRange (a @ CHR ''-'' # b) =
     (case Atoi a of
        Inl _ \<Rightarrow> Inl (BadLower a)
      | Inr lo \<Rightarrow> if \<not> IsValidPort lo then Inl (BadLower a)
         else case Atoi b of
           Inl _ \<Rightarrow> Inl (BadUpper b)
         | Inr hi \<Rightarrow> if \<not> IsValidPort hi then Inl (BadUpper b)
             else if hi < lo then Inl (UpperBelowLower (a @ CHR ''-'' # b))
             else Inr \<lparr>LowerBound = lo, UpperBound = hi\<rparr>)"
proof -
  have "Split (a @ CHR ''-'' # b) CHR ''-'' = [a, b]" using assms by (simp add: Split_two_iff)
  then show ?thesis by (simp add: ParsePortRange_def split: sum.splits)
qed

lemma ParsePortRange_more: "length (Split s CHR ''-'') > 2 \<Longrightarrow> ParsePortRange s = Inl RangeShape"
  by (simp add: ParsePortRange_def)

lemma ParsePortRange_valid: "ParsePortRange s = Inr r \<Longrightarrow> valid_range r"
  by (auto simp: ParsePortRange_def Let_def IsValidPort_def valid_range_def
      split: if_splits sum.splits)

lemma length_Split: "length (Split s sep) = Suc (count_list s sep)"
  by (induction s) (auto split: list.splits)

section \<open>Properties\<close>

text \<open>C39. Exactly what \<open>ParsePortRange\<close> accepts and what it returns: one port standing for
  itself, or two ports in order around a single dash, each a decimal number that
  \<open>strconv.Atoi\<close> reads and that lies between 0 and 65535. Nothing else is accepted.\<close>

theorem ParsePortRange_accepts:
  "ParsePortRange s = Inr r \<longleftrightarrow>
     valid_range r \<and>
     ((CHR ''-'' \<notin> set s \<and> Atoi s = Inr (LowerBound r) \<and> UpperBound r = LowerBound r) \<or>
      (\<exists>a b. s = a @ CHR ''-'' # b \<and> CHR ''-'' \<notin> set a \<and> CHR ''-'' \<notin> set b \<and>
         Atoi a = Inr (LowerBound r) \<and> Atoi b = Inr (UpperBound r)))"
proof (cases s rule: split_shape)
  case one
  then have "\<not> (\<exists>a b. s = a @ CHR ''-'' # b \<and> Q a b)" for Q by auto
  with one show ?thesis
    by (cases r) (auto simp: ParsePortRange_one IsValidPort_def valid_range_def split: sum.splits)
next
  case (two a b)
  from two(3,4) show ?thesis
    unfolding two(2) one_dash_ex [OF two(3,4)]
    by (cases r) (auto simp: ParsePortRange_two IsValidPort_def valid_range_def split: sum.splits)
next
  case more
  then have "CHR ''-'' \<in> set s" using Split_no_sep [of "CHR ''-''" s] by fastforce
  then show ?thesis
    unfolding ParsePortRange_more [OF more]
    using more_dash_ex [OF more,
        of "\<lambda>a b. Atoi a = Inr (LowerBound r) \<and> Atoi b = Inr (UpperBound r)"] by simp
qed

text \<open>C40. Round trip: every valid range, written as lower-dash-upper, is parsed back to
  itself, and so is a single port.\<close>

theorem ParsePortRange_roundtrip:
  assumes "valid_range r"
  shows "ParsePortRange (Itoa (LowerBound r) @ ''-'' @ Itoa (UpperBound r)) = Inr r \<and>
    (LowerBound r = UpperBound r \<longrightarrow> ParsePortRange (Itoa (LowerBound r)) = Inr r)"
proof -
  let ?a = "Itoa (LowerBound r)" and ?b = "Itoa (UpperBound r)"
  have bounds: "0 \<le> LowerBound r" "LowerBound r \<le> UpperBound r" "UpperBound r \<le> 65535"
    using assms by (simp_all add: valid_range_def)
  have ab: "CHR ''-'' \<notin> set ?a" "CHR ''-'' \<notin> set ?b"
    using bounds Itoa_nonneg_no_char [OF _ not_digits(1)] by simp_all
  have atoi: "Atoi ?a = Inr (LowerBound r)" "Atoi ?b = Inr (UpperBound r)"
    using bounds by (auto intro!: Atoi_Itoa)
  have "ParsePortRange (?a @ ''-'' @ ?b) = Inr r"
    using ParsePortRange_two [OF ab] atoi bounds by (simp add: IsValidPort_def)
  moreover have "LowerBound r = UpperBound r \<longrightarrow> ParsePortRange ?a = Inr r"
    using ParsePortRange_one [OF ab(1)] atoi bounds by (cases r) (auto simp: IsValidPort_def)
  ultimately show ?thesis by blast
qed

theorem ParsePortRange_roundtrip_witness:
  "ParsePortRange ''25-27'' = Inr \<lparr>LowerBound = 25, UpperBound = 27\<rparr> \<and>
   ParsePortRange ''33'' = Inr \<lparr>LowerBound = 33, UpperBound = 33\<rparr>"
proof -
  have "Itoa 25 = ''25''" "Itoa 27 = ''27''" "Itoa 33 = ''33''" by (simp_all add: go_simps)
  then show ?thesis
    using ParsePortRange_roundtrip [of "\<lparr>LowerBound = 25, UpperBound = 27\<rparr>"]
      ParsePortRange_roundtrip [of "\<lparr>LowerBound = 33, UpperBound = 33\<rparr>"]
    by (simp add: valid_range_def)
qed

text \<open>Which error each rejected input gets: more than one dash is a shape error, whatever
  the fields hold; otherwise the lower bound is judged before the upper bound, and the order
  of the bounds is judged last.\<close>

theorem ParsePortRange_errors:
  "(ParsePortRange s = Inl RangeShape \<longleftrightarrow> count_list s CHR ''-'' \<ge> 2) \<and>
   (ParsePortRange s = Inl (UpperBelowLower s) \<longleftrightarrow>
      (\<exists>a b lo hi. s = a @ CHR ''-'' # b \<and> CHR ''-'' \<notin> set a \<and> CHR ''-'' \<notin> set b \<and>
         Atoi a = Inr lo \<and> Atoi b = Inr hi \<and> IsValidPort lo \<and> IsValidPort hi \<and> hi < lo)) \<and>
   (\<forall>p. ParsePortRange s \<noteq> Inl (NotAPort p))"
proof (cases s rule: split_shape)
  case one
  then have "count_list s CHR ''-'' = 0" using length_Split [of s "CHR ''-''"] by simp
  moreover have "\<not> (\<exists>a b. s = a @ CHR ''-'' # b \<and> Q a b)" for Q using one by auto
  ultimately show ?thesis using one
    by (auto simp: ParsePortRange_one split: sum.splits)
next
  case (two a b)
  then have c: "count_list s CHR ''-'' = 1" using length_Split [of s "CHR ''-''"] by simp
  have "(\<exists>a' b'. s = a' @ CHR ''-'' # b' \<and> CHR ''-'' \<notin> set a' \<and> CHR ''-'' \<notin> set b' \<and> P a' b') \<longleftrightarrow> P a b"
    for P unfolding two(2) by (rule one_dash_ex [OF two(3,4)])
  from this [of "\<lambda>a b. \<exists>lo hi. Atoi a = Inr lo \<and> Atoi b = Inr hi \<and> IsValidPort lo \<and>
      IsValidPort hi \<and> hi < lo"] two(3,4) c
  show ?thesis unfolding two(2)
    by (auto simp: ParsePortRange_two split: sum.splits)
next
  case more
  then have "count_list s CHR ''-'' \<ge> 2" using length_Split [of s "CHR ''-''"] by simp
  then show ?thesis
    unfolding ParsePortRange_more [OF more] using more_dash_ex [OF more] by auto
qed

end
