(* ===== verification/Firewall_Commands.thy ===== *)
theory Firewall_Commands
  imports Port_Range
begin

text \<open>
  \<open>pkg/iptables/iptables.go\<close>, the pure part: the configuration, the builders of single
  iptables commands (\<open>make...\<close>), the packing of port ranges into multiport matches, the
  regular expressions that look for existing rules, and the functions that build the command
  lists (\<open>addIncomingTrafficRules\<close>, \<open>addOutgoingTrafficRules\<close>, \<open>cleanupRules\<close>).
  An \<open>exec.Cmd\<close> is its \<open>Args\<close>: the program and its arguments. Log calls are dropped.
\<close>

section \<open>Configuration and commands\<close>

record FirewallConfiguration =
  Mode :: string
  PortsToRedirectInbound :: "int list"
  InboundPortsToIgnore :: "string list"
  OutboundPortsToIgnore :: "string list"
  SubnetsToIgnore :: "string list"
  ProxyInboundPort :: int
  ProxyOutgoingPort :: int
  ProxyUID :: int
  ProxyGID :: int
  SimulateOnly :: bool
  NetNs :: string
  UseWaitFlag :: bool
  BinPath :: string
  SaveBinPath :: string
  ContinueOnError :: bool

record Cmd =
  Args :: "string list"

definition exec_Command :: "string \<Rightarrow> string list \<Rightarrow> Cmd" where
  "exec_Command name args = \<lparr>Args = name # args\<rparr>"

definition RedirectAllMode :: string where
  [cmd_simps]: "RedirectAllMode = ''redirect-all''"

definition RedirectListedMode :: string where
  [cmd_simps]: "RedirectListedMode = ''redirect-listed''"

definition IptablesPreroutingChainName :: string where
  [cmd_simps]: "IptablesPreroutingChainName = ''PREROUTING''"

definition IptablesOutputChainName :: string where
  [cmd_simps]: "IptablesOutputChainName = ''OUTPUT''"

definition IptablesMultiportLimit :: nat where
  "IptablesMultiportLimit = 15"

definition outputChainName :: string where
  [cmd_simps]: "outputChainName = ''PROXY_INIT_OUTPUT''"

definition redirectChainName :: string where
  [cmd_simps]: "redirectChainName = ''PROXY_INIT_REDIRECT''"

section \<open>Builders of single commands\<close>

definition formatComment :: "string \<Rightarrow> string" where
  "formatComment txt = ''proxy-init/'' @ txt"

definition makeIgnoreUserID :: "FirewallConfiguration \<Rightarrow> string \<Rightarrow> int \<Rightarrow> string \<Rightarrow> Cmd" where
  [cmd_simps]: "makeIgnoreUserID fc chainName uid comment = exec_Command (BinPath fc)
     [''-t'', ''nat'', ''-A'', chainName, ''-m'', ''owner'', ''--uid-owner'', Itoa uid,
      ''-j'', ''RETURN'', ''-m'', ''comment'', ''--comment'', formatComment comment]"

definition makeIgnoreGroupID :: "FirewallConfiguration \<Rightarrow> string \<Rightarrow> int \<Rightarrow> string \<Rightarrow> Cmd" where
  [cmd_simps]: "makeIgnoreGroupID fc chainName gid comment = exec_Command (BinPath fc)
     [''-t'', ''nat'', ''-A'', chainName, ''-m'', ''owner'', ''--gid-owner'', Itoa gid,
      ''-j'', ''RETURN'', ''-m'', ''comment'', ''--comment'', formatComment comment]"

definition makeFlushChain :: "FirewallConfiguration \<Rightarrow> string \<Rightarrow> Cmd" where
  [cmd_simps]: "makeFlushChain fc name = exec_Command (BinPath fc) [''-t'', ''nat'', ''-F'', name]"

definition makeDeleteChain :: "FirewallConfiguration \<Rightarrow> string \<Rightarrow> Cmd" where
  [cmd_simps]: "makeDeleteChain fc name = exec_Command (BinPath fc) [''-t'', ''nat'', ''-X'', name]"

definition makeCreateNewChain :: "FirewallConfiguration \<Rightarrow> string \<Rightarrow> Cmd" where
  [cmd_simps]: "makeCreateNewChain fc name = exec_Command (BinPath fc) [''-t'', ''nat'', ''-N'', name]"

definition makeRedirectChainToPort ::
    "FirewallConfiguration \<Rightarrow> string \<Rightarrow> int \<Rightarrow> string \<Rightarrow> Cmd" where
  [cmd_simps]: "makeRedirectChainToPort fc chainName portToRedirect comment = exec_Command (BinPath fc)
     [''-t'', ''nat'', ''-A'', chainName, ''-p'', ''tcp'', ''-j'', ''REDIRECT'',
      ''--to-port'', Itoa portToRedirect,
      ''-m'', ''comment'', ''--comment'', formatComment comment]"

definition makeIgnorePorts ::
    "FirewallConfiguration \<Rightarrow> string \<Rightarrow> string list \<Rightarrow> string \<Rightarrow> Cmd" where
  [cmd_simps]: "makeIgnorePorts fc chainName destinations comment = exec_Command (BinPath fc)
     [''-t'', ''nat'', ''-A'', chainName, ''-p'', ''tcp'', ''--match'', ''multiport'',
      ''--dports'', Join destinations '','', ''-j'', ''RETURN'',
      ''-m'', ''comment'', ''--comment'', formatComment comment]"

definition makeIgnoreSubnet ::
    "FirewallConfiguration \<Rightarrow> string \<Rightarrow> string \<Rightarrow> string \<Rightarrow> Cmd" where
  [cmd_simps]: "makeIgnoreSubnet fc chainName subnet comment = exec_Command (BinPath fc)
     [''-t'', ''nat'', ''-A'', chainName, ''-p'', ''all'', ''-j'', ''RETURN'', ''-s'', subnet,
      ''-m'', ''comment'', ''--comment'', formatComment comment]"

definition makeIgnoreLoopback :: "FirewallConfiguration \<Rightarrow> string \<Rightarrow> string \<Rightarrow> Cmd" where
  [cmd_simps]: "makeIgnoreLoopback fc chainName comment = exec_Command (BinPath fc)
     [''-t'', ''nat'', ''-A'', chainName, ''-o'', ''lo'', ''-j'', ''RETURN'',
      ''-m'', ''comment'', ''--comment'', formatComment comment]"

definition makeRedirectChainToPortBasedOnDestinationPort ::
    "FirewallConfiguration \<Rightarrow> string \<Rightarrow> int \<Rightarrow> int \<Rightarrow> string \<Rightarrow> Cmd" where
  [cmd_simps]: "makeRedirectChainToPortBasedOnDestinationPort fc chainName destinationPort portToRedirect
       comment = exec_Command (BinPath fc)
     [''-t'', ''nat'', ''-A'', chainName, ''-p'', ''tcp'',
      ''--destination-port'', Itoa destinationPort, ''-j'', ''REDIRECT'',
      ''--to-port'', Itoa portToRedirect,
      ''-m'', ''comment'', ''--comment'', formatComment comment]"

definition makeJumpFromChainToAnotherForAllProtocols ::
    "FirewallConfiguration \<Rightarrow> string \<Rightarrow> string \<Rightarrow> string \<Rightarrow> bool \<Rightarrow> Cmd" where
  [cmd_simps]: "makeJumpFromChainToAnotherForAllProtocols fc chainName targetChain comment deleteChain =
     (let action = (if deleteChain then ''-D'' else ''-A'') in
      exec_Command (BinPath fc)
     [''-t'', ''nat'', action, chainName, ''-j'', targetChain,
      ''-m'', ''comment'', ''--comment'', formatComment comment])"

definition makeShowAllRules :: "FirewallConfiguration \<Rightarrow> Cmd" where
  [cmd_simps]: "makeShowAllRules fc = exec_Command (SaveBinPath fc) [''-t'', ''nat'']"

section \<open>Packing port ranges into multiport matches\<close>

definition asDestination :: "PortRange \<Rightarrow> string" where
  "asDestination portRange =
     (if LowerBound portRange = UpperBound portRange then Itoa (LowerBound portRange)
      else Itoa (LowerBound portRange) @ '':'' @ Itoa (UpperBound portRange))"

text \<open>The number of ports a range counts for in a multiport match.\<close>

definition portCount :: "PortRange \<Rightarrow> nat" where
  "portCount portRange = (if LowerBound portRange = UpperBound portRange then 1 else 2)"

text \<open>
  The loop of \<open>makeMultiportDestinations\<close>: the slices closed so far, the open slice, its
  port count, and the entries still to come. An entry that does not parse is logged and
  skipped.
\<close>

fun multiportLoop ::
    "string list list \<Rightarrow> string list \<Rightarrow> nat \<Rightarrow> string list \<Rightarrow> string list list" where
  "multiportLoop slices destinations count [] = slices @ [destinations]"
| "multiportLoop slices destinations count (portOrRange # rest) =
     (case ParsePortRange portOrRange of
        Inl _ \<Rightarrow> multiportLoop slices destinations count rest
      | Inr r \<Rightarrow>
          if count + portCount r > IptablesMultiportLimit
          then multiportLoop (slices @ [destinations]) [asDestination r] (portCount r) rest
          else multiportLoop slices (destinations @ [asDestination r]) (count + portCount r) rest)"

definition makeMultiportDestinations :: "string list \<Rightarrow> string list list" where
  "makeMultiportDestinations portsToIgnore =
     (if length portsToIgnore < 1 then [] else multiportLoop [] [] 0 portsToIgnore)"

section \<open>Looking for existing rules\<close>

text \<open>
  The four regular expressions, as predicates on the output of \<open>iptables-save\<close>: whether some
  line starts with \<open>:NAME\<close> and a space, and whether some line is \<open>-A CHAIN\<close>, then nothing or
  at least one character and a space, then \<open>-j TARGET\<close>.
\<close>

definition chainRegex :: "string \<Rightarrow> string \<Rightarrow> bool" where
  "chainRegex name txt \<longleftrightarrow>
     (\<exists>line \<in> set (Split txt (CHR 0x0A)). prefix ('':'' @ name @ '' '') line)"

definition ruleRegex :: "string \<Rightarrow> string \<Rightarrow> string \<Rightarrow> bool" where
  "ruleRegex chain target txt \<longleftrightarrow>
     (\<exists>line \<in> set (Split txt (CHR 0x0A)).
        let start = ''-A '' @ chain @ '' ''; rest = drop (length start) line in
        prefix start line \<and>
        (prefix (''-j '' @ target) rest \<or>
         (rest \<noteq> [] \<and> Contains (tl rest) ('' -j '' @ target))))"

definition preroutingRuleRegex :: "string \<Rightarrow> bool" where
  "preroutingRuleRegex = ruleRegex ''PREROUTING'' ''PROXY_INIT_REDIRECT''"

definition outputRuleRegex :: "string \<Rightarrow> bool" where
  "outputRuleRegex = ruleRegex ''OUTPUT'' ''PROXY_INIT_OUTPUT''"

definition redirectChainRegex :: "string \<Rightarrow> bool" where
  "redirectChainRegex = chainRegex ''PROXY_INIT_REDIRECT''"

definition outputChainRegex :: "string \<Rightarrow> bool" where
  "outputChainRegex = chainRegex ''PROXY_INIT_OUTPUT''"

section \<open>Command lists\<close>

definition addRulesForIgnoredPorts ::
    "FirewallConfiguration \<Rightarrow> string list \<Rightarrow> string \<Rightarrow> Cmd list \<Rightarrow> Cmd list" where
  "addRulesForIgnoredPorts fc portsToIgnore chainName commands =
     commands @
     map (\<lambda>destinations. makeIgnorePorts fc chainName destinations
            (''ignore-port-'' @ Join destinations '',''))
       (makeMultiportDestinations portsToIgnore)"

definition addRulesForIgnoredSubnets ::
    "FirewallConfiguration \<Rightarrow> string \<Rightarrow> Cmd list \<Rightarrow> Cmd list" where
  "addRulesForIgnoredSubnets fc chainName commands =
     commands @
     map (\<lambda>subnet. makeIgnoreSubnet fc chainName subnet (''ignore-subnet-'' @ subnet))
       (SubnetsToIgnore fc)"

definition addRulesForInboundPortRedirect ::
    "FirewallConfiguration \<Rightarrow> string \<Rightarrow> Cmd list \<Rightarrow> Cmd list" where
  "addRulesForInboundPortRedirect fc chainName commands =
     (if Mode fc = RedirectAllMode then
        commands @ [makeRedirectChainToPort fc chainName (ProxyInboundPort fc)
                      ''redirect-all-incoming-to-proxy-port'']
      else if Mode fc = RedirectListedMode then
        commands @
        map (\<lambda>port. makeRedirectChainToPortBasedOnDestinationPort fc chainName port
               (ProxyInboundPort fc) (''redirect-port-'' @ Itoa port @ ''-to-proxy-port''))
          (PortsToRedirectInbound fc)
      else commands)"

definition addIncomingTrafficRules ::
    "FirewallConfiguration \<Rightarrow> string \<Rightarrow> Cmd list \<Rightarrow> Cmd list" where
  "addIncomingTrafficRules fc existingRules commands =
     (let commands = commands @
            [if \<not> redirectChainRegex existingRules
             then makeCreateNewChain fc redirectChainName
             else makeFlushChain fc redirectChainName];
          commands = addRulesForIgnoredPorts fc (InboundPortsToIgnore fc) redirectChainName commands;
          commands = addRulesForIgnoredSubnets fc redirectChainName commands;
          commands = addRulesForInboundPortRedirect fc redirectChainName commands
      in if \<not> preroutingRuleRegex existingRules
         then commands @ [makeJumpFromChainToAnotherForAllProtocols fc IptablesPreroutingChainName
                redirectChainName ''install-proxy-init-prerouting'' False]
         else commands)"

definition addOutgoingTrafficRules ::
    "FirewallConfiguration \<Rightarrow> string \<Rightarrow> Cmd list \<Rightarrow> Cmd list" where
  "addOutgoingTrafficRules fc existingRules commands =
     (let commands = commands @
            [if \<not> outputChainRegex existingRules
             then makeCreateNewChain fc outputChainName
             else makeFlushChain fc outputChainName];
          commands = (if ProxyUID fc > 0
            then commands @ [makeIgnoreUserID fc outputChainName (ProxyUID fc) ''ignore-proxy-user-id'']
            else commands);
          commands = (if ProxyGID fc > 0
            then commands @ [makeIgnoreGroupID fc outputChainName (ProxyGID fc) ''ignore-proxy-group-id'']
            else commands);
          commands = commands @ [makeIgnoreLoopback fc outputChainName ''ignore-loopback''];
          commands = addRulesForIgnoredPorts fc (OutboundPortsToIgnore fc) outputChainName commands;
          commands = commands @ [makeRedirectChainToPort fc outputChainName (ProxyOutgoingPort fc)
                                   ''redirect-all-outgoing-to-proxy-port'']
      in if \<not> outputRuleRegex existingRules
         then commands @ [makeJumpFromChainToAnotherForAllProtocols fc IptablesOutputChainName
                outputChainName ''install-proxy-init-output'' False]
         else commands)"

definition cleanupRules :: "FirewallConfiguration \<Rightarrow> Cmd list \<Rightarrow> Cmd list" where
  "cleanupRules fc commands =
     (let commands = commands @ [makeJumpFromChainToAnotherForAllProtocols fc
            IptablesPreroutingChainName redirectChainName ''install-proxy-init-prerouting'' True];
          commands = commands @ [makeJumpFromChainToAnotherForAllProtocols fc
            IptablesOutputChainName outputChainName ''install-proxy-init-output'' True];
          commands = commands @ [makeFlushChain fc outputChainName];
          commands = commands @ [makeFlushChain fc redirectChainName];
          commands = commands @ [makeDeleteChain fc outputChainName];
          commands = commands @ [makeDeleteChain fc redirectChainName]
      in commands)"

section \<open>Facts about multiport slices\<close>

text \<open>The ranges a list of entries stands for: those that parse, in order. A destination
  refers to two ports when it is written with a colon, to one otherwise.\<close>

definition ranges :: "string list \<Rightarrow> PortRange list" where
  "ranges ps = oks (map ParsePortRange ps)"

definition destPorts :: "string \<Rightarrow> nat" where
  "destPorts d = (if CHR '':'' \<in> set d then 2 else 1)"

definition slicePorts :: "string list \<Rightarrow> nat" where
  "slicePorts ds = sum_list (map destPorts ds)"

lemma ranges_simps [simp]:
  "ranges [] = []"
  "ranges (p # ps) = (case ParsePortRange p of Inl _ \<Rightarrow> ranges ps | Inr r \<Rightarrow> r # ranges ps)"
  by (auto simp: ranges_def split: sum.splits)

lemma ranges_valid: "r \<in> set (ranges ps) \<Longrightarrow> valid_range r"
  by (auto simp: ranges_def set_oks dest!: sym [where s = "Inr _"] ParsePortRange_valid)

lemma slicePorts_simps [simp]:
  "slicePorts [] = 0" "slicePorts (ds @ es) = slicePorts ds + slicePorts es"
  "slicePorts (d # ds) = destPorts d + slicePorts ds"
  by (simp_all add: slicePorts_def)

lemma destPorts_asDestination: "valid_range r \<Longrightarrow> destPorts (asDestination r) = portCount r"
  using Itoa_nonneg_no_char [of "LowerBound r" "CHR '':''"]
  by (auto simp: destPorts_def asDestination_def portCount_def valid_range_def)

lemma multiportLoop_concat:
  "concat (multiportLoop sl ds n ps) = concat sl @ ds @ map asDestination (ranges ps)"
  by (induction sl ds n ps rule: multiportLoop.induct) (auto split: sum.splits)

lemma multiportLoop_slices: "\<exists>d more. multiportLoop sl ds n ps = sl @ (ds @ d) # more"
  by (induction sl ds n ps rule: multiportLoop.induct) (auto split: sum.splits)

text \<open>The invariant of the loop: no slice exceeds the limit, and each slice was closed
  because the next destination did not fit.\<close>

definition overflows :: "string list \<Rightarrow> string list \<Rightarrow> bool" where
  "overflows s s' \<longleftrightarrow> (\<exists>d more. s' = d # more \<and> slicePorts s + destPorts d > IptablesMultiportLimit)"

lemma overflows_extend: "overflows s s' \<Longrightarrow> overflows s (s' @ ds)"
  by (auto simp: overflows_def)

lemma multiportLoop_limit:
  "n = slicePorts ds \<Longrightarrow> list_all (\<lambda>s. slicePorts s \<le> IptablesMultiportLimit) (sl @ [ds]) \<Longrightarrow>
   list_all (\<lambda>s. slicePorts s \<le> IptablesMultiportLimit) (multiportLoop sl ds n ps)"
proof (induction sl ds n ps rule: multiportLoop.induct)
  case (2 sl ds n p ps)
  show ?case
  proof (cases "ParsePortRange p")
    case (Inr r)
    then have d: "destPorts (asDestination r) = portCount r"
      by (simp add: ParsePortRange_valid destPorts_asDestination)
    have p: "portCount r \<le> IptablesMultiportLimit"
      by (simp add: IptablesMultiportLimit_def portCount_def)
    show ?thesis
    proof (cases "n + portCount r > IptablesMultiportLimit")
      case True
      with 2(2) [OF Inr True] 2(4,5) Inr d p show ?thesis by simp
    next
      case False
      with 2(3) [OF Inr False] 2(4,5) Inr d show ?thesis by simp
    qed
  qed (use 2 in simp)
qed simp

lemma multiportLoop_greedy:
  "n = slicePorts ds \<Longrightarrow> successively overflows (sl @ [ds]) \<Longrightarrow>
   successively overflows (multiportLoop sl ds n ps)"
proof (induction sl ds n ps rule: multiportLoop.induct)
  case (2 sl ds n p ps)
  show ?case
  proof (cases "ParsePortRange p")
    case (Inr r)
    then have d: "destPorts (asDestination r) = portCount r"
      by (simp add: ParsePortRange_valid destPorts_asDestination)
    have ext: "successively overflows (sl @ [ds @ [asDestination r]])"
      using 2(5) by (auto simp: successively_append_iff overflows_extend)
    show ?thesis
    proof (cases "n + portCount r > IptablesMultiportLimit")
      case True
      then have "successively overflows ((sl @ [ds]) @ [[asDestination r]])"
        using 2(4,5) d by (auto simp: successively_append_iff overflows_def)
      with 2(2) [OF Inr True] True Inr d show ?thesis by simp
    next
      case False
      with 2(3) [OF Inr False] 2(4) Inr d ext show ?thesis by simp
    qed
  qed (use 2 in simp)
qed simp

lemma makeMultiportDestinations_eq:
  "makeMultiportDestinations ps = (if ps = [] then [] else multiportLoop [] [] 0 ps)"
  by (simp add: makeMultiportDestinations_def)

text \<open>C33. Packing loses nothing and respects iptables' limit: the slices, concatenated, are the
  destinations of exactly the entries that parse, in order; no slice refers to more than
  fifteen ports; and a slice is closed only when the next destination would exceed fifteen.\<close>

theorem makeMultiportDestinations_packs:
  "concat (makeMultiportDestinations ps) = map asDestination (ranges ps) \<and>
   list_all (\<lambda>s. slicePorts s \<le> 15) (makeMultiportDestinations ps) \<and>
   successively overflows (makeMultiportDestinations ps)"
proof -
  have "list_all (\<lambda>s. slicePorts s \<le> IptablesMultiportLimit) (makeMultiportDestinations ps)"
    by (simp add: makeMultiportDestinations_eq multiportLoop_limit)
  moreover have "successively overflows (makeMultiportDestinations ps)"
    by (simp add: makeMultiportDestinations_eq multiportLoop_greedy)
  ultimately show ?thesis
    by (simp add: makeMultiportDestinations_eq multiportLoop_concat IptablesMultiportLimit_def)
qed

lemma successively_overflows_tl: "successively overflows (s # ss) \<Longrightarrow> [] \<notin> set ss"
  by (induction ss arbitrary: s) (auto simp: overflows_def)

lemma multiport_empty_slice:
  "[] \<in> set (makeMultiportDestinations ps) \<longleftrightarrow> ps \<noteq> [] \<and> ranges ps = []"
proof (cases "ps = []")
  case False
  obtain d more where eq: "makeMultiportDestinations ps = d # more"
    using multiportLoop_slices [of "[]" "[]" 0 ps] False
    by (auto simp: makeMultiportDestinations_eq)
  have more: "successively overflows (d # more)"
    using multiportLoop_greedy [of 0 "[]" "[]" ps] False eq
    by (simp add: makeMultiportDestinations_eq)
  have all: "d @ concat more = map asDestination (ranges ps)"
    using multiportLoop_concat [of "[]" "[]" 0 ps] False eq
    by (simp add: makeMultiportDestinations_eq)
  have "d \<noteq> [] \<or> more = []" using more by (cases more) (auto simp: overflows_def
        IptablesMultiportLimit_def destPorts_def split: if_splits)
  then show ?thesis using False eq all successively_overflows_tl [OF more] by auto
qed (simp add: makeMultiportDestinations_eq)


section \<open>The shape of the command lists\<close>

text \<open>The rules of the two chains, as the commands that append them.\<close>

definition redirectBody :: "FirewallConfiguration \<Rightarrow> Cmd list" where
  "redirectBody fc =
     addRulesForInboundPortRedirect fc redirectChainName
       (addRulesForIgnoredSubnets fc redirectChainName
         (addRulesForIgnoredPorts fc (InboundPortsToIgnore fc) redirectChainName []))"

definition outputBody :: "FirewallConfiguration \<Rightarrow> Cmd list" where
  "outputBody fc =
     (if ProxyUID fc > 0
      then [makeIgnoreUserID fc outputChainName (ProxyUID fc) ''ignore-proxy-user-id''] else []) @
     (if ProxyGID fc > 0
      then [makeIgnoreGroupID fc outputChainName (ProxyGID fc) ''ignore-proxy-group-id''] else []) @
     [makeIgnoreLoopback fc outputChainName ''ignore-loopback''] @
     addRulesForIgnoredPorts fc (OutboundPortsToIgnore fc) outputChainName [] @
     [makeRedirectChainToPort fc outputChainName (ProxyOutgoingPort fc)
        ''redirect-all-outgoing-to-proxy-port'']"

definition preparation :: "FirewallConfiguration \<Rightarrow> string \<Rightarrow> bool \<Rightarrow> Cmd" where
  "preparation fc chain present =
     (if present then makeFlushChain fc chain else makeCreateNewChain fc chain)"

lemma addIncomingTrafficRules_shape:
  "addIncomingTrafficRules fc txt cs =
     cs @ [preparation fc redirectChainName (redirectChainRegex txt)] @ redirectBody fc @
     (if preroutingRuleRegex txt then []
      else [makeJumpFromChainToAnotherForAllProtocols fc IptablesPreroutingChainName
              redirectChainName ''install-proxy-init-prerouting'' False])"
  by (simp add: addIncomingTrafficRules_def redirectBody_def preparation_def Let_def
      addRulesForInboundPortRedirect_def addRulesForIgnoredSubnets_def
      addRulesForIgnoredPorts_def)

lemma addOutgoingTrafficRules_shape:
  "addOutgoingTrafficRules fc txt cs =
     cs @ [preparation fc outputChainName (outputChainRegex txt)] @ outputBody fc @
     (if outputRuleRegex txt then []
      else [makeJumpFromChainToAnotherForAllProtocols fc IptablesOutputChainName
              outputChainName ''install-proxy-init-output'' False])"
  by (simp add: addOutgoingTrafficRules_def outputBody_def preparation_def Let_def
      addRulesForIgnoredPorts_def)

end
