(* ===== verification/Firewall_Exec.thy ===== *)
theory Firewall_Exec
  imports Firewall_Commands
begin

text \<open>
  \<open>pkg/iptables/iptables.go\<close>, the effectful part: \<open>resolveBinFallback\<close>,
  \<open>executeCommand\<close>, \<open>ConfigureFirewall\<close> and \<open>CleanupFirewallConfig\<close>. Running a process
  is a parameter \<open>run\<close>: it takes the argument vector and the state of the host (\<open>'w\<close>) and
  returns the combined output, the error if there is one, and the new state. \<open>exec.LookPath\<close>
  is a parameter too, a function from a name to an error or a path.
\<close>

type_synonym error = string

type_synonym 'w runner = "string list \<Rightarrow> 'w \<Rightarrow> (string \<times> error option) \<times> 'w"

section \<open>Choice of binaries\<close>

definition candidatesIPv4 :: "(string \<times> string) list" where
  "candidatesIPv4 =
     [(''iptables-nft'', ''iptables-nft-save''), (''iptables'', ''iptables-save''),
      (''iptables-legacy'', ''iptables-legacy-save'')]"

definition candidatesIPv6 :: "(string \<times> string) list" where
  "candidatesIPv6 =
     [(''ip6tables-nft'', ''ip6tables-nft-save''), (''ip6tables'', ''ip6tables-save''),
      (''ip6tables-legacy'', ''ip6tables-legacy-save'')]"

definition resolveBinFallback ::
    "FirewallConfiguration \<Rightarrow> (string \<Rightarrow> (error, string) result) \<Rightarrow> FirewallConfiguration" where
  "resolveBinFallback fc lookPath =
     (let has = (\<lambda>name. is_ok (lookPath name)) in
      if has (BinPath fc) \<and> has (SaveBinPath fc) then fc
      else let ipv6 = (Contains (BinPath fc) ''ip6tables'' \<or> Contains (SaveBinPath fc) ''ip6tables'');
               candidates = (if ipv6 then candidatesIPv6 else candidatesIPv4)
      in case find (\<lambda>pair. has (fst pair) \<and> has (snd pair)) candidates of
           Some pair \<Rightarrow> fc\<lparr>BinPath := fst pair, SaveBinPath := snd pair\<rparr>
         | None \<Rightarrow> fc)"

section \<open>Running commands\<close>

text \<open>The argument vector of a command in the network namespace \<open>ns\<close>.\<close>

definition inNetNs :: "string \<Rightarrow> string list \<Rightarrow> string list" where
  "inNetNs ns args = (if ns \<noteq> '''' then ''nsenter'' # (''--net='' @ ns) # ''--'' # args else args)"

definition executeCommand ::
    "'w runner \<Rightarrow> FirewallConfiguration \<Rightarrow> Cmd \<Rightarrow> 'w \<Rightarrow> (string \<times> error option) \<times> 'w" where
  "executeCommand run fc cmd w =
     (let cmd = (if NetNs fc \<noteq> ''''
                 then exec_Command ''nsenter'' ([''--net='' @ NetNs fc, ''--''] @ Args cmd)
                 else cmd)
      in if SimulateOnly fc then (('''', None), w) else run (Args cmd) w)"

text \<open>The loop over the commands, the same in \<open>ConfigureFirewall\<close> and
  \<open>CleanupFirewallConfig\<close>.\<close>

fun runCommands ::
    "'w runner \<Rightarrow> FirewallConfiguration \<Rightarrow> Cmd list \<Rightarrow> 'w \<Rightarrow> error option \<times> 'w" where
  "runCommands run fc [] w = (None, w)"
| "runCommands run fc (cmd # cmds) w =
     (let cmd = (if UseWaitFlag fc then cmd\<lparr>Args := Args cmd @ [''-w'']\<rparr> else cmd) in
      case executeCommand run fc cmd w of
        ((_, None), w') \<Rightarrow> runCommands run fc cmds w'
      | ((_, Some err), w') \<Rightarrow>
          if \<not> ContinueOnError fc then (Some err, w') else runCommands run fc cmds w')"

definition ConfigureFirewall ::
    "(string \<Rightarrow> (error, string) result) \<Rightarrow> 'w runner \<Rightarrow> FirewallConfiguration \<Rightarrow> 'w \<Rightarrow>
     error option \<times> 'w" where
  "ConfigureFirewall lookPath run firewallConfiguration w =
     (let fc = resolveBinFallback firewallConfiguration lookPath in
      case executeCommand run fc (makeShowAllRules fc) w of
        ((_, Some err), w1) \<Rightarrow> (Some err, w1)
      | ((existingRules, None), w1) \<Rightarrow>
          let commands = addIncomingTrafficRules fc existingRules [];
              commands = addOutgoingTrafficRules fc existingRules commands
          in case runCommands run fc commands w1 of
               (Some err, w2) \<Rightarrow> (Some err, w2)
             | (None, w2) \<Rightarrow> (None, snd (executeCommand run fc (makeShowAllRules fc) w2)))"

definition CleanupFirewallConfig ::
    "(string \<Rightarrow> (error, string) result) \<Rightarrow> 'w runner \<Rightarrow> FirewallConfiguration \<Rightarrow> 'w \<Rightarrow>
     error option \<times> 'w" where
  "CleanupFirewallConfig lookPath run firewallConfiguration w =
     (let fc = resolveBinFallback firewallConfiguration lookPath;
          commands = cleanupRules fc []
      in case runCommands run fc commands w of
           (Some err, w1) \<Rightarrow> (Some err, w1)
         | (None, w1) \<Rightarrow> (None, snd (executeCommand run fc (makeShowAllRules fc) w1)))"

section \<open>The fallback\<close>

lemma resolveBinFallback_frame:
  "resolveBinFallback fc lp =
     fc\<lparr>BinPath := BinPath (resolveBinFallback fc lp),
        SaveBinPath := SaveBinPath (resolveBinFallback fc lp)\<rparr>"
  by (simp add: resolveBinFallback_def Let_def split: option.splits)

lemma resolveBinFallback_same_selectors [simp]:
  "Mode (resolveBinFallback fc lp) = Mode fc"
  "PortsToRedirectInbound (resolveBinFallback fc lp) = PortsToRedirectInbound fc"
  "InboundPortsToIgnore (resolveBinFallback fc lp) = InboundPortsToIgnore fc"
  "OutboundPortsToIgnore (resolveBinFallback fc lp) = OutboundPortsToIgnore fc"
  "SubnetsToIgnore (resolveBinFallback fc lp) = SubnetsToIgnore fc"
  "ProxyInboundPort (resolveBinFallback fc lp) = ProxyInboundPort fc"
  "ProxyOutgoingPort (resolveBinFallback fc lp) = ProxyOutgoingPort fc"
  "ProxyUID (resolveBinFallback fc lp) = ProxyUID fc"
  "ProxyGID (resolveBinFallback fc lp) = ProxyGID fc"
  "SimulateOnly (resolveBinFallback fc lp) = SimulateOnly fc"
  "NetNs (resolveBinFallback fc lp) = NetNs fc"
  "UseWaitFlag (resolveBinFallback fc lp) = UseWaitFlag fc"
  "ContinueOnError (resolveBinFallback fc lp) = ContinueOnError fc"
  by (simp_all add: resolveBinFallback_def Let_def split: option.splits)

lemma is_v6_candidates:
  "pair \<in> set candidatesIPv6 \<Longrightarrow> Contains (fst pair) ''ip6tables''"
  "pair \<in> set candidatesIPv4 \<Longrightarrow> \<not> Contains (fst pair) ''ip6tables'' \<and> \<not> Contains (snd pair) ''ip6tables''"
  by (auto simp: candidatesIPv6_def candidatesIPv4_def)

section \<open>Simulation and errors\<close>

lemma executeCommand_run:
  "\<not> SimulateOnly fc \<Longrightarrow> executeCommand run fc cmd w = run (inNetNs (NetNs fc) (Args cmd)) w"
  by (simp add: executeCommand_def inNetNs_def exec_Command_def Let_def)

lemma executeCommand_simulate: "SimulateOnly fc \<Longrightarrow> executeCommand run fc cmd w = (('''', None), w)"
  by (simp add: executeCommand_def Let_def)

lemma runCommands_simulate: "SimulateOnly fc \<Longrightarrow> runCommands run fc cmds w = (None, w)"
  by (induction run fc cmds w rule: runCommands.induct) (auto simp: executeCommand_simulate Let_def)

lemma runCommands_append:
  "runCommands run fc (cs @ ds) w =
     (case runCommands run fc cs w of
        (Some err, w') \<Rightarrow> (Some err, w')
      | (None, w') \<Rightarrow> runCommands run fc ds w')"
  by (induction run fc cs w rule: runCommands.induct)
    (auto simp: Let_def split: prod.splits option.splits)

lemma runCommands_continue: "ContinueOnError fc \<Longrightarrow> fst (runCommands run fc cmds w) = None"
  by (induction run fc cmds w rule: runCommands.induct)
    (auto simp: Let_def split: prod.splits option.splits)

section \<open>Properties\<close>

text \<open>The configuration is for IPv6 when one of its binaries is of the ip6tables family.\<close>

definition ipv6Family :: "FirewallConfiguration \<Rightarrow> bool" where
  "ipv6Family fc \<longleftrightarrow> Contains (BinPath fc) ''ip6tables'' \<or> Contains (SaveBinPath fc) ''ip6tables''"

definition binariesFound ::
    "(string \<Rightarrow> (error, string) result) \<Rightarrow> string \<times> string \<Rightarrow> bool" where
  "binariesFound lookPath pair \<longleftrightarrow> is_ok (lookPath (fst pair)) \<and> is_ok (lookPath (snd pair))"

lemma resolveBinFallback_find:
  "resolveBinFallback fc lookPath =
     (if binariesFound lookPath (BinPath fc, SaveBinPath fc) then fc
      else case find (binariesFound lookPath)
             (if ipv6Family fc then candidatesIPv6 else candidatesIPv4) of
        Some pair \<Rightarrow> fc\<lparr>BinPath := fst pair, SaveBinPath := snd pair\<rparr> | None \<Rightarrow> fc)"
proof -
  have found: "(\<lambda>pair. is_ok (lookPath (fst pair)) \<and> is_ok (lookPath (snd pair))) =
      binariesFound lookPath"
    by (auto simp: binariesFound_def)
  show ?thesis
    unfolding resolveBinFallback_def Let_def ipv6Family_def found
    by (simp add: binariesFound_def)
qed

lemma resolveBinFallback_family: "ipv6Family (resolveBinFallback fc lookPath) = ipv6Family fc"
proof (cases "find (binariesFound lookPath) (if ipv6Family fc then candidatesIPv6 else candidatesIPv4)")
  case (Some pair)
  then have "pair \<in> set (if ipv6Family fc then candidatesIPv6 else candidatesIPv4)"
    by (auto dest: find_SomeD)
  with Some show ?thesis
    using is_v6_candidates [of pair]
    by (cases "ipv6Family fc") (simp_all add: resolveBinFallback_find ipv6Family_def)
qed (simp add: resolveBinFallback_find)


text \<open>Simulation runs no process: whatever \<open>run\<close> would do, the host is unchanged and the
  result is success, for configuring and for cleaning up.\<close>

theorem simulate_runs_nothing:
  assumes "SimulateOnly fc"
  shows "ConfigureFirewall lp run fc w = (None, w) \<and> CleanupFirewallConfig lp run fc w = (None, w)"
  using assms
  by (simp add: ConfigureFirewall_def CleanupFirewallConfig_def Let_def executeCommand_simulate
      runCommands_simulate)

theorem simulate_runs_nothing_witness:
  "ConfigureFirewall (\<lambda>_. Inl ''none'') (\<lambda>args w. (('''', Some ''error''), args # w))
     \<lparr>Mode = ''redirect-all'', PortsToRedirectInbound = [], InboundPortsToIgnore = [''80''],
      OutboundPortsToIgnore = [], SubnetsToIgnore = [], ProxyInboundPort = 4143,
      ProxyOutgoingPort = 4140, ProxyUID = 1, ProxyGID = 0, SimulateOnly = True, NetNs = '''',
      UseWaitFlag = False, BinPath = ''iptables'', SaveBinPath = ''iptables-save'',
      ContinueOnError = False\<rparr> [] = (None, [])"
  by (rule simulate_runs_nothing [THEN conjunct1]) simp

text \<open>The loop over commands stops at the first error unless told to continue: an error it
  returns is the error of one command, all commands before it succeeded in order, and no
  command after it was run; with \<open>ContinueOnError\<close> no error is ever returned.\<close>

theorem runCommands_first_error:
  "(\<not> ContinueOnError fc \<and> runCommands run fc cmds w = (Some err, w') \<longleftrightarrow>
     \<not> ContinueOnError fc \<and>
     (\<exists>before cmd after w1 out. cmds = before @ cmd # after \<and>
        runCommands run fc before w = (None, w1) \<and>
        executeCommand run fc (if UseWaitFlag fc then cmd\<lparr>Args := Args cmd @ [''-w'']\<rparr> else cmd) w1 =
          ((out, Some err), w'))) \<and>
   fst (runCommands run (fc\<lparr>ContinueOnError := True\<rparr>) cmds w) = None"
proof -
  let ?w = "\<lambda>cmd. if UseWaitFlag fc then cmd\<lparr>Args := Args cmd @ [''-w'']\<rparr> else cmd"
  have only: "\<exists>before cmd after w1 out. cmds = before @ cmd # after \<and>
        runCommands run fc before w = (None, w1) \<and>
        executeCommand run fc (?w cmd) w1 = ((out, Some err), w')"
    if *: "\<not> ContinueOnError fc" "runCommands run fc cmds w = (Some err, w')"
    using *(2)
  proof (induction cmds arbitrary: w)
    case (Cons cmd cmds)
    obtain out e w2 where r: "executeCommand run fc (?w cmd) w = ((out, e), w2)" by (metis surj_pair)
    show ?case
    proof (cases e)
      case None
      with r Cons.prems have "runCommands run fc cmds w2 = (Some err, w')" by (simp add: Let_def)
      from Cons.IH [OF this] obtain before c after w1 out' where
        "cmds = before @ c # after" "runCommands run fc before w2 = (None, w1)"
        "executeCommand run fc (?w c) w1 = ((out', Some err), w')" by blast
      with r None show ?thesis
        by (intro exI [of _ "cmd # before"] exI [of _ c] exI [of _ after] exI [of _ w1]
            exI [of _ out']) (simp add: Let_def)
    next
      case (Some x)
      with r Cons.prems *(1) show ?thesis
        by (intro exI [of _ "[]"] exI [of _ cmd] exI [of _ cmds] exI [of _ w] exI [of _ out])
          (simp add: Let_def)
    qed
  qed simp
  have "runCommands run fc (before @ cmd # after) w = (Some err, w')"
    if "\<not> ContinueOnError fc" "runCommands run fc before w = (None, w1)"
      "executeCommand run fc (?w cmd) w1 = ((out, Some err), w')" for before cmd after w1 out
    using that by (simp add: runCommands_append Let_def)
  with only have "\<not> ContinueOnError fc \<and> runCommands run fc cmds w = (Some err, w') \<longleftrightarrow>
     \<not> ContinueOnError fc \<and> (\<exists>before cmd after w1 out. cmds = before @ cmd # after \<and>
        runCommands run fc before w = (None, w1) \<and>
        executeCommand run fc (?w cmd) w1 = ((out, Some err), w'))" by blast
  moreover have "fst (runCommands run (fc\<lparr>ContinueOnError := True\<rparr>) cmds w) = None"
    by (rule runCommands_continue) simp
  ultimately show ?thesis by blast
qed

end
