(* ===== verification/Nat_Table.thy ===== *)
theory Nat_Table
  imports Firewall_Exec
begin

text \<open>
  The specification side of the firewall: what the command lists of \<open>pkg/iptables\<close> are
  meant to do to the kernel's nat table. iptables itself is not part of the repository: the
  table is a map from chain names to rules (a rule is its argument list), and iptables is any
  \<open>run\<close> that satisfies the laws of the locale \<open>nat_host\<close>, which are what iptables(8) and
  iptables-save(8) document: a command that exits with success has had its effect, a command
  that fails leaves the table alone, and listing changes nothing. \<open>nat_host_total\<close> adds when
  a command succeeds. The lemmas relate the loop over commands to the effects of the
  operations, and the command builders to the table they build.
\<close>

section \<open>Tables and operations\<close>

type_synonym nat_table = "string \<rightharpoonup> string list list"

datatype nat_op =
    NewChain string
  | FlushChain string
  | DropChain string
  | AppendRule string "string list"
  | DeleteRule string "string list"

fun op_args :: "nat_op \<Rightarrow> string list" where
  "op_args (NewChain c) = [''-t'', ''nat'', ''-N'', c]"
| "op_args (FlushChain c) = [''-t'', ''nat'', ''-F'', c]"
| "op_args (DropChain c) = [''-t'', ''nat'', ''-X'', c]"
| "op_args (AppendRule c r) = [''-t'', ''nat'', ''-A'', c] @ r"
| "op_args (DeleteRule c r) = [''-t'', ''nat'', ''-D'', c] @ r"

text \<open>The chain a rule jumps to: the value of its first \<open>-j\<close> (options come in pairs).\<close>

fun jumpTarget :: "string list \<Rightarrow> string option" where
  "jumpTarget (f # v # r) = (if f = ''-j'' then Some v else jumpTarget r)"
| "jumpTarget _ = None"

definition jumps :: "nat_table \<Rightarrow> string \<Rightarrow> string \<Rightarrow> bool" where
  "jumps t b c \<longleftrightarrow> (\<exists>rs. t b = Some rs \<and> Some c \<in> set (map jumpTarget rs))"

definition referenced :: "nat_table \<Rightarrow> string \<Rightarrow> bool" where
  "referenced t c \<longleftrightarrow> (\<exists>b. jumps t b c)"

fun op_effect :: "nat_op \<Rightarrow> nat_table \<Rightarrow> nat_table option" where
  "op_effect (NewChain c) t = (if t c = None then Some (t(c \<mapsto> [])) else None)"
| "op_effect (FlushChain c) t = (if t c = None then None else Some (t(c \<mapsto> [])))"
| "op_effect (DropChain c) t =
     (if t c = Some [] \<and> \<not> referenced t c then Some (t(c := None)) else None)"
| "op_effect (AppendRule c r) t =
     (case t c of None \<Rightarrow> None | Some rs \<Rightarrow> Some (t(c \<mapsto> rs @ [r])))"
| "op_effect (DeleteRule c r) t =
     (case t c of None \<Rightarrow> None
      | Some rs \<Rightarrow> if r \<in> set rs then Some (t(c \<mapsto> remove1 r rs)) else None)"

fun effects :: "nat_op list \<Rightarrow> nat_table \<Rightarrow> nat_table option" where
  "effects [] t = Some t"
| "effects (op # ops) t = (case op_effect op t of None \<Rightarrow> None | Some t' \<Rightarrow> effects ops t')"

lemma effects_append:
  "effects (ops @ ops') t = (case effects ops t of None \<Rightarrow> None | Some t' \<Rightarrow> effects ops' t')"
  by (induction ops arbitrary: t) (auto split: option.splits)

lemma effects_appends:
  "t c = Some rs \<Longrightarrow> effects (map (AppendRule c) rules) t = Some (t(c \<mapsto> rs @ rules))"
  by (induction rules arbitrary: t rs) (auto simp: fun_upd_idem)

section \<open>The host\<close>

definition waitArgs :: "bool \<Rightarrow> string list" where
  "waitArgs wait = (if wait then [''-w''] else [])"

text \<open>The argument vector of an operation on the host: the program, the operation, the
  wait flag if asked for, all in the network namespace.\<close>

definition op_argv :: "string \<Rightarrow> string \<Rightarrow> bool \<Rightarrow> nat_op \<Rightarrow> string list" where
  "op_argv ns bin wait op = inNetNs ns (bin # op_args op @ waitArgs wait)"

definition save_argv :: "string \<Rightarrow> string \<Rightarrow> string list" where
  "save_argv ns save = inNetNs ns [save, ''-t'', ''nat'']"

text \<open>A configuration that is not a simulation uses the host with these binaries, in this
  namespace, with or without the wait flag.\<close>

definition serves :: "string \<Rightarrow> string \<Rightarrow> string \<Rightarrow> bool \<Rightarrow> FirewallConfiguration \<Rightarrow> bool" where
  "serves bin save ns wait fc \<longleftrightarrow> BinPath fc = bin \<and> SaveBinPath fc = save \<and> NetNs fc = ns \<and>
     UseWaitFlag fc = wait \<and> \<not> SimulateOnly fc"

locale nat_host =
  fixes run :: "nat_table runner"
    and bin :: string
    and save :: string
    and ns :: string
    and wait :: bool
  assumes op_ok: "run (op_argv ns bin wait op) t = ((out, None), t') \<Longrightarrow> op_effect op t = Some t'"
    and op_err: "run (op_argv ns bin wait op) t = ((out, Some e), t') \<Longrightarrow> t' = t"
    and save_keeps: "snd (run (save_argv ns save) t) = t"
begin

lemma execute_op:
  assumes "serves bin save ns wait fc" and "Args cmd = bin # op_args op"
  shows "executeCommand run fc (if UseWaitFlag fc then cmd\<lparr>Args := Args cmd @ [''-w'']\<rparr> else cmd) t =
    run (op_argv ns bin wait op) t"
  using assms by (auto simp: serves_def executeCommand_run op_argv_def waitArgs_def)

lemma execute_save: "serves bin save ns wait fc \<Longrightarrow> executeCommand run fc (makeShowAllRules fc) t = run (save_argv ns save) t"
  by (simp add: serves_def executeCommand_run save_argv_def makeShowAllRules_def exec_Command_def)

text \<open>A loop that ends without an error has had the effects of its operations; one that stops
  with an error has had those of a proper initial part, and nothing of the rest.\<close>

lemma runCommands_ok:
  assumes "serves bin save ns wait fc" and "\<not> ContinueOnError fc"
  shows "map Args cmds = map (\<lambda>op. bin # op_args op) ops \<Longrightarrow>
    runCommands run fc cmds t = (None, t') \<Longrightarrow> effects ops t = Some t'"
proof (induction cmds arbitrary: ops t)
  case (Cons cmd cmds)
  then obtain op ops' where ops: "ops = op # ops'" "Args cmd = bin # op_args op"
    "map Args cmds = map (\<lambda>op. bin # op_args op) ops'" by (cases ops) auto
  obtain out e t1 where r: "run (op_argv ns bin wait op) t = ((out, e), t1)"
    by (metis surj_pair)
  with Cons.prems assms ops have "e = None" "runCommands run fc cmds t1 = (None, t')"
    by (auto simp: execute_op [OF assms(1)] Let_def split: option.splits)
  with Cons.IH [OF ops(3)] op_ok [of op t out t1] r ops(1) show ?case by simp
qed simp

lemma runCommands_err:
  assumes "serves bin save ns wait fc" and "\<not> ContinueOnError fc"
  shows "map Args cmds = map (\<lambda>op. bin # op_args op) ops \<Longrightarrow>
    runCommands run fc cmds t = (Some e, t') \<Longrightarrow>
    \<exists>k < length ops. effects (take k ops) t = Some t'"
proof (induction cmds arbitrary: ops t)
  case (Cons cmd cmds)
  then obtain op ops' where ops: "ops = op # ops'" "Args cmd = bin # op_args op"
    "map Args cmds = map (\<lambda>op. bin # op_args op) ops'" by (cases ops) auto
  obtain out e1 t1 where r: "run (op_argv ns bin wait op) t = ((out, e1), t1)"
    by (metis surj_pair)
  show ?case
  proof (cases e1)
    case None
    with r Cons.prems assms ops have "runCommands run fc cmds t1 = (Some e, t')"
      by (auto simp: execute_op [OF assms(1)] Let_def)
    from Cons.IH [OF ops(3) this] obtain k where
      "k < length ops'" "effects (take k ops') t1 = Some t'" by blast
    with op_ok [of op t out t1] r None ops(1) show ?thesis
      by (intro exI [of _ "Suc k"]) simp
  next
    case (Some x)
    with r Cons.prems assms ops have "t' = t1"
      by (auto simp: execute_op [OF assms(1)] Let_def)
    with op_err [of op t out x t1] r Some ops(1) show ?thesis
      by (intro exI [of _ 0]) simp
  qed
qed simp

end

text \<open>When commands succeed: an operation whose effect is possible, and whose rule iptables
  accepts, exits with success; the listing succeeds.\<close>

locale nat_host_total = nat_host +
  fixes accepts :: "nat_op \<Rightarrow> bool"
    and listing :: "nat_table \<Rightarrow> string"
  assumes op_succeeds: "op_effect op t \<noteq> None \<Longrightarrow> accepts op \<Longrightarrow>
      snd (fst (run (op_argv ns bin wait op) t)) = None"
    and save_succeeds: "fst (run (save_argv ns save) t) = (listing t, None)"
begin

lemma runCommands_succeeds:
  assumes "serves bin save ns wait fc"
  shows "map Args cmds = map (\<lambda>op. bin # op_args op) ops \<Longrightarrow> list_all accepts ops \<Longrightarrow>
    effects ops t = Some t' \<Longrightarrow> runCommands run fc cmds t = (None, t')"
proof (induction cmds arbitrary: ops t)
  case (Cons cmd cmds)
  then obtain op ops' where ops: "ops = op # ops'" "Args cmd = bin # op_args op"
    "map Args cmds = map (\<lambda>op. bin # op_args op) ops'" by (cases ops) auto
  from Cons.prems(3) ops(1) obtain t1 where t1: "op_effect op t = Some t1" "effects ops' t1 = Some t'"
    by (auto split: option.splits)
  obtain out e t2 where r: "run (op_argv ns bin wait op) t = ((out, e), t2)"
    by (metis surj_pair)
  have "e = None" using op_succeeds [of op t] t1(1) r Cons.prems(2) ops(1) by simp
  moreover from this have "t2 = t1" using op_ok [of op t out t2] r t1(1) by simp
  ultimately show ?case
    using r Cons.IH [OF ops(3)] Cons.prems(2) ops t1(2) assms
    by (simp add: execute_op [OF assms ops(2)] Let_def)
qed simp

end

section \<open>A reference host\<close>

text \<open>An executable host that behaves as documented, whatever its binaries are called and in
  whatever format it lists a table. It shows that the laws can be met; witnesses run on it.\<close>

fun parse_op :: "string list \<Rightarrow> nat_op option" where
  "parse_op (t # n # f # c # r) =
     (if t = ''-t'' \<and> n = ''nat'' then
        (if f = ''-N'' then (if r = [] then Some (NewChain c) else None)
         else if f = ''-F'' then (if r = [] then Some (FlushChain c) else None)
         else if f = ''-X'' then (if r = [] then Some (DropChain c) else None)
         else if f = ''-A'' then Some (AppendRule c r)
         else if f = ''-D'' then Some (DeleteRule c r)
         else None)
      else None)"
| "parse_op _ = None"

lemma parse_op_args [simp]: "parse_op (op_args op) = Some op"
  by (cases op) auto

definition dropNetNs :: "string \<Rightarrow> string list \<Rightarrow> string list option" where
  "dropNetNs ns args =
     (if ns = '''' then Some args
      else if take 3 args = [''nsenter'', ''--net='' @ ns, ''--''] then Some (drop 3 args)
      else None)"

definition dropWait :: "bool \<Rightarrow> string list \<Rightarrow> string list option" where
  "dropWait wait args =
     (if \<not> wait then Some args
      else if args \<noteq> [] \<and> last args = ''-w'' then Some (butlast args) else None)"

lemma dropNetNs_inNetNs [simp]: "dropNetNs ns (inNetNs ns args) = Some args"
  by (simp add: dropNetNs_def inNetNs_def)

lemma dropWait_waitArgs [simp]: "dropWait wait (args @ waitArgs wait) = Some args"
  by (simp add: dropWait_def waitArgs_def)

definition std_command :: "string \<Rightarrow> bool \<Rightarrow> string list \<Rightarrow> nat_op option" where
  "std_command bin wait args =
     (case args of [] \<Rightarrow> None
      | p # rest \<Rightarrow> if p = bin then Option.bind (dropWait wait rest) parse_op else None)"

definition std_host ::
    "string \<Rightarrow> string \<Rightarrow> string \<Rightarrow> bool \<Rightarrow> (nat_table \<Rightarrow> string) \<Rightarrow> nat_table runner" where
  "std_host bin save ns wait listing args t =
     (case dropNetNs ns args of
        None \<Rightarrow> (('''', Some ''exit status 2''), t)
      | Some cmd \<Rightarrow>
          if cmd = [save, ''-t'', ''nat''] then ((listing t, None), t)
          else case Option.bind (std_command bin wait cmd) (\<lambda>op. op_effect op t) of
              None \<Rightarrow> (('''', Some ''exit status 1''), t)
            | Some t' \<Rightarrow> (('''', None), t'))"

lemma std_host_op:
  "std_host bin save ns wait listing (op_argv ns bin wait op) t =
     (case op_effect op t of
        None \<Rightarrow> (('''', Some ''exit status 1''), t) | Some t' \<Rightarrow> (('''', None), t'))"
proof -
  have "op_args op @ waitArgs wait \<noteq> [''-t'', ''nat'']"
    by (cases op) (auto simp: waitArgs_def)
  then show ?thesis by (simp add: std_host_def op_argv_def std_command_def split: option.splits)
qed

lemma std_host_save:
  "std_host bin save ns wait listing (save_argv ns save) t = ((listing t, None), t)"
  by (simp add: std_host_def save_argv_def)

interpretation std: nat_host_total "std_host bin save ns wait listing" bin save ns wait
    "\<lambda>_. True" listing for bin save ns wait listing
  by unfold_locales (auto simp: std_host_op std_host_save split: option.splits)

end
