(* ===== verification/Firewall_Table.thy ===== *)
theory Firewall_Table
  imports Nat_Table
begin

text \<open>
  The table that \<open>ConfigureFirewall\<close> and \<open>CleanupFirewallConfig\<close> leave behind. The two
  rule builders share a contract, the locale \<open>traffic_rules\<close>: create or flush the own chain,
  append the rules, and jump to it from a built-in chain unless such a jump is listed. It is
  proved once that such a builder installs its chain, and interpreted on both builders.
  The properties are refinement of the abstract table \<open>configured\<close>, idempotence, and the
  round trip of configuring and cleaning up.
\<close>

section \<open>Rules as argument lists\<close>

text \<open>The rule specification of a command that appends or deletes a rule: what follows
  \<open>BIN -t nat -A CHAIN\<close>.\<close>

definition ruleArgs :: "Cmd \<Rightarrow> string list" where
  "ruleArgs cmd = drop 5 (Args cmd)"

definition jumpArgs :: "string \<Rightarrow> string \<Rightarrow> string list" where
  "jumpArgs target comment = [''-j'', target, ''-m'', ''comment'', ''--comment'', formatComment comment]"

definition redirectRules :: "FirewallConfiguration \<Rightarrow> string list list" where
  "redirectRules fc = map ruleArgs (redirectBody fc)"

definition outputRules :: "FirewallConfiguration \<Rightarrow> string list list" where
  "outputRules fc = map ruleArgs (outputBody fc)"

text \<open>\<open>appendsTo own fc c\<close>: the command appends a rule to the chain \<open>own\<close>.\<close>

definition appendsTo :: "string \<Rightarrow> FirewallConfiguration \<Rightarrow> Cmd \<Rightarrow> bool" where
  "appendsTo own fc c \<longleftrightarrow> Args c = BinPath fc # op_args (AppendRule own (ruleArgs c))"

lemma appendsTo_intro:
  "Args c = BinPath fc # ''-t'' # ''nat'' # ''-A'' # own # r \<Longrightarrow> appendsTo own fc c"
  by (simp add: appendsTo_def ruleArgs_def)

lemma make_appends:
  "appendsTo own fc (makeIgnoreUserID fc own i comment)"
  "appendsTo own fc (makeIgnoreGroupID fc own i comment)"
  "appendsTo own fc (makeRedirectChainToPort fc own i comment)"
  "appendsTo own fc (makeIgnorePorts fc own ds comment)"
  "appendsTo own fc (makeIgnoreSubnet fc own sn comment)"
  "appendsTo own fc (makeIgnoreLoopback fc own comment)"
  "appendsTo own fc (makeRedirectChainToPortBasedOnDestinationPort fc own i j comment)"
  by (rule appendsTo_intro, simp add: cmd_simps exec_Command_def)+

lemma redirectBody_appends: "c \<in> set (redirectBody fc) \<Longrightarrow> appendsTo redirectChainName fc c"
  by (auto simp: redirectBody_def addRulesForInboundPortRedirect_def addRulesForIgnoredSubnets_def
      addRulesForIgnoredPorts_def make_appends split: if_splits)

lemma outputBody_appends: "c \<in> set (outputBody fc) \<Longrightarrow> appendsTo outputChainName fc c"
  by (auto simp: outputBody_def addRulesForIgnoredPorts_def make_appends split: if_splits)

text \<open>The rules do not depend on which binaries carry them out.\<close>

lemma redirectRules_resolve [simp]: "redirectRules (resolveBinFallback fc lp) = redirectRules fc"
  by (simp add: redirectRules_def redirectBody_def addRulesForInboundPortRedirect_def
      addRulesForIgnoredSubnets_def addRulesForIgnoredPorts_def ruleArgs_def exec_Command_def
      makeIgnorePorts_def makeIgnoreSubnet_def makeRedirectChainToPort_def
      makeRedirectChainToPortBasedOnDestinationPort_def)

lemma outputRules_resolve [simp]: "outputRules (resolveBinFallback fc lp) = outputRules fc"
  by (simp add: outputRules_def outputBody_def addRulesForIgnoredPorts_def ruleArgs_def
      exec_Command_def makeIgnorePorts_def makeIgnoreLoopback_def makeRedirectChainToPort_def
      makeIgnoreUserID_def makeIgnoreGroupID_def)

section \<open>Installing a chain\<close>

definition trafficOps ::
    "string \<Rightarrow> string \<Rightarrow> string list list \<Rightarrow> string list \<Rightarrow> bool \<Rightarrow> bool \<Rightarrow> nat_op list" where
  "trafficOps own builtin rules jump chainThere jumpThere =
     [if chainThere then FlushChain own else NewChain own] @ map (AppendRule own) rules @
     (if jumpThere then [] else [AppendRule builtin jump])"

definition installed ::
    "string \<Rightarrow> string \<Rightarrow> string list list \<Rightarrow> string list \<Rightarrow> nat_table \<Rightarrow> nat_table" where
  "installed own builtin rules jump t =
     (if jumps t builtin own then t(own \<mapsto> rules)
      else t(own \<mapsto> rules, builtin \<mapsto> the (t builtin) @ [jump]))"

lemma effects_trafficOps:
  assumes "own \<noteq> builtin" and "t builtin \<noteq> None"
  shows "effects (trafficOps own builtin rules jump (t own \<noteq> None) (jumps t builtin own)) t =
    Some (installed own builtin rules jump t)"
proof -
  have "op_effect (if t own \<noteq> None then FlushChain own else NewChain own) t = Some (t(own \<mapsto> []))"
    by auto
  then show ?thesis using assms
    by (auto simp: trafficOps_def installed_def effects_append
        effects_appends [of "t(own \<mapsto> [])" own "[]"] split: option.splits)
qed

locale traffic_rules =
  fixes add :: "FirewallConfiguration \<Rightarrow> string \<Rightarrow> Cmd list \<Rightarrow> Cmd list"
    and body :: "FirewallConfiguration \<Rightarrow> Cmd list"
    and own builtin comment :: string
    and chainThere ruleThere :: "string \<Rightarrow> bool"
  assumes shape: "add fc txt cs =
      cs @ [preparation fc own (chainThere txt)] @ body fc @
      (if ruleThere txt then []
       else [makeJumpFromChainToAnotherForAllProtocols fc builtin own comment False])"
    and body_appends: "c \<in> set (body fc) \<Longrightarrow> appendsTo own fc c"
    and own_builtin: "own \<noteq> builtin"
begin

lemma add_args:
  "map Args (add fc txt []) =
   map (\<lambda>op. BinPath fc # op_args op)
     (trafficOps own builtin (map ruleArgs (body fc)) (jumpArgs own comment)
        (chainThere txt) (ruleThere txt))"
  using body_appends [of _ fc]
  by (simp add: shape trafficOps_def preparation_def makeFlushChain_def makeCreateNewChain_def
      makeJumpFromChainToAnotherForAllProtocols_def exec_Command_def jumpArgs_def appendsTo_def)

lemma add_effects:
  assumes "chainThere txt \<longleftrightarrow> t own \<noteq> None" and "ruleThere txt \<longleftrightarrow> jumps t builtin own"
    and "t builtin \<noteq> None"
  shows "effects (trafficOps own builtin rules jump (chainThere txt) (ruleThere txt)) t =
    Some (installed own builtin rules jump t)"
  unfolding assms(1,2) by (rule effects_trafficOps) (rule own_builtin, rule assms(3))

end

text \<open>The comments of the two jumps.\<close>

definition redirectJump :: "string list" where
  "redirectJump = jumpArgs redirectChainName ''install-proxy-init-prerouting''"

definition outputJump :: "string list" where
  "outputJump = jumpArgs outputChainName ''install-proxy-init-output''"

lemmas chain_names = IptablesPreroutingChainName_def IptablesOutputChainName_def
  redirectChainName_def outputChainName_def

interpretation incoming: traffic_rules addIncomingTrafficRules redirectBody redirectChainName
    IptablesPreroutingChainName "''install-proxy-init-prerouting''" redirectChainRegex
    preroutingRuleRegex
proof unfold_locales
  show "redirectChainName \<noteq> IptablesPreroutingChainName" by (simp add: chain_names)
qed (rule addIncomingTrafficRules_shape redirectBody_appends, assumption?)+

interpretation outgoing: traffic_rules addOutgoingTrafficRules outputBody outputChainName
    IptablesOutputChainName "''install-proxy-init-output''" outputChainRegex outputRuleRegex
proof unfold_locales
  show "outputChainName \<noteq> IptablesOutputChainName" by (simp add: chain_names)
qed (rule addOutgoingTrafficRules_shape outputBody_appends, assumption?)+

section \<open>The configured table\<close>

definition configured :: "FirewallConfiguration \<Rightarrow> nat_table \<Rightarrow> nat_table" where
  "configured fc t =
     installed outputChainName IptablesOutputChainName (outputRules fc) outputJump
       (installed redirectChainName IptablesPreroutingChainName (redirectRules fc) redirectJump t)"

text \<open>The listing \<open>txt\<close> shows the chains and jumps of the table that the code looks for.\<close>

definition listing_shows :: "nat_table \<Rightarrow> string \<Rightarrow> bool" where
  "listing_shows t txt \<longleftrightarrow>
     (redirectChainRegex txt \<longleftrightarrow> t redirectChainName \<noteq> None) \<and>
     (outputChainRegex txt \<longleftrightarrow> t outputChainName \<noteq> None) \<and>
     (preroutingRuleRegex txt \<longleftrightarrow> jumps t IptablesPreroutingChainName redirectChainName) \<and>
     (outputRuleRegex txt \<longleftrightarrow> jumps t IptablesOutputChainName outputChainName)"

text \<open>The built-in chains are there.\<close>

definition builtins :: "nat_table \<Rightarrow> bool" where
  "builtins t \<longleftrightarrow> t IptablesPreroutingChainName \<noteq> None \<and> t IptablesOutputChainName \<noteq> None"

definition configureOps :: "FirewallConfiguration \<Rightarrow> string \<Rightarrow> nat_op list" where
  "configureOps fc txt =
     trafficOps redirectChainName IptablesPreroutingChainName (redirectRules fc) redirectJump
       (redirectChainRegex txt) (preroutingRuleRegex txt) @
     trafficOps outputChainName IptablesOutputChainName (outputRules fc) outputJump
       (outputChainRegex txt) (outputRuleRegex txt)"

lemma configure_args:
  "map Args (addOutgoingTrafficRules fc txt (addIncomingTrafficRules fc txt [])) =
   map (\<lambda>op. BinPath fc # op_args op) (configureOps fc txt)"
proof -
  have "addOutgoingTrafficRules fc txt (addIncomingTrafficRules fc txt []) =
      addIncomingTrafficRules fc txt [] @ addOutgoingTrafficRules fc txt []"
    by (simp add: addOutgoingTrafficRules_shape)
  then show ?thesis
    by (simp add: incoming.add_args outgoing.add_args configureOps_def redirectRules_def
        outputRules_def redirectJump_def outputJump_def)
qed

lemma installed_other:
  "c \<noteq> own \<Longrightarrow> c \<noteq> builtin \<Longrightarrow> installed own builtin rules jump t c = t c"
  by (simp add: installed_def)

lemma jumps_installed_other:
  "b \<noteq> own \<Longrightarrow> b \<noteq> builtin \<Longrightarrow> jumps (installed own builtin rules jump t) b c = jumps t b c"
  by (simp add: jumps_def installed_other)

lemma configure_effects:
  assumes "listing_shows t txt" and "builtins t"
  shows "effects (configureOps fc txt) t = Some (configured fc t)"
proof -
  let ?t1 = "installed redirectChainName IptablesPreroutingChainName (redirectRules fc) redirectJump t"
  have "effects (trafficOps redirectChainName IptablesPreroutingChainName (redirectRules fc)
      redirectJump (redirectChainRegex txt) (preroutingRuleRegex txt)) t = Some ?t1"
    by (rule incoming.add_effects) (use assms in \<open>auto simp: listing_shows_def builtins_def\<close>)
  moreover have "?t1 outputChainName = t outputChainName"
    "?t1 IptablesOutputChainName = t IptablesOutputChainName"
    "jumps ?t1 IptablesOutputChainName outputChainName = jumps t IptablesOutputChainName outputChainName"
    by (simp_all add: installed_other jumps_installed_other chain_names)
  moreover from this have "effects (trafficOps outputChainName IptablesOutputChainName
      (outputRules fc) outputJump (outputChainRegex txt) (outputRuleRegex txt)) ?t1 =
      Some (configured fc t)"
    unfolding configured_def
    by (intro outgoing.add_effects) (use assms in \<open>auto simp: listing_shows_def builtins_def\<close>)
  ultimately show ?thesis by (simp add: configureOps_def effects_append)
qed

lemma configureOps_resolve [simp]:
  "configureOps (resolveBinFallback fc lp) txt = configureOps fc txt"
  by (simp add: configureOps_def)

lemma configured_resolve [simp]: "configured (resolveBinFallback fc lp) t = configured fc t"
  by (simp add: configured_def)

section \<open>Running the whole configuration\<close>

text \<open>The phases of \<open>ConfigureFirewall\<close> on a host: list, run the operations, list again.\<close>

context nat_host
begin

lemma configure_phases:
  assumes "serves bin save ns wait (resolveBinFallback fc lp)"
    and "run (save_argv ns save) t = ((txt, None), t)"
    and "cmds = addOutgoingTrafficRules (resolveBinFallback fc lp) txt
           (addIncomingTrafficRules (resolveBinFallback fc lp) txt [])"
  shows "ConfigureFirewall lp run fc t = runCommands run (resolveBinFallback fc lp) cmds t"
  using assms(2) execute_save [OF assms(1)] save_keeps
  by (auto simp: ConfigureFirewall_def Let_def assms(3) split: option.splits prod.splits)

lemma configure_cmds:
  assumes "serves bin save ns wait (resolveBinFallback fc lp)"
  shows "map Args (addOutgoingTrafficRules (resolveBinFallback fc lp) txt
      (addIncomingTrafficRules (resolveBinFallback fc lp) txt [])) =
    map (\<lambda>op. bin # op_args op) (configureOps fc txt)"
  using assms by (simp add: configure_args serves_def)

lemma configure_refined:
  assumes "serves bin save ns wait (resolveBinFallback fc lp)" and "\<not> ContinueOnError fc"
    and "run (save_argv ns save) t = ((txt, None), t)" and "listing_shows t txt" and "builtins t"
    and "ConfigureFirewall lp run fc t = (None, t')"
  shows "t' = configured fc t"
proof -
  from assms(6) have "runCommands run (resolveBinFallback fc lp)
      (addOutgoingTrafficRules (resolveBinFallback fc lp) txt
        (addIncomingTrafficRules (resolveBinFallback fc lp) txt [])) t = (None, t')"
    by (simp add: configure_phases [OF assms(1,3) refl])
  then have "effects (configureOps fc txt) t = Some t'"
    using assms(2) by (intro runCommands_ok [OF assms(1) _ configure_cmds [OF assms(1)]]) auto
  with configure_effects [OF assms(4,5)] show ?thesis by simp
qed

lemma cleanup_phases:
  assumes "serves bin save ns wait (resolveBinFallback fc lp)"
  shows "CleanupFirewallConfig lp run fc t =
    runCommands run (resolveBinFallback fc lp) (cleanupRules (resolveBinFallback fc lp) []) t"
  using execute_save [OF assms] save_keeps
  by (auto simp: CleanupFirewallConfig_def Let_def split: option.splits prod.splits)

end

lemma ConfigureFirewall_result:
  assumes "nat_host_total run bin save ns wait accepts listing"
    and "serves bin save ns wait (resolveBinFallback fc lp)"
    and "listing_shows t (listing t)" and "builtins t"
    and "list_all accepts (configureOps fc (listing t))"
  shows "ConfigureFirewall lp run fc t = (None, configured fc t)"
proof -
  note host = nat_host_total.axioms(1) [OF assms(1)]
  have "run (save_argv ns save) t = ((listing t, None), t)"
    using nat_host_total.save_succeeds [OF assms(1)] nat_host.save_keeps [OF host]
    by (metis prod.collapse)
  then show ?thesis
    using nat_host_total.runCommands_succeeds [OF assms(1,2) nat_host.configure_cmds [OF host assms(2)]
        assms(5) configure_effects [OF assms(3,4)]]
    by (simp add: nat_host.configure_phases [OF host assms(2) _ refl])
qed

section \<open>Configuring twice\<close>

lemma jumpTarget_jumpArgs [simp]: "jumpTarget (jumpArgs c comment) = Some c"
  by (simp add: jumpArgs_def)

lemma installed_jumps:
  "jumpTarget jump = Some own \<Longrightarrow> jumps (installed own builtin rules jump t) builtin own \<or> own = builtin"
  by (auto simp: installed_def jumps_def split: option.splits)

lemma installed_twice:
  assumes "own \<noteq> builtin" and "jumpTarget jump = Some own"
  shows "installed own builtin rules jump (installed own builtin rules jump t) =
    installed own builtin rules jump t"
  using installed_jumps [OF assms(2), of builtin rules t] assms(1)
  by (auto simp: installed_def fun_eq_iff)

lemma installed_at:
  "installed own builtin rules jump t c =
     (if c = builtin \<and> \<not> jumps t builtin own then Some (the (t builtin) @ [jump])
      else if c = own then Some rules else t c)"
  by (simp add: installed_def)

lemma installed_commute:
  assumes "distinct [own, builtin, own', builtin']"
  shows "installed own builtin rules jump (installed own' builtin' rules' jump' t) =
    installed own' builtin' rules' jump' (installed own builtin rules jump t)" (is "?l = ?r")
proof
  fix c
  have j: "jumps (installed own' builtin' rules' jump' t) builtin own = jumps t builtin own"
    "jumps (installed own builtin rules jump t) builtin' own' = jumps t builtin' own'"
    by (rule jumps_installed_other; use assms in auto)+
  show "?l c = ?r c"
    using assms
    by (cases "c = own"; cases "c = builtin"; cases "c = own'"; cases "c = builtin'")
      (simp_all add: installed_at j)
qed

lemma configured_commute:
  "configured fc t =
     installed redirectChainName IptablesPreroutingChainName (redirectRules fc) redirectJump
       (installed outputChainName IptablesOutputChainName (outputRules fc) outputJump t)"
  unfolding configured_def by (rule installed_commute) (simp_all add: chain_names)

lemma configured_twice: "configured fc (configured fc t) = configured fc t"
proof -
  let ?i = "installed redirectChainName IptablesPreroutingChainName (redirectRules fc) redirectJump"
  let ?o = "installed outputChainName IptablesOutputChainName (outputRules fc) outputJump"
  have i: "?i (?i u) = ?i u" for u
    by (rule installed_twice) (simp_all add: redirectJump_def chain_names)
  have o: "?o (?o u) = ?o u" for u
    by (rule installed_twice) (simp_all add: outputJump_def chain_names)
  have "configured fc (configured fc t) = ?o (?i (?i (?o t)))"
    using configured_def [of fc "configured fc t"] configured_commute [of fc t] by simp
  also have "\<dots> = ?o (?i (?o t))" by (simp only: i)
  also have "\<dots> = ?o (?o (?i t))"
    using configured_def [of fc t] configured_commute [of fc t] by simp
  also have "\<dots> = configured fc t" by (simp only: o configured_def)
  finally show ?thesis .
qed

lemma builtins_configured: "builtins t \<Longrightarrow> builtins (configured fc t)"
  by (simp add: builtins_def configured_def installed_def chain_names)

section \<open>Cleaning up\<close>

definition cleanupOps :: "nat_op list" where
  "cleanupOps =
     [DeleteRule IptablesPreroutingChainName redirectJump,
      DeleteRule IptablesOutputChainName outputJump,
      FlushChain outputChainName, FlushChain redirectChainName,
      DropChain outputChainName, DropChain redirectChainName]"

lemma cleanup_args: "map Args (cleanupRules fc []) = map (\<lambda>op. BinPath fc # op_args op) cleanupOps"
  by (simp add: cleanupRules_def cleanupOps_def redirectJump_def outputJump_def jumpArgs_def
      makeJumpFromChainToAnotherForAllProtocols_def makeFlushChain_def makeDeleteChain_def
      exec_Command_def)

text \<open>The proxy's chains are absent and nothing jumps to them.\<close>

definition untouched :: "nat_table \<Rightarrow> bool" where
  "untouched t \<longleftrightarrow> t redirectChainName = None \<and> t outputChainName = None \<and>
     \<not> referenced t redirectChainName \<and> \<not> referenced t outputChainName"

lemma not_jumps_rule:
  "\<not> jumps t b c \<Longrightarrow> t b = Some rs \<Longrightarrow> jumpTarget r = Some c \<Longrightarrow> r \<notin> set rs"
  by (auto simp: jumps_def rev_image_eqI)

lemma configured_untouched:
  assumes "untouched t" and "t IptablesPreroutingChainName = Some p" "t IptablesOutputChainName = Some q"
  shows "configured fc t =
    t(IptablesPreroutingChainName \<mapsto> p @ [redirectJump], IptablesOutputChainName \<mapsto> q @ [outputJump],
      redirectChainName \<mapsto> redirectRules fc, outputChainName \<mapsto> outputRules fc)" (is "_ = ?r")
proof
  fix c
  have nj: "\<not> jumps t b redirectChainName" "\<not> jumps t b outputChainName" for b
    using assms(1) by (auto simp: untouched_def referenced_def)
  have "\<not> jumps (installed redirectChainName IptablesPreroutingChainName (redirectRules fc)
      redirectJump t) IptablesOutputChainName outputChainName"
    using nj by (subst jumps_installed_other) (simp_all add: chain_names)
  then show "configured fc t c = ?r c"
    using assms(2,3) nj by (simp add: configured_def installed_at chain_names)
qed

lemma not_jumps_emptied:
  assumes "\<not> referenced t c"
  shows "\<not> referenced (t(a \<mapsto> [], b \<mapsto> [])) c" and "\<not> referenced (t(a \<mapsto> [], b := None)) c"
  using assms by (auto simp: referenced_def jumps_def split: if_splits)

lemma cleanup_effects:
  assumes "untouched t" and "builtins t"
  shows "effects cleanupOps (configured fc t) = Some t"
proof -
  obtain p q where pq: "t IptablesPreroutingChainName = Some p" "t IptablesOutputChainName = Some q"
    using assms(2) by (auto simp: builtins_def)
  let ?P = "IptablesPreroutingChainName" and ?O = "IptablesOutputChainName"
    and ?R = redirectChainName and ?U = outputChainName
  have "redirectJump \<notin> set p" "outputJump \<notin> set q"
    using assms(1) pq
      not_jumps_rule [of t IptablesPreroutingChainName redirectChainName p redirectJump]
      not_jumps_rule [of t IptablesOutputChainName outputChainName q outputJump]
    by (auto simp: untouched_def referenced_def redirectJump_def outputJump_def)
  then have rm: "remove1 redirectJump (p @ [redirectJump]) = p" "remove1 outputJump (q @ [outputJump]) = q"
    by (simp_all add: remove1_append)
  have ne: "?P \<noteq> ?O" "?P \<noteq> ?R" "?P \<noteq> ?U" "?O \<noteq> ?R" "?O \<noteq> ?U" "?R \<noteq> ?U"
    by (simp_all add: chain_names)
  let ?e = "t(?R \<mapsto> [], ?U \<mapsto> [])"
  have eq: "t(?P \<mapsto> p, ?O \<mapsto> q, ?R \<mapsto> [], ?U \<mapsto> []) = ?e"
    "t(?P \<mapsto> p @ [redirectJump], ?O \<mapsto> q @ [outputJump], ?R \<mapsto> redirectRules fc,
        ?U \<mapsto> outputRules fc, ?P \<mapsto> p, ?O \<mapsto> q, ?U \<mapsto> [], ?R \<mapsto> []) = ?e"
    using pq ne by (auto simp: fun_eq_iff)
  have free: "\<not> referenced ?e ?U" "\<not> referenced (t(?R \<mapsto> [], ?U := None)) ?R"
    using assms(1) not_jumps_emptied by (auto simp: untouched_def)
  have gone: "?e(?U := None) = t(?R \<mapsto> [], ?U := None)" "(t(?R \<mapsto> [], ?U := None))(?R := None) = t"
    using assms(1) ne by (auto simp: untouched_def fun_eq_iff)
  have "effects (take 4 cleanupOps) (configured fc t) = Some ?e"
    using ne rm eq by (simp add: configured_untouched [OF assms(1) pq] cleanupOps_def)
  moreover have "effects (drop 4 cleanupOps) ?e = Some t"
    using ne free gone by (simp add: cleanupOps_def)
  ultimately show ?thesis
    using effects_append [of "take 4 cleanupOps" "drop 4 cleanupOps"] by simp
qed

section \<open>Concrete runs\<close>

text \<open>A configuration, a table with only the built-in chains, a listing in the format of
  \<open>iptables-save\<close> (the lines the code looks for), and a path on which every binary is found.\<close>

definition exampleConfig :: FirewallConfiguration where
  "exampleConfig = \<lparr>Mode = ''redirect-all'', PortsToRedirectInbound = [],
     InboundPortsToIgnore = [''4190'', ''22-25''], OutboundPortsToIgnore = [''443'', ''x''],
     SubnetsToIgnore = [''10.0.0.0/8''], ProxyInboundPort = 4143, ProxyOutgoingPort = 4140,
     ProxyUID = 2102, ProxyGID = 0, SimulateOnly = False, NetNs = ''/proc/7/ns/net'',
     UseWaitFlag = True, BinPath = ''iptables-legacy'', SaveBinPath = ''iptables-legacy-save'',
     ContinueOnError = False\<rparr>"

definition plainTable :: nat_table where
  "plainTable = [''PREROUTING'' \<mapsto> [], ''INPUT'' \<mapsto> [], ''OUTPUT'' \<mapsto> [], ''POSTROUTING'' \<mapsto> []]"

definition std_listing :: "nat_table \<Rightarrow> string" where
  "std_listing t =
     (if t redirectChainName \<noteq> None then '':PROXY_INIT_REDIRECT - [0:0]'' @ [CHR 0x0A] else []) @
     (if t outputChainName \<noteq> None then '':PROXY_INIT_OUTPUT - [0:0]'' @ [CHR 0x0A] else []) @
     (if jumps t IptablesPreroutingChainName redirectChainName
      then ''-A PREROUTING -m comment -j PROXY_INIT_REDIRECT'' @ [CHR 0x0A] else []) @
     (if jumps t IptablesOutputChainName outputChainName
      then ''-A OUTPUT -j PROXY_INIT_OUTPUT'' @ [CHR 0x0A] else [])"

definition everyBinary :: "string \<Rightarrow> (error, string) result" where
  "everyBinary name = Inr (''/usr/sbin/'' @ name)"

definition exampleHost :: "nat_table runner" where
  "exampleHost = std_host ''iptables-legacy'' ''iptables-legacy-save'' ''/proc/7/ns/net'' True std_listing"

lemma std_listing_shows: "listing_shows t (std_listing t)"
  by (cases "t redirectChainName = None"; cases "t outputChainName = None";
      cases "jumps t IptablesPreroutingChainName redirectChainName";
      cases "jumps t IptablesOutputChainName outputChainName")
    (simp_all add: listing_shows_def std_listing_def redirectChainRegex_def outputChainRegex_def
      preroutingRuleRegex_def outputRuleRegex_def chainRegex_def ruleRegex_def Let_def)

lemma resolve_everyBinary [simp]: "resolveBinFallback fc everyBinary = fc"
  by (simp add: resolveBinFallback_def everyBinary_def)

lemma example_serves:
  "serves ''iptables-legacy'' ''iptables-legacy-save'' ''/proc/7/ns/net'' True
     (resolveBinFallback exampleConfig everyBinary)"
  by (simp add: serves_def exampleConfig_def)

lemma example_continue: "\<not> ContinueOnError exampleConfig"
  by (simp add: exampleConfig_def)

lemma example_host:
  "nat_host_total exampleHost ''iptables-legacy'' ''iptables-legacy-save'' ''/proc/7/ns/net'' True
     (\<lambda>_. True) std_listing"
  unfolding exampleHost_def by (rule std.nat_host_total_axioms)

lemma example_save:
  "exampleHost (save_argv ''/proc/7/ns/net'' ''iptables-legacy-save'') t = ((std_listing t, None), t)"
  by (simp add: exampleHost_def std_host_save)

lemma plainTable_builtins: "builtins plainTable"
  by (simp add: builtins_def plainTable_def chain_names)

lemma plainTable_untouched: "untouched plainTable"
  by (auto simp: untouched_def plainTable_def chain_names referenced_def jumps_def split: if_splits)

lemma example_run:
  "ConfigureFirewall everyBinary exampleHost exampleConfig plainTable = (None, configured exampleConfig plainTable)"
  by (rule ConfigureFirewall_result [OF example_host example_serves std_listing_shows
        plainTable_builtins]) (simp add: list_all_iff)

section \<open>Properties\<close>

text \<open>C2. \<open>ConfigureFirewall\<close> refines \<open>configured\<close>: on any host that behaves as iptables
  documents, a run that reports success has replaced the two chains of the proxy by the rules
  of the configuration, has left exactly the needed jumps in the built-in chains, and has
  touched nothing else.\<close>

theorem ConfigureFirewall_refines:
  assumes "nat_host run bin save ns wait"
    and "serves bin save ns wait (resolveBinFallback fc lp)" and "\<not> ContinueOnError fc"
    and "run (save_argv ns save) t = ((txt, None), t)" and "listing_shows t txt" and "builtins t"
    and "ConfigureFirewall lp run fc t = (None, t')"
  shows "t' = configured fc t"
  by (rule nat_host.configure_refined [OF assms])

theorem ConfigureFirewall_refines_witness:
  "snd (ConfigureFirewall everyBinary exampleHost exampleConfig plainTable) =
     configured exampleConfig plainTable"
  using ConfigureFirewall_refines [OF nat_host_total.axioms(1) [OF example_host] example_serves
      example_continue example_save std_listing_shows plainTable_builtins example_run]
  by (simp add: example_run)

text \<open>C14. A run of \<open>ConfigureFirewall\<close> that reports an error stopped at one operation: the
  table is what the operations before it made of the original, and none after it ran.\<close>

theorem ConfigureFirewall_error_prefix:
  assumes "nat_host run bin save ns wait"
    and "serves bin save ns wait (resolveBinFallback fc lp)" and "\<not> ContinueOnError fc"
    and "run (save_argv ns save) t = ((txt, None), t)"
    and "ConfigureFirewall lp run fc t = (Some e, t')"
  shows "\<exists>k < length (configureOps fc txt). effects (take k (configureOps fc txt)) t = Some t'"
proof -
  from assms(5) have "runCommands run (resolveBinFallback fc lp)
      (addOutgoingTrafficRules (resolveBinFallback fc lp) txt
        (addIncomingTrafficRules (resolveBinFallback fc lp) txt [])) t = (Some e, t')"
    by (simp add: nat_host.configure_phases [OF assms(1,2,4) refl])
  then show ?thesis
    using assms(3)
    by (intro nat_host.runCommands_err [OF assms(1,2) _ nat_host.configure_cmds [OF assms(1,2)]]) auto
qed

text \<open>Without the \<open>PREROUTING\<close> chain the run stops at the jump.\<close>

theorem ConfigureFirewall_error_prefix_witness:
  "\<exists>k < length (configureOps exampleConfig (std_listing Map.empty)).
     effects (take k (configureOps exampleConfig (std_listing Map.empty))) Map.empty =
       Some (snd (ConfigureFirewall everyBinary exampleHost exampleConfig Map.empty))"
proof -
  obtain r t' where run: "ConfigureFirewall everyBinary exampleHost exampleConfig Map.empty = (r, t')"
    by (metis surj_pair)
  have "effects (configureOps exampleConfig (std_listing Map.empty)) Map.empty = None"
  proof -
    have "std_listing Map.empty = []" by (simp add: std_listing_def jumps_def)
    moreover have "\<not> redirectChainRegex []" "\<not> preroutingRuleRegex []"
      by (simp_all add: redirectChainRegex_def preroutingRuleRegex_def chainRegex_def ruleRegex_def)
    moreover have "effects (trafficOps redirectChainName IptablesPreroutingChainName rules jump
        False False) Map.empty = None" for rules jump
      by (simp add: trafficOps_def effects_append
          effects_appends [of "[redirectChainName \<mapsto> []]" redirectChainName "[]"])
        (simp add: chain_names)
    ultimately show ?thesis by (simp add: configureOps_def effects_append)
  qed
  with run have "r \<noteq> None"
    using nat_host.runCommands_ok [OF nat_host_total.axioms(1) [OF example_host] example_serves
        _ nat_host.configure_cmds [OF nat_host_total.axioms(1) [OF example_host] example_serves],
        of "std_listing Map.empty" Map.empty t'] example_continue
    by (auto simp: nat_host.configure_phases [OF nat_host_total.axioms(1) [OF example_host]
        example_serves example_save refl])
  then obtain e where "r = Some e" by blast
  with run show ?thesis
    using ConfigureFirewall_error_prefix [OF nat_host_total.axioms(1) [OF example_host]
        example_serves example_continue example_save, where e = e and t' = t'] by simp
qed

text \<open>C13. On a host that carries out every operation it can and accepts the rules,
  \<open>ConfigureFirewall\<close> succeeds, with \<open>ContinueOnError\<close> or without, and the result is the
  configured table.\<close>

theorem ConfigureFirewall_succeeds:
  assumes "nat_host_total run bin save ns wait accepts listing"
    and "serves bin save ns wait (resolveBinFallback fc lp)"
    and "listing_shows t (listing t)" and "builtins t"
    and "list_all accepts (configureOps fc (listing t))"
  shows "ConfigureFirewall lp run fc t = (None, configured fc t)"
  by (rule ConfigureFirewall_result) (fact assms)+

theorem ConfigureFirewall_succeeds_witness:
  "ConfigureFirewall everyBinary exampleHost exampleConfig plainTable =
     (None, configured exampleConfig plainTable)"
  by (rule ConfigureFirewall_succeeds [OF example_host example_serves std_listing_shows
        plainTable_builtins]) (simp add: list_all_iff)

text \<open>C6. Configuring is idempotent: a second run finds the chains and jumps of the first,
  flushes and refills the chains, adds no second jump, and leaves the same table.\<close>

theorem ConfigureFirewall_idempotent:
  assumes "nat_host_total run bin save ns wait accepts listing"
    and "serves bin save ns wait (resolveBinFallback fc lp)"
    and "listing_shows t (listing t)" and "builtins t"
    and "listing_shows (configured fc t) (listing (configured fc t))"
    and "list_all accepts (configureOps fc (listing t))"
    and "list_all accepts (configureOps fc (listing (configured fc t)))"
  shows "ConfigureFirewall lp run fc (snd (ConfigureFirewall lp run fc t)) =
    ConfigureFirewall lp run fc t"
  using ConfigureFirewall_result [OF assms(1,2,3,4,6)]
    ConfigureFirewall_result [OF assms(1,2,5) builtins_configured [OF assms(4)] assms(7)]
  by (simp add: configured_twice)

theorem ConfigureFirewall_idempotent_witness:
  "ConfigureFirewall everyBinary exampleHost exampleConfig
     (snd (ConfigureFirewall everyBinary exampleHost exampleConfig plainTable)) =
   ConfigureFirewall everyBinary exampleHost exampleConfig plainTable"
  by (rule ConfigureFirewall_idempotent [OF example_host example_serves std_listing_shows
        plainTable_builtins std_listing_shows]) (simp_all add: list_all_iff)

text \<open>C5. Round trip: cleaning up after configuring a table that did not have the proxy's
  chains succeeds and gives the original table back, rule for rule.\<close>

theorem Cleanup_undoes_Configure:
  assumes "nat_host_total run bin save ns wait accepts listing"
    and "serves bin save ns wait (resolveBinFallback fc lp)"
    and "listing_shows t (listing t)" and "builtins t" and "untouched t"
    and "list_all accepts (configureOps fc (listing t) @ cleanupOps)"
  shows "CleanupFirewallConfig lp run fc (snd (ConfigureFirewall lp run fc t)) = (None, t)"
proof -
  note host = nat_host_total.axioms(1) [OF assms(1)]
  have "map Args (cleanupRules (resolveBinFallback fc lp) []) = map (\<lambda>op. bin # op_args op) cleanupOps"
    using assms(2) by (simp add: cleanup_args serves_def)
  then have "runCommands run (resolveBinFallback fc lp) (cleanupRules (resolveBinFallback fc lp) [])
      (configured fc t) = (None, t)"
    using nat_host_total.runCommands_succeeds [OF assms(1,2)] assms(6)
      cleanup_effects [OF assms(5,4)] by simp
  then show ?thesis
    using ConfigureFirewall_result [OF assms(1-4)] assms(6)
    by (simp add: nat_host.cleanup_phases [OF host assms(2)])
qed

theorem Cleanup_undoes_Configure_witness:
  "CleanupFirewallConfig everyBinary exampleHost exampleConfig
     (snd (ConfigureFirewall everyBinary exampleHost exampleConfig plainTable)) = (None, plainTable)"
  by (rule Cleanup_undoes_Configure [OF example_host example_serves std_listing_shows
        plainTable_builtins plainTable_untouched]) (simp add: list_all_iff)

end
