(* ===== verification/Firewall_Packets.thy ===== *)
theory Firewall_Packets
  imports Firewall_Table
begin

text \<open>
  What the configured table does to a packet. How iptables matches one option of a rule
  against a packet is not code of the repository: it is a parameter \<open>sat\<close>, any function with
  the laws of the locale \<open>netfilter\<close>, which are the documented meaning of the options that
  \<open>pkg/iptables\<close> writes (iptables(8), iptables-extensions(8)). A rule applies when all its
  options do, the first rule that applies decides, and \<open>RETURN\<close> leaves the chain. The
  properties say exactly which packets the two chains redirect, and to which port.
\<close>

section \<open>Packets, rules and verdicts\<close>

record 'a packet =
  p_proto :: string
  p_dport :: int
  p_oiface :: string
  p_uid :: "int option"
  p_gid :: "int option"
  p_src :: 'a

fun ruleApplies :: "(string \<Rightarrow> string \<Rightarrow> bool) \<Rightarrow> string list \<Rightarrow> bool" where
  "ruleApplies s [] = True"
| "ruleApplies s [_] = False"
| "ruleApplies s (f # v # r) = (s f v \<and> ruleApplies s r)"

fun optValue :: "string \<Rightarrow> string list \<Rightarrow> string option" where
  "optValue opt (f # v # r) = (if f = opt then Some v else optValue opt r)"
| "optValue opt _ = None"

datatype verdict = Redirected string | Passed

definition target :: "string list \<Rightarrow> verdict" where
  "target r =
     (if optValue ''-j'' r = Some ''REDIRECT''
      then (case optValue ''--to-port'' r of Some p \<Rightarrow> Redirected p | None \<Rightarrow> Passed)
      else Passed)"

definition decide :: "(string \<Rightarrow> string \<Rightarrow> bool) \<Rightarrow> string list list \<Rightarrow> verdict" where
  "decide s rules = (case find (ruleApplies s) rules of None \<Rightarrow> Passed | Some r \<Rightarrow> target r)"

text \<open>The verdict of a chain of a table on a packet; a chain that is not there decides nothing.\<close>

definition chainVerdict ::
    "('a packet \<Rightarrow> string \<Rightarrow> string \<Rightarrow> bool) \<Rightarrow> nat_table \<Rightarrow> string \<Rightarrow> 'a packet \<Rightarrow> verdict" where
  "chainVerdict sat t c p = (case t c of None \<Rightarrow> Passed | Some rules \<Rightarrow> decide (sat p) rules)"

lemma decide_Nil [simp]: "decide s [] = Passed"
  by (simp add: decide_def)

lemma decide_Cons [simp]:
  "decide s (r # rs) = (if ruleApplies s r then target r else decide s rs)"
  by (simp add: decide_def)

lemma decide_append:
  "decide s (xs @ ys) = (if \<exists>r \<in> set xs. ruleApplies s r then decide s xs else decide s ys)"
  by (induction xs) auto

lemma decide_returns:
  "\<forall>r \<in> set xs. target r = Passed \<Longrightarrow>
   decide s (xs @ ys) = (if \<exists>r \<in> set xs. ruleApplies s r then Passed else decide s ys)"
  by (induction xs) auto

section \<open>The documented meaning of the options\<close>

locale netfilter =
  fixes sat :: "'a packet \<Rightarrow> string \<Rightarrow> string \<Rightarrow> bool"
    and inSubnet :: "string \<Rightarrow> 'a \<Rightarrow> bool"
  assumes proto_tcp: "sat p ''-p'' ''tcp'' \<longleftrightarrow> p_proto p = ''tcp''"
    and proto_all: "sat p ''-p'' ''all''"
    and out_lo: "sat p ''-o'' ''lo'' \<longleftrightarrow> p_oiface p = ''lo''"
    and owner_uid: "0 < u \<Longrightarrow> u < 2 ^ 32 \<Longrightarrow> sat p ''--uid-owner'' (Itoa u) \<longleftrightarrow> p_uid p = Some u"
    and owner_gid: "0 < u \<Longrightarrow> u < 2 ^ 32 \<Longrightarrow> sat p ''--gid-owner'' (Itoa u) \<longleftrightarrow> p_gid p = Some u"
    and multiport: "rs \<noteq> [] \<Longrightarrow> list_all valid_range rs \<Longrightarrow> sum_list (map portCount rs) \<le> 15 \<Longrightarrow>
      sat p ''--dports'' (Join (map asDestination rs) '','') \<longleftrightarrow> (\<exists>r \<in> set rs. in_range r (p_dport p))"
    and dport: "0 \<le> n \<Longrightarrow> n \<le> 65535 \<Longrightarrow> sat p ''--destination-port'' (Itoa n) \<longleftrightarrow> p_dport p = n"
    and source: "sat p ''-s'' v \<longleftrightarrow> inSubnet v (p_src p)"
    and no_match: "f \<in> {''-m'', ''--match'', ''--comment'', ''-j'', ''--to-port''} \<Longrightarrow> sat p f v"
begin

lemmas options = proto_tcp proto_all out_lo source no_match

text \<open>A list of ignored ports becomes rules that apply exactly to the TCP packets for one of
  the ports of the entries that parse.\<close>

lemma slices_match:
  assumes "list_all valid_range (concat rss)" and "[] \<notin> set rss"
    and "list_all (\<lambda>rs. sum_list (map portCount rs) \<le> 15) rss"
  shows "(\<exists>rs \<in> set rss. sat p ''--dports'' (Join (map asDestination rs) '','')) \<longleftrightarrow>
    (\<exists>r \<in> set (concat rss). in_range r (p_dport p))"
  using assms
proof (induction rss)
  case (Cons rs rss)
  then have "sat p ''--dports'' (Join (map asDestination rs) '','') \<longleftrightarrow>
      (\<exists>r \<in> set rs. in_range r (p_dport p))"
    by (intro multiport) auto
  with Cons show ?case by auto
qed simp

end

lemma concat_map_split:
  "concat xss = map f ys \<Longrightarrow> \<exists>yss. xss = map (map f) yss \<and> concat yss = ys"
proof (induction xss arbitrary: ys)
  case (Cons xs xss)
  then have "xs @ concat xss = map f ys" by simp
  then obtain y1 y2 where "ys = y1 @ y2" "xs = map f y1" "concat xss = map f y2"
    by (auto simp: map_eq_append_conv append_eq_map_conv)
  with Cons.IH [of y2] obtain yss where "xss = map (map f) yss" "concat yss = y2" by blast
  with \<open>ys = y1 @ y2\<close> \<open>xs = map f y1\<close> show ?case
    by (intro exI [of _ "y1 # yss"]) simp
qed simp

lemma slicePorts_map: "list_all valid_range rs \<Longrightarrow> slicePorts (map asDestination rs) = sum_list (map portCount rs)"
  by (induction rs) (auto simp: destPorts_asDestination)

lemma multiport_ranges:
  obtains rss where "makeMultiportDestinations ps = map (map asDestination) rss"
    "concat rss = ranges ps" "list_all valid_range (concat rss)"
    "list_all (\<lambda>rs. sum_list (map portCount rs) \<le> 15) rss"
proof -
  have "concat (makeMultiportDestinations ps) = map asDestination (ranges ps)"
    by (simp add: makeMultiportDestinations_eq multiportLoop_concat)
  from concat_map_split [OF this] obtain rss where
    rss: "makeMultiportDestinations ps = map (map asDestination) rss" "concat rss = ranges ps"
    by blast
  have v: "list_all valid_range (concat rss)"
    using rss(2) ranges_valid by (auto simp: list_all_iff)
  have "list_all (\<lambda>s. slicePorts s \<le> 15) (makeMultiportDestinations ps)"
    using multiportLoop_limit [of 0 "[]" "[]" ps]
    by (simp add: makeMultiportDestinations_eq IptablesMultiportLimit_def)
  then have "list_all (\<lambda>rs. sum_list (map portCount rs) \<le> 15) rss"
    using rss(1) v slicePorts_map by (fastforce simp: list_all_iff)
  with rss v show thesis by (rule that)
qed

section \<open>The rules of the code\<close>

definition ignorePortRules :: "FirewallConfiguration \<Rightarrow> string \<Rightarrow> string list \<Rightarrow> string list list" where
  "ignorePortRules fc chain ps = map ruleArgs (addRulesForIgnoredPorts fc ps chain [])"

lemma ruleArgs_make:
  "ruleArgs (makeIgnoreUserID fc c i m) = [''-m'', ''owner'', ''--uid-owner'', Itoa i,
      ''-j'', ''RETURN'', ''-m'', ''comment'', ''--comment'', formatComment m]"
  "ruleArgs (makeIgnoreGroupID fc c i m) = [''-m'', ''owner'', ''--gid-owner'', Itoa i,
      ''-j'', ''RETURN'', ''-m'', ''comment'', ''--comment'', formatComment m]"
  "ruleArgs (makeRedirectChainToPort fc c i m) = [''-p'', ''tcp'', ''-j'', ''REDIRECT'',
      ''--to-port'', Itoa i, ''-m'', ''comment'', ''--comment'', formatComment m]"
  "ruleArgs (makeIgnorePorts fc c ds m) = [''-p'', ''tcp'', ''--match'', ''multiport'',
      ''--dports'', Join ds '','', ''-j'', ''RETURN'', ''-m'', ''comment'', ''--comment'', formatComment m]"
  "ruleArgs (makeIgnoreSubnet fc c sn m) = [''-p'', ''all'', ''-j'', ''RETURN'', ''-s'', sn,
      ''-m'', ''comment'', ''--comment'', formatComment m]"
  "ruleArgs (makeIgnoreLoopback fc c m) = [''-o'', ''lo'', ''-j'', ''RETURN'',
      ''-m'', ''comment'', ''--comment'', formatComment m]"
  "ruleArgs (makeRedirectChainToPortBasedOnDestinationPort fc c i j m) = [''-p'', ''tcp'',
      ''--destination-port'', Itoa i, ''-j'', ''REDIRECT'', ''--to-port'', Itoa j,
      ''-m'', ''comment'', ''--comment'', formatComment m]"
  by (simp_all add: ruleArgs_def cmd_simps exec_Command_def)

lemma ignorePortRules_target: "r \<in> set (ignorePortRules fc c ps) \<Longrightarrow> target r = Passed"
  by (auto simp: ignorePortRules_def addRulesForIgnoredPorts_def ruleArgs_make target_def)

text \<open>The ports of an ignore list.\<close>

definition ignoresPort :: "string list \<Rightarrow> int \<Rightarrow> bool" where
  "ignoresPort ps n \<longleftrightarrow> (\<exists>r \<in> set (ranges ps). in_range r n)"

text \<open>The list is empty or has an entry that parses, so that no rule has empty \<open>--dports\<close>.\<close>

definition usable :: "string list \<Rightarrow> bool" where
  "usable ps \<longleftrightarrow> ps = [] \<or> ranges ps \<noteq> []"

context netfilter
begin

lemma ignorePortRules_apply:
  assumes "usable ps"
  shows "(\<exists>r \<in> set (ignorePortRules fc c ps). ruleApplies (sat p) r) \<longleftrightarrow>
    p_proto p = ''tcp'' \<and> ignoresPort ps (p_dport p)"
proof -
  obtain rss where rss: "makeMultiportDestinations ps = map (map asDestination) rss"
    "concat rss = ranges ps" "list_all valid_range (concat rss)"
    "list_all (\<lambda>rs. sum_list (map portCount rs) \<le> 15) rss"
    by (rule multiport_ranges)
  have "[] \<notin> set (makeMultiportDestinations ps)"
    using assms multiport_empty_slice [of ps] by (auto simp: usable_def)
  then have "[] \<notin> set rss" using rss(1) by (auto simp: image_iff)
  from slices_match [OF rss(3) this rss(4)] show ?thesis
    by (auto simp: ignorePortRules_def addRulesForIgnoredPorts_def rss(1) ruleArgs_make options
        ignoresPort_def rss(2) simp flip: rss(2))
qed

lemma decide_ignorePorts:
  assumes "usable ps"
  shows "decide (sat p) (ignorePortRules fc c ps @ rs) =
    (if p_proto p = ''tcp'' \<and> ignoresPort ps (p_dport p) then Passed else decide (sat p) rs)"
  using ignorePortRules_apply [OF assms] ignorePortRules_target
  by (subst decide_returns) auto

lemma decide_subnets:
  "decide (sat p) (map (\<lambda>s. ruleArgs (makeIgnoreSubnet fc c s (m s))) ss @ rs) =
    (if \<exists>s \<in> set ss. inSubnet s (p_src p) then Passed else decide (sat p) rs)"
  by (subst decide_returns) (auto simp: ruleArgs_make target_def options)

lemma decide_listed:
  assumes "\<forall>n \<in> set ns. 0 \<le> n \<and> n \<le> 65535"
  shows "decide (sat p)
      (map (\<lambda>n. ruleArgs (makeRedirectChainToPortBasedOnDestinationPort fc c n port (m n))) ns) =
    (if p_proto p = ''tcp'' \<and> p_dport p \<in> set ns then Redirected (Itoa port) else Passed)"
  using assms by (induction ns) (auto simp: ruleArgs_make target_def options dport)

end

text \<open>The verdict of the outgoing chain.\<close>

context netfilter
begin

lemma decide_outputRules:
  assumes "usable (OutboundPortsToIgnore fc)" and "ProxyUID fc < 2 ^ 32" and "ProxyGID fc < 2 ^ 32"
  shows "decide (sat p) (outputRules fc) =
    (if p_proto p = ''tcp'' \<and> p_oiface p \<noteq> ''lo'' \<and>
        \<not> (ProxyUID fc > 0 \<and> p_uid p = Some (ProxyUID fc)) \<and>
        \<not> (ProxyGID fc > 0 \<and> p_gid p = Some (ProxyGID fc)) \<and>
        \<not> ignoresPort (OutboundPortsToIgnore fc) (p_dport p)
     then Redirected (Itoa (ProxyOutgoingPort fc)) else Passed)"
proof -
  let ?m = "''redirect-all-outgoing-to-proxy-port''"
  have "outputRules fc =
      map ruleArgs (take (length (outputBody fc) - length (addRulesForIgnoredPorts fc
        (OutboundPortsToIgnore fc) outputChainName []) - 1) (outputBody fc)) @
      ignorePortRules fc outputChainName (OutboundPortsToIgnore fc) @
      [ruleArgs (makeRedirectChainToPort fc outputChainName (ProxyOutgoingPort fc) ?m)]"
    by (simp add: outputRules_def outputBody_def ignorePortRules_def)
  moreover have "decide (sat p) (ignorePortRules fc outputChainName (OutboundPortsToIgnore fc) @
      [ruleArgs (makeRedirectChainToPort fc outputChainName (ProxyOutgoingPort fc) ?m)]) =
      (if p_proto p = ''tcp'' \<and> \<not> ignoresPort (OutboundPortsToIgnore fc) (p_dport p)
       then Redirected (Itoa (ProxyOutgoingPort fc)) else Passed)"
    by (simp add: decide_ignorePorts [OF assms(1)] ruleArgs_make target_def options)
  ultimately show ?thesis
    using assms(2,3)
    by (simp add: outputBody_def ruleArgs_make target_def options owner_uid owner_gid)
qed

lemma decide_redirectRules:
  assumes "usable (InboundPortsToIgnore fc)"
    and "\<forall>n \<in> set (PortsToRedirectInbound fc). 0 \<le> n \<and> n \<le> 65535"
  shows "decide (sat p) (redirectRules fc) =
    (if p_proto p = ''tcp'' \<and> \<not> ignoresPort (InboundPortsToIgnore fc) (p_dport p) \<and>
        \<not> (\<exists>s \<in> set (SubnetsToIgnore fc). inSubnet s (p_src p)) \<and>
        (Mode fc = RedirectAllMode \<or>
         Mode fc = RedirectListedMode \<and> p_dport p \<in> set (PortsToRedirectInbound fc))
     then Redirected (Itoa (ProxyInboundPort fc)) else Passed)"
proof -
  define last where "last = (\<lambda>cs. map ruleArgs (addRulesForInboundPortRedirect fc redirectChainName cs))"
  have "redirectRules fc = ignorePortRules fc redirectChainName (InboundPortsToIgnore fc) @
      map (\<lambda>s. ruleArgs (makeIgnoreSubnet fc redirectChainName s (''ignore-subnet-'' @ s)))
        (SubnetsToIgnore fc) @ last []"
    by (simp add: redirectRules_def redirectBody_def ignorePortRules_def last_def
        addRulesForIgnoredSubnets_def addRulesForInboundPortRedirect_def o_def)
  moreover have "decide (sat p) (last []) =
      (if p_proto p = ''tcp'' \<and> (Mode fc = RedirectAllMode \<or>
         Mode fc = RedirectListedMode \<and> p_dport p \<in> set (PortsToRedirectInbound fc))
       then Redirected (Itoa (ProxyInboundPort fc)) else Passed)"
  proof (cases "Mode fc = RedirectAllMode")
    case True
    then show ?thesis
      by (simp add: last_def addRulesForInboundPortRedirect_def ruleArgs_make target_def options)
  next
    case False
    then show ?thesis
      using decide_listed [OF assms(2), of p fc redirectChainName "ProxyInboundPort fc"]
      by (simp add: last_def addRulesForInboundPortRedirect_def o_def)
  qed
  ultimately show ?thesis
    by (simp add: decide_ignorePorts [OF assms(1)] decide_subnets)
qed

end

section \<open>A reference matcher\<close>

text \<open>An executable matcher with the documented meaning, for any meaning of subnets.\<close>

definition destMatches :: "int \<Rightarrow> string \<Rightarrow> bool" where
  "destMatches n d =
     (case map Atoi (Split d CHR '':'') of
        [Inr a] \<Rightarrow> n = a
      | [Inr lo, Inr hi] \<Rightarrow> lo \<le> n \<and> n \<le> hi
      | _ \<Rightarrow> False)"

definition std_sat :: "(string \<Rightarrow> 'a \<Rightarrow> bool) \<Rightarrow> 'a packet \<Rightarrow> string \<Rightarrow> string \<Rightarrow> bool" where
  "std_sat inSubnet p f v =
     (if f = ''-p'' then v = ''all'' \<or> p_proto p = v
      else if f = ''-o'' then p_oiface p = v
      else if f = ''--uid-owner'' then (case Atoi v of Inr u \<Rightarrow> p_uid p = Some u | Inl _ \<Rightarrow> False)
      else if f = ''--gid-owner'' then (case Atoi v of Inr u \<Rightarrow> p_gid p = Some u | Inl _ \<Rightarrow> False)
      else if f = ''--dports'' then list_ex (destMatches (p_dport p)) (Split v CHR '','')
      else if f = ''--destination-port'' then Atoi v = Inr (p_dport p)
      else if f = ''-s'' then inSubnet v (p_src p)
      else f \<in> {''-m'', ''--match'', ''--comment'', ''-j'', ''--to-port''})"

lemma Atoi_Itoa_small: "0 \<le> i \<Longrightarrow> i < 2 ^ 32 \<Longrightarrow> Atoi (Itoa i) = Inr i"
  by (rule Atoi_Itoa) simp_all

lemma destMatches_asDestination:
  assumes "valid_range r"
  shows "destMatches n (asDestination r) \<longleftrightarrow> in_range r n"
proof -
  have b: "0 \<le> LowerBound r" "LowerBound r \<le> UpperBound r" "UpperBound r \<le> 65535"
    using assms by (simp_all add: valid_range_def)
  then have c: "CHR '':'' \<notin> set (Itoa (LowerBound r))" "CHR '':'' \<notin> set (Itoa (UpperBound r))"
    using Itoa_nonneg_no_char [OF _ not_digits(4)] by simp_all
  have "Atoi (Itoa (LowerBound r)) = Inr (LowerBound r)" "Atoi (Itoa (UpperBound r)) = Inr (UpperBound r)"
    using b by (simp_all add: Atoi_Itoa_small)
  then show ?thesis
    using c by (auto simp: destMatches_def asDestination_def in_range_def Split_no_sep Split_append_sep)
qed

lemma asDestination_no_comma: "valid_range r \<Longrightarrow> CHR '','' \<notin> set (asDestination r)"
  using Itoa_nonneg_no_char [of "LowerBound r" "CHR '',''"]
    Itoa_nonneg_no_char [of "UpperBound r" "CHR '',''"]
  by (auto simp: asDestination_def valid_range_def)

lemma std_sat_multiport:
  assumes "rs \<noteq> []" and "list_all valid_range rs"
  shows "std_sat inSubnet p ''--dports'' (Join (map asDestination rs) '','') \<longleftrightarrow>
    (\<exists>r \<in> set rs. in_range r (p_dport p))"
proof -
  have "Split (Join (map asDestination rs) '','') CHR '','' = map asDestination rs"
    using assms asDestination_no_comma by (intro Split_Join) (auto simp: list_all_iff)
  then show ?thesis
    using assms(2) by (auto simp: std_sat_def list_ex_iff list_all_iff destMatches_asDestination)
qed

interpretation std_match: netfilter "std_sat inSubnet" inSubnet for inSubnet
proof unfold_locales
  fix p :: "'a packet" and n :: int
  assume "0 \<le> n" "n \<le> 65535"
  then show "std_sat inSubnet p ''--destination-port'' (Itoa n) = (p_dport p = n)"
    by (auto simp: std_sat_def Atoi_Itoa_small)
qed (auto simp: std_sat_def Atoi_Itoa_small std_sat_multiport [unfolded std_sat_def, simplified])

lemmas exampleHost_configured = nat_host_total.axioms(1) [OF example_host] example_serves
  example_continue example_save std_listing_shows plainTable_builtins example_run

section \<open>Properties\<close>

lemma configured_chains:
  "configured fc t outputChainName = Some (outputRules fc)"
  "configured fc t redirectChainName = Some (redirectRules fc)"
  by (simp_all add: configured_def installed_at chain_names)

text \<open>C3. Outbound traffic: the table after a successful \<open>ConfigureFirewall\<close> redirects a packet to the proxy's outbound
  port exactly when it is TCP, does not leave through the loopback interface, does not belong
  to the proxy's own user or group (when these are set), and is not for an ignored port. In
  particular the proxy's own traffic is never sent back to the proxy.\<close>

theorem outbound_redirected_iff:
  assumes "nat_host run bin save ns wait"
    and "serves bin save ns wait (resolveBinFallback fc lp)" and "\<not> ContinueOnError fc"
    and "run (save_argv ns save) t = ((txt, None), t)" and "listing_shows t txt" and "builtins t"
    and "ConfigureFirewall lp run fc t = (None, t')"
    and "netfilter sat inSubnet" and "usable (OutboundPortsToIgnore fc)"
    and "ProxyUID fc < 2 ^ 32" and "ProxyGID fc < 2 ^ 32"
  shows "chainVerdict sat t' outputChainName p =
    (if p_proto p = ''tcp'' \<and> p_oiface p \<noteq> ''lo'' \<and>
        \<not> (ProxyUID fc > 0 \<and> p_uid p = Some (ProxyUID fc)) \<and>
        \<not> (ProxyGID fc > 0 \<and> p_gid p = Some (ProxyGID fc)) \<and>
        \<not> ignoresPort (OutboundPortsToIgnore fc) (p_dport p)
     then Redirected (Itoa (ProxyOutgoingPort fc)) else Passed)"
  unfolding nat_host.configure_refined [OF assms(1-7)]
  by (simp add: chainVerdict_def configured_chains netfilter.decide_outputRules [OF assms(8-11)])

theorem outbound_redirected_iff_witness:
  "chainVerdict (std_sat (\<lambda>_ _. False)) (snd (ConfigureFirewall everyBinary exampleHost exampleConfig plainTable)) outputChainName
     \<lparr>p_proto = ''tcp'', p_dport = 80, p_oiface = ''eth0'', p_uid = Some 1000, p_gid = None, p_src = ()\<rparr>
     = Redirected ''4140'' \<and>
   chainVerdict (std_sat (\<lambda>_ _. False)) (snd (ConfigureFirewall everyBinary exampleHost exampleConfig plainTable)) outputChainName
     \<lparr>p_proto = ''tcp'', p_dport = 80, p_oiface = ''eth0'', p_uid = Some 2102, p_gid = None, p_src = ()\<rparr>
     = Passed"
proof -
  have r: "ranges [''443'', ''x''] = [\<lparr>LowerBound = 443, UpperBound = 443\<rparr>]" "Itoa 4140 = ''4140''"
    by (simp_all add: go_simps)
  have c: "usable (OutboundPortsToIgnore exampleConfig)" "ProxyUID exampleConfig < 2 ^ 32"
    "ProxyGID exampleConfig < 2 ^ 32"
    using r by (simp_all add: usable_def exampleConfig_def del: ranges_simps)
  show ?thesis
    using outbound_redirected_iff [OF exampleHost_configured std_match.netfilter_axioms c, of "\<lambda>_ _. False"
        "\<lparr>p_proto = ''tcp'', p_dport = 80, p_oiface = ''eth0'', p_uid = Some 1000, p_gid = None, p_src = ()\<rparr>"]
      outbound_redirected_iff [OF exampleHost_configured std_match.netfilter_axioms c, of "\<lambda>_ _. False"
        "\<lparr>p_proto = ''tcp'', p_dport = 80, p_oiface = ''eth0'', p_uid = Some 2102, p_gid = None, p_src = ()\<rparr>"]
      r example_run by (simp add: exampleConfig_def ignoresPort_def in_range_def del: ranges_simps)
qed

text \<open>C4. Inbound traffic: the table after a successful \<open>ConfigureFirewall\<close> redirects a packet to the proxy's inbound port
  exactly when it is TCP, its port is not ignored, its source is in no ignored subnet, and
  either all ports are redirected or its port is one of the listed ones.\<close>

theorem inbound_redirected_iff:
  assumes "nat_host run bin save ns wait"
    and "serves bin save ns wait (resolveBinFallback fc lp)" and "\<not> ContinueOnError fc"
    and "run (save_argv ns save) t = ((txt, None), t)" and "listing_shows t txt" and "builtins t"
    and "ConfigureFirewall lp run fc t = (None, t')"
    and "netfilter sat inSubnet" and "usable (InboundPortsToIgnore fc)"
    and "\<forall>n \<in> set (PortsToRedirectInbound fc). 0 \<le> n \<and> n \<le> 65535"
  shows "chainVerdict sat t' redirectChainName p =
    (if p_proto p = ''tcp'' \<and> \<not> ignoresPort (InboundPortsToIgnore fc) (p_dport p) \<and>
        \<not> (\<exists>s \<in> set (SubnetsToIgnore fc). inSubnet s (p_src p)) \<and>
        (Mode fc = RedirectAllMode \<or>
         Mode fc = RedirectListedMode \<and> p_dport p \<in> set (PortsToRedirectInbound fc))
     then Redirected (Itoa (ProxyInboundPort fc)) else Passed)"
  unfolding nat_host.configure_refined [OF assms(1-7)]
  by (simp add: chainVerdict_def configured_chains netfilter.decide_redirectRules [OF assms(8-10)])

theorem inbound_redirected_iff_witness:
  "chainVerdict (std_sat (\<lambda>sn a. sn = ''10.0.0.0/8'' \<and> a)) (snd (ConfigureFirewall everyBinary exampleHost exampleConfig plainTable))
     redirectChainName
     \<lparr>p_proto = ''tcp'', p_dport = 80, p_oiface = [], p_uid = None, p_gid = None, p_src = False\<rparr>
     = Redirected ''4143'' \<and>
   chainVerdict (std_sat (\<lambda>sn a. sn = ''10.0.0.0/8'' \<and> a)) (snd (ConfigureFirewall everyBinary exampleHost exampleConfig plainTable))
     redirectChainName
     \<lparr>p_proto = ''tcp'', p_dport = 24, p_oiface = [], p_uid = None, p_gid = None, p_src = False\<rparr>
     = Passed"
proof -
  have r: "ranges [''4190'', ''22-25''] = [\<lparr>LowerBound = 4190, UpperBound = 4190\<rparr>,
      \<lparr>LowerBound = 22, UpperBound = 25\<rparr>]" "Itoa 4143 = ''4143''"
    by (simp_all add: go_simps)
  have c: "usable (InboundPortsToIgnore exampleConfig)"
    "\<forall>n \<in> set (PortsToRedirectInbound exampleConfig). 0 \<le> n \<and> n \<le> 65535"
    using r by (simp_all add: usable_def exampleConfig_def del: ranges_simps)
  show ?thesis
    using inbound_redirected_iff [OF exampleHost_configured std_match.netfilter_axioms c,
        of "\<lambda>sn a. sn = ''10.0.0.0/8'' \<and> a"
        "\<lparr>p_proto = ''tcp'', p_dport = 80, p_oiface = [], p_uid = None, p_gid = None, p_src = False\<rparr>"]
      inbound_redirected_iff [OF exampleHost_configured std_match.netfilter_axioms c,
        of "\<lambda>sn a. sn = ''10.0.0.0/8'' \<and> a"
        "\<lparr>p_proto = ''tcp'', p_dport = 24, p_oiface = [], p_uid = None, p_gid = None, p_src = False\<rparr>"]
      r example_run by (simp add: exampleConfig_def ignoresPort_def in_range_def RedirectAllMode_def
          del: ranges_simps)
qed

end
