(* ===== verification/Go_Net.thy ===== *)
theory Go_Net
  imports Go_Strconv
begin

text \<open>
  \<open>net.ParseCIDR\<close> of Go's standard library, as far as the program looks at it: whether a
  string is a CIDR address, and of which address length. The parsers follow
  \<open>net/netip\<close>: dotted IPv4 fields without leading zeros, IPv6 groups of up to four hex digits
  with one ellipsis and an optional IPv4 tail, and zones (which \<open>ParseCIDR\<close> refuses).
\<close>

section \<open>IPv4\<close>

text \<open>The loop of \<open>parseIPv4Fields\<close>: current value, fields done, digits of the current field,
  the previous character and the rest of the string.\<close>

fun ipv4Loop :: "nat \<Rightarrow> nat \<Rightarrow> nat \<Rightarrow> char option \<Rightarrow> string \<Rightarrow> bool" where
  "ipv4Loop val pos digLen prev [] = (pos \<ge> 3)"
| "ipv4Loop val pos digLen prev (c # cs) =
     (if isDigit c then
        (if digLen = 1 \<and> val = 0 then False
         else if val * 10 + digitVal c > 255 then False
         else ipv4Loop (val * 10 + digitVal c) pos (Suc digLen) (Some c) cs)
      else if c = CHR ''.'' then
        (if prev = None \<or> cs = [] \<or> prev = Some CHR ''.'' then False
         else if pos = 3 then False
         else ipv4Loop 0 (Suc pos) 0 (Some c) cs)
      else False)"

definition parseIPv4 :: "string \<Rightarrow> bool" where
  "parseIPv4 s = ipv4Loop 0 0 0 None s"

section \<open>IPv6\<close>

definition hexDigit :: "char \<Rightarrow> bool" where
  [go_simps]: "hexDigit c \<longleftrightarrow> isDigit c \<or>
     (97 \<le> (of_char c :: nat) \<and> (of_char c :: nat) \<le> 102) \<or>
     (65 \<le> (of_char c :: nat) \<and> (of_char c :: nat) \<le> 70)"

text \<open>The digits of one group: their number and the rest, \<open>None\<close> when there are more than
  four.\<close>

fun hexRun :: "nat \<Rightarrow> string \<Rightarrow> (nat \<times> string) option" where
  "hexRun off [] = Some (off, [])"
| "hexRun off (c # cs) =
     (if hexDigit c then (if off > 3 then None else hexRun (Suc off) cs)
      else Some (off, c # cs))"

lemma hexRun_length: "hexRun off s = Some (n, r) \<Longrightarrow> length r + n = length s + off"
  by (induction off s rule: hexRun.induct) (auto split: if_splits)

text \<open>The end of \<open>parseIPv6\<close>: nothing may be left, and the ellipsis must stand for at least
  one group, no more and no less.\<close>

definition ipv6Finish :: "nat \<Rightarrow> nat option \<Rightarrow> string \<Rightarrow> bool" where
  "ipv6Finish i ellipsis s =
     (if s \<noteq> [] then False else if i < 16 then ellipsis \<noteq> None else ellipsis = None)"

function ipv6Loop :: "nat \<Rightarrow> nat option \<Rightarrow> string \<Rightarrow> bool" where
  "ipv6Loop i ellipsis s =
     (if i \<ge> 16 then ipv6Finish i ellipsis s
      else case hexRun 0 s of
        None \<Rightarrow> False
      | Some (off, rest) \<Rightarrow>
          if off = 0 then False
          else if rest \<noteq> [] \<and> hd rest = CHR ''.'' then
            (if ellipsis = None \<and> i \<noteq> 12 then False
             else if i + 4 > 16 then False
             else parseIPv4 s \<and> ipv6Finish (i + 4) ellipsis [])
          else if rest = [] then ipv6Finish (i + 2) ellipsis []
          else if hd rest \<noteq> CHR '':'' then False
          else if length rest = 1 then False
          else if hd (tl rest) = CHR '':'' then
            (if ellipsis \<noteq> None then False
             else if tl (tl rest) = [] then ipv6Finish (i + 2) (Some (i + 2)) []
             else ipv6Loop (i + 2) (Some (i + 2)) (tl (tl rest)))
          else ipv6Loop (i + 2) ellipsis (tl rest))"
  by pat_completeness auto
termination
  by (relation "measure (\<lambda>(i, ellipsis, s). length s)") (auto dest!: hexRun_length)

declare ipv6Loop.simps [simp del]

definition parseIPv6Body :: "string \<Rightarrow> bool" where
  "parseIPv6Body s =
     (if prefix ''::'' s then drop 2 s = [] \<or> ipv6Loop 0 (Some 0) (drop 2 s)
      else ipv6Loop 0 None s)"

section \<open>Addresses and CIDR\<close>

text \<open>\<open>netip.ParseAddr\<close>: the address length in bits and the zone.\<close>

definition ParseAddr :: "string \<Rightarrow> (nat \<times> string) option" where
  "ParseAddr s =
     (case find (\<lambda>c. c = CHR ''.'' \<or> c = CHR '':'' \<or> c = CHR ''%'') s of
        Some c \<Rightarrow>
          if c = CHR ''.'' then (if parseIPv4 s then Some (32, []) else None)
          else if c = CHR '':'' then
            (let body = takeWhile (\<lambda>c. c \<noteq> CHR ''%'') s; zone = drop (Suc (length body)) s in
             if CHR ''%'' \<in> set s \<and> zone = [] then None
             else if parseIPv6Body body then Some (128, zone) else None)
          else None
      | None \<Rightarrow> None)"

text \<open>\<open>dtoi\<close> on a whole string, with its bound.\<close>

fun dtoiLoop :: "nat \<Rightarrow> string \<Rightarrow> nat option" where
  "dtoiLoop n [] = Some n"
| "dtoiLoop n (c # cs) =
     (if isDigit c then
        (if n * 10 + digitVal c \<ge> 0xFFFFFF then None else dtoiLoop (n * 10 + digitVal c) cs)
      else None)"

text \<open>\<open>net.ParseCIDR\<close>: the address length in bits, or \<open>None\<close> for the error.\<close>

definition ParseCIDR :: "string \<Rightarrow> nat option" where
  "ParseCIDR s =
     (if CHR ''/'' \<notin> set s then None
      else let addr = takeWhile (\<lambda>c. c \<noteq> CHR ''/'') s; mask = drop (Suc (length addr)) s in
      case ParseAddr addr of
        None \<Rightarrow> None
      | Some (bits, zone) \<Rightarrow>
          if zone \<noteq> [] then None
          else if mask = [] then None
          else case dtoiLoop 0 mask of
            None \<Rightarrow> None
          | Some n \<Rightarrow> if n > bits then None else Some bits)"

declare ParseCIDR_def [go_simps] ParseAddr_def [go_simps] parseIPv4_def [go_simps]
  parseIPv6Body_def [go_simps] ipv6Finish_def [go_simps] ipv6Loop.simps [go_simps]

lemma ParseCIDR_examples:
  "ParseCIDR ''10.0.0.0/8'' = Some 32" "ParseCIDR ''fd00::/8'' = Some 128"
  "ParseCIDR ''::ffff:1.2.3.4/96'' = Some 128" "ParseCIDR ''::/0'' = Some 128"
  "ParseCIDR ''1.2.3.4'' = None" "ParseCIDR ''1.2.3/8'' = None" "ParseCIDR ''1.2.3.04/8'' = None"
  "ParseCIDR ''1.2.3.4/33'' = None" "ParseCIDR ''fe80::1%eth0/64'' = None" "ParseCIDR '''' = None"
  by (simp_all add: go_simps)

lemma ParseCIDR_bits: "ParseCIDR s = Some b \<Longrightarrow> b = 32 \<or> b = 128"
  by (auto simp: ParseCIDR_def ParseAddr_def Let_def split: if_splits option.splits)

end
