(* ===== verification/Root_Command.thy ===== *)
theory Root_Command
  imports Firewall_Packets Go_Net
begin

text \<open>
  \<open>proxy-init/cmd/root.go\<close>: the options, \<open>BuildFirewallConfiguration\<close> with
  \<open>getCommands\<close>, and the \<open>RunE\<close> function of the root command. \<open>BuildFirewallConfiguration\<close>
  receives a pointer and fills in the iptables mode there, so it returns the options beside
  its result. \<open>log.ParseLevel\<close> (logrus) is a parameter; setting the level and the formatter
  are logging and are dropped. Each \<open>fmt.Errorf\<close> is a constructor of \<open>build_error\<close>.
\<close>

section \<open>Options\<close>

record RootOptions =
  IncomingProxyPort :: int
  OutgoingProxyPort :: int
  ProxyUserID :: int
  ProxyGroupID :: int
  PortsToRedirect :: "int list"
  InboundPortsToIgnore :: "string list"
  OutboundPortsToIgnore :: "string list"
  SubnetsToIgnore :: "string list"
  SimulateOnly :: bool
  NetNs :: string
  UseWaitFlag :: bool
  TimeoutCloseWaitSecs :: int
  LogFormat :: string
  LogLevel :: string
  FirewallBinPath :: string
  FirewallSaveBinPath :: string
  IPTablesMode :: string
  IPv6 :: bool

definition newRootOptions :: RootOptions where
  "newRootOptions = \<lparr>IncomingProxyPort = -1, OutgoingProxyPort = -1, ProxyUserID = -1,
     ProxyGroupID = -1, PortsToRedirect = [], InboundPortsToIgnore = [],
     OutboundPortsToIgnore = [], SubnetsToIgnore = [], SimulateOnly = False, NetNs = '''',
     UseWaitFlag = False, TimeoutCloseWaitSecs = 0, LogFormat = ''plain'', LogLevel = ''info'',
     FirewallBinPath = '''', FirewallSaveBinPath = '''', IPTablesMode = '''', IPv6 = True\<rparr>"

definition IPTablesModeLegacy :: string where
  "IPTablesModeLegacy = ''legacy''"

definition IPTablesModeNFT :: string where
  "IPTablesModeNFT = ''nft''"

definition IPTablesModePlain :: string where
  "IPTablesModePlain = ''plain''"

lemmas mode_names = IPTablesModeLegacy_def IPTablesModeNFT_def IPTablesModePlain_def

datatype build_error =
    BadIPTablesMode
  | BadFirewallBinPath
  | BadIncomingPort
  | BadOutgoingPort
  | BadCIDR string

section \<open>Building a configuration\<close>

definition getCommands :: "RootOptions \<Rightarrow> string \<times> string" where
  "getCommands options =
     (if IPTablesMode options = IPTablesModeLegacy then
        (if IPv6 options then (''ip6tables-legacy'', ''ip6tables-legacy-save'')
         else (''iptables-legacy'', ''iptables-legacy-save''))
      else if IPTablesMode options = IPTablesModeNFT then
        (if IPv6 options then (''ip6tables-nft'', ''ip6tables-nft-save'')
         else (''iptables-nft'', ''iptables-nft-save''))
      else
        (if IPv6 options then (''ip6tables'', ''ip6tables-save'')
         else (''iptables'', ''iptables-save'')))"

text \<open>The loop over the subnets: trim, check, collect; stop at the first invalid one.\<close>

fun sanitizeSubnets :: "string list \<Rightarrow> string list \<Rightarrow> (build_error, string list) result" where
  "sanitizeSubnets sanitized [] = Inr sanitized"
| "sanitizeSubnets sanitized (subnet # rest) =
     (case ParseCIDR (TrimSpace subnet) of
        None \<Rightarrow> Inl (BadCIDR (TrimSpace subnet))
      | Some _ \<Rightarrow> sanitizeSubnets (sanitized @ [TrimSpace subnet]) rest)"

text \<open>The switch on the binary path when no mode is given.\<close>

definition modeOfBinPath :: "string \<Rightarrow> string option" where
  "modeOfBinPath bin =
     (if bin = '''' \<or> bin = ''iptables-legacy'' then Some IPTablesModeLegacy
      else if bin = ''iptables-nft'' then Some IPTablesModeNFT
      else if bin = ''iptables'' then Some IPTablesModePlain
      else None)"

definition firewallConfigurationOf ::
    "RootOptions \<Rightarrow> string \<times> string \<Rightarrow> string list \<Rightarrow> FirewallConfiguration" where
  "firewallConfigurationOf options cmds sanitizedSubnets =
     FirewallConfiguration.make
       (if length (PortsToRedirect options) > 0 then RedirectListedMode else RedirectAllMode)
       (PortsToRedirect options) (InboundPortsToIgnore options) (OutboundPortsToIgnore options)
       sanitizedSubnets (IncomingProxyPort options) (OutgoingProxyPort options)
       (ProxyUserID options) (ProxyGroupID options) (SimulateOnly options) (NetNs options)
       (UseWaitFlag options) (fst cmds) (snd cmds) False"

definition BuildFirewallConfiguration ::
    "RootOptions \<Rightarrow> (build_error, FirewallConfiguration) result \<times> RootOptions" where
  "BuildFirewallConfiguration options =
     (if IPTablesMode options \<noteq> '''' \<and> IPTablesMode options \<noteq> IPTablesModeLegacy \<and>
         IPTablesMode options \<noteq> IPTablesModeNFT \<and> IPTablesMode options \<noteq> IPTablesModePlain
      then (Inl BadIPTablesMode, options)
      else case (if IPTablesMode options = '''' then modeOfBinPath (FirewallBinPath options)
                 else Some (IPTablesMode options)) of
        None \<Rightarrow> (Inl BadFirewallBinPath, options)
      | Some mode \<Rightarrow>
          let options = options\<lparr>IPTablesMode := mode\<rparr> in
          if \<not> IsValidPort (IncomingProxyPort options) then (Inl BadIncomingPort, options)
          else if \<not> IsValidPort (OutgoingProxyPort options) then (Inl BadOutgoingPort, options)
          else case sanitizeSubnets [] (SubnetsToIgnore options) of
            Inl e \<Rightarrow> (Inl e, options)
          | Inr sanitizedSubnets \<Rightarrow>
              (Inr (firewallConfigurationOf options (getCommands options) sanitizedSubnets), options))"

section \<open>The root command\<close>

datatype run_error = SysctlFailed error | BadLogLevel error | BuildFailed build_error | FirewallFailed error

definition sysctlArgs :: "int \<Rightarrow> string list" where
  "sysctlArgs secs = [''sysctl'', ''-w'',
     ''net.netfilter.nf_conntrack_tcp_timeout_close_wait='' @ Itoa secs]"

text \<open>Build and configure for one address family, as \<open>RunE\<close> does twice.\<close>

definition buildAndRun ::
    "(string \<Rightarrow> (error, string) result) \<Rightarrow> 'w runner \<Rightarrow> RootOptions \<Rightarrow> 'w \<Rightarrow> run_error option \<times> 'w" where
  "buildAndRun lookPath run options w =
     (case fst (BuildFirewallConfiguration options) of
        Inl e \<Rightarrow> (Some (BuildFailed e), w)
      | Inr config \<Rightarrow>
          (case ConfigureFirewall lookPath run config w of
             (Some err, w') \<Rightarrow> (Some (FirewallFailed err), w')
           | (None, w') \<Rightarrow> (None, w')))"

definition RunE ::
    "(string \<Rightarrow> (error, string) result) \<Rightarrow> 'w runner \<Rightarrow> (string \<Rightarrow> (error, 'l) result) \<Rightarrow>
     RootOptions \<Rightarrow> 'w \<Rightarrow> run_error option \<times> 'w" where
  "RunE lookPath run parseLevel options w =
     (case (if TimeoutCloseWaitSecs options \<noteq> 0
            then (let r = run (sysctlArgs (TimeoutCloseWaitSecs options)) w in (snd (fst r), snd r))
            else (None, w)) of
        (Some err, w1) \<Rightarrow> (Some (SysctlFailed err), w1)
      | (None, w1) \<Rightarrow>
          (case parseLevel (LogLevel options) of
             Inl err \<Rightarrow> (Some (BadLogLevel err), w1)
           | Inr _ \<Rightarrow>
               (case buildAndRun lookPath run (options\<lparr>IPv6 := False\<rparr>) w1 of
                  (Some err, w2) \<Rightarrow> (Some err, w2)
                | (None, w2) \<Rightarrow>
                    if \<not> IPv6 options then (None, w2)
                    else buildAndRun lookPath run options w2)))"

section \<open>Subnets\<close>

lemma sanitizeSubnets_ok:
  "sanitizeSubnets acc ss = Inr out \<longleftrightarrow>
     out = acc @ map TrimSpace ss \<and> (\<forall>s \<in> set ss. ParseCIDR (TrimSpace s) \<noteq> None)"
  by (induction acc ss rule: sanitizeSubnets.induct) (auto split: option.splits)

lemma sanitizeSubnets_err:
  "sanitizeSubnets acc ss = Inl e \<Longrightarrow> \<exists>s \<in> set ss. e = BadCIDR (TrimSpace s) \<and> ParseCIDR (TrimSpace s) = None"
  by (induction acc ss rule: sanitizeSubnets.induct) (auto split: option.splits)

section \<open>The mode\<close>

text \<open>The mode in force: the one given, or the one that the binary path stands for.\<close>

definition effectiveMode :: "RootOptions \<Rightarrow> string option" where
  "effectiveMode options =
     (if IPTablesMode options = '''' then modeOfBinPath (FirewallBinPath options)
      else if IPTablesMode options \<in> {IPTablesModeLegacy, IPTablesModeNFT, IPTablesModePlain}
      then Some (IPTablesMode options) else None)"

lemma Build_unfold:
  "BuildFirewallConfiguration options =
     (case effectiveMode options of
        None \<Rightarrow> (Inl (if IPTablesMode options = '''' then BadFirewallBinPath else BadIPTablesMode), options)
      | Some mode \<Rightarrow>
          (if \<not> IsValidPort (IncomingProxyPort options) then Inl BadIncomingPort
           else if \<not> IsValidPort (OutgoingProxyPort options) then Inl BadOutgoingPort
           else case sanitizeSubnets [] (SubnetsToIgnore options) of
             Inl e \<Rightarrow> Inl e
           | Inr sn \<Rightarrow> Inr (firewallConfigurationOf options (getCommands (options\<lparr>IPTablesMode := mode\<rparr>)) sn),
           options\<lparr>IPTablesMode := mode\<rparr>))"
  by (auto simp: BuildFirewallConfiguration_def effectiveMode_def firewallConfigurationOf_def
      Let_def split: option.splits sum.splits)

lemma Build_Inr_iff:
  "fst (BuildFirewallConfiguration options) = Inr fc \<longleftrightarrow>
     IsValidPort (IncomingProxyPort options) \<and> IsValidPort (OutgoingProxyPort options) \<and>
     list_all (\<lambda>s. ParseCIDR (TrimSpace s) \<noteq> None) (SubnetsToIgnore options) \<and>
     (\<exists>mode. effectiveMode options = Some mode \<and>
        fc = firewallConfigurationOf options (getCommands (options\<lparr>IPTablesMode := mode\<rparr>))
               (map TrimSpace (SubnetsToIgnore options)))"
proof (cases "sanitizeSubnets [] (SubnetsToIgnore options)")
  case (Inl e)
  then show ?thesis
    using sanitizeSubnets_err [OF Inl] by (auto simp: Build_unfold list_all_iff split: option.splits)
next
  case (Inr sn)
  then show ?thesis
    using sanitizeSubnets_ok [of "[]" "SubnetsToIgnore options" sn]
    by (auto simp: Build_unfold list_all_iff split: option.splits)
qed

lemma getCommands_pair:
  "effectiveMode options = Some mode \<Longrightarrow>
   getCommands (options\<lparr>IPTablesMode := mode\<rparr>) \<in>
     set (if IPv6 options then candidatesIPv6 else candidatesIPv4)"
  by (auto simp: effectiveMode_def modeOfBinPath_def getCommands_def candidatesIPv6_def
      candidatesIPv4_def mode_names split: if_splits)

lemma config_of_selectors [simp]:
  "BinPath (firewallConfigurationOf options cmds sn) = fst cmds"
  "SaveBinPath (firewallConfigurationOf options cmds sn) = snd cmds"
  "Mode (firewallConfigurationOf options cmds sn) =
     (if PortsToRedirect options = [] then RedirectAllMode else RedirectListedMode)"
  "PortsToRedirectInbound (firewallConfigurationOf options cmds sn) = PortsToRedirect options"
  "FirewallConfiguration.InboundPortsToIgnore (firewallConfigurationOf options cmds sn) =
     InboundPortsToIgnore options"
  "FirewallConfiguration.OutboundPortsToIgnore (firewallConfigurationOf options cmds sn) =
     OutboundPortsToIgnore options"
  "FirewallConfiguration.SubnetsToIgnore (firewallConfigurationOf options cmds sn) = sn"
  "ProxyInboundPort (firewallConfigurationOf options cmds sn) = IncomingProxyPort options"
  "ProxyOutgoingPort (firewallConfigurationOf options cmds sn) = OutgoingProxyPort options"
  "ProxyUID (firewallConfigurationOf options cmds sn) = ProxyUserID options"
  "ProxyGID (firewallConfigurationOf options cmds sn) = ProxyGroupID options"
  "FirewallConfiguration.SimulateOnly (firewallConfigurationOf options cmds sn) = SimulateOnly options"
  "FirewallConfiguration.NetNs (firewallConfigurationOf options cmds sn) = NetNs options"
  "FirewallConfiguration.UseWaitFlag (firewallConfigurationOf options cmds sn) = UseWaitFlag options"
  "ContinueOnError (firewallConfigurationOf options cmds sn) = False"
  by (simp_all add: firewallConfigurationOf_def FirewallConfiguration.make_def)

lemma rules_of_commands:
  "redirectRules (firewallConfigurationOf options cmds sn) =
     redirectRules (firewallConfigurationOf options cmds' sn)"
  "outputRules (firewallConfigurationOf options cmds sn) =
     outputRules (firewallConfigurationOf options cmds' sn)"
  by (simp_all add: redirectRules_def redirectBody_def addRulesForInboundPortRedirect_def
      addRulesForIgnoredSubnets_def addRulesForIgnoredPorts_def outputRules_def outputBody_def
      ruleArgs_make o_def)

lemma effectiveMode_IPv6 [simp]: "effectiveMode (options\<lparr>IPv6 := b\<rparr>) = effectiveMode options"
  by (simp add: effectiveMode_def)

lemma config_of_IPv6 [simp]:
  "firewallConfigurationOf (options\<lparr>IPv6 := b\<rparr>) cmds sn = firewallConfigurationOf options cmds sn"
  by (simp add: firewallConfigurationOf_def)

lemma buildAndRun_None:
  "buildAndRun lp run options w = (None, w') \<longleftrightarrow>
     (\<exists>fc. fst (BuildFirewallConfiguration options) = Inr fc \<and>
        ConfigureFirewall lp run fc w = (None, w'))"
  by (auto simp: buildAndRun_def split: sum.splits option.splits prod.splits)

lemma built_pair:
  assumes "fst (BuildFirewallConfiguration options) = Inr fc"
  shows "(BinPath fc, SaveBinPath fc) \<in> set (if IPv6 options then candidatesIPv6 else candidatesIPv4)"
  using assms getCommands_pair [of options] by (auto simp: Build_Inr_iff)

lemma built_ipv6Family:
  "fst (BuildFirewallConfiguration options) = Inr fc \<Longrightarrow> ipv6Family fc = IPv6 options"
  using built_pair [of options fc] is_v6_candidates [of "(BinPath fc, SaveBinPath fc)"]
  by (cases "IPv6 options") (simp_all add: ipv6Family_def)

section \<open>Concrete options\<close>

definition exampleOptions :: RootOptions where
  "exampleOptions = newRootOptions\<lparr>IncomingProxyPort := 4143, OutgoingProxyPort := 4140,
     ProxyUserID := 2102, InboundPortsToIgnore := [''4190'', ''22-25''],
     OutboundPortsToIgnore := [''443''], SubnetsToIgnore := ['' 10.0.0.0/8''],
     NetNs := ''/proc/7/ns/net'', UseWaitFlag := True, IPv6 := False\<rparr>"

definition exampleBuilt :: FirewallConfiguration where
  "exampleBuilt = firewallConfigurationOf exampleOptions (''iptables-legacy'', ''iptables-legacy-save'')
     [''10.0.0.0/8'']"

lemma exampleOptions_trim: "TrimSpace '' 10.0.0.0/8'' = ''10.0.0.0/8''"
  by (simp add: TrimSpace_def space_runes_def trim_start.simps leading_def go_simps)

lemma exampleOptions_built: "fst (BuildFirewallConfiguration exampleOptions) = Inr exampleBuilt"
proof -
  have "ParseCIDR ''10.0.0.0/8'' \<noteq> None" by (simp add: ParseCIDR_examples)
  then show ?thesis
    by (simp add: Build_Inr_iff exampleOptions_def newRootOptions_def IsValidPort_def
        exampleOptions_trim effectiveMode_def modeOfBinPath_def getCommands_def mode_names
        exampleBuilt_def)
qed

text \<open>A runner that records every argument vector, the latest first, and always succeeds.\<close>

definition recorder :: "string list list runner" where
  "recorder args w = (('''', None), args # w)"

lemma runCommands_recorder: "fst (runCommands recorder fc cmds w) = None"
  by (induction cmds arbitrary: w) (simp_all add: executeCommand_def recorder_def Let_def)

lemma ConfigureFirewall_recorder: "fst (ConfigureFirewall lp recorder fc w) = None"
proof -
  have "fst (fst (executeCommand recorder fc' c w)) = '''' \<and>
      snd (fst (executeCommand recorder fc' c w)) = None" for fc' c
    by (simp add: executeCommand_def recorder_def Let_def)
  then show ?thesis
    by (auto simp: ConfigureFirewall_def Let_def runCommands_recorder prod_eq_iff
        split: prod.splits option.splits dest: arg_cong [where f = fst])
qed


section \<open>Properties\<close>


text \<open>C34. A built configuration names a pair of binaries of the requested family, and no
  fallback on any path leaves that family: IPv6 rules are only ever handed to ip6tables.\<close>

theorem built_family:
  assumes "fst (BuildFirewallConfiguration options) = Inr fc"
  shows "(BinPath fc, SaveBinPath fc) \<in> set (if IPv6 options then candidatesIPv6 else candidatesIPv4) \<and>
    ipv6Family fc = IPv6 options \<and> ipv6Family (resolveBinFallback fc lookPath) = IPv6 options"
  using built_pair [OF assms] built_ipv6Family [OF assms] by (simp add: resolveBinFallback_family)

theorem built_family_witness:
  "ipv6Family exampleBuilt = False \<and>
   ipv6Family (resolveBinFallback exampleBuilt (\<lambda>_. Inl ''none'')) = False"
  using built_family [OF exampleOptions_built, of "\<lambda>_. Inl ''none''"]
  by (simp add: exampleOptions_def)

text \<open>C35. A dual-stack run that succeeds has configured IPv4 first and IPv6 on the resulting
  host, with the same rules in both: the ignored subnets in particular are given to iptables
  and to ip6tables alike, whichever family they belong to.\<close>

theorem RunE_dual_stack:
  assumes "RunE lp run parseLevel options w = (None, w')" and "IPv6 options"
  shows "\<exists>fc4 fc6 w1 w2.
    ConfigureFirewall lp run fc4 w1 = (None, w2) \<and> ConfigureFirewall lp run fc6 w2 = (None, w') \<and>
    fst (BuildFirewallConfiguration (options\<lparr>IPv6 := False\<rparr>)) = Inr fc4 \<and>
    fst (BuildFirewallConfiguration options) = Inr fc6 \<and>
    \<not> ipv6Family fc4 \<and> ipv6Family fc6 \<and>
    redirectRules fc4 = redirectRules fc6 \<and> outputRules fc4 = outputRules fc6"
proof -
  from assms obtain w1 w2 where runs: "buildAndRun lp run (options\<lparr>IPv6 := False\<rparr>) w1 = (None, w2)"
    "buildAndRun lp run options w2 = (None, w')"
    by (auto simp: RunE_def Let_def split: if_splits option.splits sum.splits prod.splits)
  then obtain fc4 fc6 where fc: "fst (BuildFirewallConfiguration (options\<lparr>IPv6 := False\<rparr>)) = Inr fc4"
    "ConfigureFirewall lp run fc4 w1 = (None, w2)"
    "fst (BuildFirewallConfiguration options) = Inr fc6" "ConfigureFirewall lp run fc6 w2 = (None, w')"
    by (auto simp: buildAndRun_None)
  then have "redirectRules fc4 = redirectRules fc6" "outputRules fc4 = outputRules fc6"
    by (auto simp: Build_Inr_iff intro: rules_of_commands)
  moreover have "\<not> ipv6Family fc4" "ipv6Family fc6"
    using built_ipv6Family [OF fc(1)] built_ipv6Family [OF fc(3)] assms(2) by simp_all
  ultimately show ?thesis using fc by blast
qed

theorem RunE_dual_stack_witness:
  "\<exists>fc4 fc6 w1 w2.
    ConfigureFirewall everyBinary recorder fc4 w1 = (None, w2) \<and>
    ConfigureFirewall everyBinary recorder fc6 w2 =
      (None, snd (RunE everyBinary recorder Inr (exampleOptions\<lparr>IPv6 := True\<rparr>) [])) \<and>
    fst (BuildFirewallConfiguration (exampleOptions\<lparr>IPv6 := False\<rparr>)) = Inr fc4 \<and>
    fst (BuildFirewallConfiguration (exampleOptions\<lparr>IPv6 := True\<rparr>)) = Inr fc6 \<and>
    \<not> ipv6Family fc4 \<and> ipv6Family fc6 \<and>
    redirectRules fc4 = redirectRules fc6 \<and> outputRules fc4 = outputRules fc6"
proof -
  let ?o = "exampleOptions\<lparr>IPv6 := True\<rparr>"
  have built: "\<exists>fc. fst (BuildFirewallConfiguration (exampleOptions\<lparr>IPv6 := b\<rparr>)) = Inr fc" for b
    using exampleOptions_built by (auto simp: Build_Inr_iff)
  have ok: "fst (buildAndRun everyBinary recorder (exampleOptions\<lparr>IPv6 := b\<rparr>) w) = None" for b w
    using built [of b] ConfigureFirewall_recorder
    by (auto simp: buildAndRun_def split: option.splits prod.splits)
       (metis fst_conv option.distinct(1))
  have "fst (RunE everyBinary recorder Inr ?o []) = None"
    using ok [of False] ok [of True]
    by (auto simp: RunE_def Let_def exampleOptions_def newRootOptions_def
        split: option.splits prod.splits)
       (metis fst_conv option.distinct(1))+
  then show ?thesis
    using RunE_dual_stack [of everyBinary recorder Inr ?o "[]" "snd (RunE everyBinary recorder Inr ?o [])"]
    by (simp add: prod_eq_iff)
qed

end
