(* ===== verification/Cni_Plugin.thy ===== *)
theory Cni_Plugin
  imports Root_Command
begin

text \<open>
  \<open>cni-plugin/main.go\<close>: the handler of CNI ADD requests. The Kubernetes client, the CNI
  library (\<open>types.LoadArgs\<close>, \<open>types.PrintResult\<close>, the conversion of results) and the JSON
  decoder are parameters, collected in the record \<open>host_api\<close>; each is a step on the world, so
  nothing is assumed about two calls agreeing. \<open>skel.PluginMainFuncs\<close> and logging are left out.
\<close>

section \<open>Configuration\<close>

record ProxyInit =
  pi_IncomingProxyPort :: int
  pi_OutgoingProxyPort :: int
  pi_ProxyUID :: int
  pi_ProxyGID :: int
  pi_PortsToRedirect :: "int list"
  pi_InboundPortsToIgnore :: "string list"
  pi_OutboundPortsToIgnore :: "string list"
  pi_SubnetsToIgnore :: "string list"
  pi_Simulate :: bool
  pi_UseWaitFlag :: bool
  pi_IPTablesMode :: string
  pi_IPv6 :: bool

record Kubernetes =
  K8sAPIRoot :: string
  Kubeconfig :: string

record ('raw, 'res) PluginConf =
  CNIVersion :: string
  RawPrevResult :: "'raw option"
  PrevResult :: "'res option"
  pc_LogLevel :: string
  pc_ProxyInit :: ProxyInit
  pc_Kubernetes :: Kubernetes

text \<open>What the handler reads of a pod (container names, annotations, labels) and of a service
  port.\<close>

record Pod =
  PodNamespace :: string
  PodAnnotations :: "string \<rightharpoonup> string"
  PodLabels :: "string \<rightharpoonup> string"
  PodContainers :: "string list"
  PodInitContainers :: "string list"

datatype IntOrString = IntVal int | StrVal string

record ServicePort =
  Port :: int
  TargetPort :: IntOrString

text \<open>Indexing a Go map of strings: the empty string when the key is missing.\<close>

definition index :: "(string \<rightharpoonup> string) \<Rightarrow> string \<Rightarrow> string" where
  "index m k = (case m k of None \<Rightarrow> '''' | Some v \<Rightarrow> v)"

datatype plugin_error =
    LibraryError error
  | ConfigError error
  | AtoiError num_error
  | PluginBuildError build_error
  | PluginFirewallError error

type_synonym ('w, 'a) step = "('w, plugin_error, 'a) io"

text \<open>The libraries: JSON and CNI conversions first, then Kubernetes, then the output.
  \<open>ImplementedResult\<close> is the CNI result whose only content is the implemented version.\<close>

record ('w, 'raw, 'wire, 'res, 'cfg, 'client) host_api =
  Unmarshal :: "string \<Rightarrow> (error, ('raw, 'res) PluginConf) result"
  MarshalPrev :: "'raw \<Rightarrow> (error, string) result"
  NewResult :: "string \<Rightarrow> string \<Rightarrow> (error, 'wire) result"
  NewResultFromResult :: "'wire \<Rightarrow> (error, 'res) result"
  LoadArgs :: "string \<Rightarrow> (error, string \<times> string) result"
  ClientConfig :: "string \<Rightarrow> ('w, error, 'cfg) io"
  NewForConfig :: "'cfg \<Rightarrow> ('w, error, 'client) io"
  GetPod :: "'client \<Rightarrow> string \<Rightarrow> string \<Rightarrow> ('w, error, Pod) io"
  GetNamespace :: "'client \<Rightarrow> string \<Rightarrow> ('w, error, string \<rightharpoonup> string) io"
  GetService :: "'client \<Rightarrow> string \<Rightarrow> string \<Rightarrow> ('w, error, ServicePort list) io"
  ImplementedResult :: 'res
  PrintResult :: "'res \<Rightarrow> string \<Rightarrow> ('w, error, unit) io"

section \<open>Parsing the configuration\<close>

definition parseConfig ::
    "('w, 'raw, 'wire, 'res, 'cfg, 'client) host_api \<Rightarrow> string \<Rightarrow>
     (error, ('raw, 'res) PluginConf) result" where
  "parseConfig api stdin =
     (case Unmarshal api stdin of
        Inl e \<Rightarrow> Inl e
      | Inr conf \<Rightarrow>
          (case RawPrevResult conf of
             None \<Rightarrow> Inr conf
           | Some raw \<Rightarrow>
               (case MarshalPrev api raw of
                  Inl e \<Rightarrow> Inl e
                | Inr resultBytes \<Rightarrow>
                    (case NewResult api (CNIVersion conf) resultBytes of
                       Inl e \<Rightarrow> Inl e
                     | Inr res \<Rightarrow>
                         (case NewResultFromResult api res of
                            Inl e \<Rightarrow> Inl e
                          | Inr r \<Rightarrow> Inr (conf\<lparr>RawPrevResult := None, PrevResult := Some r\<rparr>))))))"

text \<open>\<open>strings.Replace\<close> with the count 1, for a non-empty \<open>old\<close>.\<close>

fun ReplaceFirst :: "string \<Rightarrow> string \<Rightarrow> string \<Rightarrow> string" where
  "ReplaceFirst [] old new = []"
| "ReplaceFirst (c # cs) old new =
     (if prefix old (c # cs) then new @ drop (length old) (c # cs) else c # ReplaceFirst cs old new)"

definition loadArgs ::
    "('w, 'raw, 'wire, 'res, 'cfg, 'client) host_api \<Rightarrow> string \<Rightarrow> (error, string \<times> string) result" where
  "loadArgs api args =
     LoadArgs api (ReplaceFirst (ReplaceFirst args ''K8S_POD_NAMESPACE'' ''K8sPodNamespace'')
       ''K8S_POD_NAME'' ''K8sPodName'')"

section \<open>Reading the cluster\<close>

definition containsLinkerdProxy :: "Pod \<Rightarrow> bool" where
  "containsLinkerdProxy pod \<longleftrightarrow>
     ''linkerd-proxy'' \<in> set (PodContainers pod) \<or> ''linkerd-proxy'' \<in> set (PodInitContainers pod)"

definition containsInitContainer :: "Pod \<Rightarrow> bool" where
  "containsInitContainer pod \<longleftrightarrow> ''linkerd-init'' \<in> set (PodInitContainers pod)"

definition getAnnotationOverride ::
    "('w, 'raw, 'wire, 'res, 'cfg, 'client) host_api \<Rightarrow> 'client \<Rightarrow> Pod \<Rightarrow> string \<Rightarrow> ('w, string) step" where
  "getAnnotationOverride api client pod key =
     (if index (PodAnnotations pod) key \<noteq> '''' then returnE (index (PodAnnotations pod) key)
      else bindE (wrapE LibraryError (GetNamespace api client (PodNamespace pod)))
        (\<lambda>annotations. if index annotations key \<noteq> '''' then returnE (index annotations key)
                       else returnE ''''))"

fun apiServerPorts :: "string list \<Rightarrow> ServicePort list \<Rightarrow> string list" where
  "apiServerPorts ports [] = ports"
| "apiServerPorts ports (port # rest) =
     (let ports = ports @ [Itoa (Port port)] in
      case TargetPort port of
        IntVal i \<Rightarrow> apiServerPorts (ports @ [Itoa i]) rest
      | StrVal _ \<Rightarrow> apiServerPorts ports rest)"

definition getAPIServerPorts ::
    "('w, 'raw, 'wire, 'res, 'cfg, 'client) host_api \<Rightarrow> 'client \<Rightarrow> ('w, string list) step" where
  "getAPIServerPorts api client =
     bindE (wrapE LibraryError (GetService api client ''default'' ''kubernetes''))
       (\<lambda>service. returnE (apiServerPorts [] service))"

section \<open>The options of a pod\<close>

definition proxyInitOptions :: "ProxyInit \<Rightarrow> string \<Rightarrow> RootOptions" where
  "proxyInitOptions pi netns =
     \<lparr>IncomingProxyPort = pi_IncomingProxyPort pi, OutgoingProxyPort = pi_OutgoingProxyPort pi,
      ProxyUserID = pi_ProxyUID pi, ProxyGroupID = pi_ProxyGID pi,
      PortsToRedirect = pi_PortsToRedirect pi, InboundPortsToIgnore = pi_InboundPortsToIgnore pi,
      OutboundPortsToIgnore = pi_OutboundPortsToIgnore pi, SubnetsToIgnore = pi_SubnetsToIgnore pi,
      SimulateOnly = pi_Simulate pi, NetNs = netns, UseWaitFlag = pi_UseWaitFlag pi,
      TimeoutCloseWaitSecs = 0, LogFormat = '''', LogLevel = '''', FirewallBinPath = '''',
      FirewallSaveBinPath = '''', IPTablesMode = pi_IPTablesMode pi, IPv6 = pi_IPv6 pi\<rparr>"

definition overrideID :: "(int \<Rightarrow> RootOptions \<Rightarrow> RootOptions) \<Rightarrow> string \<Rightarrow> RootOptions \<Rightarrow>
    ('w, RootOptions) step" where
  "overrideID put override options =
     (if override \<noteq> '''' then
        (case Atoi override of
           Inl e \<Rightarrow> throwE (AtoiError e)
         | Inr parsed \<Rightarrow> returnE (put parsed options))
      else returnE options)"

text \<open>The ports of the API server, when the pod is a control plane component; the default
  ones when they cannot be read.\<close>

definition controlPlanePorts ::
    "('w, 'raw, 'wire, 'res, 'cfg, 'client) host_api \<Rightarrow> 'client \<Rightarrow> Pod \<Rightarrow> ('w, string list) step" where
  "controlPlanePorts api client pod w =
     (if index (PodLabels pod) ''linkerd.io/control-plane-component'' \<noteq> '''' then
        (case getAPIServerPorts api client w of
           (Inl _, w') \<Rightarrow> (Inr [''443'', ''6443''], w')
         | (Inr ports, w') \<Rightarrow> (Inr ports, w'))
      else (Inr [], w))"

definition podOptions ::
    "('w, 'raw, 'wire, 'res, 'cfg, 'client) host_api \<Rightarrow> 'client \<Rightarrow> Pod \<Rightarrow> RootOptions \<Rightarrow>
     ('w, RootOptions) step" where
  "podOptions api client pod options =
     bindE (getAnnotationOverride api client pod ''config.linkerd.io/skip-outbound-ports'') (\<lambda>outbound.
     let options = (if outbound \<noteq> ''''
           then options\<lparr>OutboundPortsToIgnore := Split outbound CHR '',''\<rparr> else options) in
     bindE (getAnnotationOverride api client pod ''config.linkerd.io/skip-inbound-ports'') (\<lambda>inbound.
     let options = (if inbound \<noteq> ''''
           then options\<lparr>InboundPortsToIgnore := InboundPortsToIgnore options @ Split inbound CHR '',''\<rparr>
           else options) in
     bindE (getAnnotationOverride api client pod ''config.linkerd.io/skip-subnets'') (\<lambda>subnets.
     let options = (if subnets \<noteq> ''''
           then options\<lparr>SubnetsToIgnore := Split subnets CHR '',''\<rparr> else options) in
     bindE (getAnnotationOverride api client pod ''config.linkerd.io/proxy-uid'') (\<lambda>uid.
     bindE (overrideID (\<lambda>i o'. o'\<lparr>ProxyUserID := i\<rparr>) uid options) (\<lambda>options.
     bindE (getAnnotationOverride api client pod ''config.linkerd.io/proxy-gid'') (\<lambda>gid.
     bindE (overrideID (\<lambda>i o'. o'\<lparr>ProxyGroupID := i\<rparr>) gid options) (\<lambda>options.
     bindE (controlPlanePorts api client pod) (\<lambda>skippedPorts.
     let options = options\<lparr>OutboundPortsToIgnore := OutboundPortsToIgnore options @ skippedPorts\<rparr> in
     returnE (if IPTablesMode options = '''' then options\<lparr>IPTablesMode := IPTablesModeLegacy\<rparr>
              else options)))))))))"

section \<open>The handlers\<close>

definition buildAndConfigure ::
    "(string \<Rightarrow> (error, string) result) \<Rightarrow> 'w runner \<Rightarrow> RootOptions \<Rightarrow> ('w, unit) step" where
  "buildAndConfigure lookPath run options w =
     (case fst (BuildFirewallConfiguration options) of
        Inl e \<Rightarrow> (Inl (PluginBuildError e), w)
      | Inr fc \<Rightarrow>
          (case ConfigureFirewall lookPath run fc w of
             (Some err, w') \<Rightarrow> (Inl (PluginFirewallError err), w')
           | (None, w') \<Rightarrow> (Inr (), w')))"

definition configurePod ::
    "('w, 'raw, 'wire, 'res, 'cfg, 'client) host_api \<Rightarrow> (string \<Rightarrow> (error, string) result) \<Rightarrow>
     'w runner \<Rightarrow> 'client \<Rightarrow> Pod \<Rightarrow> RootOptions \<Rightarrow> ('w, unit) step" where
  "configurePod api lookPath run client pod options =
     bindE (podOptions api client pod options) (\<lambda>options.
     bindE (buildAndConfigure lookPath run (options\<lparr>IPv6 := False\<rparr>)) (\<lambda>_.
     if IPv6 options then buildAndConfigure lookPath run options else returnE ()))"

definition cmdAdd ::
    "('w, 'raw, 'wire, 'res, 'cfg, 'client) host_api \<Rightarrow> (string \<Rightarrow> (error, string) result) \<Rightarrow>
     'w runner \<Rightarrow> string \<Rightarrow> string \<Rightarrow> string \<Rightarrow> ('w, unit) step" where
  "cmdAdd api lookPath run stdin args netns =
     bindE (wrapE ConfigError (liftE (parseConfig api stdin))) (\<lambda>conf.
     bindE (wrapE LibraryError (liftE (loadArgs api args))) (\<lambda>(namespace, podName).
     bindE (if namespace \<noteq> '''' \<and> podName \<noteq> '''' then
              bindE (wrapE LibraryError (ClientConfig api (Kubeconfig (pc_Kubernetes conf)))) (\<lambda>config.
              bindE (wrapE LibraryError (NewForConfig api config)) (\<lambda>client.
              bindE (wrapE LibraryError (GetPod api client namespace podName)) (\<lambda>pod.
              if \<not> containsInitContainer pod \<and> containsLinkerdProxy pod
              then configurePod api lookPath run client pod
                     (proxyInitOptions (pc_ProxyInit conf) netns)
              else returnE ())))
            else returnE ()) (\<lambda>_.
     wrapE LibraryError
       (case PrevResult conf of
          Some prev \<Rightarrow> PrintResult api prev (CNIVersion conf)
        | None \<Rightarrow> PrintResult api (ImplementedResult api) (CNIVersion conf)))))"

definition cmdCheck :: "('w, unit) step" where
  "cmdCheck = returnE ()"

definition cmdDel :: "('w, unit) step" where
  "cmdDel = returnE ()"

section \<open>What the options of a pod are\<close>

text \<open>The value an annotation has for a pod: the pod's own, else the one of its namespace.\<close>

definition annotationOf :: "Pod \<Rightarrow> (string \<rightharpoonup> string) \<Rightarrow> string \<Rightarrow> string" where
  "annotationOf pod ns key =
     (if index (PodAnnotations pod) key \<noteq> '''' then index (PodAnnotations pod) key else index ns key)"

definition annotationKeys :: "string list" where
  "annotationKeys = [''config.linkerd.io/skip-outbound-ports'', ''config.linkerd.io/skip-inbound-ports'',
     ''config.linkerd.io/skip-subnets'', ''config.linkerd.io/proxy-uid'', ''config.linkerd.io/proxy-gid'']"

text \<open>The namespace can be read without an effect, or the pod itself has every annotation.\<close>

definition namespaceReadable ::
    "('w, 'raw, 'wire, 'res, 'cfg, 'client) host_api \<Rightarrow> 'client \<Rightarrow> Pod \<Rightarrow> (string \<rightharpoonup> string) \<Rightarrow> bool" where
  "namespaceReadable api client pod ns \<longleftrightarrow>
     (\<forall>key \<in> set annotationKeys. index (PodAnnotations pod) key \<noteq> '''') \<or>
     (\<forall>w. GetNamespace api client (PodNamespace pod) w = (Inr ns, w))"

lemma getAnnotationOverride_readable:
  assumes "namespaceReadable api client pod ns" and "key \<in> set annotationKeys"
  shows "getAnnotationOverride api client pod key = returnE (annotationOf pod ns key)"
  using assms
  by (auto simp: getAnnotationOverride_def namespaceReadable_def annotationOf_def bindE_def
      wrapE_def returnE_def fun_eq_iff)

text \<open>The overrides as one function: ignore lists and identities of the options, replaced or
  extended by the annotations.\<close>

definition annotatedID :: "string \<Rightarrow> int \<Rightarrow> (num_error, int) result" where
  "annotatedID override dflt = (if override = '''' then Inr dflt else Atoi override)"

definition annotatedOptions :: "(string \<Rightarrow> string) \<Rightarrow> string list \<Rightarrow> int \<Rightarrow> int \<Rightarrow> RootOptions \<Rightarrow> RootOptions" where
  "annotatedOptions ann apiPorts uid gid o' = o'\<lparr>
     OutboundPortsToIgnore :=
       (if ann ''config.linkerd.io/skip-outbound-ports'' = '''' then OutboundPortsToIgnore o'
        else Split (ann ''config.linkerd.io/skip-outbound-ports'') CHR '','') @ apiPorts,
     InboundPortsToIgnore := InboundPortsToIgnore o' @
       (if ann ''config.linkerd.io/skip-inbound-ports'' = '''' then []
        else Split (ann ''config.linkerd.io/skip-inbound-ports'') CHR '',''),
     SubnetsToIgnore :=
       (if ann ''config.linkerd.io/skip-subnets'' = '''' then SubnetsToIgnore o'
        else Split (ann ''config.linkerd.io/skip-subnets'') CHR '',''),
     ProxyUserID := uid, ProxyGroupID := gid,
     IPTablesMode := (if IPTablesMode o' = '''' then ''legacy'' else IPTablesMode o')\<rparr>"

lemma overrideID_bind:
  assumes "put (get options) options = options"
  shows "bindE (overrideID put override options) f =
     (case annotatedID override (get options) of
        Inl e \<Rightarrow> throwE (AtoiError e)
      | Inr i \<Rightarrow> f (put i options))"
  using assms by (auto simp: overrideID_def annotatedID_def split: sum.splits)

lemmas bind_uid = overrideID_bind [where put = "\<lambda>i o'. o'\<lparr>ProxyUserID := i\<rparr>" and get = ProxyUserID, simplified]
lemmas bind_gid = overrideID_bind [where put = "\<lambda>i o'. o'\<lparr>ProxyGroupID := i\<rparr>" and get = ProxyGroupID, simplified]

lemma conditional_updates:
  "(if c then o'\<lparr>OutboundPortsToIgnore := x\<rparr> else o') =
     o'\<lparr>OutboundPortsToIgnore := if c then x else OutboundPortsToIgnore o'\<rparr>"
  "(if c then o'\<lparr>InboundPortsToIgnore := InboundPortsToIgnore o' @ x\<rparr> else o') =
     o'\<lparr>InboundPortsToIgnore := InboundPortsToIgnore o' @ (if c then x else [])\<rparr>"
  "(if c then o'\<lparr>SubnetsToIgnore := x\<rparr> else o') =
     o'\<lparr>SubnetsToIgnore := if c then x else SubnetsToIgnore o'\<rparr>"
  "(if c then o'\<lparr>IPTablesMode := m\<rparr> else o') = o'\<lparr>IPTablesMode := if c then m else IPTablesMode o'\<rparr>"
  by simp_all

lemma controlPlanePorts_total: "\<exists>ports w'. controlPlanePorts api client pod w = (Inr ports, w')"
  by (auto simp: controlPlanePorts_def split: prod.splits sum.splits)

lemma bindE_controlPlanePorts:
  "bindE (controlPlanePorts api client pod) f w =
     f (projr (fst (controlPlanePorts api client pod w))) (snd (controlPlanePorts api client pod w))"
  using controlPlanePorts_total [of api client pod w] by (auto simp: bindE_def)

lemma podOptions_annotated:
  assumes "namespaceReadable api client pod ns"
  shows "podOptions api client pod options w =
    (case annotatedID (annotationOf pod ns ''config.linkerd.io/proxy-uid'') (ProxyUserID options) of
       Inl e \<Rightarrow> (Inl (AtoiError e), w)
     | Inr uid \<Rightarrow>
         (case annotatedID (annotationOf pod ns ''config.linkerd.io/proxy-gid'') (ProxyGroupID options) of
            Inl e \<Rightarrow> (Inl (AtoiError e), w)
          | Inr gid \<Rightarrow>
              (case controlPlanePorts api client pod w of
                 (r, w') \<Rightarrow> (Inr (annotatedOptions (annotationOf pod ns) (projr r) uid gid options), w'))))"
proof -
  note read = getAnnotationOverride_readable [OF assms]
  have keys: "''config.linkerd.io/skip-outbound-ports'' \<in> set annotationKeys"
    "''config.linkerd.io/skip-inbound-ports'' \<in> set annotationKeys"
    "''config.linkerd.io/skip-subnets'' \<in> set annotationKeys"
    "''config.linkerd.io/proxy-uid'' \<in> set annotationKeys"
    "''config.linkerd.io/proxy-gid'' \<in> set annotationKeys"
    by (simp_all add: annotationKeys_def)
  show ?thesis
    unfolding podOptions_def read [OF keys(1)] read [OF keys(2)] read [OF keys(3)]
      read [OF keys(4)] read [OF keys(5)] bindE_simps Let_def conditional_updates bind_uid bind_gid
    by (simp add: bindE_controlPlanePorts returnE_def throwE_def annotatedOptions_def
        IPTablesModeLegacy_def split: sum.split prod.split cong: if_cong)
qed

section \<open>What an ADD request does\<close>

text \<open>The pod of a request is fetched in three steps.\<close>

definition fetchPod ::
    "('w, 'raw, 'wire, 'res, 'cfg, 'client) host_api \<Rightarrow> ('raw, 'res) PluginConf \<Rightarrow> string \<Rightarrow> string \<Rightarrow>
     ('w, 'client \<times> Pod) step" where
  "fetchPod api conf namespace podName =
     bindE (wrapE LibraryError (ClientConfig api (Kubeconfig (pc_Kubernetes conf)))) (\<lambda>config.
     bindE (wrapE LibraryError (NewForConfig api config)) (\<lambda>client.
     bindE (wrapE LibraryError (GetPod api client namespace podName)) (\<lambda>pod.
     returnE (client, pod))))"

definition meshed :: "Pod \<Rightarrow> bool" where
  "meshed pod \<longleftrightarrow> ''linkerd-init'' \<notin> set (PodInitContainers pod) \<and>
     (''linkerd-proxy'' \<in> set (PodContainers pod) \<or> ''linkerd-proxy'' \<in> set (PodInitContainers pod))"

lemma meshed_iff: "\<not> containsInitContainer pod \<and> containsLinkerdProxy pod \<longleftrightarrow> meshed pod"
  by (simp add: meshed_def containsInitContainer_def containsLinkerdProxy_def)

definition printPrevious ::
    "('w, 'raw, 'wire, 'res, 'cfg, 'client) host_api \<Rightarrow> ('raw, 'res) PluginConf \<Rightarrow> ('w, unit) step" where
  "printPrevious api conf = wrapE LibraryError
     (PrintResult api (case PrevResult conf of Some prev \<Rightarrow> prev | None \<Rightarrow> ImplementedResult api)
       (CNIVersion conf))"

lemma print_eq:
  "wrapE LibraryError (case PrevResult conf of
      None \<Rightarrow> PrintResult api (ImplementedResult api) (CNIVersion conf)
    | Some prev \<Rightarrow> PrintResult api prev (CNIVersion conf)) = printPrevious api conf"
  by (simp add: printPrevious_def split: option.split)

lemma cmdAdd_named:
  assumes "parseConfig api stdin = Inr conf" and "loadArgs api args = Inr (namespace, podName)"
    and "namespace \<noteq> ''''" and "podName \<noteq> ''''"
  shows "cmdAdd api lookPath run stdin args netns =
    bindE (fetchPod api conf namespace podName) (\<lambda>(client, pod).
    bindE (if meshed pod then configurePod api lookPath run client pod
             (proxyInitOptions (pc_ProxyInit conf) netns) else returnE ())
      (\<lambda>_. printPrevious api conf))"
  using assms(3,4)
  by (simp add: cmdAdd_def assms(1,2) fetchPod_def bindE_assoc print_eq meshed_iff cong: if_cong)

lemma cmdAdd_fetched:
  assumes "parseConfig api stdin = Inr conf" and "loadArgs api args = Inr (namespace, podName)"
    and "namespace \<noteq> ''''" and "podName \<noteq> ''''"
    and "fetchPod api conf namespace podName w = (Inr (client, pod), w')"
  shows "cmdAdd api lookPath run stdin args netns w =
    bindE (if meshed pod then configurePod api lookPath run client pod
             (proxyInitOptions (pc_ProxyInit conf) netns) else returnE ())
      (\<lambda>_. printPrevious api conf) w'"
  by (simp add: cmdAdd_named [OF assms(1-4)] bindE_def assms(5))

lemma cmdAdd_anonymous:
  assumes "parseConfig api stdin = Inr conf" and "loadArgs api args = Inr (namespace, podName)"
    and "namespace = '''' \<or> podName = ''''"
  shows "cmdAdd api lookPath run stdin args netns = printPrevious api conf"
  using assms(3)
  by (auto simp: cmdAdd_def assms(1,2) printPrevious_def wrapE_def liftE_def fun_eq_iff bindE_def
      returnE_def split: option.splits)

text \<open>The steps of the cluster and of the CNI runtime that an ADD request takes before the
  firewall and after it leave a part of the world alone.\<close>

definition leaves :: "('w \<Rightarrow> 'f) \<Rightarrow> ('w, 'e, 'a) io \<Rightarrow> bool" where
  "leaves view m \<longleftrightarrow> (\<forall>w. view (snd (m w)) = view w)"

definition quiet :: "('w \<Rightarrow> 'f) \<Rightarrow> ('w, 'raw, 'wire, 'res, 'cfg, 'client) host_api \<Rightarrow> bool" where
  "quiet view api \<longleftrightarrow> (\<forall>k. leaves view (ClientConfig api k)) \<and> (\<forall>c. leaves view (NewForConfig api c)) \<and>
     (\<forall>c n p. leaves view (GetPod api c n p)) \<and> (\<forall>r v. leaves view (PrintResult api r v))"

lemma leaves_bindE: "leaves view m \<Longrightarrow> (\<And>x. leaves view (f x)) \<Longrightarrow> leaves view (bindE m f)"
  unfolding leaves_def bindE_def by (auto split: prod.split sum.split) (metis snd_conv)+

lemma leaves_wrapE: "leaves view m \<Longrightarrow> leaves view (wrapE c m)"
  unfolding leaves_def wrapE_def by (auto split: prod.split sum.split) (metis snd_conv)+

lemma leaves_liftE: "leaves view (liftE r)" "leaves view (returnE x)" "leaves view (throwE e)"
  by (simp_all add: leaves_def liftE_def returnE_def throwE_def)

lemma leavesD: "leaves view m \<Longrightarrow> m w = (r, w') \<Longrightarrow> view w' = view w"
  by (metis leaves_def snd_conv)

lemma fetchPod_quiet: "quiet view api \<Longrightarrow> leaves view (fetchPod api conf namespace podName)"
  by (simp add: fetchPod_def quiet_def leaves_bindE leaves_wrapE leaves_liftE)

text \<open>Everything but the configuration of a meshed pod is quiet.\<close>

lemma cmdAdd_moves:
  assumes q: "quiet view api"
    and moved: "view (snd (cmdAdd api lookPath run stdin args netns w)) \<noteq> view w"
  obtains conf namespace podName client pod w' where
    "parseConfig api stdin = Inr conf" "loadArgs api args = Inr (namespace, podName)"
    "namespace \<noteq> ''''" "podName \<noteq> ''''"
    "fetchPod api conf namespace podName w = (Inr (client, pod), w')" "meshed pod"
proof -
  have print: "leaves view (printPrevious api conf)" for conf
    using q by (simp add: printPrevious_def quiet_def leaves_wrapE)
  have "\<exists>conf namespace podName. parseConfig api stdin = Inr conf \<and> loadArgs api args = Inr (namespace, podName)"
    using moved by (auto simp: cmdAdd_def wrapE_def liftE_def bindE_def split: sum.splits)
  then obtain conf namespace podName where
    p: "parseConfig api stdin = Inr conf" "loadArgs api args = Inr (namespace, podName)" by blast
  have named: "namespace \<noteq> ''''" "podName \<noteq> ''''"
    using moved print [of conf] cmdAdd_anonymous [OF p, of lookPath run netns]
    by (auto simp: leaves_def)
  obtain r w' where f: "fetchPod api conf namespace podName w = (r, w')" by fastforce
  have same: "view w' = view w" using leavesD [OF fetchPod_quiet [OF q] f] .
  show thesis
  proof (cases r)
    case (Inl e)
    with moved same show thesis by (simp add: cmdAdd_named [OF p named] bindE_def f)
  next
    case (Inr cp)
    then obtain client pod where f': "fetchPod api conf namespace podName w = (Inr (client, pod), w')"
      using f by (cases cp) simp
    have "meshed pod"
      using moved same print [of conf]
      by (auto simp: cmdAdd_fetched [OF p named f'] leaves_def split: if_splits)
    with p named f' that show thesis by blast
  qed
qed

lemma buildAndConfigure_ok:
  "buildAndConfigure lookPath run options w = (Inr u, w') \<longleftrightarrow>
     (\<exists>fc. fst (BuildFirewallConfiguration options) = Inr fc \<and>
        ConfigureFirewall lookPath run fc w = (None, w'))"
  by (auto simp: buildAndConfigure_def split: sum.splits option.splits prod.splits)

lemma overrideID_ok:
  "overrideID put override options w = (Inr o', w') \<longleftrightarrow>
     w' = w \<and> (if override = '''' then o' = options else \<exists>i. Atoi override = Inr i \<and> o' = put i options)"
  by (auto simp: overrideID_def returnE_def throwE_def split: sum.splits)

text \<open>Whatever the annotations say, the namespace handed over by the runtime, the address
  family and the proxy's ports stay, and the mode is never empty.\<close>

lemma podOptions_keeps:
  assumes "podOptions api client pod options w = (Inr o', w')"
  shows "NetNs o' = NetNs options \<and> IPv6 o' = IPv6 options \<and>
    IncomingProxyPort o' = IncomingProxyPort options \<and> OutgoingProxyPort o' = OutgoingProxyPort options \<and>
    IPTablesMode o' = (if IPTablesMode options = '''' then ''legacy'' else IPTablesMode options)"
proof -
  have "ensures (\<lambda>o'. NetNs o' = NetNs options \<and> IPv6 o' = IPv6 options \<and>
      IncomingProxyPort o' = IncomingProxyPort options \<and> OutgoingProxyPort o' = OutgoingProxyPort options \<and>
      IPTablesMode o' = (if IPTablesMode options = '''' then ''legacy'' else IPTablesMode options))
    (podOptions api client pod options)"
    unfolding podOptions_def Let_def conditional_updates bind_uid bind_gid
    by (intro ensures_bindE ensures_case_sum) (simp_all add: IPTablesModeLegacy_def)
  with assms show ?thesis by (auto dest: ensuresD)
qed

section \<open>The ports of the API server\<close>

text \<open>The ports a service answers on: each port, followed by its target when that is a number.\<close>

definition servicePorts :: "ServicePort list \<Rightarrow> int list" where
  "servicePorts svc = concat (map (\<lambda>p. Port p #
     (case TargetPort p of IntVal i \<Rightarrow> [i] | StrVal _ \<Rightarrow> [])) svc)"

lemma apiServerPorts_eq: "apiServerPorts ports svc = ports @ map Itoa (servicePorts svc)"
  by (induction ports svc rule: apiServerPorts.induct)
     (simp_all add: servicePorts_def Let_def split: IntOrString.splits)

lemma ParsePortRange_Itoa:
  "0 \<le> p \<Longrightarrow> p \<le> 65535 \<Longrightarrow> ParsePortRange (Itoa p) = Inr \<lparr>LowerBound = p, UpperBound = p\<rparr>"
  by (subst ParsePortRange_one) (simp_all add: Itoa_nonneg_no_char Atoi_Itoa_small IsValidPort_def)

section \<open>A concrete cluster\<close>

definition exampleInit :: ProxyInit where
  "exampleInit = \<lparr>pi_IncomingProxyPort = 4143, pi_OutgoingProxyPort = 4140, pi_ProxyUID = 2102,
     pi_ProxyGID = 0, pi_PortsToRedirect = [], pi_InboundPortsToIgnore = [''4190''],
     pi_OutboundPortsToIgnore = [], pi_SubnetsToIgnore = [], pi_Simulate = False,
     pi_UseWaitFlag = True, pi_IPTablesMode = '''', pi_IPv6 = False\<rparr>"

definition exampleConf :: "(unit, unit) PluginConf" where
  "exampleConf = \<lparr>CNIVersion = ''1.0.0'', RawPrevResult = None, PrevResult = None,
     pc_LogLevel = ''info'', pc_ProxyInit = exampleInit,
     pc_Kubernetes = \<lparr>K8sAPIRoot = '''', Kubeconfig = ''/etc/k''\<rparr>\<rparr>"

definition examplePod :: "(string \<rightharpoonup> string) \<Rightarrow> string list \<Rightarrow> Pod" where
  "examplePod annotations inits = \<lparr>PodNamespace = ''default'', PodAnnotations = annotations,
     PodLabels = [''linkerd.io/control-plane-component'' \<mapsto> ''identity''],
     PodContainers = [''web'', ''linkerd-proxy''], PodInitContainers = inits\<rparr>"

text \<open>Answers that do not change the world; the service cannot be read.\<close>

definition exampleApi ::
    "Pod \<Rightarrow> (string \<rightharpoonup> string) \<Rightarrow> ('w, unit, unit, unit, unit, unit) host_api" where
  "exampleApi pod ns =
     \<lparr>Unmarshal = (\<lambda>_. Inr exampleConf), MarshalPrev = (\<lambda>_. Inr ''''), NewResult = (\<lambda>_ _. Inr ()),
      NewResultFromResult = (\<lambda>_. Inr ()), LoadArgs = (\<lambda>_. Inr (''default'', ''web-0'')),
      ClientConfig = (\<lambda>_. returnE ()), NewForConfig = (\<lambda>_. returnE ()),
      GetPod = (\<lambda>_ _ _. returnE pod), GetNamespace = (\<lambda>_ _. returnE ns),
      GetService = (\<lambda>_ _ _. throwE ''forbidden''), ImplementedResult = (),
      PrintResult = (\<lambda>_ _. returnE ())\<rparr>"

lemma exampleApi_request:
  "parseConfig (exampleApi pod ns) stdin = Inr exampleConf"
  "loadArgs (exampleApi pod ns) args = Inr (''default'', ''web-0'')"
  "fetchPod (exampleApi pod ns) conf namespace podName w = (Inr ((), pod), w)"
  "quiet view (exampleApi pod ns)"
  "namespaceReadable (exampleApi pod ns) client pod ns"
  "printPrevious (exampleApi pod ns) conf = returnE ()"
  by (simp_all add: exampleApi_def parseConfig_def exampleConf_def loadArgs_def fetchPod_def
      quiet_def leaves_liftE namespaceReadable_def printPrevious_def returnE_def
      bindE_def wrapE_def fun_eq_iff)

lemma examplePod_meshed: "meshed (examplePod annotations [])"
  by (simp add: meshed_def examplePod_def)

text \<open>The request of the example pod without annotations, up to the firewall.\<close>

definition exampleAdd :: "string list list runner \<Rightarrow> string list list \<Rightarrow> (plugin_error, unit) result \<times> string list list" where
  "exampleAdd run = cmdAdd (exampleApi (examplePod Map.empty []) Map.empty) everyBinary run '''' '''' ''/ns''"

lemma exampleAdd_eq:
  "\<exists>fc. \<not> FirewallConfiguration.SimulateOnly fc \<and> exampleAdd run w =
     (case ConfigureFirewall everyBinary run fc w of
        (Some err, w') \<Rightarrow> (Inl (PluginFirewallError err), w') | (None, w') \<Rightarrow> (Inr (), w'))"
proof -
  let ?pod = "examplePod Map.empty []"
  let ?api = "exampleApi ?pod Map.empty :: (string list list, unit, unit, unit, unit, unit) host_api"
  let ?o = "(proxyInitOptions exampleInit ''/ns'')\<lparr>OutboundPortsToIgnore := [''443'', ''6443''], IPTablesMode := ''legacy''\<rparr>"
  have ann: "annotationOf ?pod Map.empty k = ''''" for k
    by (simp add: annotationOf_def examplePod_def index_def)
  have ports: "controlPlanePorts ?api () ?pod w = (Inr [''443'', ''6443''], w)"
    by (simp add: controlPlanePorts_def examplePod_def index_def exampleApi_def
        getAPIServerPorts_def wrapE_def bindE_def throwE_def)
  have opts: "podOptions ?api () ?pod (proxyInitOptions exampleInit ''/ns'') w = (Inr ?o, w)"
    by (simp add: podOptions_annotated [OF exampleApi_request(5)] ann annotatedID_def ports
        annotatedOptions_def proxyInitOptions_def exampleInit_def)
  have "\<exists>fc. fst (BuildFirewallConfiguration (?o\<lparr>IPv6 := False\<rparr>)) = Inr fc"
    by (simp add: Build_Inr_iff effectiveMode_def mode_names proxyInitOptions_def exampleInit_def
        IsValidPort_def)
  then obtain fc where fc: "fst (BuildFirewallConfiguration (?o\<lparr>IPv6 := False\<rparr>)) = Inr fc" ..
  then have "\<not> FirewallConfiguration.SimulateOnly fc"
    by (auto simp: Build_Inr_iff proxyInitOptions_def exampleInit_def)
  moreover have "IPv6 ?o = False" by (simp add: proxyInitOptions_def exampleInit_def)
  then have "exampleAdd run w = bindE (buildAndConfigure everyBinary run (?o\<lparr>IPv6 := False\<rparr>)) returnE w"
    unfolding exampleAdd_def
    by (subst cmdAdd_fetched [OF exampleApi_request(1,2) _ _ exampleApi_request(3)])
       (simp_all add: examplePod_meshed exampleApi_request(6) configurePod_def exampleConf_def bindE_assoc
          bindE_def [of "podOptions ?api () ?pod (proxyInitOptions exampleInit ''/ns'')"] opts
          del: RootOptions.update_convs)
  ultimately show ?thesis
    using fc by (auto simp: bindE_def buildAndConfigure_def returnE_def split: option.split prod.split intro!: exI [of _ fc])
qed

section \<open>Properties\<close>

text \<open>C26. A request changes the firewall only for a pod of the mesh: when the calls to the
  cluster and to the runtime leave a part of the world alone (the nat table, say) and a request
  changed it, then the request was well-formed and named a pod, that pod was fetched, has a
  \<open>linkerd-proxy\<close> container and has no \<open>linkerd-init\<close> container that would set up the same rules.\<close>

theorem cmdAdd_only_meshed:
  assumes "quiet view api" and "view (snd (cmdAdd api lookPath run stdin args netns w)) \<noteq> view w"
  shows "\<exists>conf namespace podName client pod w'.
    parseConfig api stdin = Inr conf \<and> loadArgs api args = Inr (namespace, podName) \<and>
    namespace \<noteq> '''' \<and> podName \<noteq> '''' \<and>
    fetchPod api conf namespace podName w = (Inr (client, pod), w') \<and>
    ''linkerd-init'' \<notin> set (PodInitContainers pod) \<and>
    (''linkerd-proxy'' \<in> set (PodContainers pod) \<or> ''linkerd-proxy'' \<in> set (PodInitContainers pod))"
  using cmdAdd_moves [OF assms] by (metis meshed_def)

theorem cmdAdd_only_meshed_witness:
  "snd (exampleAdd (\<lambda>args w. (('''', Some ''failed''), args # w)) []) \<noteq> [] \<and>
   ''linkerd-init'' \<notin> set (PodInitContainers (examplePod Map.empty []))"
proof -
  let ?run = "\<lambda>args w. (('''', Some ''failed''), args # w)"
  have moved: "snd (exampleAdd ?run []) \<noteq> []"
    using exampleAdd_eq [of ?run "[]"] by (auto simp: ConfigureFirewall_def executeCommand_def Let_def)
  with cmdAdd_only_meshed [OF exampleApi_request(4), where view = id] show ?thesis
    by (fastforce simp: exampleApi_request exampleAdd_def)
qed

text \<open>C9. On a pod of the mesh a request configures the firewall with the options of the plugin's
  configuration as the annotations change them: the pod's annotation wins over the one of its
  namespace; outbound ports and subnets are replaced, inbound ports are added to; uid and gid are
  replaced; a control plane pod also ignores the ports of the API server outbound; and an empty
  mode becomes \<open>legacy\<close>. IPv4 comes first, IPv6 follows only when it is asked for, and the
  previous result is passed on only after both.\<close>

theorem cmdAdd_applies_annotations:
  assumes "parseConfig api stdin = Inr conf" and "loadArgs api args = Inr (namespace, podName)"
    and "namespace \<noteq> ''''" and "podName \<noteq> ''''"
    and "fetchPod api conf namespace podName w = (Inr (client, pod), w1)" and "meshed pod"
    and "namespaceReadable api client pod ns"
    and "annotatedID (annotationOf pod ns ''config.linkerd.io/proxy-uid'') (pi_ProxyUID (pc_ProxyInit conf)) = Inr uid"
    and "annotatedID (annotationOf pod ns ''config.linkerd.io/proxy-gid'') (pi_ProxyGID (pc_ProxyInit conf)) = Inr gid"
    and "controlPlanePorts api client pod w1 = (Inr ports, w2)"
    and "o' = annotatedOptions (annotationOf pod ns) ports uid gid (proxyInitOptions (pc_ProxyInit conf) netns)"
  shows "cmdAdd api lookPath run stdin args netns w =
    bindE (buildAndConfigure lookPath run (o'\<lparr>IPv6 := False\<rparr>)) (\<lambda>_.
    bindE (if IPv6 o' then buildAndConfigure lookPath run o' else returnE ()) (\<lambda>_.
    printPrevious api conf)) w2"
proof -
  have ids: "ProxyUserID (proxyInitOptions pi netns) = pi_ProxyUID pi"
    "ProxyGroupID (proxyInitOptions pi netns) = pi_ProxyGID pi" for pi
    by (simp_all add: proxyInitOptions_def)
  have "podOptions api client pod (proxyInitOptions (pc_ProxyInit conf) netns) w1 = (Inr o', w2)"
    by (simp add: podOptions_annotated [OF assms(7)] ids assms(8-11))
  then show ?thesis
    by (simp add: cmdAdd_fetched [OF assms(1-5)] assms(6) configurePod_def bindE_assoc)
       (simp add: bindE_def)
qed

theorem cmdAdd_applies_annotations_witness:
  "cmdAdd (exampleApi (examplePod [''config.linkerd.io/skip-inbound-ports'' \<mapsto> ''25,4567''] []) Map.empty)
     everyBinary recorder '''' '''' ''/ns'' [] =
   bindE (buildAndConfigure everyBinary recorder
     ((proxyInitOptions exampleInit ''/ns'')\<lparr>InboundPortsToIgnore := [''4190'', ''25'', ''4567''],
        OutboundPortsToIgnore := [''443'', ''6443''], IPTablesMode := ''legacy''\<rparr>)) (\<lambda>_.
     returnE ()) []"
proof -
  define pod where "pod = examplePod [''config.linkerd.io/skip-inbound-ports'' \<mapsto> ''25,4567''] []"
  have ann: "annotationOf pod Map.empty k =
      (if k = ''config.linkerd.io/skip-inbound-ports'' then ''25,4567'' else '''')" for k
    by (simp add: annotationOf_def pod_def examplePod_def index_def)
  have ports: "controlPlanePorts (exampleApi pod Map.empty) () pod [] = (Inr [''443'', ''6443''], [])"
    by (simp add: controlPlanePorts_def pod_def examplePod_def index_def exampleApi_def
        getAPIServerPorts_def wrapE_def bindE_def throwE_def)
  have mesh: "meshed pod" by (simp add: pod_def examplePod_meshed)
  have split: "Split ''25,4567'' CHR '','' = [''25'', ''4567'']" by (simp add: go_simps)
  show ?thesis
    unfolding pod_def [symmetric]
    by (subst cmdAdd_applies_annotations
         [OF exampleApi_request(1,2) _ _ exampleApi_request(3) _ exampleApi_request(5) _ _ ports refl,
          where uid = 2102 and gid = 0])
       (simp_all add: exampleApi_request ann annotatedID_def exampleConf_def exampleInit_def split
         proxyInitOptions_def annotatedOptions_def mesh)
qed

text \<open>C32. A uid or gid annotation that is not an integer makes the request fail with the error
  of \<open>strconv.Atoi\<close> before any command of the firewall runs: the result does not depend on the
  runner, and the world is the one the pod was fetched in.\<close>

theorem cmdAdd_bad_identity:
  assumes "parseConfig api stdin = Inr conf" and "loadArgs api args = Inr (namespace, podName)"
    and "namespace \<noteq> ''''" and "podName \<noteq> ''''"
    and "fetchPod api conf namespace podName w = (Inr (client, pod), w1)" and "meshed pod"
    and "namespaceReadable api client pod ns"
    and "annotatedID (annotationOf pod ns ''config.linkerd.io/proxy-uid'') (pi_ProxyUID (pc_ProxyInit conf)) = Inl e \<or>
      annotatedID (annotationOf pod ns ''config.linkerd.io/proxy-uid'') (pi_ProxyUID (pc_ProxyInit conf)) = Inr uid \<and>
      annotatedID (annotationOf pod ns ''config.linkerd.io/proxy-gid'') (pi_ProxyGID (pc_ProxyInit conf)) = Inl e"
  shows "cmdAdd api lookPath run stdin args netns w = (Inl (AtoiError e), w1)"
proof -
  have ids: "ProxyUserID (proxyInitOptions pi netns) = pi_ProxyUID pi"
    "ProxyGroupID (proxyInitOptions pi netns) = pi_ProxyGID pi" for pi
    by (simp_all add: proxyInitOptions_def)
  have "podOptions api client pod (proxyInitOptions (pc_ProxyInit conf) netns) w1 = (Inl (AtoiError e), w1)"
    using assms(8) by (auto simp: podOptions_annotated [OF assms(7)] ids)
  then show ?thesis
    by (simp add: cmdAdd_fetched [OF assms(1-5)] assms(6) configurePod_def bindE_def)
qed

theorem cmdAdd_bad_identity_witness:
  "cmdAdd (exampleApi (examplePod Map.empty []) [''config.linkerd.io/proxy-uid'' \<mapsto> ''root''])
     everyBinary recorder '''' '''' ''/ns'' [] = (Inl (AtoiError ErrSyntax), [])"
proof -
  have "annotatedID (annotationOf (examplePod Map.empty [])
      [''config.linkerd.io/proxy-uid'' \<mapsto> ''root''] ''config.linkerd.io/proxy-uid'') i = Inl ErrSyntax" for i
    by (simp add: annotatedID_def annotationOf_def examplePod_def index_def go_simps)
  then show ?thesis
    by (intro cmdAdd_bad_identity [OF exampleApi_request(1,2) _ _ exampleApi_request(3)
          examplePod_meshed exampleApi_request(5)]) simp_all
qed

text \<open>For a pod of the control plane the ports added to the outbound ignore list are the ports
  of the API server, each a number that parses back to itself as a range, so none is lost on
  the way to the rules; when the service cannot be read they are 443 and 6443. Every other pod
  gets none, without a call to the cluster.\<close>

theorem controlPlanePorts_parse:
  assumes "getAPIServerPorts api client w = (r, w')"
    and "\<forall>svc w1. GetService api client ''default'' ''kubernetes'' w = (Inr svc, w1) \<longrightarrow>
      list_all (\<lambda>p. 0 \<le> p \<and> p \<le> 65535) (servicePorts svc)"
  shows "(case controlPlanePorts api client pod w of
      (Inr ports, w'') \<Rightarrow>
        (if index (PodLabels pod) ''linkerd.io/control-plane-component'' = '''' then ports = [] \<and> w'' = w
         else w'' = w' \<and>
           map ParsePortRange ports = map (\<lambda>p. Inr \<lparr>LowerBound = p, UpperBound = p\<rparr>)
             (case GetService api client ''default'' ''kubernetes'' w of
                (Inr svc, _) \<Rightarrow> servicePorts svc | (Inl _, _) \<Rightarrow> [443, 6443]))
    | (Inl _, _) \<Rightarrow> False)"
proof -
  have fallback: "ParsePortRange ''443'' = Inr \<lparr>LowerBound = 443, UpperBound = 443\<rparr>"
    "ParsePortRange ''6443'' = Inr \<lparr>LowerBound = 6443, UpperBound = 6443\<rparr>"
    by (simp_all add: go_simps)
  have "list_all (\<lambda>p. 0 \<le> p \<and> p \<le> 65535) ps \<Longrightarrow>
      map ParsePortRange (map Itoa ps) = map (\<lambda>p. Inr \<lparr>LowerBound = p, UpperBound = p\<rparr>) ps" for ps
    by (simp add: list_all_iff ParsePortRange_Itoa)
  with assms fallback show ?thesis
    by (cases "GetService api client ''default'' ''kubernetes'' w";
        cases "fst (GetService api client ''default'' ''kubernetes'' w)")
      (auto simp: controlPlanePorts_def getAPIServerPorts_def bindE_def wrapE_def returnE_def
        apiServerPorts_eq)
qed

theorem controlPlanePorts_parse_witness:
  "\<exists>ports. controlPlanePorts (exampleApi (examplePod Map.empty []) Map.empty) () (examplePod Map.empty []) ()
      = (Inr ports, ()) \<and>
    map ParsePortRange ports = [Inr \<lparr>LowerBound = 443, UpperBound = 443\<rparr>, Inr \<lparr>LowerBound = 6443, UpperBound = 6443\<rparr>]"
proof -
  let ?api = "exampleApi (examplePod Map.empty []) Map.empty :: (unit, unit, unit, unit, unit, unit) host_api"
  have "getAPIServerPorts ?api () () = (Inl (LibraryError ''forbidden''), ())"
    by (simp add: getAPIServerPorts_def exampleApi_def bindE_def wrapE_def throwE_def)
  from controlPlanePorts_parse [OF this, of "examplePod Map.empty []"] show ?thesis
    by (simp add: exampleApi_def throwE_def examplePod_def index_def split: prod.splits sum.splits)
qed



end
