(* ===== verification/Go_Path.thy ===== *)
theory Go_Path
  imports Go_Strings
begin

text \<open>
  The functions of Go's \<open>path\<close> package that the installer uses: \<open>Clean\<close>, \<open>Join\<close>,
  \<open>Dir\<close>, \<open>Base\<close> and \<open>Ext\<close>. The lemmas say what they do on absolute paths given by their
  components: the installer's temporary file is a sibling of its target with another name.
\<close>

section \<open>Definitions\<close>

text \<open>The components that stay, the last one first: empty ones and dots go, and a double dot
  takes the component before it, if there is one to take.\<close>

fun cleanLoop :: "bool \<Rightarrow> string list \<Rightarrow> string list \<Rightarrow> string list" where
  "cleanLoop rooted st [] = rev st"
| "cleanLoop rooted st (c # cs) =
     (if c = '''' \<or> c = ''.'' then cleanLoop rooted st cs
      else if c = ''..'' then
        (case st of
           [] \<Rightarrow> cleanLoop rooted (if rooted then [] else [''..'']) cs
         | d # ds \<Rightarrow> cleanLoop rooted (if d = ''..'' then ''..'' # st else ds) cs)
      else cleanLoop rooted (c # st) cs)"

definition Clean :: "string \<Rightarrow> string" where
  "Clean p =
     (case p of
        [] \<Rightarrow> ''.''
      | c # _ \<Rightarrow>
          let cs = cleanLoop (c = CHR ''/'') [] (Split p CHR ''/'') in
          if c = CHR ''/'' then CHR ''/'' # Join cs ''/''
          else if cs = [] then ''.'' else Join cs ''/'')"

definition path_Join :: "string list \<Rightarrow> string" where
  "path_Join elem =
     (if \<forall>e \<in> set elem. e = '''' then '''' else Clean (Join (filter (\<lambda>e. e \<noteq> '''') elem) ''/''))"

text \<open>The part before the last slash (with it) and the part after it.\<close>

definition afterSlash :: "string \<Rightarrow> string" where
  "afterSlash p = rev (takeWhile (\<lambda>c. c \<noteq> CHR ''/'') (rev p))"

definition uptoSlash :: "string \<Rightarrow> string" where
  "uptoSlash p = rev (dropWhile (\<lambda>c. c \<noteq> CHR ''/'') (rev p))"

definition Dir :: "string \<Rightarrow> string" where
  "Dir p = Clean (uptoSlash p)"

definition Base :: "string \<Rightarrow> string" where
  "Base p =
     (if p = '''' then ''.''
      else let q = rev (dropWhile (\<lambda>c. c = CHR ''/'') (rev p)) in
      if afterSlash q = '''' then ''/'' else afterSlash q)"

text \<open>From the last dot of the last component, if it has one.\<close>

fun extLoop :: "string \<Rightarrow> string \<Rightarrow> string" where
  "extLoop acc [] = ''''"
| "extLoop acc (c # cs) =
     (if c = CHR ''/'' then ''''
      else if c = CHR ''.'' then c # acc
      else extLoop (c # acc) cs)"

definition Ext :: "string \<Rightarrow> string" where
  "Ext p = extLoop '''' (rev p)"

declare Clean_def [go_simps] path_Join_def [go_simps] Dir_def [go_simps] Base_def [go_simps]
  Ext_def [go_simps] afterSlash_def [go_simps] uptoSlash_def [go_simps]

section \<open>Absolute paths by components\<close>

definition proper :: "string \<Rightarrow> bool" where
  "proper c \<longleftrightarrow> c \<noteq> '''' \<and> c \<noteq> ''.'' \<and> c \<noteq> ''..'' \<and> CHR ''/'' \<notin> set c"

definition absPath :: "string list \<Rightarrow> string" where
  "absPath cs = concat (map (\<lambda>c. CHR ''/'' # c) cs)"

lemma absPath_Join: "cs \<noteq> [] \<Longrightarrow> absPath cs = CHR ''/'' # Join cs ''/''"
  by (induction cs rule: induct_list012) (auto simp: absPath_def)

lemma absPath_append [simp]: "absPath (cs @ ds) = absPath cs @ absPath ds"
  by (simp add: absPath_def)

lemma absPath_single [simp]: "absPath [c] = CHR ''/'' # c"
  by (simp add: absPath_def)

lemma cleanLoop_proper: "list_all proper cs \<Longrightarrow> cleanLoop rooted st cs = rev st @ cs"
  by (induction cs arbitrary: st) (simp_all add: proper_def)

lemma Split_absPath:
  assumes "cs \<noteq> []" and "list_all proper cs"
  shows "Split (absPath cs) CHR ''/'' = '''' # cs"
  using assms by (simp add: absPath_Join Split_Join list_all_iff proper_def)

lemma Clean_absPath:
  assumes "cs \<noteq> []" and "list_all proper cs"
  shows "Clean (absPath cs) = absPath cs"
proof -
  have "hd (absPath cs) = CHR ''/''" "absPath cs \<noteq> []" using assms by (simp_all add: absPath_Join)
  then show ?thesis
    using assms Split_absPath [OF assms] cleanLoop_proper [OF assms(2)]
    by (cases "absPath cs") (simp_all add: Clean_def Let_def absPath_Join)
qed

lemma Clean_absPath_slash:
  assumes "cs \<noteq> []" and "list_all proper cs"
  shows "Clean (absPath cs @ ''/'') = absPath cs"
proof -
  have "Split (absPath cs @ ''/'') CHR ''/'' = '''' # cs @ ['''']"
    using assms Split_Join [of "cs @ ['''']" "CHR ''/''"]
      absPath_Join [of "cs @ ['''']"]
    by (simp add: list_all_iff proper_def)
  moreover have "cleanLoop True st (cs @ ['''']) = rev st @ cs" for st
    using assms(2) by (induction cs arbitrary: st) (simp_all add: proper_def)
  ultimately show ?thesis
    using assms by (cases "absPath cs") (simp_all add: Clean_def Let_def absPath_Join)
qed

lemma uptoSlash_snoc: "CHR ''/'' \<notin> set b \<Longrightarrow> uptoSlash (d @ CHR ''/'' # b) = d @ ''/''"
  by (simp add: uptoSlash_def dropWhile_append)

lemma afterSlash_snoc: "CHR ''/'' \<notin> set b \<Longrightarrow> afterSlash (d @ CHR ''/'' # b) = b"
  by (simp add: afterSlash_def takeWhile_append)

lemma Dir_absPath:
  assumes "cs \<noteq> []" and "list_all proper cs" and "proper b"
  shows "Dir (absPath (cs @ [b])) = absPath cs"
  using assms by (simp add: Dir_def uptoSlash_snoc proper_def Clean_absPath_slash)

lemma Base_snoc:
  assumes "proper b"
  shows "Base (d @ CHR ''/'' # b) = b"
proof -
  have "rev b \<noteq> []" "hd (rev b) \<noteq> CHR ''/''"
    using assms by (auto simp: proper_def hd_rev) (metis last_in_set)
  then have "dropWhile (\<lambda>c. c = CHR ''/'') (rev b @ CHR ''/'' # rev d) = rev b @ CHR ''/'' # rev d"
    by (cases "rev b") auto
  then show ?thesis
    using assms by (simp add: Base_def afterSlash_snoc proper_def)
qed

lemma Base_absPath: "proper b \<Longrightarrow> Base (absPath (cs @ [b])) = b"
  by (simp add: Base_snoc)

lemma path_Join_absPath:
  assumes "cs \<noteq> []" and "list_all proper cs" and "proper b"
  shows "path_Join [absPath cs, b] = absPath (cs @ [b])"
proof -
  have "Clean (absPath (cs @ [b])) = absPath (cs @ [b])"
    by (rule Clean_absPath) (use assms in simp_all)
  then show ?thesis
    using assms by (simp add: path_Join_def absPath_Join proper_def)
qed

text \<open>A sibling: the same directory, another name.\<close>

lemma sibling:
  assumes "cs \<noteq> []" and "list_all proper cs" and "proper b" and "proper b'"
    and "f = absPath (cs @ [b])"
  shows "path_Join [Dir f, b'] = absPath (cs @ [b'])"
  by (simp add: assms(5) Dir_absPath [OF assms(1-3)] path_Join_absPath [OF assms(1,2,4)] del: absPath_append)

lemma proper_install: "proper b \<Longrightarrow> proper (b @ ''.install'')"
  by (auto simp: proper_def)

lemma absPath_snoc_inject: "absPath (cs @ [b]) = absPath (cs @ [b']) \<longleftrightarrow> b = b'"
  by simp

section \<open>Names of the installer\<close>

text \<open>A clean absolute path below the root's children; the temporary name of such a path is the
  path with a suffix.\<close>

definition properPath :: "string \<Rightarrow> bool" where
  "properPath f \<longleftrightarrow> (\<exists>cs b. cs \<noteq> [] \<and> list_all proper cs \<and> proper b \<and> f = absPath (cs @ [b]))"

lemma proper_append: "proper b \<Longrightarrow> CHR ''/'' \<notin> set x \<Longrightarrow> length x > 2 \<Longrightarrow> proper (b @ x)"
  by (auto simp: proper_def dest!: arg_cong [where f = length])

lemma properPath_append:
  assumes "properPath f" and "CHR ''/'' \<notin> set x" and "length x > 2"
  shows "properPath (f @ x)" and "path_Join [Dir f, Base f @ x] = f @ x" and "Dir (f @ x) = Dir f"
proof -
  obtain cs b where f: "cs \<noteq> []" "list_all proper cs" "proper b" "f = absPath (cs @ [b])"
    using assms(1) by (auto simp: properPath_def)
  have fx: "f @ x = absPath (cs @ [b @ x])" using f(4) by simp
  have bx: "proper (b @ x)" using f(3) assms(2,3) by (rule proper_append)
  show "properPath (f @ x)" unfolding properPath_def fx using f bx by blast
  show "path_Join [Dir f, Base f @ x] = f @ x"
    using sibling [OF f(1-3) bx f(4)] fx f(3,4) by (simp add: Base_snoc)
  show "Dir (f @ x) = Dir f"
    unfolding fx unfolding f(4) by (simp only: Dir_absPath [OF f(1,2) bx] Dir_absPath [OF f(1-3)])
qed

lemma properPath_Clean: "properPath f \<Longrightarrow> Clean f = f"
  by (auto simp: properPath_def simp del: absPath_append intro!: Clean_absPath)

lemma properPath_nonempty: "properPath f \<Longrightarrow> f \<noteq> ''''"
  by (auto simp: properPath_def)

lemma properPath_parent: "properPath f \<Longrightarrow> Dir f \<noteq> f"
  by (auto simp: properPath_def Dir_absPath simp del: absPath_append) (simp add: absPath_def)

end
