(* ===== verification/Go_Os.thy ===== *)
theory Go_Os
  imports Go_Path "HOL-Library.Word" "HOL-Library.AList" "HOL-Library.List_Lexorder" "HOL-Library.Char_ord"
begin

unbundle bit_operations_syntax

text \<open>
  The part of Go's \<open>os\<close> package that the installer uses, over a store of files indexed by
  path. Every call consumes one entry of a schedule of faults: \<open>None\<close> lets it through,
  \<open>Some (e, n)\<close> makes it fail with \<open>e\<close>, and a write that fails has written \<open>n\<close> bytes. A call
  beyond the end of the schedule does not fail of itself, so a theorem about all schedules is
  a theorem about any pattern of I/O errors, and one about the empty schedule is about none.
  Files are regular, with their bytes and permissions, directories, or something else; a
  handle is identified with the path it was opened at, which no other step changes.
\<close>

section \<open>The host\<close>

datatype os_error = ErrNotExist | Errno string

datatype node = Regular string "9 word" | Directory | Special

record host =
  store :: "(string \<times> node) list"
  environ :: "string \<rightharpoonup> string"
  umask :: "9 word"
  faults :: "(os_error \<times> nat) option list"

type_synonym ('z, 'a) sys = "('z host_scheme, os_error, 'a) io"

definition lookup :: "'z host_scheme \<Rightarrow> string \<Rightarrow> node option" where
  "lookup w p = map_of (store w) p"

definition put :: "string \<Rightarrow> node \<Rightarrow> 'z host_scheme \<Rightarrow> 'z host_scheme" where
  "put p n w = w\<lparr>store := AList.update p n (store w)\<rparr>"

definition drop_node :: "string \<Rightarrow> 'z host_scheme \<Rightarrow> 'z host_scheme" where
  "drop_node p w = w\<lparr>store := AList.delete p (store w)\<rparr>"

lemma lookup_put [simp]: "lookup (put p n w) q = (if q = p then Some n else lookup w q)"
  by (simp add: lookup_def put_def update_conv')

lemma lookup_drop [simp]: "lookup (drop_node p w) q = (if q = p then None else lookup w q)"
  by (simp add: lookup_def drop_node_def delete_conv')

lemma host_fields [simp]:
  "environ (put p n w) = environ w" "environ (drop_node p w) = environ w"
  "umask (put p n w) = umask w" "umask (drop_node p w) = umask w"
  "faults (put p n w) = faults w" "faults (drop_node p w) = faults w"
  "more (put p n w) = more w" "more (drop_node p w) = more w"
  by (simp_all add: put_def drop_node_def)

lemma lookup_faults [simp]: "lookup (w\<lparr>faults := f\<rparr>) p = lookup w p"
  by (simp add: lookup_def)

section \<open>Calls\<close>

text \<open>One call: \<open>ok\<close> when it is let through, \<open>broken n\<close> when it is made to fail.\<close>

definition call :: "('z, 'a) sys \<Rightarrow> (nat \<Rightarrow> 'z host_scheme \<Rightarrow> 'z host_scheme) \<Rightarrow> ('z, 'a) sys" where
  "call ok broken w =
     (case faults w of
        [] \<Rightarrow> ok w
      | None # fs \<Rightarrow> ok (w\<lparr>faults := fs\<rparr>)
      | Some (e, n) # fs \<Rightarrow> (Inl e, broken n (w\<lparr>faults := fs\<rparr>)))"

definition unbroken :: "nat \<Rightarrow> 'z host_scheme \<Rightarrow> 'z host_scheme" where
  "unbroken n w = w"

definition Getenv :: "'z host_scheme \<Rightarrow> string \<Rightarrow> string" where
  "Getenv w key = (case environ w key of None \<Rightarrow> '''' | Some v \<Rightarrow> v)"

definition os_ReadFile :: "string \<Rightarrow> ('z, string) sys" where
  "os_ReadFile p = call (\<lambda>w. (case lookup w p of
        Some (Regular data _) \<Rightarrow> Inr data
      | Some _ \<Rightarrow> Inl (Errno ''is a directory'')
      | None \<Rightarrow> Inl ErrNotExist, w)) unbroken"

definition os_Stat :: "string \<Rightarrow> ('z, node) sys" where
  "os_Stat p = call (\<lambda>w. (case lookup w p of Some n \<Rightarrow> Inr n | None \<Rightarrow> Inl ErrNotExist, w)) unbroken"

text \<open>\<open>os.OpenFile\<close> with \<open>O_CREATE\<close>, \<open>O_TRUNC\<close> and \<open>O_WRONLY\<close>: the permissions are for a new
  file only, less those of the umask.\<close>

definition os_OpenTrunc :: "string \<Rightarrow> 9 word \<Rightarrow> ('z, unit) sys" where
  "os_OpenTrunc p perm = call (\<lambda>w.
     case lookup w p of
       Some (Regular _ m) \<Rightarrow> (Inr (), put p (Regular '''' m) w)
     | Some _ \<Rightarrow> (Inl (Errno ''is a directory''), w)
     | None \<Rightarrow> (if lookup w (Dir p) = Some Directory
                then (Inr (), put p (Regular '''' (perm AND NOT (umask w))) w)
                else (Inl ErrNotExist, w))) unbroken"

definition appended :: "string \<Rightarrow> string \<Rightarrow> 'z host_scheme \<Rightarrow> 'z host_scheme" where
  "appended p data w =
     (case lookup w p of Some (Regular old m) \<Rightarrow> put p (Regular (old @ data) m) w | _ \<Rightarrow> w)"

definition os_Write :: "string \<Rightarrow> string \<Rightarrow> ('z, unit) sys" where
  "os_Write p data = call (\<lambda>w. (Inr (), appended p data w)) (\<lambda>n. appended p (take n data))"

definition os_Sync :: "('z, unit) sys" where
  "os_Sync = call (\<lambda>w. (Inr (), w)) unbroken"

definition os_Close :: "('z, unit) sys" where
  "os_Close = call (\<lambda>w. (Inr (), w)) unbroken"

text \<open>\<open>os.WriteFile\<close>: open, write, close; an error of the write wins over one of the close.\<close>

definition os_WriteFile :: "string \<Rightarrow> string \<Rightarrow> 9 word \<Rightarrow> ('z, unit) sys" where
  "os_WriteFile p data perm =
     bindE (os_OpenTrunc p perm) (\<lambda>_. bindE (onErrorE (os_Write p data) os_Close) (\<lambda>_. os_Close))"

text \<open>Renaming a file; it replaces a file that has the new name. The program renames only
  files that it has just written, never a directory.\<close>

definition os_Rename :: "string \<Rightarrow> string \<Rightarrow> ('z, unit) sys" where
  "os_Rename old new = call (\<lambda>w.
     case lookup w old of
       None \<Rightarrow> (Inl ErrNotExist, w)
     | Some n \<Rightarrow>
         (if n = Directory \<or> lookup w new = Some Directory then (Inl (Errno ''file exists''), w)
          else if lookup w (Dir new) \<noteq> Some Directory then (Inl ErrNotExist, w)
          else (Inr (), put new n (if old = new then w else drop_node old w)))) unbroken"

text \<open>The names in a directory, sorted.\<close>

definition children :: "'z host_scheme \<Rightarrow> string \<Rightarrow> string list" where
  "children w d = sort (remdups (map Base (filter (\<lambda>p. Dir p = d \<and> p \<noteq> d) (map fst (store w)))))"

definition os_ReadDir :: "string \<Rightarrow> ('z, (string \<times> node) list) sys" where
  "os_ReadDir d = call (\<lambda>w.
     (if lookup w (Clean d) = Some Directory
      then Inr (map (\<lambda>b. (b, the (lookup w (path_Join [d, b])))) (children w (Clean d)))
      else if lookup w (Clean d) = None then Inl ErrNotExist else Inl (Errno ''not a directory''), w)) unbroken"

definition os_Remove :: "string \<Rightarrow> ('z, unit) sys" where
  "os_Remove p = call (\<lambda>w.
     case lookup w p of
       None \<Rightarrow> (Inl ErrNotExist, w)
     | Some n \<Rightarrow>
         (if n = Directory \<and> children w p \<noteq> [] then (Inl (Errno ''directory not empty''), w)
          else (Inr (), drop_node p w))) unbroken"

lemmas os_defs = os_ReadFile_def os_Stat_def os_OpenTrunc_def os_Write_def os_Sync_def os_Close_def
  os_Rename_def os_ReadDir_def os_Remove_def

section \<open>What calls leave alone\<close>

text \<open>A step that changes no file but those of a set, and nothing else of the record but the
  schedule of faults.\<close>

definition changes_only :: "string set \<Rightarrow> ('z host_scheme, 'e, 'a) io \<Rightarrow> bool" where
  "changes_only ps m \<longleftrightarrow> (\<forall>w. (\<forall>q. q \<notin> ps \<longrightarrow> lookup (snd (m w)) q = lookup w q) \<and>
     environ (snd (m w)) = environ w \<and> umask (snd (m w)) = umask w \<and>
     host.more (snd (m w)) = host.more w \<and> (faults w = [] \<longrightarrow> faults (snd (m w)) = []))"

lemma changes_onlyD:
  assumes "changes_only ps m" and "m w = (r, w')"
  shows "q \<notin> ps \<Longrightarrow> lookup w' q = lookup w q" and "environ w' = environ w" and "umask w' = umask w"
    and "host.more w' = host.more w" and "faults w = [] \<Longrightarrow> faults w' = []"
  using assms unfolding changes_only_def by (metis snd_conv)+

lemma changes_only_mono: "changes_only ps m \<Longrightarrow> ps \<subseteq> qs \<Longrightarrow> changes_only qs m"
  unfolding changes_only_def by blast

lemma changes_only_bindE:
  "changes_only ps m \<Longrightarrow> (\<And>x. changes_only ps (f x)) \<Longrightarrow> changes_only ps (bindE m f)"
  unfolding changes_only_def bindE_def
  by (auto split: prod.split sum.split) (metis snd_conv)+

lemma changes_only_wrapE: "changes_only ps m \<Longrightarrow> changes_only ps (wrapE c m)"
  unfolding changes_only_def wrapE_def
  by (auto split: prod.split sum.split) (metis snd_conv)+

lemma changes_only_then:
  assumes "changes_only ps m" and "\<And>r. changes_only ps (g r)"
  shows "changes_only ps (\<lambda>w. g (fst (m w)) (snd (m w)))"
  unfolding changes_only_def
proof
  fix w
  show "(\<forall>q. q \<notin> ps \<longrightarrow> lookup (snd (g (fst (m w)) (snd (m w)))) q = lookup w q) \<and>
      environ (snd (g (fst (m w)) (snd (m w)))) = environ w \<and> umask (snd (g (fst (m w)) (snd (m w)))) = umask w \<and>
      host.more (snd (g (fst (m w)) (snd (m w)))) = host.more w \<and>
      (faults w = [] \<longrightarrow> faults (snd (g (fst (m w)) (snd (m w)))) = [])"
    using changes_onlyD [OF assms(1), of w "fst (m w)" "snd (m w)"]
      changes_onlyD [OF assms(2), of "fst (m w)" "snd (m w)" "fst (g (fst (m w)) (snd (m w)))" "snd (g (fst (m w)) (snd (m w)))"]
    by simp
qed

lemma changes_only_value: "changes_only ps (\<lambda>w. (r, w))"
  by (simp add: changes_only_def)

lemma changes_only_onErrorE:
  fixes m :: "('z host_scheme, 'e, 'a) io" and c :: "('z host_scheme, 'f, 'b) io"
  assumes "changes_only ps m" and "changes_only ps c"
  shows "changes_only ps (onErrorE m c)"
proof -
  have c: "changes_only ps (\<lambda>w. (Inl e :: 'e + 'a, snd (c w)))" for e
    using changes_only_then [OF assms(2), of "\<lambda>_ w. (Inl e :: 'e + 'a, w)"] by (simp add: changes_only_value)
  let ?g = "\<lambda>r :: 'e + 'a. case r of Inl e \<Rightarrow> (\<lambda>w. (Inl e :: 'e + 'a, snd (c w))) | Inr x \<Rightarrow> (\<lambda>w. (Inr x, w))"
  have "changes_only ps (?g r)" for r
    by (cases r) (simp_all add: c changes_only_value)
  from changes_only_then [OF assms(1), of ?g, OF this] show ?thesis
    by (rule back_subst [of "changes_only ps"]) (auto simp: onErrorE_def fun_eq_iff split: prod.split sum.split)
qed

lemma changes_only_pure: "changes_only ps (returnE x)" "changes_only ps (throwE e)" "changes_only ps (liftE r)"
  by (simp_all add: changes_only_def returnE_def throwE_def liftE_def)

lemma appended_other [simp]:
  "q \<noteq> p \<Longrightarrow> lookup (appended p d w) q = lookup w q"
  "environ (appended p d w) = environ w" "umask (appended p d w) = umask w"
  "faults (appended p d w) = faults w" "host.more (appended p d w) = host.more w"
  by (auto simp: appended_def split: option.splits node.splits)

lemma calls_change:
  "changes_only {} (os_ReadFile p)" "changes_only {} (os_Stat p)" "changes_only {} (os_ReadDir p)"
  "changes_only {} os_Sync" "changes_only {} os_Close"
  "changes_only {p} (os_OpenTrunc p perm)" "changes_only {p} (os_Write p data)"
  "changes_only {old, new} (os_Rename old new)" "changes_only {p} (os_Remove p)"
  by (auto simp: changes_only_def os_defs call_def unbroken_def
      split: list.split option.split prod.split node.split)

lemma WriteFile_change: "changes_only {p} (os_WriteFile p data perm)"
  unfolding os_WriteFile_def
  by (intro changes_only_bindE changes_only_onErrorE calls_change changes_only_mono [OF calls_change(5)]) simp_all

section \<open>What a call that succeeds has done\<close>

text \<open>What happens to the schedule: it is empty or loses its first entry.\<close>

lemma call_Inr:
  "call ok broken w = (Inr x, w') \<longleftrightarrow>
     (faults w = [] \<and> ok w = (Inr x, w')) \<or>
     (\<exists>fs. faults w = None # fs \<and> ok (w\<lparr>faults := fs\<rparr>) = (Inr x, w'))"
  by (auto simp: call_def split: list.splits option.splits)

lemma call_no_faults: "faults w = [] \<Longrightarrow> call ok broken w = ok w"
  by (simp add: call_def)

lemma ReadFile_Inr: "os_ReadFile p w = (Inr d, w') \<Longrightarrow> \<exists>m. lookup w p = Some (Regular d m)"
  by (auto simp: os_ReadFile_def call_Inr split: option.splits node.splits)

lemma OpenTrunc_Inr: "os_OpenTrunc p perm w = (Inr u, w') \<Longrightarrow> \<exists>m. lookup w' p = Some (Regular '''' m)"
  by (auto simp: os_OpenTrunc_def call_Inr split: option.splits node.splits if_splits)

lemma Write_Inr:
  "os_Write p d w = (Inr u, w') \<Longrightarrow> lookup w p = Some (Regular old m) \<Longrightarrow> lookup w' p = Some (Regular (old @ d) m)"
  by (auto simp: os_Write_def call_Inr appended_def)

lemma Close_lookup: "os_Close w = (r, w') \<Longrightarrow> lookup w' q = lookup w q"
  and Sync_lookup: "os_Sync w = (r, w') \<Longrightarrow> lookup w' q = lookup w q"
  using calls_change(4,5) by (auto dest: changes_onlyD(1))

lemma WriteFile_Inr:
  assumes "os_WriteFile p d perm w = (Inr u, w')"
  shows "\<exists>m. lookup w' p = Some (Regular d m)"
proof -
  from assms obtain w1 w2 where "os_OpenTrunc p perm w = (Inr (), w1)" "os_Write p d w1 = (Inr (), w2)"
    "os_Close w2 = (Inr u, w')"
    by (auto simp: os_WriteFile_def bindE_eq_Inr onErrorE_eq_Inr)
  then show ?thesis
    using OpenTrunc_Inr [of p perm w "()" w1] Write_Inr [of p d w1 "()" w2] Close_lookup [of w2 _ w' p] by auto
qed

text \<open>Renaming is atomic: the new name holds the whole old file, or nothing has changed.\<close>

lemma Rename_Inr:
  "os_Rename old new w = (Inr u, w') \<Longrightarrow> old \<noteq> new \<Longrightarrow>
     lookup w' new = lookup w old \<and> lookup w old \<noteq> None \<and> lookup w' old = None"
  by (auto simp: os_Rename_def call_Inr split: option.splits if_splits)

lemma Rename_Inl: "os_Rename old new w = (Inl e, w') \<Longrightarrow> lookup w' q = lookup w q"
  by (auto simp: os_Rename_def call_def unbroken_def split: option.splits if_splits list.splits prod.splits)

lemma Remove_Inr: "os_Remove p w = (Inr u, w') \<Longrightarrow> lookup w' p = None"
  by (auto simp: os_Remove_def call_Inr split: option.splits if_splits)

lemma Remove_Inl: "os_Remove p w = (Inl e, w') \<Longrightarrow> lookup w' q = lookup w q"
  by (auto simp: os_Remove_def call_def unbroken_def split: option.splits if_splits list.splits prod.splits)

lemma Remove_at: "os_Remove p w = (r, w') \<Longrightarrow> lookup w' p \<in> {lookup w p, None}"
  by (cases r) (auto dest: Remove_Inr Remove_Inl)

section \<open>Calls without faults\<close>

lemma WriteFile_no_faults:
  assumes "faults w = []"
    and "(\<exists>old. lookup w p = Some (Regular old m)) \<or>
      lookup w p = None \<and> lookup w (Dir p) = Some Directory \<and> m = perm AND NOT (umask w)"
  shows "\<exists>w'. os_WriteFile p d perm w = (Inr (), w') \<and> lookup w' p = Some (Regular d m) \<and>
    (\<forall>q. q \<noteq> p \<longrightarrow> lookup w' q = lookup w q) \<and> faults w' = [] \<and> host.more w' = host.more w"
  using assms
  by (auto simp: os_WriteFile_def os_OpenTrunc_def os_Write_def os_Close_def call_no_faults bindE_def
      onErrorE_def appended_def)

lemma Rename_no_faults:
  assumes "faults w = []" and "lookup w old = Some n" and "n \<noteq> Directory" and "old \<noteq> new"
    and "lookup w new \<noteq> Some Directory" and "lookup w (Dir new) = Some Directory"
  shows "os_Rename old new w = (Inr (), put new n (drop_node old w))"
  using assms by (simp add: os_Rename_def call_no_faults)

lemma Remove_no_faults:
  "faults w = [] \<Longrightarrow> lookup w p = Some n \<Longrightarrow> n \<noteq> Directory \<Longrightarrow> os_Remove p w = (Inr (), drop_node p w)"
  by (simp add: os_Remove_def call_no_faults)

lemma ReadFile_no_faults:
  "faults w = [] \<Longrightarrow> lookup w p = Some (Regular d m) \<Longrightarrow> os_ReadFile p w = (Inr d, w)"
  by (simp add: os_ReadFile_def call_no_faults)

lemma Stat_no_faults: "faults w = [] \<Longrightarrow> lookup w p = Some n \<Longrightarrow> os_Stat p w = (Inr n, w)"
  by (simp add: os_Stat_def call_no_faults)

end
