(* ===== verification/Cni_Paths.thy ===== *)
theory Cni_Paths
  imports Go_Os
begin

text \<open>
  \<open>internal/cni/paths.go\<close>: the environment variables of the installer with their defaults,
  and the four directories and files made of them. The functions read the environment of the
  host, so they take the host as an argument.
\<close>

record envVar =
  key :: string
  defaultVal :: string

definition envVar_get :: "envVar \<Rightarrow> 'z host_scheme \<Rightarrow> string" where
  "envVar_get ev w = (let val = Getenv w (key ev) in if val = '''' then defaultVal ev else val)"

definition cniBinDir :: envVar where
  "cniBinDir = \<lparr>key = ''DEST_CNI_BIN_DIR'', defaultVal = ''/opt/cni/bin''\<rparr>"

definition cniConfigDir :: envVar where
  "cniConfigDir = \<lparr>key = ''DEST_CNI_NET_DIR'', defaultVal = ''/etc/cni/net.d''\<rparr>"

definition cniNetworkConfigFile :: envVar where
  "cniNetworkConfigFile = \<lparr>key = ''CNI_NETWORK_CONFIG_FILE'', defaultVal = ''''\<rparr>"

definition containerCNIBinDir :: envVar where
  "containerCNIBinDir = \<lparr>key = ''CONTAINER_CNI_BIN_DIR'', defaultVal = ''/opt/cni/bin''\<rparr>"

definition containerMountPrefix :: envVar where
  "containerMountPrefix = \<lparr>key = ''CONTAINER_MOUNT_PREFIX'', defaultVal = ''/host''\<rparr>"

definition kubeCAFile :: envVar where
  "kubeCAFile = \<lparr>key = ''KUBE_CA_FILE'', defaultVal = ''''\<rparr>"

definition kubeConfigFilenameVar :: envVar where
  "kubeConfigFilenameVar = \<lparr>key = ''KUBECONFIG_FILE_NAME'', defaultVal = ''ZZZ-linkerd-cni-kubeconfig''\<rparr>"

definition svcHost :: envVar where
  "svcHost = \<lparr>key = ''KUBERNETES_SERVICE_HOST'', defaultVal = ''''\<rparr>"

definition svcPort :: envVar where
  "svcPort = \<lparr>key = ''KUBERNETES_SERVICE_PORT'', defaultVal = ''''\<rparr>"

lemmas env_vars = cniBinDir_def cniConfigDir_def cniNetworkConfigFile_def containerCNIBinDir_def
  containerMountPrefix_def kubeCAFile_def kubeConfigFilenameVar_def svcHost_def svcPort_def

definition hostCNIBin :: "'z host_scheme \<Rightarrow> string" where
  "hostCNIBin w = path_Join [envVar_get containerMountPrefix w, envVar_get cniBinDir w]"

definition hostCNIConfig :: "'z host_scheme \<Rightarrow> string" where
  "hostCNIConfig w = path_Join [envVar_get containerMountPrefix w, envVar_get cniConfigDir w]"

definition kubeConfigFilename :: "'z host_scheme \<Rightarrow> string" where
  "kubeConfigFilename w = path_Join [envVar_get containerMountPrefix w, envVar_get cniConfigDir w,
     envVar_get kubeConfigFilenameVar w]"

definition pluginKubeConfigFilename :: "'z host_scheme \<Rightarrow> string" where
  "pluginKubeConfigFilename w = path_Join [envVar_get cniConfigDir w, envVar_get kubeConfigFilenameVar w]"

text \<open>The environment alone decides.\<close>

lemma envVar_get_environ: "environ w' = environ w \<Longrightarrow> envVar_get ev w' = envVar_get ev w"
  by (simp add: envVar_get_def Getenv_def)

lemma default_paths:
  assumes "environ w = Map.empty"
  shows "hostCNIBin w = ''/host/opt/cni/bin''" and "hostCNIConfig w = ''/host/etc/cni/net.d''"
    and "kubeConfigFilename w = ''/host/etc/cni/net.d/ZZZ-linkerd-cni-kubeconfig''"
    and "pluginKubeConfigFilename w = ''/etc/cni/net.d/ZZZ-linkerd-cni-kubeconfig''"
  using assms
  by (simp_all add: hostCNIBin_def hostCNIConfig_def kubeConfigFilename_def
      pluginKubeConfigFilename_def envVar_get_def Getenv_def env_vars go_simps)

end
