(* ===== verification/Cni_Json.thy ===== *)
theory Cni_Json
  imports Prelude "HOL-Library.Finite_Map"
begin

text \<open>
  The CNI configuration as JSON: what \<open>inject\<close> (\<open>internal/cni/conf.go\<close>) and the
  \<open>revert\<close> of a \<open>cniFile\<close> (\<open>internal/cni/remove.go\<close>) do to the bytes of a file.
  A value of Go's type \<open>any\<close> that \<open>encoding/json\<close> produces is a \<open>json\<close>; a map is a
  finite map, a number (a float64) is given by its text, and the nil map that the document
  \<open>null\<close> is decoded to is \<open>JNull\<close>. The decoder and the encoder themselves are parameters,
  the record \<open>codec\<close>.
\<close>

datatype json =
    JNull
  | JBool bool
  | JNum string
  | JStr string
  | JArr "json list"
  | JObj "(string, json) fmap"

datatype json_error =
    BadJson string
  | errInvalidCNIPlugin
  | errNoCNIPlugins

record codec =
  Unmarshal :: "string \<Rightarrow> (string, json) result"
  MarshalIndent :: "json \<Rightarrow> (string, string) result"

section \<open>Maps\<close>

text \<open>Decoding into a variable of type \<open>map[string]any\<close>, the zero value of which is nil.\<close>

definition unmarshalMap :: "codec \<Rightarrow> string \<Rightarrow> (json_error, json) result" where
  "unmarshalMap js data =
     (case Unmarshal js data of
        Inl e \<Rightarrow> Inl (BadJson e)
      | Inr (JObj m) \<Rightarrow> Inr (JObj m)
      | Inr JNull \<Rightarrow> Inr JNull
      | Inr _ \<Rightarrow> Inl (BadJson ''cannot unmarshal into map''))"

definition getKey :: "json \<Rightarrow> string \<Rightarrow> json option" where
  "getKey v k = (case v of JObj m \<Rightarrow> fmlookup m k | _ \<Rightarrow> None)"

definition setKey :: "json \<Rightarrow> string \<Rightarrow> json \<Rightarrow> json" where
  "setKey v k x = (case v of JObj m \<Rightarrow> JObj (fmupd k x m) | _ \<Rightarrow> v)"

definition deleteKey :: "json \<Rightarrow> string \<Rightarrow> json" where
  "deleteKey v k = (case v of JObj m \<Rightarrow> JObj (fmdrop k m) | _ \<Rightarrow> v)"

definition marshal :: "codec \<Rightarrow> json \<Rightarrow> (json_error, string) result" where
  "marshal js v = (case MarshalIndent js v of Inl e \<Rightarrow> Inl (BadJson e) | Inr s \<Rightarrow> Inr s)"

section \<open>The plugin list\<close>

text \<open>The loop that looks for linkerd: it stops at the first plugin that is one, and fails at one
  that is no map.\<close>

fun findLinkerd :: "nat \<Rightarrow> json list \<Rightarrow> (json_error, nat option) result" where
  "findLinkerd i [] = Inr None"
| "findLinkerd i (plugin # plugins) =
     (case plugin of
        JObj m \<Rightarrow>
          if fmlookup m ''type'' = Some (JStr ''linkerd-cni'') then Inr (Some i)
          else findLinkerd (Suc i) plugins
      | _ \<Rightarrow> Inl errInvalidCNIPlugin)"

definition inject :: "codec \<Rightarrow> string \<Rightarrow> string \<Rightarrow> (json_error, string) result" where
  "inject js existing linkerd =
     (case unmarshalMap js existing of
        Inl e \<Rightarrow> Inl e
      | Inr existingVal \<Rightarrow>
     (case unmarshalMap js linkerd of
        Inl e \<Rightarrow> Inl e
      | Inr linkerdVal \<Rightarrow>
     if getKey existingVal ''type'' \<noteq> None then
       let existingVal = deleteKey existingVal ''cniVersion'' in
       marshal js (JObj (fmupd ''name'' (JStr ''k8s-pod-network'')
         (fmupd ''cniVersion'' (JStr ''0.3.1'')
         (fmupd ''plugins'' (JArr [existingVal, linkerdVal]) fmempty))))
     else
       (case getKey existingVal ''plugins'' of
          Some (JArr plugins) \<Rightarrow>
            (case findLinkerd 0 plugins of
               Inl e \<Rightarrow> Inl e
             | Inr linkerdAt \<Rightarrow>
                 let plugins = (case linkerdAt of
                       Some i \<Rightarrow> take i plugins @ drop (Suc i) plugins
                     | None \<Rightarrow> plugins);
                     plugins = plugins @ [linkerdVal]
                 in marshal js (setKey existingVal ''plugins'' (JArr plugins)))
        | _ \<Rightarrow> Inl errNoCNIPlugins)))"

text \<open>What \<open>cniFile.revert\<close> does to the bytes of the file; \<open>None\<close> when it does not write.\<close>

definition revertBytes :: "codec \<Rightarrow> string \<Rightarrow> (json_error, string option) result" where
  "revertBytes js data =
     (case unmarshalMap js data of
        Inl e \<Rightarrow> Inl e
      | Inr val \<Rightarrow>
          (case getKey val ''plugins'' of
             Some (JArr plugins) \<Rightarrow>
               (case findLinkerd 0 plugins of
                  Inl e \<Rightarrow> Inl e
                | Inr None \<Rightarrow> Inr None
                | Inr (Some i) \<Rightarrow>
                    let plugins = take i plugins @ drop (Suc i) plugins in
                    (case marshal js (setKey val ''plugins'' (JArr plugins)) of
                       Inl e \<Rightarrow> Inl e
                     | Inr data \<Rightarrow> Inr (Some data)))
           | _ \<Rightarrow> Inl errNoCNIPlugins))"

section \<open>What the loop finds\<close>

definition isObject :: "json \<Rightarrow> bool" where
  "isObject p \<longleftrightarrow> (case p of JObj _ \<Rightarrow> True | _ \<Rightarrow> False)"

definition isLinkerd :: "json \<Rightarrow> bool" where
  "isLinkerd p \<longleftrightarrow> getKey p ''type'' = Some (JStr ''linkerd-cni'')"

lemma isLinkerd_isObject: "isLinkerd p \<Longrightarrow> isObject p"
  by (cases p) (simp_all add: isLinkerd_def isObject_def getKey_def)

lemma findLinkerd_skip:
  "\<forall>p \<in> set ps. isObject p \<and> \<not> isLinkerd p \<Longrightarrow> findLinkerd i (ps @ qs) = findLinkerd (i + length ps) qs"
  by (induction ps arbitrary: i) (auto simp: isObject_def isLinkerd_def getKey_def split: json.splits)

lemma findLinkerd_here: "isLinkerd p \<Longrightarrow> findLinkerd i (p # ps) = Inr (Some i)"
  by (cases p) (simp_all add: isLinkerd_def getKey_def)

lemma findLinkerd_bad: "\<not> isObject p \<Longrightarrow> findLinkerd i (p # ps) = Inl errInvalidCNIPlugin"
  by (cases p) (simp_all add: isObject_def)

text \<open>The three outcomes.\<close>

lemma findLinkerd_None:
  "\<forall>p \<in> set ps. isObject p \<and> \<not> isLinkerd p \<Longrightarrow> findLinkerd 0 ps = Inr None"
  using findLinkerd_skip [of ps 0 "[]"] by simp

lemma findLinkerd_Some:
  "\<forall>p \<in> set ps. isObject p \<and> \<not> isLinkerd p \<Longrightarrow> isLinkerd l \<Longrightarrow>
   findLinkerd 0 (ps @ l # qs) = Inr (Some (length ps))"
  by (simp add: findLinkerd_skip findLinkerd_here del: findLinkerd.simps)

lemma findLinkerd_invalid:
  "\<forall>p \<in> set ps. isObject p \<and> \<not> isLinkerd p \<Longrightarrow> \<not> isObject x \<Longrightarrow>
   findLinkerd 0 (ps @ x # qs) = Inl errInvalidCNIPlugin"
  by (simp add: findLinkerd_skip findLinkerd_bad del: findLinkerd.simps)

lemma findLinkerd_cases:
  obtains (none) "\<forall>p \<in> set ps. isObject p \<and> \<not> isLinkerd p"
  | (linkerd) us l vs where "ps = us @ l # vs" "\<forall>p \<in> set us. isObject p \<and> \<not> isLinkerd p" "isLinkerd l"
  | (invalid) us x vs where "ps = us @ x # vs" "\<forall>p \<in> set us. isObject p \<and> \<not> isLinkerd p" "\<not> isObject x"
proof (cases "\<forall>p \<in> set ps. isObject p \<and> \<not> isLinkerd p")
  case False
  then have "\<exists>p \<in> set ps. \<not> (isObject p \<and> \<not> isLinkerd p)" by auto
  then obtain us p vs where "ps = us @ p # vs" "\<not> (isObject p \<and> \<not> isLinkerd p)"
    "\<forall>p \<in> set us. isObject p \<and> \<not> isLinkerd p"
    using split_list_first_prop [of ps "\<lambda>p. \<not> (isObject p \<and> \<not> isLinkerd p)"] by auto
  then show thesis using linkerd invalid by blast
qed (use none in blast)

text \<open>At most one plugin of the list is linkerd.\<close>

definition singleLinkerd :: "json list \<Rightarrow> bool" where
  "singleLinkerd ps \<longleftrightarrow> list_all isObject ps \<and> length (filter isLinkerd ps) \<le> 1"

text \<open>On such a list the removal is a filter.\<close>

lemma removed_filter:
  assumes "singleLinkerd ps"
  shows "\<exists>at. findLinkerd 0 ps = Inr at \<and>
    (case at of Some i \<Rightarrow> take i ps @ drop (Suc i) ps | None \<Rightarrow> ps) = filter (\<lambda>p. \<not> isLinkerd p) ps \<and>
    (at = None \<longleftrightarrow> filter isLinkerd ps = [])"
proof (cases ps rule: findLinkerd_cases)
  case none
  then show ?thesis by (auto simp: findLinkerd_None filter_empty_conv intro!: filter_True [symmetric])
next
  case (linkerd us l vs)
  have "filter isLinkerd vs = []"
    using assms linkerd by (simp add: singleLinkerd_def)
  then have "filter (\<lambda>p. \<not> isLinkerd p) vs = vs" "filter (\<lambda>p. \<not> isLinkerd p) us = us"
    using linkerd(2) by (auto simp: filter_id_conv filter_empty_conv)
  then show ?thesis using linkerd by (simp add: findLinkerd_Some)
next
  case (invalid us x vs)
  then show ?thesis using assms by (simp add: singleLinkerd_def)
qed

section \<open>Injection on decoded values\<close>

text \<open>The encoder is faithful: what it writes is decoded to what it was given.\<close>

definition faithful :: "codec \<Rightarrow> bool" where
  "faithful js \<longleftrightarrow> (\<forall>v s. MarshalIndent js v = Inr s \<longrightarrow> Unmarshal js s = Inr v)"

definition upgraded :: "json \<Rightarrow> json \<Rightarrow> json" where
  "upgraded v l = JObj (fmupd ''name'' (JStr ''k8s-pod-network'')
     (fmupd ''cniVersion'' (JStr ''0.3.1'')
     (fmupd ''plugins'' (JArr [deleteKey v ''cniVersion'', l]) fmempty)))"

definition extended :: "(string, json) fmap \<Rightarrow> json list \<Rightarrow> json \<Rightarrow> json" where
  "extended m ps l = JObj (fmupd ''plugins'' (JArr (filter (\<lambda>p. \<not> isLinkerd p) ps @ [l])) m)"

lemma inject_single_eq:
  assumes "Unmarshal js existing = Inr (JObj m)" and "fmlookup m ''type'' \<noteq> None"
    and "unmarshalMap js linkerd = Inr l"
  shows "inject js existing linkerd = marshal js (upgraded (JObj m) l)"
  using assms by (simp add: inject_def unmarshalMap_def [of js existing] upgraded_def getKey_def Let_def)

lemma inject_list_eq:
  assumes "Unmarshal js existing = Inr (JObj m)" and "fmlookup m ''type'' = None"
    and "fmlookup m ''plugins'' = Some (JArr ps)" and "singleLinkerd ps"
    and "unmarshalMap js linkerd = Inr l"
  shows "inject js existing linkerd = marshal js (extended m ps l)"
proof -
  obtain at where "findLinkerd 0 ps = Inr at"
    "(case at of Some i \<Rightarrow> take i ps @ drop (Suc i) ps | None \<Rightarrow> ps) = filter (\<lambda>p. \<not> isLinkerd p) ps"
    using removed_filter [OF assms(4)] by blast
  then show ?thesis
    using assms by (simp add: inject_def unmarshalMap_def [of js existing] extended_def getKey_def
        setKey_def Let_def cong: option.case_cong)
qed

lemma marshal_Inr: "marshal js v = Inr s \<longleftrightarrow> MarshalIndent js v = Inr s"
  by (simp add: marshal_def split: sum.split)

lemma fmupd_twice [simp]: "fmupd k x (fmupd k y m) = fmupd k x m"
  by (rule fmap_ext) simp

lemma fmupd_same: "fmlookup m k = Some x \<Longrightarrow> fmupd k x m = m"
  by (rule fmap_ext) auto

lemma extended_again: "isLinkerd l \<Longrightarrow> extended (fmupd ''plugins'' (JArr (filter (\<lambda>p. \<not> isLinkerd p) ps @ [l])) m)
    (filter (\<lambda>p. \<not> isLinkerd p) ps @ [l]) l = extended m ps l"
  by (simp add: extended_def)

lemma singleLinkerd_extended:
  "singleLinkerd ps \<Longrightarrow> isLinkerd l \<Longrightarrow> singleLinkerd (filter (\<lambda>p. \<not> isLinkerd p) ps @ [l])"
  by (auto simp: singleLinkerd_def list_all_iff filter_empty_conv isLinkerd_isObject)

text \<open>Injecting into a result that was written faithfully changes nothing.\<close>

lemma reinject_list:
  assumes "Unmarshal js merged = Inr (extended m ps l)" and "marshal js (extended m ps l) = Inr merged"
    and "fmlookup m ''type'' = None" and "singleLinkerd ps" and "isLinkerd l"
    and "unmarshalMap js linkerd = Inr l"
  shows "inject js merged linkerd = Inr merged"
proof -
  let ?ps = "filter (\<lambda>p. \<not> isLinkerd p) ps @ [l]"
  have "inject js merged linkerd = marshal js (extended (fmupd ''plugins'' (JArr ?ps) m) ?ps l)"
    by (rule inject_list_eq [OF assms(1) [unfolded extended_def]])
       (use assms singleLinkerd_extended in simp_all)
  with assms(2,5) show ?thesis by (simp only: extended_again)
qed

lemma upgraded_extended:
  assumes "\<not> isLinkerd v" "isLinkerd l"
  shows "upgraded v l = extended (fmupd ''name'' (JStr ''k8s-pod-network'')
     (fmupd ''cniVersion'' (JStr ''0.3.1'') fmempty)) [deleteKey v ''cniVersion''] l"
proof -
  have "\<not> isLinkerd (deleteKey v ''cniVersion'')"
    using assms(1) by (auto simp: isLinkerd_def getKey_def deleteKey_def split: json.splits)
  then show ?thesis
    by (simp add: upgraded_def extended_def) (rule fmap_ext, auto)
qed

section \<open>A concrete codec\<close>

definition calico :: json where
  "calico = JObj (fmupd ''type'' (JStr ''calico'') fmempty)"

definition linkerdPlugin :: json where
  "linkerdPlugin = JObj (fmupd ''type'' (JStr ''linkerd-cni'') fmempty)"

definition listConf :: "json list \<Rightarrow> json" where
  "listConf ps = JObj (fmupd ''plugins'' (JArr ps) (fmupd ''name'' (JStr ''net'') fmempty))"

definition exampleDocs :: "(json \<times> string) list" where
  "exampleDocs = [(listConf [calico], ''plain''), (listConf [calico, linkerdPlugin], ''merged''),
     (linkerdPlugin, ''linkerd''), (calico, ''single''), (upgraded calico linkerdPlugin, ''upgraded'')]"

definition exampleCodec :: codec where
  "exampleCodec = \<lparr>
     Unmarshal = (\<lambda>s. case map_of (map (\<lambda>(v, s). (s, v)) exampleDocs) s of Some v \<Rightarrow> Inr v | None \<Rightarrow> Inl ''syntax''),
     MarshalIndent = (\<lambda>v. case map_of exampleDocs v of Some s \<Rightarrow> Inr s | None \<Rightarrow> Inl ''unsupported'')\<rparr>"

lemma example_distinct:
  "listConf ps = listConf qs \<longleftrightarrow> ps = qs" "linkerdPlugin \<noteq> listConf ps" "calico \<noteq> listConf ps"
  "calico \<noteq> linkerdPlugin" "upgraded v l \<noteq> listConf ps" "upgraded v l \<noteq> linkerdPlugin" "upgraded v l \<noteq> calico"
proof -
  have keys: "getKey (listConf ps) ''plugins'' = Some (JArr ps)" "getKey (listConf ps) ''name'' = Some (JStr ''net'')"
    "getKey linkerdPlugin ''plugins'' = None" "getKey linkerdPlugin ''type'' = Some (JStr ''linkerd-cni'')"
    "getKey calico ''plugins'' = None" "getKey calico ''type'' = Some (JStr ''calico'')"
    "getKey (upgraded v l) ''name'' = Some (JStr ''k8s-pod-network'')" "getKey linkerdPlugin ''name'' = None"
    "getKey calico ''name'' = None" for ps v l
    by (simp_all add: getKey_def listConf_def linkerdPlugin_def calico_def upgraded_def)
  show "listConf ps = listConf qs \<longleftrightarrow> ps = qs" using keys(1) by (metis json.inject(4) option.inject)
  show "linkerdPlugin \<noteq> listConf ps" "calico \<noteq> listConf ps" "calico \<noteq> linkerdPlugin"
    "upgraded v l \<noteq> listConf ps" "upgraded v l \<noteq> linkerdPlugin" "upgraded v l \<noteq> calico"
    by (auto dest!: arg_cong [where f = "\<lambda>v. (getKey v ''name'', getKey v ''type'')"] simp: keys)
qed

lemma exampleCodec_simps:
  "Unmarshal exampleCodec ''plain'' = Inr (listConf [calico])"
  "Unmarshal exampleCodec ''merged'' = Inr (listConf [calico, linkerdPlugin])"
  "Unmarshal exampleCodec ''linkerd'' = Inr linkerdPlugin"
  "Unmarshal exampleCodec ''single'' = Inr calico"
  "MarshalIndent exampleCodec (listConf [calico]) = Inr ''plain''"
  "MarshalIndent exampleCodec (listConf [calico, linkerdPlugin]) = Inr ''merged''"
  "MarshalIndent exampleCodec (upgraded calico linkerdPlugin) = Inr ''upgraded''"
  using example_distinct by (auto simp: exampleCodec_def exampleDocs_def)

lemma exampleCodec_faithful: "faithful exampleCodec"
  by (auto simp: faithful_def exampleCodec_def exampleDocs_def split: if_splits)

lemma example_plugins:
  "isLinkerd linkerdPlugin" "\<not> isLinkerd calico" "isObject calico" "isObject linkerdPlugin"
  "unmarshalMap exampleCodec ''linkerd'' = Inr linkerdPlugin"
  by (simp_all add: isLinkerd_def getKey_def linkerdPlugin_def calico_def isObject_def unmarshalMap_def
      exampleCodec_simps [unfolded linkerdPlugin_def])

text \<open>The plain document, with linkerd injected.\<close>

definition plainMap :: "(string, json) fmap" where
  "plainMap = fmupd ''plugins'' (JArr [calico]) (fmupd ''name'' (JStr ''net'') fmempty)"

lemma example_inject:
  "Unmarshal exampleCodec ''plain'' = Inr (JObj plainMap)"
  "fmlookup plainMap ''type'' = None" "fmlookup plainMap ''plugins'' = Some (JArr [calico])"
  "singleLinkerd [calico]" "inject exampleCodec ''plain'' ''linkerd'' = Inr ''merged''"
  "MarshalIndent exampleCodec (JObj plainMap) = Inr ''plain''"
proof -
  show doc: "Unmarshal exampleCodec ''plain'' = Inr (JObj plainMap)"
    "MarshalIndent exampleCodec (JObj plainMap) = Inr ''plain''"
    using exampleCodec_simps(1,5) by (simp_all add: listConf_def plainMap_def)
  show m: "fmlookup plainMap ''type'' = None" "fmlookup plainMap ''plugins'' = Some (JArr [calico])"
    by (simp_all add: plainMap_def)
  show single: "singleLinkerd [calico]" by (simp add: singleLinkerd_def example_plugins)
  have "extended plainMap [calico] linkerdPlugin = listConf [calico, linkerdPlugin]"
    by (simp add: extended_def listConf_def plainMap_def example_plugins)
  then show "inject exampleCodec ''plain'' ''linkerd'' = Inr ''merged''"
    using inject_list_eq [OF doc(1) m single example_plugins(5)] by (simp add: marshal_Inr exampleCodec_simps)
qed

lemma example_revert: "revertBytes exampleCodec ''merged'' = Inr (Some ''plain'')"
proof -
  have "findLinkerd 0 [calico, linkerdPlugin] = Inr (Some 1)"
    using findLinkerd_Some [of "[calico]" linkerdPlugin "[]"] example_plugins by simp
  moreover have "setKey (listConf [calico, linkerdPlugin]) ''plugins'' (JArr [calico]) = listConf [calico]"
    "getKey (listConf ps) ''plugins'' = Some (JArr ps)" for ps
    by (simp_all add: setKey_def listConf_def getKey_def)
  moreover have "unmarshalMap exampleCodec ''merged'' = Inr (listConf [calico, linkerdPlugin])"
    using exampleCodec_simps(2) by (simp add: unmarshalMap_def listConf_def)
  ultimately show ?thesis by (simp add: revertBytes_def Let_def marshal_def exampleCodec_simps)
qed


section \<open>Properties\<close>

text \<open>C16. Injecting into a plugin list: every plugin that is not linkerd stays, in its order, an
  earlier linkerd plugin goes, the new one comes last, and every other key of the document is
  as it was. Injecting into the configuration of a single plugin makes a list of the two, moves
  the plugin into it without its version, and names it.\<close>

theorem inject_result:
  assumes "Unmarshal js existing = Inr (JObj m)" and "unmarshalMap js linkerd = Inr l"
    and "fmlookup m ''type'' = None \<Longrightarrow> fmlookup m ''plugins'' = Some (JArr ps) \<and> singleLinkerd ps"
    and "inject js existing linkerd = Inr out" and "faithful js"
  shows "\<exists>v. Unmarshal js out = Inr v \<and>
    (if fmlookup m ''type'' = None
     then getKey v ''plugins'' = Some (JArr (filter (\<lambda>p. \<not> isLinkerd p) ps @ [l])) \<and>
       (\<forall>k. k \<noteq> ''plugins'' \<longrightarrow> getKey v k = fmlookup m k)
     else getKey v ''plugins'' = Some (JArr [JObj (fmdrop ''cniVersion'' m), l]) \<and>
       getKey v ''name'' = Some (JStr ''k8s-pod-network'') \<and> getKey v ''cniVersion'' = Some (JStr ''0.3.1''))"
proof (cases "fmlookup m ''type'' = None")
  case True
  with assms(3) have ps: "fmlookup m ''plugins'' = Some (JArr ps)" "singleLinkerd ps" by simp_all
  from assms(4) have "marshal js (extended m ps l) = Inr out"
    unfolding inject_list_eq [OF assms(1) True ps assms(2)] .
  then have "Unmarshal js out = Inr (extended m ps l)" using assms(5) by (simp add: marshal_Inr faithful_def)
  with True show ?thesis by (simp add: extended_def getKey_def)
next
  case False
  from assms(4) have "marshal js (upgraded (JObj m) l) = Inr out"
    unfolding inject_single_eq [OF assms(1) False assms(2)] .
  then have "Unmarshal js out = Inr (upgraded (JObj m) l)"
    using assms(5) by (simp add: marshal_Inr faithful_def)
  with False show ?thesis by (auto simp: upgraded_def getKey_def deleteKey_def)
qed

theorem inject_result_witness:
  "inject exampleCodec ''plain'' ''linkerd'' = Inr ''merged'' \<and>
   (\<exists>v. Unmarshal exampleCodec ''merged'' = Inr v \<and> getKey v ''plugins'' = Some (JArr [calico, linkerdPlugin]))"
  using inject_result [OF example_inject(1) example_plugins(5) _ example_inject(5) exampleCodec_faithful,
      of "[calico]"] example_inject(2-5)
  by (auto simp: example_plugins)

text \<open>C36. Injection is idempotent: once a file holds the result, injecting the same plugin again
  gives the same bytes, so the installer's own write cannot make it write again.\<close>

theorem inject_idempotent:
  assumes "faithful js" and "Unmarshal js existing = Inr (JObj m)"
    and "unmarshalMap js linkerd = Inr l" and "isLinkerd l"
    and "fmlookup m ''type'' = None \<Longrightarrow> fmlookup m ''plugins'' = Some (JArr ps) \<and> singleLinkerd ps"
    and "fmlookup m ''type'' \<noteq> Some (JStr ''linkerd-cni'')"
    and "inject js existing linkerd = Inr merged"
  shows "inject js merged linkerd = Inr merged"
proof (cases "fmlookup m ''type'' = None")
  case True
  with assms(5) have ps: "fmlookup m ''plugins'' = Some (JArr ps)" "singleLinkerd ps" by simp_all
  have out: "marshal js (extended m ps l) = Inr merged"
    using assms(7) unfolding inject_list_eq [OF assms(2) True ps assms(3)] .
  then have "Unmarshal js merged = Inr (extended m ps l)"
    using assms(1) by (simp add: marshal_Inr faithful_def)
  from reinject_list [OF this out True ps(2) assms(4,3)] show ?thesis .
next
  case False
  let ?v = "deleteKey (JObj m) ''cniVersion''"
  let ?m = "fmupd ''name'' (JStr ''k8s-pod-network'') (fmupd ''cniVersion'' (JStr ''0.3.1'') fmempty)"
  have up: "upgraded (JObj m) l = extended ?m [?v] l"
    by (rule upgraded_extended) (use assms(4,6) in \<open>simp_all add: isLinkerd_def getKey_def\<close>)
  have out: "marshal js (extended ?m [?v] l) = Inr merged"
    using assms(7) unfolding inject_single_eq [OF assms(2) False assms(3)] up .
  then have "Unmarshal js merged = Inr (extended ?m [?v] l)"
    using assms(1) by (simp add: marshal_Inr faithful_def)
  moreover have "singleLinkerd [?v]" by (simp add: singleLinkerd_def isObject_def deleteKey_def)
  ultimately show ?thesis using reinject_list [OF _ out _ _ assms(4,3)] by simp
qed

theorem inject_idempotent_witness:
  "inject exampleCodec ''merged'' ''linkerd'' = Inr ''merged''"
  by (rule inject_idempotent [OF exampleCodec_faithful example_inject(1) example_plugins(5,1) _ _ example_inject(5),
        where ps = "[calico]"]) (simp_all add: example_inject)

text \<open>C24. Reverting undoes injecting: on a list without linkerd, removing the plugin from the
  written document gives the encoding of the original document, and a second revert finds
  nothing to remove.\<close>

theorem revert_undoes_inject:
  assumes "faithful js" and "Unmarshal js existing = Inr (JObj m)"
    and "unmarshalMap js linkerd = Inr l" and "isLinkerd l"
    and "fmlookup m ''type'' = None" and "fmlookup m ''plugins'' = Some (JArr ps)"
    and "\<forall>p \<in> set ps. isObject p \<and> \<not> isLinkerd p"
    and "inject js existing linkerd = Inr merged" and "MarshalIndent js (JObj m) = Inr original"
  shows "revertBytes js merged = Inr (Some original) \<and> revertBytes js original = Inr None"
proof -
  have single: "singleLinkerd ps" using assms(7) by (simp add: singleLinkerd_def list_all_iff filter_False)
  have same: "filter (\<lambda>p. \<not> isLinkerd p) ps = ps" using assms(7) by (simp add: filter_id_conv)
  have "marshal js (extended m ps l) = Inr merged"
    using assms(8) unfolding inject_list_eq [OF assms(2,5,6) single assms(3)] .
  then have "Unmarshal js merged = Inr (JObj (fmupd ''plugins'' (JArr (ps @ [l])) m))"
    using assms(1) by (simp add: marshal_Inr faithful_def extended_def same)
  then have "revertBytes js merged = Inr (Some original)"
    using findLinkerd_Some [OF assms(7,4), of "[]"] assms(6,9)
    by (simp add: revertBytes_def unmarshalMap_def getKey_def setKey_def Let_def fmupd_same marshal_def)
  moreover have "Unmarshal js original = Inr (JObj m)" using assms(1,9) by (simp add: faithful_def)
  then have "revertBytes js original = Inr None"
    using findLinkerd_None [OF assms(7)] assms(6)
    by (simp add: revertBytes_def unmarshalMap_def getKey_def)
  ultimately show ?thesis by simp
qed

theorem revert_undoes_inject_witness:
  "revertBytes exampleCodec ''merged'' = Inr (Some ''plain'') \<and> revertBytes exampleCodec ''plain'' = Inr None"
  by (rule revert_undoes_inject [OF exampleCodec_faithful example_inject(1) example_plugins(5,1)
        example_inject(2,3) _ example_inject(5,6)]) (simp add: example_plugins)

text \<open>Which documents injection refuses, and how: one without a type whose plugins are no
  list, and one with a plugin that is no map before the first linkerd. A plugin that is no map
  after it goes unnoticed.\<close>

theorem inject_errors:
  assumes "unmarshalMap js existing = Inr v" and "unmarshalMap js linkerd = Inr l"
    and "getKey v ''type'' = None"
  shows "(inject js existing linkerd = Inl errNoCNIPlugins \<longleftrightarrow> \<not> (\<exists>ps. getKey v ''plugins'' = Some (JArr ps))) \<and>
    (inject js existing linkerd = Inl errInvalidCNIPlugin \<longleftrightarrow>
       (\<exists>us x vs. getKey v ''plugins'' = Some (JArr (us @ x # vs)) \<and> \<not> isObject x \<and>
          (\<forall>p \<in> set us. isObject p \<and> \<not> isLinkerd p)))"
proof (cases "\<exists>ps. getKey v ''plugins'' = Some (JArr ps)")
  case False
  then have "inject js existing linkerd = Inl errNoCNIPlugins"
    using assms by (auto simp: inject_def split: option.split json.split)
  with False show ?thesis by auto
next
  case True
  then obtain ps where ps: "getKey v ''plugins'' = Some (JArr ps)" ..
  have found: "findLinkerd 0 ps = Inl errInvalidCNIPlugin \<longleftrightarrow>
      (\<exists>us x vs. ps = us @ x # vs \<and> \<not> isObject x \<and> (\<forall>p \<in> set us. isObject p \<and> \<not> isLinkerd p))"
    and only: "findLinkerd 0 ps \<noteq> Inl e \<or> e = errInvalidCNIPlugin" for e
  proof -
    have dec: "findLinkerd 0 ps \<noteq> Inl e \<or> e = errInvalidCNIPlugin" for e
      by (cases ps rule: findLinkerd_cases) (auto simp: findLinkerd_None findLinkerd_Some findLinkerd_invalid)
    then show "findLinkerd 0 ps \<noteq> Inl e \<or> e = errInvalidCNIPlugin" .
    show "findLinkerd 0 ps = Inl errInvalidCNIPlugin \<longleftrightarrow>
      (\<exists>us x vs. ps = us @ x # vs \<and> \<not> isObject x \<and> (\<forall>p \<in> set us. isObject p \<and> \<not> isLinkerd p))"
      by (cases ps rule: findLinkerd_cases)
         (auto simp: findLinkerd_None findLinkerd_Some findLinkerd_invalid, (metis findLinkerd_invalid
           findLinkerd_None findLinkerd_Some Inl_Inr_False)+)
  qed
  have "marshal js u \<noteq> Inl errNoCNIPlugins" "marshal js u \<noteq> Inl errInvalidCNIPlugin" for u
    by (simp_all add: marshal_def split: sum.split)
  moreover have "\<exists>g. inject js existing linkerd =
      (case findLinkerd 0 ps of Inl e \<Rightarrow> Inl e | Inr at \<Rightarrow> marshal js (g at))"
    using assms ps by (cases "findLinkerd 0 ps") (auto simp: inject_def Let_def intro!: exI [of _ "\<lambda>_. _"])
  then obtain g where "inject js existing linkerd =
      (case findLinkerd 0 ps of Inl e \<Rightarrow> Inl e | Inr at \<Rightarrow> marshal js (g at))" ..
  ultimately have "inject js existing linkerd = Inl errInvalidCNIPlugin \<longleftrightarrow> findLinkerd 0 ps = Inl errInvalidCNIPlugin"
    "inject js existing linkerd \<noteq> Inl errNoCNIPlugins"
    using only [of errNoCNIPlugins] by (auto split: sum.splits)
  then show ?thesis using ps by (simp add: found)
qed

theorem inject_errors_witness:
  "inject \<lparr>Unmarshal = (\<lambda>_. Inr (JObj (fmupd ''plugins'' (JArr [calico, JNull]) fmempty))),
      MarshalIndent = (\<lambda>_. Inr '''')\<rparr> '''' '''' = Inl errInvalidCNIPlugin"
proof -
  define js where "js = \<lparr>Unmarshal = (\<lambda>_. Inr (JObj (fmupd ''plugins'' (JArr [calico, JNull]) fmempty))),
      MarshalIndent = (\<lambda>_. Inr '''')\<rparr>"
  define doc where "doc = JObj (fmupd ''plugins'' (JArr [calico, JNull]) fmempty)"
  have u: "unmarshalMap js s = Inr doc" for s by (simp add: unmarshalMap_def js_def doc_def)
  have "getKey doc ''type'' = None" and doc: "getKey doc ''plugins'' = Some (JArr ([calico] @ JNull # []))"
    by (simp_all add: getKey_def doc_def)
  note err = inject_errors [OF u u this(1), THEN conjunct2, THEN iffD2]
  show ?thesis
    unfolding js_def [symmetric]
    by (rule err, intro exI conjI, rule doc) (simp_all add: isObject_def [of JNull] example_plugins)
qed

end
