(* ===== verification/Cni_Installer.thy ===== *)
theory Cni_Installer
  imports Cni_Paths Cni_Json
begin

text \<open>
  The installer of \<open>internal/cni\<close>: its state and log (\<open>installer.go\<close>, \<open>remove.go\<close>), the
  copying of the plugin binary (\<open>install.go\<close>), and the rewriting of the kubeconfig and of
  the CNI configuration (\<open>conf.go\<close>). The installer's state extends the host's, so a method
  is a step on one record. SHA-256 and the JSON codec are parameters, in the record \<open>libs\<close>;
  writing the executed template is one write, which a fault may cut anywhere.
\<close>

section \<open>State\<close>

datatype entry = cniFile string | installedFile string | k8sFile string

primrec filename :: "entry \<Rightarrow> string" where
  "filename (cniFile n) = n"
| "filename (installedFile n) = n"
| "filename (k8sFile n) = n"

datatype source = environmentSource string | fileSource string

record installer = host +
  fileHashSet :: "string \<rightharpoonup> string"
  log :: "entry list"
  logIdx :: "string set"
  serviceAccountTokenFilename :: string
  sources :: "source list"

record libs =
  json :: codec
  sha256 :: "string \<Rightarrow> string"

datatype cni_error =
    OsError os_error
  | JsonError json_error
  | NotADirectory string
  | errNoConfigurationSource
  | ZeroLength string
  | Joined "cni_error list"

type_synonym 'a action = "(installer, cni_error, 'a) io"

definition serviceAccountDir :: string where
  "serviceAccountDir = ''/var/run/secrets/kubernetes.io/serviceaccount''"

definition NewInstaller :: "host \<Rightarrow> installer" where
  "NewInstaller w = host.extend w (installer.fields Map.empty [] {} (serviceAccountDir @ ''/token'')
     [environmentSource ''CNI_NETWORK_CONFIG'', fileSource (envVar_get cniNetworkConfigFile w)])"

definition appendEntry :: "entry \<Rightarrow> installer \<Rightarrow> installer" where
  "appendEntry e i =
     (if filename e \<in> logIdx i then i
      else i\<lparr>log := log i @ [e], logIdx := insert (filename e) (logIdx i)\<rparr>)"

text \<open>\<open>hex.EncodeToString\<close> of the checksum.\<close>

definition hexDigits :: string where
  "hexDigits = ''0123456789abcdef''"

definition hexEncode :: "string \<Rightarrow> string" where
  "hexEncode s = concat (map (\<lambda>c. [hexDigits ! (of_char c div 16), hexDigits ! (of_char c mod 16)]) s)"

definition hashEncode :: "libs \<Rightarrow> string \<Rightarrow> string" where
  "hashEncode L data = hexEncode (sha256 L data)"

text \<open>Indexing a map of strings: the empty string when there is no entry.\<close>

definition mapIndex :: "(string \<rightharpoonup> string) \<Rightarrow> string \<Rightarrow> string" where
  "mapIndex m k = (case m k of None \<Rightarrow> '''' | Some v \<Rightarrow> v)"

section \<open>Sources\<close>

fun source_read :: "source \<Rightarrow> string action" where
  "source_read (environmentSource k) = (\<lambda>i. (Inr (Getenv i k), i))"
| "source_read (fileSource f) = wrapE OsError (os_ReadFile f)"

text \<open>\<open>bytes.ReplaceAll\<close> for a non-empty old value.\<close>

function ReplaceAll :: "string \<Rightarrow> string \<Rightarrow> string \<Rightarrow> string" where
  "ReplaceAll [] old new = []"
| "ReplaceAll (c # cs) old new =
     (if old \<noteq> [] \<and> prefix old (c # cs) then new @ ReplaceAll (drop (length old) (c # cs)) old new
      else c # ReplaceAll cs old new)"
  by pat_completeness auto
termination
  by (relation "measure (\<lambda>(s, _). length s)") (auto simp: neq_Nil_conv)

fun configureCNI :: "source list \<Rightarrow> string action" where
  "configureCNI [] i = (Inl errNoConfigurationSource, i)"
| "configureCNI (source # rest) i =
     (case source_read source i of
        (Inl _, i') \<Rightarrow> configureCNI rest i'
      | (Inr data, i') \<Rightarrow>
          let data = ReplaceAll data ''__KUBECONFIG_FILEPATH__'' (pluginKubeConfigFilename i')
          in if length data > 0 then (Inr data, i') else configureCNI rest i')"

section \<open>The kubeconfig\<close>

record k8sConfigData =
  AuthToken :: string
  CertificateAuthorityData :: string
  ServiceHost :: string
  ServicePort :: string

text \<open>\<open>base64.StdEncoding\<close>.\<close>

definition base64Alphabet :: string where
  "base64Alphabet = ''ABCDEFGHIJKLMNOPQRSTUVWXYZabcdefghijklmnopqrstuvwxyz0123456789+/''"

fun base64Loop :: "nat list \<Rightarrow> string" where
  "base64Loop [] = ''''"
| "base64Loop [a] = [base64Alphabet ! (a div 4), base64Alphabet ! (a mod 4 * 16)] @ ''==''"
| "base64Loop [a, b] = [base64Alphabet ! (a div 4), base64Alphabet ! (a mod 4 * 16 + b div 16),
     base64Alphabet ! (b mod 16 * 4)] @ ''=''"
| "base64Loop (a # b # c # rest) = [base64Alphabet ! (a div 4), base64Alphabet ! (a mod 4 * 16 + b div 16),
     base64Alphabet ! (b mod 16 * 4 + c div 64), base64Alphabet ! (c mod 64)] @ base64Loop rest"

definition EncodeToString :: "string \<Rightarrow> string" where
  "EncodeToString s = base64Loop (map of_char s)"

definition newline :: string where
  "newline = [CHR 0x0A]"

text \<open>The template executed on its data.\<close>

definition k8sConfigTemplate :: "k8sConfigData \<Rightarrow> string" where
  "k8sConfigTemplate d = Join
     [''# kubeconfig file for linkerd.io/cni-plugin'',
      ''apiVersion: v1'',
      ''kind: Config'',
      ''clusters:'',
      ''- name: local'',
      ''  cluster:'',
      ''    server: https://'' @ ServiceHost d @ '':'' @ ServicePort d,
      (if CertificateAuthorityData d \<noteq> ''''
       then ''    certificate-authority-data: '' @ CertificateAuthorityData d else ''''),
      ''users:'',
      ''- name: linkerd-cni'',
      ''  user:'',
      ''    token: '' @ AuthToken d,
      ''contexts:'',
      ''- name: linkerd-cni-context'',
      ''  context:'',
      ''    cluster: local'',
      ''    user: linkerd-cni'',
      ''current-context: linkerd-cni-context''] newline"

definition writeFilePerm :: "9 word" where
  "writeFilePerm = 0x1A4"

definition nonEmpty :: "string \<Rightarrow> string \<Rightarrow> unit action" where
  "nonEmpty what s = (if length s < 1 then throwE (ZeroLength what) else returnE ())"

definition envE :: "envVar \<Rightarrow> string action" where
  "envE ev i = (Inr (envVar_get ev i), i)"

text \<open>The data of the template: token, certificate, then the address of the API server; each has
  to be there. The last two are looked at only after both files were read.\<close>

definition k8sData :: "string \<Rightarrow> k8sConfigData action" where
  "k8sData srcTokenFilename =
     bindE (wrapE OsError (os_ReadFile (Clean srcTokenFilename))) (\<lambda>tokenData.
     bindE (nonEmpty ''token-data'' tokenData) (\<lambda>_.
     bindE (envE svcHost) (\<lambda>serviceHost.
     bindE (envE svcPort) (\<lambda>servicePort.
     bindE (envE kubeCAFile) (\<lambda>caFile.
     let certFilename = (if caFile = '''' then path_Join [Dir srcTokenFilename, ''ca.crt''] else caFile) in
     bindE (wrapE OsError (os_ReadFile (Clean certFilename))) (\<lambda>certData.
     bindE (nonEmpty ''certificate authority data'' certData) (\<lambda>_.
     bindE (nonEmpty ''service-host'' serviceHost) (\<lambda>_.
     bindE (nonEmpty ''service-port'' servicePort) (\<lambda>_.
     returnE \<lparr>AuthToken = TrimSpace tokenData,
       CertificateAuthorityData = EncodeToString (TrimSpace certData),
       ServiceHost = serviceHost, ServicePort = servicePort\<rparr>)))))))))"

definition reconfigureK8s :: "string \<Rightarrow> string \<Rightarrow> unit action" where
  "reconfigureK8s dstConfigFilename srcTokenFilename =
     bindE (k8sData srcTokenFilename) (\<lambda>configData.
     let dstTmpFile = path_Join [Dir dstConfigFilename, Base dstConfigFilename @ ''.install''] in
     bindE (wrapE OsError (os_OpenTrunc (Clean dstTmpFile) writeFilePerm)) (\<lambda>_.
     bindE (wrapE OsError (onErrorE
       (os_Write (Clean dstTmpFile) (k8sConfigTemplate configData)) os_Close)) (\<lambda>_.
     bindE (wrapE OsError (onErrorE os_Sync os_Close)) (\<lambda>_.
     bindE (wrapE OsError os_Close) (\<lambda>_.
     bindE (wrapE OsError (os_Rename dstTmpFile dstConfigFilename)) (\<lambda>_ i.
     (Inr (), appendEntry (k8sFile dstConfigFilename) i)))))))"

section \<open>The CNI configuration\<close>

text \<open>The name of the file to write, and the one to remove afterwards, if any.\<close>

definition renamedConfig :: "string \<Rightarrow> string \<times> string" where
  "renamedConfig configFilename =
     (if HasSuffix configFilename ''.conf'' then (configFilename @ ''list'', configFilename)
      else (configFilename, ''''))"

definition writeCNI :: "libs \<Rightarrow> string \<Rightarrow> string \<Rightarrow> string \<Rightarrow> unit action" where
  "writeCNI L configFilename previousConfigFilename merged =
     (let tmpFilename = Clean (path_Join [Dir configFilename, Base configFilename @ ''.install'']) in
      bindE (wrapE OsError (os_WriteFile tmpFilename merged writeFilePerm)) (\<lambda>_.
      bindE (wrapE OsError (os_Rename tmpFilename configFilename)) (\<lambda>_ i.
        let i = appendEntry (cniFile configFilename) i;
            i = i\<lparr>fileHashSet := (fileHashSet i)(configFilename \<mapsto> hashEncode L merged)\<rparr>
        in if previousConfigFilename \<noteq> '''' then wrapE OsError (os_Remove previousConfigFilename) i
           else (Inr (), i))))"

definition reconfigureCNI :: "libs \<Rightarrow> string \<Rightarrow> unit action" where
  "reconfigureCNI L configFilename i =
     (case os_ReadFile (Clean configFilename) i of
        (Inl e, i) \<Rightarrow> if e = ErrNotExist then (Inr (), i) else (Inl (OsError e), i)
      | (Inr data, i) \<Rightarrow>
          if mapIndex (fileHashSet i) configFilename = hashEncode L data then (Inr (), i)
          else
            bindE (configureCNI (sources i)) (\<lambda>configuration.
            bindE (wrapE JsonError (liftE (inject (json L) data configuration))) (\<lambda>merged.
            writeCNI L (fst (renamedConfig configFilename)) (snd (renamedConfig configFilename)) merged)) i)"

section \<open>Installing files\<close>

definition copyFile :: "string \<Rightarrow> string \<Rightarrow> string action" where
  "copyFile dst src =
     bindE (wrapE OsError (os_Stat src)) (\<lambda>info.
     let dstTmpFile = path_Join [dst, Base src @ ''.install''];
         mode = (case info of Regular _ m \<Rightarrow> m | _ \<Rightarrow> 0) in
     bindE (wrapE OsError (os_OpenTrunc (Clean dstTmpFile) mode)) (\<lambda>_.
     bindE (wrapE OsError (onErrorE (os_ReadFile (Clean src)) os_Close)) (\<lambda>content.
     bindE (wrapE OsError (onErrorE (os_Write (Clean dstTmpFile) content) os_Close)) (\<lambda>_.
     bindE (wrapE OsError (onErrorE os_Sync os_Close)) (\<lambda>_.
     bindE (wrapE OsError os_Close) (\<lambda>_.
     let dstFile = path_Join [dst, Base src] in
     bindE (wrapE OsError (os_Rename dstTmpFile dstFile)) (\<lambda>_.
     returnE dstFile)))))))"

fun installLoop :: "string \<Rightarrow> string list \<Rightarrow> string list \<Rightarrow> string list action" where
  "installLoop dst dstFiles [] = returnE dstFiles"
| "installLoop dst dstFiles (srcP # src) =
     bindE (copyFile dst srcP) (\<lambda>dstP i.
     installLoop dst (dstFiles @ [dstP]) src (appendEntry (installedFile dstP) i))"

definition install :: "string \<Rightarrow> string list \<Rightarrow> string list action" where
  "install dst src =
     bindE (wrapE OsError (os_Stat dst)) (\<lambda>info.
     if info \<noteq> Directory then throwE (NotADirectory dst) else installLoop dst [] src)"

definition isRegular :: "node \<Rightarrow> bool" where
  "isRegular n \<longleftrightarrow> (case n of Regular _ _ \<Rightarrow> True | _ \<Rightarrow> False)"

definition installRegularFiles :: "string \<Rightarrow> string \<Rightarrow> string list action" where
  "installRegularFiles dst src =
     bindE (wrapE OsError (os_ReadDir src)) (\<lambda>entries.
     install dst (map (\<lambda>(b, _). path_Join [src, b]) (filter (\<lambda>(_, n). isRegular n) entries)))"

section \<open>Removing\<close>

fun revert :: "libs \<Rightarrow> entry \<Rightarrow> unit action" where
  "revert L (cniFile name) i =
     (case os_ReadFile name i of
        (Inl e, i) \<Rightarrow> if e = ErrNotExist then (Inr (), i) else (Inl (OsError e), i)
      | (Inr data, i) \<Rightarrow>
          (case revertBytes (json L) data of
             Inl e \<Rightarrow> (Inl (JsonError e), i)
           | Inr None \<Rightarrow> (Inr (), i)
           | Inr (Some data) \<Rightarrow>
               (case os_Stat name i of
                  (Inl e, i) \<Rightarrow> if e = ErrNotExist then (Inr (), i) else (Inl (OsError e), i)
                | (Inr stat, i) \<Rightarrow> wrapE OsError (os_WriteFile name data
                     (case stat of Regular _ m \<Rightarrow> m | _ \<Rightarrow> 0)) i)))"
| "revert L (installedFile name) i =
     (case os_Stat name i of (Inl _, i) \<Rightarrow> (Inr (), i) | (Inr _, i) \<Rightarrow> wrapE OsError (os_Remove name) i)"
| "revert L (k8sFile name) i =
     (case os_Stat name i of (Inl _, i) \<Rightarrow> (Inr (), i) | (Inr _, i) \<Rightarrow> wrapE OsError (os_Remove name) i)"

text \<open>The loop over the log calls the \<open>revert\<close> of each entry, whatever the entry is: the loop takes
  the method as an argument, as Go takes it from the interface value.\<close>

fun removeLoop ::
    "('e \<Rightarrow> ('w, 'x, unit) io) \<Rightarrow> 'x list \<Rightarrow> 'e list \<Rightarrow> 'w \<Rightarrow> 'x list \<times> 'w" where
  "removeLoop revert_entry errs [] i = (errs, i)"
| "removeLoop revert_entry errs (event # events) i =
     (case revert_entry event i of
        (Inl e, i) \<Rightarrow> removeLoop revert_entry (errs @ [e]) events i
      | (Inr _, i) \<Rightarrow> removeLoop revert_entry errs events i)"

text \<open>\<open>errors.Join\<close> of no errors is nil.\<close>

definition Remove :: "libs \<Rightarrow> unit action" where
  "Remove L i =
     (case removeLoop (revert L) [] (log i) i of
        ([], i) \<Rightarrow> (Inr (), i)
      | (errs, i) \<Rightarrow> (Inl (Joined errs), i))"

section \<open>The log\<close>

text \<open>The index of the log is the set of its file names, and no name is logged twice.\<close>

definition log_ok :: "installer \<Rightarrow> bool" where
  "log_ok i \<longleftrightarrow> distinct (map filename (log i)) \<and> logIdx i = set (map filename (log i))"

lemma installer_fields [simp]:
  "lookup (appendEntry e i) q = lookup i q" "environ (appendEntry e i) = environ i"
  "faults (appendEntry e i) = faults i" "fileHashSet (appendEntry e i) = fileHashSet i"
  "sources (appendEntry e i) = sources i"
  "lookup (i\<lparr>fileHashSet := h\<rparr>) q = lookup i q" "log (i\<lparr>faults := fs\<rparr>) = log i"
  by (simp_all add: appendEntry_def lookup_def)

lemma appendEntry_log: "log_ok i \<Longrightarrow> log_ok (appendEntry e i)"
  by (auto simp: log_ok_def appendEntry_def)

lemma appendEntry_logged: "log_ok i \<Longrightarrow> filename e \<in> filename ` set (log (appendEntry e i))"
  by (auto simp: log_ok_def appendEntry_def)

lemma more_log:
  "host.more i' = host.more i \<Longrightarrow>
     log i' = log i \<and> logIdx i' = logIdx i \<and> fileHashSet i' = fileHashSet i \<and> sources i' = sources i \<and>
     serviceAccountTokenFilename i' = serviceAccountTokenFilename i"
  by (cases i; cases i') (simp add: installer.defs)

text \<open>A method that keeps the log well-formed and only adds to it.\<close>

definition logs :: "('a action) \<Rightarrow> bool" where
  "logs m \<longleftrightarrow> (\<forall>i. log_ok i \<longrightarrow> log_ok (snd (m i)) \<and> prefix (log i) (log (snd (m i))))"

lemma logs_system: "changes_only ps m \<Longrightarrow> logs m"
  unfolding logs_def
proof (intro allI impI)
  fix i assume touch: "changes_only ps m" and ok: "log_ok i"
  obtain r i' where m: "m i = (r, i')" by fastforce
  with ok more_log [OF changes_onlyD(4) [OF touch m]]
  show "log_ok (snd (m i)) \<and> prefix (log i) (log (snd (m i)))" by (simp add: log_ok_def)
qed

lemma logs_bindE:
  assumes "logs m" and "\<And>x. logs (f x)"
  shows "logs (bindE m f)"
  unfolding logs_def
proof (intro allI impI)
  fix i assume ok: "log_ok i"
  obtain r i' where m: "m i = (r, i')" by fastforce
  with assms(1) ok have i': "log_ok i'" "prefix (log i) (log i')"
    unfolding logs_def by (metis snd_conv)+
  show "log_ok (snd (bindE m f i)) \<and> prefix (log i) (log (snd (bindE m f i)))"
  proof (cases r)
    case (Inr x)
    with assms(2) [of x] i' m show ?thesis
      by (auto simp: logs_def bindE_def intro: prefix_order.trans)
  qed (use i' m in \<open>simp add: bindE_def\<close>)
qed

lemma logs_pure: "logs (returnE x)" "logs (throwE e)" "logs (liftE r)"
  by (simp_all add: logs_def returnE_def throwE_def liftE_def)

lemma logs_append: "logs (\<lambda>i. (Inr x, appendEntry e i))"
  by (auto simp: logs_def appendEntry_log) (simp add: appendEntry_def)

lemma logs_after: "logs m \<Longrightarrow> logs (\<lambda>i. m (appendEntry e i))"
  using logs_bindE [OF logs_append, of "\<lambda>_. m"] by (simp add: bindE_def [abs_def])

section \<open>What methods touch\<close>

lemmas touch_rules = changes_only_bindE changes_only_wrapE changes_only_onErrorE changes_only_pure
  calls_change WriteFile_change

lemma touch_mono: "changes_only {} m \<Longrightarrow> changes_only ps m"
  by (erule changes_only_mono) simp

lemmas quiet_calls = calls_change(1-5) [THEN touch_mono]

lemma source_read_touch: "changes_only ps (source_read s)"
  by (cases s) (simp_all add: changes_only_wrapE quiet_calls, simp add: changes_only_def)

lemma configureCNI_touch: "changes_only ps (configureCNI ss)"
proof (induction ss)
  case (Cons s ss)
  let ?g = "\<lambda>r i'. case r of Inl _ \<Rightarrow> configureCNI ss i'
    | Inr data \<Rightarrow> let data = ReplaceAll data ''__KUBECONFIG_FILEPATH__'' (pluginKubeConfigFilename i')
        in if length data > 0 then (Inr data, i') else configureCNI ss i'"
  have "changes_only ps (?g r)" for r
    using Cons by (cases r) (auto simp: changes_only_def Let_def)
  from changes_only_then [OF source_read_touch [of ps s], of ?g, OF this] show ?case
    by (rule back_subst [of "changes_only ps"]) (auto simp: fun_eq_iff Let_def split: prod.split sum.split)
qed (simp add: changes_only_def)

lemma simple_touch: "changes_only ps (nonEmpty what s)" "changes_only ps (envE ev)"
  by (simp_all add: nonEmpty_def changes_only_pure, simp add: changes_only_def envE_def)

lemma k8sData_touch: "changes_only ps (k8sData f)"
  unfolding k8sData_def Let_def
  by (intro changes_only_bindE changes_only_wrapE quiet_calls simple_touch changes_only_pure)

section \<open>Writing through a temporary file\<close>

definition installing :: "string \<Rightarrow> string" where
  "installing f = f @ ''.install''"

lemma tmp_name:
  assumes "properPath f"
  shows "path_Join [Dir f, Base f @ ''.install''] = installing f" and "Clean (installing f) = installing f"
    and "installing f \<noteq> f" and "Dir (installing f) = Dir f"
proof -
  note a = properPath_append [OF assms, of "''.install''"]
  show "path_Join [Dir f, Base f @ ''.install''] = installing f" "Dir (installing f) = Dir f"
    using a(2,3) by (simp_all add: installing_def)
  show "Clean (installing f) = installing f" using properPath_Clean [OF a(1)] by (simp add: installing_def)
qed (simp add: installing_def)

text \<open>What every file the installer writes relies on: the data is first written to a name that
  nothing else uses, and only a complete file is given its real name.\<close>

locale staged_write =
  fixes writer :: "unit action"
    and tmp data :: string
    and start :: installer
  assumes touches: "changes_only {tmp} writer"
    and writes: "writer start = (Inr u, i') \<Longrightarrow> \<exists>m. lookup i' tmp = Some (Regular data m)"
begin

lemma publish_error:
  assumes "tmp \<noteq> f" and "bindE writer (\<lambda>_. wrapE OsError (os_Rename tmp f)) start = (Inl e, i')"
  shows "lookup i' f = lookup start f"
proof -
  obtain r1 i1 where w: "writer start = (r1, i1)" by fastforce
  have "lookup i1 f = lookup start f" using changes_onlyD(1) [OF touches w] assms(1) by simp
  then show ?thesis
    using assms(2) w
    by (cases r1) (auto simp: bindE_def wrapE_def dest: Rename_Inl [where q = f] split: prod.splits sum.splits)
qed

lemma publish_ok:
  assumes "tmp \<noteq> f" and "bindE writer (\<lambda>_. wrapE OsError (os_Rename tmp f)) start = (Inr u, i')"
  shows "\<exists>m. lookup i' f = Some (Regular data m)"
proof -
  obtain v i1 where w: "writer start = (Inr v, i1)" and n: "os_Rename tmp f i1 = (Inr u, i')"
    using assms(2) by (auto simp: bindE_eq_Inr wrapE_eq_Inr)
  from writes [OF w] Rename_Inr [OF n assms(1)] show ?thesis by auto
qed

lemma publish_touches: "changes_only {tmp, f} (bindE writer (\<lambda>_. wrapE OsError (os_Rename tmp f)))"
  by (intro changes_only_bindE changes_only_wrapE calls_change changes_only_mono [OF touches]) simp

text \<open>Whatever fails, the file is the old one or the new one.\<close>

lemma publish:
  assumes "tmp \<noteq> f" and "bindE writer (\<lambda>_. wrapE OsError (os_Rename tmp f)) start = (r, i')"
  shows "(\<forall>q. q \<notin> {tmp, f} \<longrightarrow> lookup i' q = lookup start q) \<and> host.more i' = host.more start \<and>
    (if is_ok r then \<exists>m. lookup i' f = Some (Regular data m) else lookup i' f = lookup start f)"
  using publish_ok [OF assms(1), of _ i'] publish_error [OF assms(1), of _ i']
    changes_onlyD [OF publish_touches assms(2)] assms(2)
  by (cases r) auto

end

text \<open>The two ways of writing: \<open>os.WriteFile\<close>, and a handle that is opened, written, synced and
  closed.\<close>

definition streamed :: "string \<Rightarrow> 9 word \<Rightarrow> string \<Rightarrow> unit action" where
  "streamed tmp perm content =
     bindE (wrapE OsError (os_OpenTrunc tmp perm)) (\<lambda>_.
     bindE (wrapE OsError (onErrorE (os_Write tmp content) os_Close)) (\<lambda>_.
     bindE (wrapE OsError (onErrorE os_Sync os_Close)) (\<lambda>_.
     wrapE OsError os_Close)))"

lemma streamed_content:
  assumes "streamed tmp perm content i = (Inr u, i')"
  shows "\<exists>m. lookup i' tmp = Some (Regular content m)"
proof -
  obtain i1 i2 i3 where "os_OpenTrunc tmp perm i = (Inr (), i1)" "os_Write tmp content i1 = (Inr (), i2)"
    "os_Sync i2 = (Inr (), i3)" "os_Close i3 = (Inr u, i')"
    using assms by (auto simp: streamed_def bindE_eq_Inr wrapE_eq_Inr onErrorE_eq_Inr)
  then show ?thesis
    using OpenTrunc_Inr [of tmp perm i "()" i1] Write_Inr [of tmp content i1 "()" i2]
      Sync_lookup [of i2 _ i3 tmp] Close_lookup [of i3 _ i' tmp] by auto
qed

lemma streamed_touch: "changes_only {tmp} (streamed tmp perm content)"
  unfolding streamed_def
  by (intro changes_only_bindE changes_only_wrapE changes_only_onErrorE calls_change quiet_calls)

interpretation whole: staged_write "wrapE OsError (os_WriteFile tmp content perm)" tmp content start
  for tmp content perm start
  by unfold_locales
     (auto intro: changes_only_wrapE WriteFile_change dest: WriteFile_Inr simp: wrapE_eq_Inr)

interpretation stream: staged_write "streamed tmp perm content" tmp content start
  for tmp content perm start
  by unfold_locales (auto intro: streamed_touch dest: streamed_content)

lemma writeCNI_shape:
  assumes "properPath cf"
  shows "writeCNI L cf prev merged =
    bindE (bindE (wrapE OsError (os_WriteFile (installing cf) merged writeFilePerm))
      (\<lambda>_. wrapE OsError (os_Rename (installing cf) cf))) (\<lambda>_ i.
        let i = appendEntry (cniFile cf) i;
            i = i\<lparr>fileHashSet := (fileHashSet i)(cf \<mapsto> hashEncode L merged)\<rparr>
        in if prev \<noteq> '''' then wrapE OsError (os_Remove prev) i else (Inr (), i))"
  using tmp_name [OF assms] by (simp add: writeCNI_def Let_def bindE_assoc)

lemma writeCNI_outcome:
  assumes "properPath cf" and "prev \<noteq> cf" and "prev \<noteq> installing cf"
    and "writeCNI L cf prev merged i = (r, i')"
  shows "(\<forall>q. q \<notin> {cf, installing cf} \<and> (q = prev \<longrightarrow> prev = '''') \<longrightarrow> lookup i' q = lookup i q) \<and>
    (r \<noteq> Inr () \<and> lookup i' cf = lookup i cf \<and> lookup i' prev = lookup i prev \<or>
     (\<exists>m. lookup i' cf = Some (Regular merged m)) \<and> lookup i' prev \<in> {lookup i prev, None} \<and>
     mapIndex (fileHashSet i') cf = hashEncode L merged \<and>
     (r = Inr () \<longrightarrow> prev = '''' \<or> lookup i' prev = None))"
proof -
  obtain r2 i2 where w: "bindE (wrapE OsError (os_WriteFile (installing cf) merged writeFilePerm))
      (\<lambda>_. wrapE OsError (os_Rename (installing cf) cf)) i = (r2, i2)" by fastforce
  note pub = whole.publish [OF tmp_name(3) [OF assms(1)] w]
  show ?thesis
  proof (cases r2)
    case (Inl e)
    then have "r = Inl e" "i' = i2"
      using assms(4) by (simp_all add: writeCNI_shape [OF assms(1)] bindE_def [of "bindE _ _"] w)
    then show ?thesis using pub Inl assms(2,3) by auto
  next
    case (Inr u)
    define i3 where "i3 = (appendEntry (cniFile cf) i2)\<lparr>fileHashSet := (fileHashSet i2)(cf \<mapsto> hashEncode L merged)\<rparr>"
    have hash: "mapIndex (fileHashSet i3) cf = hashEncode L merged" and same: "lookup i3 q = lookup i2 q" for q
      by (simp_all add: i3_def mapIndex_def)
    have fin: "(r, i') = (if prev \<noteq> '''' then wrapE OsError (os_Remove prev) i3 else (Inr (), i3))"
      using assms(4) Inr
      by (simp add: writeCNI_shape [OF assms(1)] bindE_def [of "bindE _ _"] w i3_def Let_def cong: if_cong)
    show ?thesis
    proof (cases "prev = ''''")
      case True
      then show ?thesis using fin pub Inr hash same assms(2,3) by auto
    next
      case False
      obtain r4 where r4: "os_Remove prev i3 = (r4, i')" and r: "r = map_sum OsError id r4"
        using fin False by (auto simp: wrapE_def split: prod.splits sum.splits)
      note r_touch = changes_onlyD [OF calls_change(9) r4]
      have "fileHashSet i' = fileHashSet i3" using more_log [OF r_touch(4)] by simp
      moreover have "r = Inr () \<longrightarrow> lookup i' prev = None" using r r4 Remove_Inr by (cases r4) auto
      ultimately show ?thesis
        using pub Inr hash same r_touch(1) Remove_at [OF r4] assms(2,3) False by auto
    qed
  qed
qed

end
