(* ===== verification/Cni_Configure.thy ===== *)
theory Cni_Configure
  imports Cni_Installer
begin

text \<open>
  What rewriting the configuration (\<open>internal/cni/conf.go\<close>) does to the files of the node:
  the ways \<open>reconfigureCNI\<close> and \<open>reconfigureK8s\<close> can end, under any schedule of I/O
  errors and without any, and that a file is only ever the old one or the complete new one.
\<close>

section \<open>Rewriting the CNI configuration\<close>

text \<open>The names involved: the file, the name it is written to, the temporary name.\<close>

lemma renamedConfig_names:
  assumes "properPath f" and "renamedConfig f = (cf, prev)"
  shows "properPath cf" and "prev \<noteq> cf" and "prev \<noteq> installing cf" and "prev = '''' \<and> cf = f \<or> prev = f \<and> cf = f @ ''list''"
proof -
  show cases: "prev = '''' \<and> cf = f \<or> prev = f \<and> cf = f @ ''list''"
    using assms(2) by (auto simp: renamedConfig_def split: if_splits)
  then show cf: "properPath cf" using assms(1) properPath_append(1) [of f "''list''"] by auto
  show "prev \<noteq> cf" using cases properPath_nonempty [OF cf] by auto
  show "prev \<noteq> installing cf" using cases by (auto simp: installing_def)
qed

text \<open>Merging what was read with what is configured: nothing is written before both are there.\<close>

lemma merge_cases:
  assumes "bindE (configureCNI ss) (\<lambda>configuration.
      bindE (wrapE JsonError (liftE (inject js data configuration))) k) i = (r, i')"
  obtains (refused) "host.more i' = host.more i" "\<forall>q. lookup i' q = lookup i q" "\<forall>u. r \<noteq> Inr u"
      "faults i = [] \<longrightarrow> faults i' = []"
  | (merged) configuration merged j where "inject js data configuration = Inr merged"
      "host.more j = host.more i" "\<forall>q. lookup j q = lookup i q" "faults i = [] \<longrightarrow> faults j = []"
      "k merged j = (r, i')"
proof -
  obtain rc j where c: "configureCNI ss i = (rc, j)" by fastforce
  note t = changes_onlyD [OF configureCNI_touch [of "{}"] c]
  then have same: "host.more j = host.more i" "\<forall>q. lookup j q = lookup i q" "faults i = [] \<longrightarrow> faults j = []"
    by simp_all
  show thesis
  proof (cases "\<exists>configuration merged. rc = Inr configuration \<and> inject js data configuration = Inr merged")
    case True
    then obtain configuration merged where m: "rc = Inr configuration" "inject js data configuration = Inr merged"
      by blast
    then have "k merged j = (r, i')" using assms c by (simp add: bindE_def wrapE_def liftE_def)
    with m(2) same show thesis by (rule merged)
  next
    case False
    then have "i' = j" "\<forall>u. r \<noteq> Inr u"
      using assms c by (auto simp: bindE_def wrapE_def liftE_def split: sum.splits)
    with same refused show thesis by simp
  qed
qed

text \<open>The ways a run can end.\<close>

lemma reconfigureCNI_cases:
  assumes "reconfigureCNI L f i = (r, i')"
  obtains (skipped) "i' = snd (os_ReadFile (Clean f) i)"
  | (refused) "host.more i' = host.more i" "\<forall>q. lookup i' q = lookup i q" "r \<noteq> Inr ()" "faults i = [] \<longrightarrow> faults i' = []"
  | (written) data m configuration merged j where "lookup i (Clean f) = Some (Regular data m)"
      "mapIndex (fileHashSet i) f \<noteq> hashEncode L data"
      "inject (json L) data configuration = Inr merged" "\<forall>q. lookup j q = lookup i q"
      "host.more j = host.more i" "faults i = [] \<longrightarrow> faults j = []"
      "writeCNI L (fst (renamedConfig f)) (snd (renamedConfig f)) merged j = (r, i')"
proof -
  obtain rd i1 where rd: "os_ReadFile (Clean f) i = (rd, i1)" by fastforce
  note t1 = changes_onlyD [OF calls_change(1) rd]
  show thesis
  proof (cases "\<exists>data. rd = Inr data \<and> mapIndex (fileHashSet i1) f \<noteq> hashEncode L data")
    case False
    then have "i' = i1" using assms rd by (cases rd) (auto simp: reconfigureCNI_def split: if_splits)
    with rd skipped show thesis by simp
  next
    case True
    then obtain data where data: "rd = Inr data" "mapIndex (fileHashSet i1) f \<noteq> hashEncode L data" by blast
    obtain m where m: "lookup i (Clean f) = Some (Regular data m)" using ReadFile_Inr rd data(1) by blast
    have hash: "mapIndex (fileHashSet i) f \<noteq> hashEncode L data" using data(2) more_log [OF t1(4)] by simp
    have "bindE (configureCNI (sources i1)) (\<lambda>configuration.
          bindE (wrapE JsonError (liftE (inject (json L) data configuration))) (\<lambda>merged.
          writeCNI L (fst (renamedConfig f)) (snd (renamedConfig f)) merged)) i1 = (r, i')"
      using assms rd data by (simp add: reconfigureCNI_def)
    then show thesis
    proof (cases rule: merge_cases)
      case refused
      with t1 show thesis by (intro that(2)) auto
    next
      case (merged configuration merged j)
      with m hash t1 show thesis by (intro that(3)) auto
    qed
  qed
qed

lemma ReadFile_keeps: "snd (os_ReadFile p i) = i' \<Longrightarrow> host.more i' = host.more i \<and> (\<forall>q. lookup i' q = lookup i q) \<and>
    (faults i = [] \<longrightarrow> i' = i)"
  by (auto simp: os_ReadFile_def call_def unbroken_def split: list.splits option.splits)

lemma reconfigureCNI_outcome:
  assumes "properPath f" and "reconfigureCNI L f i = (r, i')" and "renamedConfig f = (cf, prev)"
  shows "(\<forall>q. q \<notin> {f, cf, installing cf} \<longrightarrow> lookup i' q = lookup i q) \<and>
    (lookup i' cf = lookup i cf \<and> lookup i' f = lookup i f \<or>
     (\<exists>data m configuration merged m'. lookup i f = Some (Regular data m) \<and>
        inject (json L) data configuration = Inr merged \<and> lookup i' cf = Some (Regular merged m') \<and>
        (f = cf \<or> lookup i' f \<in> {lookup i f, None})))"
  using assms(2)
proof (cases rule: reconfigureCNI_cases)
  case skipped
  then show ?thesis using ReadFile_keeps [of "Clean f" i i'] by simp
next
  case refused
  then show ?thesis by simp
next
  case (written data m configuration merged j)
  note names = renamedConfig_names [OF assms(1,3)]
  have w: "writeCNI L cf prev merged j = (r, i')" using written(7) assms(3) by simp
  show ?thesis
    using writeCNI_outcome [OF names(1-3) w] written(1,3,4) names(4) properPath_Clean [OF assms(1)] by auto
qed

text \<open>Without faults a run that has written leaves a file that the next run skips.\<close>

lemma reconfigureCNI_skip:
  assumes "properPath f" and "faults i = []"
    and "case lookup i f of None \<Rightarrow> True
      | Some (Regular data _) \<Rightarrow> mapIndex (fileHashSet i) f = hashEncode L data | _ \<Rightarrow> False"
  shows "reconfigureCNI L f i = (Inr (), i)"
  using assms(2,3)
  by (auto simp: reconfigureCNI_def properPath_Clean [OF assms(1)] os_ReadFile_def call_no_faults
      split: option.splits node.splits)

lemma writeCNI_faults:
  assumes "properPath cf" and "writeCNI L cf prev merged i = (r, i')" and "faults i = []"
  shows "faults i' = []"
proof -
  obtain r2 i2 where w: "bindE (wrapE OsError (os_WriteFile (installing cf) merged writeFilePerm))
      (\<lambda>_. wrapE OsError (os_Rename (installing cf) cf)) i = (r2, i2)" by fastforce
  have i2: "faults i2 = []" using changes_onlyD(5) [OF whole.publish_touches w] assms(3) .
  define i3 where "i3 = (appendEntry (cniFile cf) i2)\<lparr>fileHashSet := (fileHashSet i2)(cf \<mapsto> hashEncode L merged)\<rparr>"
  have i3: "faults i3 = []" by (simp add: i3_def i2)
  have fin: "(case r2 of Inl e \<Rightarrow> (Inl e, i2)
      | Inr _ \<Rightarrow> if prev \<noteq> '''' then wrapE OsError (os_Remove prev) i3 else (Inr (), i3)) = (r, i')"
    using assms(2)
    by (cases r2) (simp_all add: writeCNI_shape [OF assms(1)] bindE_def [of "bindE _ _"] w i3_def Let_def cong: if_cong, auto)
  show ?thesis
    using fin i2 i3 changes_onlyD(5) [OF changes_only_wrapE [OF calls_change(9)], of _ _ i3 r i']
    by (auto split: sum.splits if_splits)
qed

lemma publish_no_faults:
  assumes "properPath cf" and "faults i = []" and "lookup i (Dir cf) = Some Directory" and "lookup i cf \<noteq> Some Directory"
    and "lookup i (installing cf) = None \<or> (\<exists>d m. lookup i (installing cf) = Some (Regular d m))"
  shows "\<exists>i1 m i2. os_WriteFile (installing cf) merged writeFilePerm i = (Inr (), i1) \<and>
    os_Rename (installing cf) cf i1 = (Inr (), i2) \<and> lookup i2 cf = Some (Regular merged m) \<and>
    lookup i2 (installing cf) = None \<and> (\<forall>q. q \<notin> {cf, installing cf} \<longrightarrow> lookup i2 q = lookup i q) \<and>
    faults i2 = [] \<and> host.more i2 = host.more i"
proof -
  note tmp = tmp_name [OF assms(1)]
  have dir_ne: "Dir cf \<noteq> installing cf"
    using properPath_parent [OF properPath_append(1) [OF assms(1), of "''.install''"]] tmp(4) by (auto simp: installing_def)
  have "\<exists>m'. (\<exists>old. lookup i (installing cf) = Some (Regular old m')) \<or> lookup i (installing cf) = None \<and>
      lookup i (Dir (installing cf)) = Some Directory \<and> m' = writeFilePerm AND NOT (umask i)"
    using assms(3,5) tmp(4) by auto
  then obtain m i1 where w: "os_WriteFile (installing cf) merged writeFilePerm i = (Inr (), i1)"
    and i1: "lookup i1 (installing cf) = Some (Regular merged m)" "\<forall>q. q \<noteq> installing cf \<longrightarrow> lookup i1 q = lookup i q"
      "faults i1 = []" "host.more i1 = host.more i"
    using WriteFile_no_faults [OF assms(2), of "installing cf" _ writeFilePerm merged] by blast
  let ?i2 = "put cf (Regular merged m) (drop_node (installing cf) i1)"
  have "os_Rename (installing cf) cf i1 = (Inr (), ?i2)"
    by (rule Rename_no_faults) (use i1 tmp assms(3,4) dir_ne in auto)
  with w i1 tmp(3) show ?thesis by (intro exI [of _ i1] exI [of _ m] exI [of _ ?i2]) auto
qed

lemma reconfigureCNI_completes:
  assumes "properPath f" and "faults i = []" and "renamedConfig f = (cf, prev)"
    and "lookup i f = Some (Regular data m)" and "mapIndex (fileHashSet i) f \<noteq> hashEncode L data"
    and "configureCNI (sources i) i = (Inr configuration, i)"
    and "inject (json L) data configuration = Inr merged"
    and "lookup i (Dir f) = Some Directory" and "lookup i cf \<noteq> Some Directory"
    and "lookup i (installing cf) = None \<or> (\<exists>d m. lookup i (installing cf) = Some (Regular d m))"
  shows "\<exists>i'. reconfigureCNI L f i = (Inr (), i') \<and> (\<exists>m. lookup i' cf = Some (Regular merged m)) \<and>
    (f \<noteq> cf \<longrightarrow> lookup i' f = None) \<and> lookup i' (installing cf) = None \<and>
    (\<forall>q. q \<notin> {f, cf, installing cf} \<longrightarrow> lookup i' q = lookup i q) \<and> (log_ok i \<longrightarrow> cf \<in> filename ` set (log i'))"
proof -
  note names = renamedConfig_names [OF assms(1,3)]
  note tmp = tmp_name [OF names(1)]
  have dir: "Dir cf = Dir f" using names(4) properPath_append(3) [OF assms(1), of "''list''"] by auto
  have f: "f \<noteq> installing cf" using tmp(3) names(4) by (auto simp: installing_def)
  obtain i1 m' i2 where w: "os_WriteFile (installing cf) merged writeFilePerm i = (Inr (), i1)"
    "os_Rename (installing cf) cf i1 = (Inr (), i2)"
    and i2: "lookup i2 cf = Some (Regular merged m')" "lookup i2 (installing cf) = None"
      "\<forall>q. q \<notin> {cf, installing cf} \<longrightarrow> lookup i2 q = lookup i q" "faults i2 = []" "host.more i2 = host.more i"
    using publish_no_faults [OF names(1) assms(2) _ assms(9,10)] assms(8) dir by metis
  define i3 where "i3 = (appendEntry (cniFile cf) i2)\<lparr>fileHashSet := (fileHashSet i2)(cf \<mapsto> hashEncode L merged)\<rparr>"
  have i3: "lookup i3 q = lookup i2 q" "faults i3 = []" "log i3 = log (appendEntry (cniFile cf) i2)" for q
    by (simp_all add: i3_def i2)
  have logged: "log_ok i \<longrightarrow> cf \<in> filename ` set (log i3)"
    using more_log [OF i2(5)] appendEntry_logged [of i2 "cniFile cf"] i3(3) by (simp add: log_ok_def)
  have run: "reconfigureCNI L f i = (if prev \<noteq> '''' then wrapE OsError (os_Remove prev) i3 else (Inr (), i3))"
    using assms(2-7) w
    by (simp add: reconfigureCNI_def properPath_Clean [OF assms(1)] ReadFile_no_faults bindE_def liftE_def wrapE_def
        writeCNI_def tmp i3_def Let_def cong: if_cong)
  show ?thesis
  proof (cases "prev = ''''")
    case True
    then have "cf = f" using names(4) properPath_nonempty [OF assms(1)] by auto
    then show ?thesis using True run i3 i2 logged by auto
  next
    case False
    then have "os_Remove prev i3 = (Inr (), drop_node prev i3)"
      using names(2,4) assms(4) f i3 i2 by (intro Remove_no_faults [where n = "Regular data m"]) auto
    moreover have "log (drop_node prev i3) = log i3" using more_log [of "drop_node prev i3" i3] by simp
    ultimately show ?thesis
      using False run names(2,4) i3 i2 logged f by (auto simp: wrapE_def)
  qed
qed

text \<open>The schedule stays empty, and the only entry added is the one of the list.\<close>

lemma reconfigureCNI_faults:
  assumes "properPath f" and "reconfigureCNI L f i = (r, i')" and "faults i = []"
  shows "faults i' = []"
  using assms(2)
proof (cases rule: reconfigureCNI_cases)
  case skipped
  then show ?thesis using ReadFile_keeps [of "Clean f" i i'] assms(3) by simp
next
  case refused
  then show ?thesis using assms(3) by simp
next
  case (written data m configuration merged j)
  obtain cf prev where n: "renamedConfig f = (cf, prev)" by fastforce
  show ?thesis
    using writeCNI_faults [OF renamedConfig_names(1) [OF assms(1) n]] written(6,7) assms(3) n by simp
qed

lemma writeCNI_new_entries:
  assumes "properPath cf" and "writeCNI L cf prev merged i = (r, i')"
  shows "set (log i') \<subseteq> insert (cniFile cf) (set (log i))"
proof -
  obtain r2 i2 where w: "bindE (wrapE OsError (os_WriteFile (installing cf) merged writeFilePerm))
      (\<lambda>_. wrapE OsError (os_Rename (installing cf) cf)) i = (r2, i2)" by fastforce
  have i2: "log i2 = log i" using more_log [OF changes_onlyD(4) [OF whole.publish_touches w]] by simp
  define i3 where "i3 = (appendEntry (cniFile cf) i2)\<lparr>fileHashSet := (fileHashSet i2)(cf \<mapsto> hashEncode L merged)\<rparr>"
  have i3: "set (log i3) \<subseteq> insert (cniFile cf) (set (log i))" by (auto simp: i3_def i2 appendEntry_def)
  have fin: "(case r2 of Inl e \<Rightarrow> (Inl e, i2)
      | Inr _ \<Rightarrow> if prev \<noteq> '''' then wrapE OsError (os_Remove prev) i3 else (Inr (), i3)) = (r, i')"
    using assms(2)
    by (cases r2) (simp_all add: writeCNI_shape [OF assms(1)] bindE_def [of "bindE _ _"] w i3_def Let_def cong: if_cong, auto)
  show ?thesis
    using fin i2 i3 more_log [OF changes_onlyD(4) [OF changes_only_wrapE [OF calls_change(9)], of _ _ i3 r i']]
    by (auto split: sum.splits if_splits)
qed

lemma reconfigureCNI_new_entries:
  assumes "properPath f" and "reconfigureCNI L f i = (r, i')"
  shows "set (log i') \<subseteq> insert (cniFile (fst (renamedConfig f))) (set (log i))"
  using assms(2)
proof (cases rule: reconfigureCNI_cases)
  case skipped
  then show ?thesis using more_log [of i' i] ReadFile_keeps [of "Clean f" i i'] by auto
next
  case refused
  then show ?thesis using more_log [of i' i] by auto
next
  case (written data m configuration merged j)
  obtain cf prev where n: "renamedConfig f = (cf, prev)" by fastforce
  have "writeCNI L cf prev merged j = (r, i')" using written(7) n by simp
  from writeCNI_new_entries [OF renamedConfig_names(1) [OF assms(1) n] this] more_log [OF written(5)] n
  show ?thesis by simp
qed

section \<open>Rewriting the kubeconfig\<close>

text \<open>The file of the certificate authority.\<close>

definition caFile :: "string \<Rightarrow> installer \<Rightarrow> string" where
  "caFile src i = (if envVar_get kubeCAFile i = '''' then path_Join [Dir src, ''ca.crt''] else envVar_get kubeCAFile i)"

lemma reconfigureK8s_shape:
  assumes "properPath dst"
  shows "reconfigureK8s dst src = bindE (k8sData src) (\<lambda>d.
    bindE (bindE (streamed (installing dst) writeFilePerm (k8sConfigTemplate d))
      (\<lambda>_. wrapE OsError (os_Rename (installing dst) dst)))
      (\<lambda>_ i. (Inr (), appendEntry (k8sFile dst) i)))"
  using tmp_name [OF assms] by (simp add: reconfigureK8s_def streamed_def Let_def bindE_assoc)

lemma nonEmpty_Inr: "nonEmpty what s i = (Inr u, i') \<longleftrightarrow> s \<noteq> '''' \<and> i' = i"
  by (auto simp: nonEmpty_def throwE_def returnE_def)

lemma ReadFile_value:
  assumes "wrapE OsError (os_ReadFile p) i = (Inr d, i')"
  shows "(\<exists>m. lookup i p = Some (Regular d m)) \<and> (\<forall>q. lookup i' q = lookup i q) \<and> environ i' = environ i"
proof -
  have r: "os_ReadFile p i = (Inr d, i')" using assms by (simp add: wrapE_eq_Inr)
  show ?thesis using ReadFile_Inr [OF r] changes_onlyD [OF calls_change(1) r] by simp
qed

lemma k8sData_Inr:
  assumes "k8sData src i = (Inr d, i')"
  shows "\<exists>token cert m1 m2. lookup i (Clean src) = Some (Regular token m1) \<and> token \<noteq> '''' \<and>
    lookup i (Clean (caFile src i)) = Some (Regular cert m2) \<and> cert \<noteq> '''' \<and>
    envVar_get svcHost i \<noteq> '''' \<and> envVar_get svcPort i \<noteq> '''' \<and>
    d = \<lparr>AuthToken = TrimSpace token, CertificateAuthorityData = EncodeToString (TrimSpace cert),
      ServiceHost = envVar_get svcHost i, ServicePort = envVar_get svcPort i\<rparr>"
proof -
  obtain token i1 cert i2 where
    t: "wrapE OsError (os_ReadFile (Clean src)) i = (Inr token, i1)" "token \<noteq> ''''" and
    c: "wrapE OsError (os_ReadFile (Clean (caFile src i1))) i1 = (Inr cert, i2)" "cert \<noteq> ''''" and
    e: "envVar_get svcHost i1 \<noteq> ''''" "envVar_get svcPort i1 \<noteq> ''''" and
    d: "d = \<lparr>AuthToken = TrimSpace token, CertificateAuthorityData = EncodeToString (TrimSpace cert),
      ServiceHost = envVar_get svcHost i1, ServicePort = envVar_get svcPort i1\<rparr>"
    using assms
    by (auto simp: k8sData_def Let_def bindE_eq_Inr nonEmpty_Inr envE_def returnE_def caFile_def simp del: wrapE_eq_Inr)
  have same: "envVar_get v i1 = envVar_get v i" for v
    using ReadFile_value [OF t(1)] by (intro envVar_get_environ) simp
  show ?thesis
    using ReadFile_value [OF t(1)] ReadFile_value [OF c(1)] t(2) c(2) e d by (auto simp: same caFile_def)
qed


section \<open>A concrete host\<close>

text \<open>A node with one plugin list and the linkerd plugin in the environment; SHA-256 is stood in for
  by the identity.\<close>

definition exampleLibs :: libs where
  "exampleLibs = \<lparr>json = exampleCodec, sha256 = (\<lambda>d. d)\<rparr>"

definition exampleNet :: string where
  "exampleNet = ''/host/etc/cni/net.d''"

definition exampleConfFile :: string where
  "exampleConfFile = exampleNet @ ''/10-calico.conflist''"

definition exampleNode :: installer where
  "exampleNode = \<lparr>store = [(exampleNet, Directory), (exampleConfFile, Regular ''plain'' writeFilePerm)],
     environ = [''CNI_NETWORK_CONFIG'' \<mapsto> ''linkerd''], umask = 0, faults = [],
     fileHashSet = Map.empty, log = [], logIdx = {}, serviceAccountTokenFilename = ''/token'',
     sources = [environmentSource ''CNI_NETWORK_CONFIG'']\<rparr>"

lemma exampleConfFile_path:
  "properPath exampleConfFile" "Dir exampleConfFile = exampleNet"
  "renamedConfig exampleConfFile = (exampleConfFile, '''')" "exampleConfFile \<noteq> exampleNet"
  "installing exampleConfFile \<noteq> exampleNet" "installing exampleConfFile \<noteq> exampleConfFile"
proof -
  have f: "exampleConfFile = absPath ([''host'', ''etc'', ''cni'', ''net.d''] @ [''10-calico.conflist''])"
    by (simp add: exampleConfFile_def exampleNet_def absPath_def)
  show "properPath exampleConfFile" unfolding properPath_def
    using f by (intro exI [of _ "[''host'', ''etc'', ''cni'', ''net.d'']"] exI [of _ "''10-calico.conflist''"])
      (simp add: proper_def)
  show "Dir exampleConfFile = exampleNet"
    unfolding f by (subst Dir_absPath) (simp_all add: proper_def exampleNet_def absPath_def)
  show "renamedConfig exampleConfFile = (exampleConfFile, '''')"
    by (simp add: renamedConfig_def HasSuffix_def exampleConfFile_def exampleNet_def suffix_to_prefix)
  show "exampleConfFile \<noteq> exampleNet" "installing exampleConfFile \<noteq> exampleNet"
    "installing exampleConfFile \<noteq> exampleConfFile"
    by (simp_all add: exampleConfFile_def exampleNet_def installing_def)
qed

lemma exampleNode_facts:
  "faults exampleNode = []" "lookup exampleNode exampleConfFile = Some (Regular ''plain'' writeFilePerm)"
  "lookup exampleNode exampleNet = Some Directory" "lookup exampleNode (installing exampleConfFile) = None"
  "mapIndex (fileHashSet exampleNode) exampleConfFile \<noteq> hashEncode exampleLibs ''plain''"
  "inject (json exampleLibs) ''plain'' ''linkerd'' = Inr ''merged''" "log_ok exampleNode"
  using exampleConfFile_path(4-6) example_inject(5)
  by (auto simp: exampleNode_def lookup_def mapIndex_def hashEncode_def hexEncode_def exampleLibs_def log_ok_def)

lemma exampleNode_source: "configureCNI (sources exampleNode) exampleNode = (Inr ''linkerd'', exampleNode)"
  by (simp add: exampleNode_def Getenv_def Let_def)

lemma exampleNode_run:
  "\<exists>i'. reconfigureCNI exampleLibs exampleConfFile exampleNode = (Inr (), i') \<and>
     (\<exists>m. lookup i' exampleConfFile = Some (Regular ''merged'' m)) \<and>
     lookup i' exampleNet = Some Directory \<and> exampleConfFile \<in> filename ` set (log i')"
  using reconfigureCNI_completes [OF exampleConfFile_path(1) exampleNode_facts(1) exampleConfFile_path(3)
      exampleNode_facts(2,5) exampleNode_source exampleNode_facts(6)]
    exampleConfFile_path exampleNode_facts by auto


section \<open>Properties\<close>

text \<open>C7. The CNI configuration is never torn: whatever calls fail, and wherever, a run of
  \<open>reconfigureCNI\<close> changes no file but the one it is for, the list it becomes and the
  temporary one; and the list is either as it was, with the original file untouched, or holds
  a complete merged document, and only then is an original of another name removed.\<close>

theorem reconfigureCNI_atomic:
  assumes "properPath f" and "reconfigureCNI L f i = (r, i')" and "renamedConfig f = (cf, prev)"
  shows "(\<forall>q. q \<notin> {f, cf, installing cf} \<longrightarrow> lookup i' q = lookup i q) \<and>
    (lookup i' cf = lookup i cf \<and> lookup i' f = lookup i f \<or>
     (\<exists>data m configuration merged m'. lookup i f = Some (Regular data m) \<and>
        inject (json L) data configuration = Inr merged \<and> lookup i' cf = Some (Regular merged m') \<and>
        (f = cf \<or> lookup i' f \<in> {lookup i f, None})))"
  by (rule reconfigureCNI_outcome [OF assms])

theorem reconfigureCNI_atomic_witness:
  "lookup (snd (reconfigureCNI exampleLibs exampleConfFile
     (exampleNode\<lparr>faults := [None, Some (Errno ''no space'', 3)]\<rparr>))) exampleNet = Some Directory"
proof -
  obtain r i' where run: "reconfigureCNI exampleLibs exampleConfFile
      (exampleNode\<lparr>faults := [None, Some (Errno ''no space'', 3)]\<rparr>) = (r, i')" by fastforce
  have "exampleNet \<notin> {exampleConfFile, exampleConfFile, installing exampleConfFile}"
    using exampleConfFile_path(4,5) by auto
  then have "lookup i' exampleNet = lookup exampleNode exampleNet"
    using reconfigureCNI_atomic [OF exampleConfFile_path(1) run exampleConfFile_path(3), THEN conjunct1,
        rule_format, of exampleNet] by simp
  then show ?thesis by (simp only: run snd_conv exampleNode_facts(3))
qed

text \<open>C27. The installer does not wake itself: after a successful run on a file, without I/O
  errors, a second run on it changes nothing, and neither does the run that the renaming of
  the temporary file sets off.\<close>

theorem reconfigureCNI_quiescent:
  assumes "properPath f" and "faults i = []" and "reconfigureCNI L f i = (Inr (), i')"
    and "renamedConfig f = (cf, prev)"
  shows "reconfigureCNI L f i' = (Inr (), i') \<and>
    (lookup i' cf \<noteq> lookup i cf \<longrightarrow> reconfigureCNI L cf i' = (Inr (), i'))"
  using assms(3)
proof (cases rule: reconfigureCNI_cases)
  case skipped
  then have "i' = i" using ReadFile_keeps [of "Clean f" i i'] assms(2) by simp
  then show ?thesis using assms(3) by simp
next
  case (written data m configuration merged j)
  note names = renamedConfig_names [OF assms(1,4)]
  have w: "writeCNI L cf prev merged j = (Inr (), i')" using written(7) assms(4) by simp
  have nf: "faults i' = []" using writeCNI_faults [OF names(1) w] written(6) assms(2) by simp
  note out = writeCNI_outcome [OF names(1-3) w]
  then have cf: "reconfigureCNI L cf i' = (Inr (), i')"
    by (intro reconfigureCNI_skip [OF names(1) nf]) auto
  moreover have "reconfigureCNI L f i' = (Inr (), i')"
  proof (cases "prev = ''''")
    case True
    then show ?thesis using names(4) cf properPath_nonempty [OF assms(1)] by auto
  next
    case False
    then have "lookup i' f = None" using out names(4) by auto
    then show ?thesis by (intro reconfigureCNI_skip [OF assms(1) nf]) simp
  qed
  ultimately show ?thesis by simp
qed simp

theorem reconfigureCNI_quiescent_witness:
  "\<exists>i'. reconfigureCNI exampleLibs exampleConfFile exampleNode = (Inr (), i') \<and>
     reconfigureCNI exampleLibs exampleConfFile i' = (Inr (), i')"
proof -
  obtain i' where run: "reconfigureCNI exampleLibs exampleConfFile exampleNode = (Inr (), i')"
    using exampleNode_run by blast
  from reconfigureCNI_quiescent [OF exampleConfFile_path(1) exampleNode_facts(1) run exampleConfFile_path(3)] run
  show ?thesis by blast
qed

text \<open>C28. Without I/O errors a configuration that differs from what was last written is merged:
  the run succeeds, the list holds the merged document, a file of a single plugin is gone, the
  temporary file is gone, nothing else has changed, and the list is in the log for \<open>Remove\<close>.\<close>

theorem reconfigureCNI_writes:
  assumes "properPath f" and "faults i = []" and "renamedConfig f = (cf, prev)"
    and "lookup i f = Some (Regular data m)" and "mapIndex (fileHashSet i) f \<noteq> hashEncode L data"
    and "configureCNI (sources i) i = (Inr configuration, i)"
    and "inject (json L) data configuration = Inr merged"
    and "lookup i (Dir f) = Some Directory" and "lookup i cf \<noteq> Some Directory"
    and "lookup i (installing cf) = None \<or> (\<exists>d m. lookup i (installing cf) = Some (Regular d m))"
  shows "\<exists>i'. reconfigureCNI L f i = (Inr (), i') \<and> (\<exists>m. lookup i' cf = Some (Regular merged m)) \<and>
    (f \<noteq> cf \<longrightarrow> lookup i' f = None) \<and> lookup i' (installing cf) = None \<and>
    (\<forall>q. q \<notin> {f, cf, installing cf} \<longrightarrow> lookup i' q = lookup i q) \<and> (log_ok i \<longrightarrow> cf \<in> filename ` set (log i'))"
  by (rule reconfigureCNI_completes) (fact assms)+

theorem reconfigureCNI_writes_witness:
  "\<exists>i'. reconfigureCNI exampleLibs exampleConfFile exampleNode = (Inr (), i') \<and>
     (\<exists>m. lookup i' exampleConfFile = Some (Regular ''merged'' m)) \<and>
     lookup i' (installing exampleConfFile) = None"
  using reconfigureCNI_writes [OF exampleConfFile_path(1) exampleNode_facts(1) exampleConfFile_path(3)
      exampleNode_facts(2,5) exampleNode_source exampleNode_facts(6)]
    exampleConfFile_path exampleNode_facts by auto

text \<open>C20. The kubeconfig of the plugin is published whole or not at all: a run that succeeds has
  found a token, a certificate and the address of the API server, none of them empty, and the
  file holds the template on the trimmed token and the encoded certificate; after an error the
  file is as it was. Only the temporary file beside it may change as well.\<close>

theorem reconfigureK8s_publishes:
  assumes "properPath dst" and "reconfigureK8s dst src i = (r, i')"
  shows "(\<forall>q. q \<notin> {dst, installing dst} \<longrightarrow> lookup i' q = lookup i q) \<and>
    (if is_ok r then
       \<exists>token cert m1 m2 m3.
         lookup i (Clean src) = Some (Regular token m1) \<and> token \<noteq> '''' \<and>
         lookup i (Clean (caFile src i)) = Some (Regular cert m2) \<and> cert \<noteq> '''' \<and>
         envVar_get svcHost i \<noteq> '''' \<and> envVar_get svcPort i \<noteq> '''' \<and>
         lookup i' dst = Some (Regular (k8sConfigTemplate
           \<lparr>AuthToken = TrimSpace token, CertificateAuthorityData = EncodeToString (TrimSpace cert),
            ServiceHost = envVar_get svcHost i, ServicePort = envVar_get svcPort i\<rparr>) m3)
     else lookup i' dst = lookup i dst)"
proof -
  obtain rd i1 where d: "k8sData src i = (rd, i1)" by fastforce
  note t = changes_onlyD [OF k8sData_touch [of "{}"] d]
  show ?thesis
  proof (cases rd)
    case (Inl e)
    then have "r = Inl e" "i' = i1" using assms(2) d by (simp_all add: reconfigureK8s_def bindE_def)
    then show ?thesis using t by simp
  next
    case (Inr data)
    obtain r2 i2 where p: "bindE (streamed (installing dst) writeFilePerm (k8sConfigTemplate data))
        (\<lambda>_. wrapE OsError (os_Rename (installing dst) dst)) i1 = (r2, i2)" by fastforce
    have "r = r2 \<and> (\<forall>q. lookup i' q = lookup i2 q)"
      using assms(2) d Inr p
      by (cases r2) (auto simp: reconfigureK8s_shape [OF assms(1)] bindE_def [of "k8sData src"] bindE_def [of "bindE _ _"])
    with stream.publish [OF tmp_name(3) [OF assms(1)] p] k8sData_Inr [of src i data i1] d Inr t
    show ?thesis by auto
  qed
qed

theorem reconfigureK8s_publishes_witness:
  "\<exists>r i'. reconfigureK8s (exampleNet @ ''/kubeconfig'') ''/token'' exampleNode = (r, i') \<and>
     lookup i' exampleConfFile = Some (Regular ''plain'' writeFilePerm)"
proof -
  have f: "exampleNet @ ''/kubeconfig'' = absPath ([''host'', ''etc'', ''cni'', ''net.d''] @ [''kubeconfig''])"
    by (simp add: exampleNet_def absPath_def)
  have path: "properPath (exampleNet @ ''/kubeconfig'')" unfolding properPath_def
    using f by (intro exI [of _ "[''host'', ''etc'', ''cni'', ''net.d'']"] exI [of _ "''kubeconfig''"])
      (simp add: proper_def)
  obtain r i' where run: "reconfigureK8s (exampleNet @ ''/kubeconfig'') ''/token'' exampleNode = (r, i')" by fastforce
  have "lookup i' exampleConfFile = lookup exampleNode exampleConfFile"
    using reconfigureK8s_publishes [OF path run] by (auto simp: exampleConfFile_def installing_def)
  then show ?thesis using run exampleNode_facts(2) by auto
qed

end
