(* ===== verification/Cni_Remove.thy ===== *)
theory Cni_Remove
  imports Cni_Configure
begin

text \<open>
  The installer's log (\<open>internal/cni/installer.go\<close>), the copying of the plugin
  (\<open>install.go\<close>) and \<open>Remove\<close> (\<open>remove.go\<close>): every method keeps the log well-formed,
  and removing reverts every entry of it, whatever happens to the others.
\<close>

section \<open>The log of every method\<close>

lemma logs_os: "changes_only ps m \<Longrightarrow> logs (wrapE OsError m)"
  by (rule logs_system [OF changes_only_wrapE])

lemma copyFile_touch:
  "changes_only {Clean (path_Join [dst, Base src @ ''.install'']), path_Join [dst, Base src @ ''.install''],
     path_Join [dst, Base src]} (copyFile dst src)"
  unfolding copyFile_def Let_def
  by (intro changes_only_bindE changes_only_wrapE changes_only_onErrorE changes_only_pure quiet_calls
      calls_change(6-9) [THEN changes_only_mono]) auto

lemma installLoop_logs: "logs (installLoop dst acc src)"
proof (induction src arbitrary: acc)
  case (Cons srcP src)
  then show ?case
    by (simp add: logs_bindE logs_system [OF copyFile_touch] logs_after)
qed (simp add: logs_pure)

lemma install_logs: "logs (install dst src)"
  unfolding install_def
  by (intro logs_bindE logs_os [OF calls_change(2)]) (simp add: logs_pure installLoop_logs)

lemma installRegularFiles_logs: "logs (installRegularFiles dst src)"
  unfolding installRegularFiles_def by (intro logs_bindE logs_os [OF calls_change(3)] install_logs)

lemma reconfigureK8s_logs: "logs (reconfigureK8s dst tok)"
  unfolding reconfigureK8s_def Let_def
  by (intro logs_bindE logs_system [OF k8sData_touch] logs_append logs_os
      [OF changes_only_onErrorE [OF calls_change(7) touch_mono [OF calls_change(5)]]]
      logs_os [OF changes_only_onErrorE [OF calls_change(4,5)]] logs_os [OF calls_change(6)]
      logs_os [OF calls_change(5)] logs_os [OF calls_change(8)])

lemma logs_cong_log:
  assumes "\<And>i. log (g i) = log i \<and> logIdx (g i) = logIdx i" and "logs m"
  shows "logs (\<lambda>i. m (g i))"
proof -
  have "log_ok (g i) = log_ok i" for i by (simp add: log_ok_def assms(1))
  with assms show ?thesis unfolding logs_def by metis
qed

lemma writeCNI_logs: "logs (writeCNI L cf prev merged)"
proof -
  have fin: "logs (\<lambda>i. if prev \<noteq> '''' then wrapE OsError (os_Remove prev) i else (Inr (), i))"
    using logs_os [OF calls_change(9) [of prev]] logs_pure(1) [of "()"]
    by (cases "prev = ''''") (simp_all add: returnE_def [abs_def])
  have "logs (\<lambda>i. let i = appendEntry (cniFile cf) i;
      i = i\<lparr>fileHashSet := (fileHashSet i)(cf \<mapsto> hashEncode L merged)\<rparr>
    in if prev \<noteq> '''' then wrapE OsError (os_Remove prev) i else (Inr (), i))"
    unfolding Let_def
    by (rule logs_after [of "\<lambda>i. if prev \<noteq> '''' then wrapE OsError (os_Remove prev)
          (i\<lparr>fileHashSet := (fileHashSet i)(cf \<mapsto> hashEncode L merged)\<rparr>) else
          (Inr (), i\<lparr>fileHashSet := (fileHashSet i)(cf \<mapsto> hashEncode L merged)\<rparr>)"],
        rule logs_cong_log [OF _ fin, of "\<lambda>i. i\<lparr>fileHashSet := (fileHashSet i)(cf \<mapsto> hashEncode L merged)\<rparr>"]) simp
  then show ?thesis
    unfolding writeCNI_def Let_def
    by (intro logs_bindE logs_os [OF WriteFile_change] logs_os [OF calls_change(8)]) (simp add: Let_def)
qed

lemma reconfigureCNI_logs: "logs (reconfigureCNI L f)"
  unfolding logs_def
proof (intro allI impI)
  fix i assume ok: "log_ok i"
  obtain r i' where run: "reconfigureCNI L f i = (r, i')" by fastforce
  then have "log_ok i' \<and> prefix (log i) (log i')"
  proof (cases rule: reconfigureCNI_cases)
    case skipped
    then have "host.more i' = host.more i" using ReadFile_keeps by blast
    from more_log [OF this] show ?thesis using ok by (simp add: log_ok_def)
  next
    case refused
    from more_log [OF this(1)] show ?thesis using ok by (simp add: log_ok_def)
  next
    case (written data m configuration merged j)
    have "log_ok j" "log j = log i" using more_log [OF written(5)] ok by (simp_all add: log_ok_def)
    then show ?thesis using writeCNI_logs written(7) unfolding logs_def by (metis snd_conv)
  qed
  then show "log_ok (snd (reconfigureCNI L f i)) \<and> prefix (log i) (log (snd (reconfigureCNI L f i)))"
    by (simp add: run)
qed

section \<open>Removing\<close>

text \<open>What \<open>Remove\<close> needs of an entry: reverting it touches the one file it is named after.\<close>

locale revertible =
  fixes revert_entry :: "'e \<Rightarrow> ('z host_scheme, 'x, unit) io"
    and name_of :: "'e \<Rightarrow> string"
  assumes reverts: "changes_only {name_of e} (revert_entry e)"
begin

lemma removeLoop_frame:
  assumes "removeLoop revert_entry errs es w = (errs', w')"
  shows "(\<forall>q. q \<notin> name_of ` set es \<longrightarrow> lookup w' q = lookup w q) \<and> host.more w' = host.more w \<and>
    environ w' = environ w \<and> (faults w = [] \<longrightarrow> faults w' = [])"
  using assms
proof (induction es arbitrary: errs w)
  case (Cons e es)
  obtain r w1 where e: "revert_entry e w = (r, w1)" by fastforce
  then obtain errs1 where "removeLoop revert_entry errs1 es w1 = (errs', w')"
    using Cons.prems by (cases r) auto
  from Cons.IH [OF this] changes_onlyD [OF reverts e] show ?case by auto
qed simp

text \<open>Every entry is reverted, whatever happened to the others: without faults, and with no name
  twice, each file ends as its own entry leaves it.\<close>

lemma removeLoop_each:
  assumes "removeLoop revert_entry errs es w = (errs', w')" and "distinct (map name_of es)"
    and "e \<in> set es"
    and result: "\<And>v. host.more v = host.more w \<Longrightarrow> lookup v (name_of e) = lookup w (name_of e) \<Longrightarrow>
      (faults w = [] \<longrightarrow> faults v = []) \<Longrightarrow> lookup (snd (revert_entry e v)) (name_of e) = n"
  shows "lookup w' (name_of e) = n"
  using assms
proof (induction es arbitrary: errs w)
  case (Cons e0 es)
  obtain r w1 where e0: "revert_entry e0 w = (r, w1)" by fastforce
  then obtain errs1 where rest: "removeLoop revert_entry errs1 es w1 = (errs', w')"
    using Cons.prems(1) by (cases r) auto
  note t = changes_onlyD [OF reverts e0]
  show ?case
  proof (cases "e = e0")
    case True
    then have "name_of e \<notin> name_of ` set es" using Cons.prems(2) by auto
    then have "lookup w' (name_of e) = lookup w1 (name_of e)" using removeLoop_frame [OF rest] by simp
    also have "\<dots> = n" using Cons.prems(4) [of w] e0 True by simp
    finally show ?thesis .
  next
    case False
    then have "e \<in> set es" using Cons.prems(3) by simp
    moreover have "name_of e \<noteq> name_of e0" using Cons.prems(2) \<open>e \<in> set es\<close> by (metis distinct.simps(2) image_eqI list.set_map list.simps(9))
    ultimately show ?thesis
      using Cons.prems(2,4) t by (intro Cons.IH [OF rest]) auto
  qed
qed simp

text \<open>As many errors as entries that failed.\<close>

lemma removeLoop_errors:
  "removeLoop revert_entry errs es w = (errs', w') \<Longrightarrow>
   length errs \<le> length errs' \<and> length errs' \<le> length errs + length es"
proof (induction es arbitrary: errs w)
  case (Cons e es)
  obtain r w1 where e: "revert_entry e w = (r, w1)" by fastforce
  show ?case using Cons.prems e
    by (cases r) (auto dest!: Cons.IH)
qed simp

end

lemma remove_if_there_touch:
  "changes_only {n} (\<lambda>i. case os_Stat n i of (Inl _, i) \<Rightarrow> (Inr (), i) | (Inr _, i) \<Rightarrow> wrapE OsError (os_Remove n) i)"
proof -
  let ?g = "\<lambda>r i. case r of Inl _ \<Rightarrow> (Inr (), i) | Inr _ \<Rightarrow> wrapE OsError (os_Remove n) i"
  have "changes_only {n} (?g r)" for r
    by (cases r) (simp_all add: changes_only_value changes_only_wrapE calls_change)
  from changes_only_then [OF quiet_calls(2) [of _ n], of _ ?g, OF this] show ?thesis
    by (rule back_subst [of "changes_only {n}"]) (auto simp: fun_eq_iff split: prod.split sum.split)
qed

lemma revert_cniFile_touch: "changes_only {n} (revert L (cniFile n))"
proof -
  let ?h = "\<lambda>data r i. case r of
      Inl e \<Rightarrow> if e = ErrNotExist then (Inr (), i) else (Inl (OsError e), i)
    | Inr stat \<Rightarrow> wrapE OsError (os_WriteFile n data (case stat of Regular _ m \<Rightarrow> m | _ \<Rightarrow> 0)) i"
  let ?g = "\<lambda>r i. case r of
      Inl e \<Rightarrow> if e = ErrNotExist then (Inr (), i) else (Inl (OsError e), i)
    | Inr data \<Rightarrow> (case revertBytes (json L) data of
         Inl e \<Rightarrow> (Inl (JsonError e), i) | Inr None \<Rightarrow> (Inr (), i)
       | Inr (Some data) \<Rightarrow> ?h data (fst (os_Stat n i)) (snd (os_Stat n i)))"
  have "changes_only {n} (?h data r)" for data r
    by (cases r) (auto simp: changes_only_wrapE WriteFile_change, simp_all add: changes_only_def)
  from changes_only_then [OF quiet_calls(2) [of _ n], of _ "?h data" for data, OF this] have h:
    "changes_only {n} (\<lambda>i. ?h data (fst (os_Stat n i)) (snd (os_Stat n i)))" for data .
  have "changes_only {n} (?g r)" for r
  proof (cases r)
    case (Inr data)
    show ?thesis
      using h by (cases "revertBytes (json L) data"; cases "projr (revertBytes (json L) data)")
        (simp_all add: Inr changes_only_value)
  qed (auto simp: changes_only_def)
  from changes_only_then [OF quiet_calls(1) [of _ n], of _ ?g, OF this] show ?thesis
    by (rule back_subst [of "changes_only {n}"]) (auto simp: fun_eq_iff split: prod.split sum.split option.split)
qed

lemma revert_touch: "changes_only {filename e} (revert L e)"
proof (cases e)
  case (installedFile n)
  have "revert L e = (\<lambda>i. case os_Stat n i of (Inl _, i) \<Rightarrow> (Inr (), i) | (Inr _, i) \<Rightarrow> wrapE OsError (os_Remove n) i)"
    by (simp add: installedFile fun_eq_iff)
  with remove_if_there_touch show ?thesis by (simp add: installedFile)
next
  case (k8sFile n)
  have "revert L e = (\<lambda>i. case os_Stat n i of (Inl _, i) \<Rightarrow> (Inr (), i) | (Inr _, i) \<Rightarrow> wrapE OsError (os_Remove n) i)"
    by (simp add: k8sFile fun_eq_iff)
  with remove_if_there_touch show ?thesis by (simp add: k8sFile)
qed (simp add: revert_cniFile_touch)

interpretation entries: revertible "revert L" filename for L
  by unfold_locales (rule revert_touch)

section \<open>What reverting leaves\<close>

definition afterRevert :: "libs \<Rightarrow> entry \<Rightarrow> node option \<Rightarrow> node option" where
  "afterRevert L e n =
     (case e of
        cniFile _ \<Rightarrow>
          (case n of
             Some (Regular data m) \<Rightarrow>
               (case revertBytes (json L) data of Inr (Some data') \<Rightarrow> Some (Regular data' m) | _ \<Rightarrow> n)
           | _ \<Rightarrow> n)
      | _ \<Rightarrow> None)"

lemma revert_result:
  assumes "faults i = []" and "lookup i (filename e) \<noteq> Some Directory"
  shows "lookup (snd (revert L e i)) (filename e) = afterRevert L e (lookup i (filename e))"
proof (cases e)
  case (cniFile n)
  show ?thesis
  proof (cases "\<exists>d m. lookup i n = Some (Regular d m)")
    case True
    then obtain d m where n: "lookup i n = Some (Regular d m)" by blast
    have w: "lookup (snd (wrapE OsError (os_WriteFile n a m) i)) n = Some (Regular a m)" for a
      using WriteFile_no_faults [OF assms(1), of n m m a] n by (auto simp: wrapE_def)
    show ?thesis
      by (cases "revertBytes (json L) d"; cases "projr (revertBytes (json L) d)")
        (simp_all add: cniFile n w afterRevert_def ReadFile_no_faults [OF assms(1) n] Stat_no_faults [OF assms(1) n])
  next
    case False
    then show ?thesis
      using assms by (cases "lookup i n")
        (auto simp: cniFile afterRevert_def os_ReadFile_def call_no_faults split: node.splits)
  qed
next
  case (installedFile n)
  then show ?thesis
    using assms by (cases "lookup i n")
      (simp_all add: afterRevert_def os_Stat_def call_no_faults wrapE_def Remove_no_faults)
next
  case (k8sFile n)
  then show ?thesis
    using assms by (cases "lookup i n")
      (simp_all add: afterRevert_def os_Stat_def call_no_faults wrapE_def Remove_no_faults)
qed

lemma Remove_loop: "Remove L i = (r, i') \<Longrightarrow> \<exists>errs. removeLoop (revert L) [] (log i) i = (errs, i') \<and> (r = Inr () \<longleftrightarrow> errs = [])"
  by (cases "removeLoop (revert L) [] (log i) i") (auto simp: Remove_def split: list.splits)

lemma Remove_each:
  assumes "log_ok i" and "faults i = []" and "Remove L i = (r, i')" and "e \<in> set (log i)"
    and "lookup i (filename e) \<noteq> Some Directory"
  shows "lookup i' (filename e) = afterRevert L e (lookup i (filename e))"
proof -
  obtain errs where loop: "removeLoop (revert L) [] (log i) i = (errs, i')" using Remove_loop [OF assms(3)] by blast
  show ?thesis
    by (rule entries.removeLoop_each [OF loop _ assms(4)])
       (use assms(1,2,5) revert_result in \<open>auto simp: log_ok_def\<close>)
qed

lemma Remove_frame:
  "Remove L i = (r, i') \<Longrightarrow> q \<notin> filename ` set (log i) \<Longrightarrow> lookup i' q = lookup i q"
  using Remove_loop [of L i r i'] entries.removeLoop_frame [of L "[]" "log i" i _ i'] by blast

text \<open>A node with the plugin installed.\<close>

definition installedNode :: installer where
  "installedNode = exampleNode\<lparr>
     store := [(exampleNet, Directory), (exampleConfFile, Regular ''merged'' 0),
       (''/opt/cni/bin/linkerd-cni'', Regular ''ELF'' 0)],
     log := [installedFile ''/opt/cni/bin/linkerd-cni'', cniFile exampleConfFile],
     logIdx := {''/opt/cni/bin/linkerd-cni'', exampleConfFile}\<rparr>"

lemma installedNode_facts:
  "log_ok installedNode" "faults installedNode = []"
  "\<forall>e \<in> set (log installedNode). lookup installedNode (filename e) \<noteq> Some Directory"
  "log installedNode = [installedFile ''/opt/cni/bin/linkerd-cni'', cniFile exampleConfFile]"
  "lookup installedNode exampleConfFile = Some (Regular ''merged'' 0)"
  "lookup installedNode exampleNet = Some Directory"
  "exampleConfFile \<noteq> ''/opt/cni/bin/linkerd-cni''"
proof -
  show ne: "exampleConfFile \<noteq> ''/opt/cni/bin/linkerd-cni''"
    by (simp add: exampleConfFile_def exampleNet_def)
  show "lookup installedNode exampleConfFile = Some (Regular ''merged'' 0)"
    "lookup installedNode exampleNet = Some Directory"
    using exampleConfFile_path(4) by (simp_all add: installedNode_def lookup_def)
  have "lookup installedNode ''/opt/cni/bin/linkerd-cni'' = Some (Regular ''ELF'' 0)"
    using ne by (simp add: installedNode_def lookup_def exampleNet_def)
  with \<open>lookup installedNode exampleConfFile = _\<close>
  show "\<forall>e \<in> set (log installedNode). lookup installedNode (filename e) \<noteq> Some Directory"
    by (simp add: installedNode_def)
  show "log_ok installedNode" "faults installedNode = []"
    "log installedNode = [installedFile ''/opt/cni/bin/linkerd-cni'', cniFile exampleConfFile]"
    using ne by (auto simp: installedNode_def log_ok_def exampleNode_def)
qed


section \<open>Properties\<close>

text \<open>The log is sound: its index is the set of its file names, no file is logged twice, and
  no method drops an entry, whatever calls fail; so whatever a method has put in place is still
  there for \<open>Remove\<close> to revert.\<close>

theorem installer_log_invariant:
  assumes "log_ok i"
    and "i' \<in> {snd (installRegularFiles dst src i), snd (reconfigureK8s dst tok i), snd (reconfigureCNI L f i)}"
  shows "log_ok i' \<and> prefix (log i) (log i') \<and> log_ok (NewInstaller w)"
  using assms installRegularFiles_logs [of dst src] reconfigureK8s_logs [of dst tok] reconfigureCNI_logs [of L f]
  by (auto simp: logs_def NewInstaller_def log_ok_def host.defs installer.defs)

theorem installer_log_invariant_witness:
  "log_ok (snd (reconfigureCNI exampleLibs exampleConfFile exampleNode))"
  using installer_log_invariant [OF exampleNode_facts(7), of "snd (reconfigureCNI exampleLibs exampleConfFile exampleNode)"]
  by blast

text \<open>C21. \<open>Remove\<close> reverts the whole log, even when an entry cannot be reverted: without I/O
  errors every installed binary and the kubeconfig are gone, every CNI list is the one without
  the first linkerd plugin (untouched if it has none or cannot be read as a plugin list), and
  no file that is not in the log has changed. It succeeds exactly when no entry failed.\<close>

theorem Remove_reverts:
  assumes "log_ok i" and "faults i = []" and "Remove L i = (r, i')"
    and "\<forall>e \<in> set (log i). lookup i (filename e) \<noteq> Some Directory"
  shows "(\<forall>q. q \<notin> filename ` set (log i) \<longrightarrow> lookup i' q = lookup i q) \<and>
    (\<forall>e \<in> set (log i). lookup i' (filename e) =
       (case e of
          cniFile n \<Rightarrow>
            (case lookup i n of
               Some (Regular data m) \<Rightarrow>
                 (case revertBytes (json L) data of
                    Inr (Some data') \<Rightarrow> Some (Regular data' m) | _ \<Rightarrow> Some (Regular data m))
             | n' \<Rightarrow> n')
        | _ \<Rightarrow> None))"
proof (intro conjI allI impI ballI)
  fix q assume "q \<notin> filename ` set (log i)"
  then show "lookup i' q = lookup i q" by (rule Remove_frame [OF assms(3)])
next
  fix e assume "e \<in> set (log i)"
  then show "lookup i' (filename e) =
       (case e of
          cniFile n \<Rightarrow>
            (case lookup i n of
               Some (Regular data m) \<Rightarrow>
                 (case revertBytes (json L) data of
                    Inr (Some data') \<Rightarrow> Some (Regular data' m) | _ \<Rightarrow> Some (Regular data m))
             | n' \<Rightarrow> n')
        | _ \<Rightarrow> None)"
    using Remove_each [OF assms(1-3)] assms(4)
    by (auto simp: afterRevert_def split: entry.split option.split node.split sum.split)
qed

theorem Remove_reverts_witness:
  "lookup (snd (Remove exampleLibs installedNode)) exampleConfFile = Some (Regular ''plain'' 0) \<and>
   lookup (snd (Remove exampleLibs installedNode)) ''/opt/cni/bin/linkerd-cni'' = None \<and>
   lookup (snd (Remove exampleLibs installedNode)) exampleNet = Some Directory"
proof -
  obtain r i' where run: "Remove exampleLibs installedNode = (r, i')" by fastforce
  from Remove_reverts [OF installedNode_facts(1,2) run installedNode_facts(3)]
  show ?thesis
    using installedNode_facts(4-7) exampleConfFile_path(4) run
    by (simp add: exampleLibs_def example_revert) (simp add: exampleNet_def)
qed




end
