(* ===== verification/Cni_Install.thy ===== *)
theory Cni_Install
  imports Cni_Remove
begin

text \<open>
  The copying of the plugin's files (\<open>internal/cni/install.go\<close>): a copied file is the old
  one or the complete copy, and a run that succeeds has copied and logged every regular file
  of the source directory.
\<close>

section \<open>Paths by components\<close>

lemma absPath_inject:
  assumes "list_all proper cs" and "list_all proper ds" and "cs \<noteq> []" and "ds \<noteq> []"
  shows "absPath cs = absPath ds \<longleftrightarrow> cs = ds"
proof
  assume "absPath cs = absPath ds"
  then have "Split (absPath cs) CHR ''/'' = Split (absPath ds) CHR ''/''" by simp
  then show "cs = ds" unfolding Split_absPath [OF assms(3,1)] Split_absPath [OF assms(4,2)] by simp
qed simp

text \<open>A file \<open>b\<close> of a directory given by its components.\<close>

definition within :: "string list \<Rightarrow> string \<Rightarrow> string" where
  "within ds b = absPath (ds @ [b])"

definition directory :: "string list \<Rightarrow> bool" where
  "directory ds \<longleftrightarrow> ds \<noteq> [] \<and> list_all proper ds"

lemma within_inject:
  "directory ds \<Longrightarrow> directory es \<Longrightarrow> proper b \<Longrightarrow> proper c \<Longrightarrow> within ds b = within es c \<longleftrightarrow> ds = es \<and> b = c"
  unfolding within_def directory_def by (subst absPath_inject) auto

lemma within_paths:
  assumes "directory ds" and "proper b"
  shows "path_Join [absPath ds, b] = within ds b" and "Base (within ds b) = b" and "Clean (within ds b) = within ds b"
    and "properPath (within ds b)" and "installing (within ds b) = within ds (b @ ''.install'')"
  using assms path_Join_absPath [of ds b] Base_absPath [of b ds] Clean_absPath [of "ds @ [b]"]
  by (auto simp: within_def directory_def properPath_def installing_def simp del: absPath_append)
     (simp add: absPath_def)

section \<open>One file\<close>

text \<open>The part of \<open>copyFile\<close> between the two names.\<close>

definition copyWriter :: "string \<Rightarrow> 9 word \<Rightarrow> string \<Rightarrow> unit action" where
  "copyWriter tmp mode src =
     bindE (wrapE OsError (os_OpenTrunc tmp mode)) (\<lambda>_.
     bindE (wrapE OsError (onErrorE (os_ReadFile src) os_Close)) (\<lambda>content.
     bindE (wrapE OsError (onErrorE (os_Write tmp content) os_Close)) (\<lambda>_.
     bindE (wrapE OsError (onErrorE os_Sync os_Close)) (\<lambda>_.
     wrapE OsError os_Close))))"

lemma copyWriter_touch: "changes_only {tmp} (copyWriter tmp mode src)"
  unfolding copyWriter_def
  by (intro changes_only_bindE changes_only_wrapE changes_only_onErrorE calls_change quiet_calls)

lemma copyWriter_content:
  assumes "copyWriter tmp mode src i = (Inr u, i')" and "src \<noteq> tmp"
  shows "\<exists>d m m'. lookup i src = Some (Regular d m) \<and> lookup i' tmp = Some (Regular d m')"
proof -
  obtain i1 content i2 i3 i4 where o': "os_OpenTrunc tmp mode i = (Inr (), i1)"
    and r: "os_ReadFile src i1 = (Inr content, i2)" and w: "os_Write tmp content i2 = (Inr (), i3)"
    and s: "os_Sync i3 = (Inr (), i4)" and c: "os_Close i4 = (Inr u, i')"
    using assms(1) by (auto simp: copyWriter_def bindE_eq_Inr wrapE_eq_Inr onErrorE_eq_Inr)
  have "lookup i1 src = lookup i src" using changes_onlyD(1) [OF calls_change(6) o'] assms(2) by simp
  then have "\<exists>m. lookup i src = Some (Regular content m)" using ReadFile_Inr [OF r] by simp
  moreover obtain m where "lookup i1 tmp = Some (Regular '''' m)" using OpenTrunc_Inr [OF o'] ..
  then have "lookup i2 tmp = Some (Regular '''' m)" using changes_onlyD(1) [OF calls_change(1) r] by simp
  then have "lookup i' tmp = Some (Regular content m)"
    using Write_Inr [OF w] Sync_lookup [OF s] Close_lookup [OF c] by simp
  ultimately show ?thesis by blast
qed

definition contentOf :: "installer \<Rightarrow> string \<Rightarrow> string" where
  "contentOf i p = (case lookup i p of Some (Regular d _) \<Rightarrow> d | _ \<Rightarrow> '''')"

lemma copyWriter_staged: "src \<noteq> tmp \<Longrightarrow> staged_write (copyWriter tmp mode src) tmp (contentOf i src) i"
  by unfold_locales (auto intro: copyWriter_touch dest!: copyWriter_content simp: contentOf_def)

lemma copyFile_outcome:
  assumes "directory ds" and "directory ss" and "proper b" and "ds \<noteq> ss"
    and "copyFile (absPath ds) (within ss b) i = (r, i')"
  shows "(\<forall>q. q \<notin> {within ds b, within ds (b @ ''.install'')} \<longrightarrow> lookup i' q = lookup i q) \<and>
    host.more i' = host.more i \<and>
    (case r of
       Inr p \<Rightarrow> p = within ds b \<and> (\<exists>d m m'. lookup i (within ss b) = Some (Regular d m) \<and>
         lookup i' (within ds b) = Some (Regular d m'))
     | Inl _ \<Rightarrow> lookup i' (within ds b) = lookup i (within ds b))"
proof -
  let ?tmp = "within ds (b @ ''.install'')"
  note b = within_paths [OF assms(1,3)] within_paths [OF assms(2,3)]
  have tmp: "path_Join [absPath ds, b @ ''.install''] = ?tmp" "Clean ?tmp = ?tmp" "?tmp \<noteq> within ds b"
    using within_paths [OF assms(1) proper_install [OF assms(3)]] within_inject [OF assms(1,1) proper_install assms(3)] assms(3)
    by auto
  have ne: "within ss b \<noteq> ?tmp"
    using within_inject [OF assms(2,1,3) proper_install [OF assms(3)]] assms(4) by auto
  obtain ri i1 where st: "os_Stat (within ss b) i = (ri, i1)" by fastforce
  note t = changes_onlyD [OF calls_change(2) st]
  have shape: "copyFile (absPath ds) (within ss b) i = bindE (wrapE OsError (os_Stat (within ss b))) (\<lambda>info.
      bindE (bindE (copyWriter ?tmp (case info of Regular _ m \<Rightarrow> m | _ \<Rightarrow> 0) (within ss b))
        (\<lambda>_. wrapE OsError (os_Rename ?tmp (within ds b)))) (\<lambda>_. returnE (within ds b))) i"
    by (simp add: copyFile_def copyWriter_def Let_def b tmp bindE_assoc)
  show ?thesis
  proof (cases ri)
    case (Inl e)
    then have "r = Inl (OsError e)" "i' = i1" using assms(5) unfolding shape by (simp_all add: bindE_def wrapE_def st)
    then show ?thesis using t by simp
  next
    case (Inr info)
    let ?w = "copyWriter ?tmp (case info of Regular _ m \<Rightarrow> m | _ \<Rightarrow> 0) (within ss b)"
    obtain r2 where p: "bindE ?w (\<lambda>_. wrapE OsError (os_Rename ?tmp (within ds b))) i1 = (r2, i')"
      and r: "r = map_sum id (\<lambda>_. within ds b) r2"
      using assms(5) unfolding shape
      by (auto simp: bindE_def [of "wrapE _ _"] bindE_def [of "bindE _ _"] wrapE_def [of _ "os_Stat _"] st Inr returnE_def
          split: prod.splits sum.splits)
    from staged_write.publish [OF copyWriter_staged [OF ne] tmp(3) p]
    have pub: "(\<forall>q. q \<notin> {?tmp, within ds b} \<longrightarrow> lookup i' q = lookup i q)" "host.more i' = host.more i"
      "if is_ok r2 then \<exists>m. lookup i' (within ds b) = Some (Regular (contentOf i1 (within ss b)) m)
       else lookup i' (within ds b) = lookup i (within ds b)"
      using t by (auto split: if_splits)
    have "\<exists>d m. lookup i (within ss b) = Some (Regular d m)" if ok: "r2 = Inr ()"
    proof -
      obtain v i2 where "?w i1 = (Inr v, i2)" using p ok by (auto simp: bindE_eq_Inr)
      from copyWriter_content [OF this ne] t show ?thesis by auto
    qed
    then show ?thesis using pub r t by (cases r2) (auto simp: contentOf_def)
  qed
qed

section \<open>All files\<close>

lemma installLoop_outcome:
  assumes "directory ds" and "directory ss" and "ds \<noteq> ss" and "distinct bs"
    and "\<forall>b \<in> set bs. proper b \<and> \<not> suffix ''.install'' b" and "log_ok i"
    and "installLoop (absPath ds) acc (map (within ss) bs) i = (Inr files, i')"
  shows "files = acc @ map (within ds) bs \<and>
    (\<forall>b \<in> set bs. (\<exists>d m m'. lookup i (within ss b) = Some (Regular d m) \<and> lookup i' (within ds b) = Some (Regular d m')) \<and>
       within ds b \<in> filename ` set (log i')) \<and>
    (\<forall>q. (\<forall>b \<in> set bs. q \<noteq> within ds b \<and> q \<noteq> within ds (b @ ''.install'')) \<longrightarrow> lookup i' q = lookup i q)"
  using assms(4-7)
proof (induction bs arbitrary: acc i)
  case (Cons b bs)
  obtain p i1 where c: "copyFile (absPath ds) (within ss b) i = (Inr p, i1)"
    and rest: "installLoop (absPath ds) (acc @ [p]) (map (within ss) bs) (appendEntry (installedFile p) i1) = (Inr files, i')"
    using Cons.prems(4) by (auto simp: bindE_eq_Inr)
  have b: "proper b" "\<not> suffix ''.install'' b" using Cons.prems(2) by simp_all
  note out = copyFile_outcome [OF assms(1,2) b(1) assms(3) c]
  let ?i = "appendEntry (installedFile p) i1"
  have ok1: "log_ok i1" using more_log [of i1 i] out Cons.prems(3) by (simp add: log_ok_def)
  have logged: "within ds b \<in> filename ` set (log i')"
  proof -
    have "within ds b \<in> filename ` set (log ?i)" using appendEntry_logged [OF ok1, of "installedFile p"] out by simp
    moreover have "prefix (log ?i) (log i')"
      using installLoop_logs rest appendEntry_log [OF ok1] unfolding logs_def by (metis snd_conv)
    ultimately show ?thesis by (auto dest: set_mono_prefix)
  qed
  have names: "within es c \<noteq> within ds b' \<and> within es c \<noteq> within ds (b' @ ''.install'')"
    if "proper c" "proper b'" "directory es" "es \<noteq> ds \<or> c \<noteq> b' \<and> \<not> suffix ''.install'' c" for es c b'
    using that within_inject [OF that(3) assms(1) that(1,2)]
      within_inject [OF that(3) assms(1) that(1) proper_install [OF that(2)]] by (auto simp: suffix_def)
  have IH: "files = (acc @ [p]) @ map (within ds) bs \<and>
    (\<forall>b \<in> set bs. (\<exists>d m m'. lookup ?i (within ss b) = Some (Regular d m) \<and> lookup i' (within ds b) = Some (Regular d m')) \<and>
       within ds b \<in> filename ` set (log i')) \<and>
    (\<forall>q. (\<forall>b \<in> set bs. q \<noteq> within ds b \<and> q \<noteq> within ds (b @ ''.install'')) \<longrightarrow> lookup i' q = lookup ?i q)"
    using Cons.prems(1,2) by (intro Cons.IH [OF _ _ appendEntry_log [OF ok1] rest]) auto
  have src: "lookup i1 (within ss c) = lookup i (within ss c)" if "proper c" for c
    using out names [OF that b(1) assms(2)] assms(3) by blast
  have "lookup i' (within ds b) = lookup i1 (within ds b)"
    using IH names [OF b(1) _ assms(1)] b(2) Cons.prems(1,2) by fastforce
  then have head: "\<exists>d m m'. lookup i (within ss b) = Some (Regular d m) \<and> lookup i' (within ds b) = Some (Regular d m')"
    using out by auto
  have tail: "\<exists>d m m'. lookup i (within ss c) = Some (Regular d m) \<and> lookup i' (within ds c) = Some (Regular d m')"
    if "c \<in> set bs" for c using IH that src Cons.prems(2) by auto
  have frame: "lookup i' q = lookup i q"
    if "\<forall>b \<in> set (b # bs). q \<noteq> within ds b \<and> q \<noteq> within ds (b @ ''.install'')" for q
    using IH out that by auto
  show ?case using IH head tail logged frame out by auto
qed (simp add: returnE_def)

section \<open>A concrete image\<close>

definition imageNode :: installer where
  "imageNode = exampleNode\<lparr>store := [(''/bin'', Directory), (''/src'', Directory),
     (''/src/linkerd-cni'', Regular ''ELF'' 0x1ED)]\<rparr>"

lemma imageNode_children: "children imageNode ''/src'' = [''linkerd-cni'']"
  by (simp add: children_def imageNode_def go_simps)

lemma image_paths:
  "absPath [''bin''] = ''/bin''" "absPath [''src''] = ''/src''" "within [''bin''] ''linkerd-cni'' = ''/bin/linkerd-cni''"
  "within [''src''] ''linkerd-cni'' = ''/src/linkerd-cni''" "Clean ''/src'' = ''/src''"
  "Clean ''/bin'' = ''/bin''" "path_Join [''/src'', ''linkerd-cni''] = ''/src/linkerd-cni''"
  "path_Join [''/bin'', ''linkerd-cni''] = ''/bin/linkerd-cni''"
  "path_Join [''/bin'', ''linkerd-cni.install''] = ''/bin/linkerd-cni.install''"
  "Clean ''/bin/linkerd-cni.install'' = ''/bin/linkerd-cni.install''" "Base ''/src/linkerd-cni'' = ''linkerd-cni''"
  "Clean ''/src/linkerd-cni'' = ''/src/linkerd-cni''"
  "Dir ''/bin/linkerd-cni.install'' = ''/bin''" "Dir ''/bin/linkerd-cni'' = ''/bin''"
  by (simp_all add: absPath_def within_def go_simps)

lemma imageNode_facts:
  "log_ok imageNode"
  "\<forall>b \<in> set (children imageNode (absPath [''src''])). proper b \<and> \<not> suffix ''.install'' b"
  "children imageNode (absPath [''src'']) = [''linkerd-cni'']"
  "lookup imageNode (within [''src''] ''linkerd-cni'') = Some (Regular ''ELF'' 0x1ED)"
  using exampleNode_facts(7)
  by (simp_all add: image_paths imageNode_children proper_def suffix_to_prefix)
     (simp_all add: imageNode_def lookup_def log_ok_def)

lemma imageNode_run:
  "\<exists>i'. installRegularFiles (absPath [''bin'']) (absPath [''src'']) imageNode =
     (Inr [within [''bin''] ''linkerd-cni''], i')"
proof -
  have l: "faults imageNode = []" "lookup imageNode ''/src'' = Some Directory" "lookup imageNode ''/bin'' = Some Directory"
    "lookup imageNode ''/src/linkerd-cni'' = Some (Regular ''ELF'' 0x1ED)" "lookup imageNode ''/bin/linkerd-cni'' = None"
    "lookup imageNode ''/bin/linkerd-cni.install'' = None"
    by (simp_all add: imageNode_def exampleNode_def lookup_def)
  show ?thesis
    by (simp add: installRegularFiles_def install_def copyFile_def image_paths Let_def os_defs call_no_faults l
        imageNode_children isRegular_def bindE_def wrapE_def onErrorE_def appended_def returnE_def)
qed


section \<open>Properties\<close>

text \<open>C19. Copying a file is atomic: after an error the destination is as it was, after success it
  holds the bytes of the source; only the temporary file beside it may change as well, and a
  copy returns the path of the destination.\<close>

theorem copyFile_atomic:
  assumes "directory ds" and "directory ss" and "proper b" and "ds \<noteq> ss"
    and "copyFile (absPath ds) (within ss b) i = (r, i')"
  shows "(\<forall>q. q \<notin> {within ds b, within ds (b @ ''.install'')} \<longrightarrow> lookup i' q = lookup i q) \<and>
    (case r of
       Inr p \<Rightarrow> p = within ds b \<and> (\<exists>d m m'. lookup i (within ss b) = Some (Regular d m) \<and>
         lookup i' (within ds b) = Some (Regular d m'))
     | Inl _ \<Rightarrow> lookup i' (within ds b) = lookup i (within ds b))"
  using copyFile_outcome [OF assms] by simp

theorem copyFile_atomic_witness:
  "lookup (snd (copyFile (absPath [''bin'']) (within [''src''] ''linkerd-cni'') exampleNode)) exampleConfFile =
     Some (Regular ''plain'' writeFilePerm)"
proof -
  obtain r i' where run: "copyFile (absPath [''bin'']) (within [''src''] ''linkerd-cni'') exampleNode = (r, i')"
    by fastforce
  have "exampleConfFile \<notin> {within [''bin''] ''linkerd-cni'', within [''bin''] (''linkerd-cni'' @ ''.install'')}"
    by (simp add: exampleConfFile_def exampleNet_def within_def absPath_def)
  moreover have "directory [''bin'']" "directory [''src'']" "proper ''linkerd-cni''" "[''bin''] \<noteq> [''src'']"
    by (simp_all add: directory_def proper_def)
  ultimately have "lookup i' exampleConfFile = lookup exampleNode exampleConfFile"
    using copyFile_atomic [OF _ _ _ _ run] by blast
  then show ?thesis by (simp only: run snd_conv exampleNode_facts(2))
qed

text \<open>C29. When \<open>installRegularFiles\<close> succeeds, every regular file of the source directory is in the
  destination under its own name with the same bytes, the names are returned in order and
  logged for \<open>Remove\<close>, and no other file has changed but temporary ones.\<close>

theorem installRegularFiles_copies:
  assumes "directory ds" and "directory ss" and "ds \<noteq> ss" and "log_ok i"
    and "\<forall>b \<in> set (children i (absPath ss)). proper b \<and> \<not> suffix ''.install'' b"
    and "bs = filter (\<lambda>b. isRegular (the (lookup i (within ss b)))) (children i (absPath ss))"
    and "installRegularFiles (absPath ds) (absPath ss) i = (Inr files, i')"
  shows "files = map (within ds) bs \<and>
    (\<forall>b \<in> set bs. (\<exists>d m m'. lookup i (within ss b) = Some (Regular d m) \<and> lookup i' (within ds b) = Some (Regular d m')) \<and>
       within ds b \<in> filename ` set (log i')) \<and>
    (\<forall>q. (\<forall>b \<in> set bs. q \<noteq> within ds b \<and> q \<noteq> within ds (b @ ''.install'')) \<longrightarrow> lookup i' q = lookup i q)"
proof -
  let ?d = "absPath ss"
  have clean: "Clean ?d = ?d" using assms(2) by (simp add: directory_def Clean_absPath)
  obtain es i1 where rd: "os_ReadDir ?d i = (Inr es, i1)"
    and inst: "install (absPath ds) (map (\<lambda>(b, _). path_Join [?d, b]) (filter (\<lambda>(_, n). isRegular n) es)) i1 = (Inr files, i')"
    using assms(7) by (auto simp: installRegularFiles_def bindE_eq_Inr wrapE_eq_Inr)
  note t1 = changes_onlyD [OF calls_change(3) rd]
  have es: "es = map (\<lambda>b. (b, the (lookup i (path_Join [?d, b])))) (children i ?d)"
    using rd by (auto simp: os_ReadDir_def call_Inr clean children_def split: if_splits)
  have join: "path_Join [?d, b] = within ss b" if "b \<in> set (children i ?d)" for b
    using within_paths(1) [OF assms(2)] assms(5) that by blast
  have srcs: "map (\<lambda>(b, _). path_Join [?d, b]) (filter (\<lambda>(_, n). isRegular n) es) = map (within ss) bs"
    unfolding es assms(6) by (simp add: filter_map o_def join cong: map_cong filter_cong)
  obtain i2 where st: "os_Stat (absPath ds) i1 = (Inr Directory, i2)"
    and loop: "installLoop (absPath ds) [] (map (within ss) bs) i2 = (Inr files, i')"
    using inst unfolding srcs
    by (auto simp: install_def bindE_eq_Inr wrapE_eq_Inr throwE_def split: if_splits)
  note t2 = changes_onlyD [OF calls_change(2) st]
  have "log_ok i2" using more_log [of i2 i] t1(4) t2(4) assms(4) by (simp add: log_ok_def)
  moreover have "distinct bs" "\<forall>b \<in> set bs. proper b \<and> \<not> suffix ''.install'' b"
    using assms(5) by (auto simp: assms(6) children_def)
  ultimately show ?thesis
    using installLoop_outcome [OF assms(1-3) _ _ _ loop] t1(1) t2(1) by simp
qed

theorem installRegularFiles_copies_witness:
  "\<exists>i'. installRegularFiles (absPath [''bin'']) (absPath [''src'']) imageNode = (Inr [within [''bin''] ''linkerd-cni''], i') \<and>
     (\<exists>m. lookup i' (within [''bin''] ''linkerd-cni'') = Some (Regular ''ELF'' m))"
proof -
  obtain i' where run: "installRegularFiles (absPath [''bin'']) (absPath [''src'']) imageNode =
      (Inr [within [''bin''] ''linkerd-cni''], i')"
    using imageNode_run by blast
  have "directory [''bin'']" "directory [''src'']" "[''bin''] \<noteq> [''src'']"
    by (simp_all add: directory_def proper_def)
  from installRegularFiles_copies [OF this imageNode_facts(1,2) refl run] run imageNode_facts(3,4)
  show ?thesis by (auto simp: isRegular_def)
qed

end
