(* ===== verification/Cni_Watch.thy ===== *)
theory Cni_Watch
  imports Cni_Install
begin

text \<open>
  The watching of the file system (\<open>internal/cni/watch_fs.go\<close>) and the installer's main loop
  (\<open>run.go\<close>). The two goroutines, the channel of errors (capacity one), the channel of
  events (unbuffered) and the context are one state machine: \<open>step\<close> has one rule for each
  thing a goroutine can do, for what fsnotify delivers, for cancellation, and for changes that
  other processes make to the node. fsnotify is not code of the repository: any event and any
  error may come at any time, and a set of operations is what its \<open>Op\<close> stands for. The paths
  of the watches are computed at each event; no step changes what they are made of. Once the
  loop has ended, nobody takes an event any more; whether fsnotify has closed the channel by
  then, so that sending on it panics, is not modelled.
\<close>

section \<open>Events and watches\<close>

datatype op = Create | Write | RemoveOp | RenameOp | Chmod

record event =
  Name :: string
  Op :: "op list"

record watch =
  watch_path :: string
  operations :: "op list"
  eventFN :: "event \<Rightarrow> unit action"

definition applies :: "watch \<Rightarrow> op list \<Rightarrow> bool" where
  "applies fsw ops \<longleftrightarrow> (\<exists>op \<in> set (operations fsw). op \<in> set ops)"

definition fire :: "watch \<Rightarrow> event \<Rightarrow> unit action" where
  "fire fsw event = eventFN fsw event"

definition isCNIFile :: "string \<Rightarrow> bool" where
  "isCNIFile file \<longleftrightarrow> Ext file = ''.conflist'' \<or> Ext file = ''.conf''"

definition watchOperations :: "op list" where
  "watchOperations = [Create, RenameOp, Write]"

definition watches :: "libs \<Rightarrow> installer \<Rightarrow> watch list" where
  "watches L i =
     [\<lparr>watch_path = Dir (serviceAccountTokenFilename i), operations = watchOperations,
       eventFN = (\<lambda>event i.
         if HasSuffix (Name event) ''..data''
         then reconfigureK8s (kubeConfigFilename i) (serviceAccountTokenFilename i) i
         else (Inr (), i))\<rparr>,
      \<lparr>watch_path = hostCNIConfig i, operations = watchOperations,
       eventFN = (\<lambda>event i.
         if isCNIFile (Name event) then reconfigureCNI L (Name event) i else (Inr (), i))\<rparr>]"

text \<open>The index that \<open>watchFS\<close> builds; a path given twice belongs to the later watch.\<close>

definition indexOf :: "watch list \<Rightarrow> string \<rightharpoonup> watch" where
  "indexOf ws = map_of (rev (map (\<lambda>w. (watch_path w, w)) ws))"

definition dispatch :: "(string \<rightharpoonup> watch) \<Rightarrow> event \<Rightarrow> unit action" where
  "dispatch ix event =
     (case (case ix (Name event) of
              Some w \<Rightarrow> if applies w (Op event) then Some w else None
            | None \<Rightarrow> None) of
        Some w \<Rightarrow> fire w event
      | None \<Rightarrow>
          (case ix (Dir (Name event)) of
             Some w \<Rightarrow> if applies w (Op event) then fire w event else returnE ()
           | None \<Rightarrow> returnE ()))"

definition handle :: "libs \<Rightarrow> event \<Rightarrow> unit action" where
  "handle L event i = dispatch (indexOf (watches L i)) event i"

section \<open>Starting up\<close>

text \<open>The calls of fsnotify while watches are set up: they may fail and change no file.\<close>

definition watcher_call :: "unit action" where
  "watcher_call = wrapE OsError (call (\<lambda>w. (Inr (), w)) unbroken)"

fun addWatches :: "watch list \<Rightarrow> unit action" where
  "addWatches [] = returnE ()"
| "addWatches (w # ws) =
     bindE (wrapE OsError (os_Stat (watch_path w))) (\<lambda>_. bindE watcher_call (\<lambda>_. addWatches ws))"

definition watchFS :: "watch list \<Rightarrow> unit action" where
  "watchFS ws = bindE watcher_call (\<lambda>_. addWatches ws)"

text \<open>\<open>Run\<close> up to the first event: the static installation, then the watches.\<close>

definition runSetup :: "libs \<Rightarrow> unit action" where
  "runSetup L i =
     bindE (installRegularFiles (hostCNIBin i) (envVar_get containerCNIBinDir i)) (\<lambda>_.
     watchFS (watches L i)) i"

definition tokenEvent :: "installer \<Rightarrow> event" where
  "tokenEvent i = \<lparr>Name = path_Join [Dir (serviceAccountTokenFilename i), ''..data''], Op = [Create]\<rparr>"

definition entryEvent :: "installer \<Rightarrow> string \<Rightarrow> event" where
  "entryEvent i name = \<lparr>Name = path_Join [hostCNIConfig i, name], Op = [Write]\<rparr>"

section \<open>The two goroutines\<close>

datatype run_pc =
    SendToken event
  | ReadEntries
  | SendEntries "event list"
  | Selecting
  | Returned "cni_error option"

datatype loop_pc =
    Receiving
  | Handling event
  | SendErr cni_error
  | Closing cni_error
  | Done

record machine =
  inst :: installer
  runPc :: run_pc
  loopPc :: loop_pc
  errs :: "cni_error list"
  errsClosed :: bool
  cancelled :: bool

definition started :: "installer \<Rightarrow> machine" where
  "started i = \<lparr>inst = i, runPc = SendToken (tokenEvent i), loopPc = Receiving, errs = [],
     errsClosed = False, cancelled = False\<rparr>"

text \<open>\<open>Run\<close> returns: the deferred \<open>cancel\<close> runs.\<close>

definition returned :: "cni_error option \<Rightarrow> machine \<Rightarrow> machine" where
  "returned r s = s\<lparr>runPc := Returned r, cancelled := True\<rparr>"

inductive step :: "libs \<Rightarrow> machine \<Rightarrow> machine \<Rightarrow> bool" for L where
  send_token: "runPc s = SendToken e \<Longrightarrow> loopPc s = Receiving \<Longrightarrow>
    step L s (s\<lparr>runPc := ReadEntries, loopPc := Handling e\<rparr>)"
| read_entries: "runPc s = ReadEntries \<Longrightarrow>
    os_ReadDir (hostCNIConfig (inst s)) (inst s) = (Inr entries, i) \<Longrightarrow>
    step L s (s\<lparr>inst := i, runPc := SendEntries (map (\<lambda>(name, _). entryEvent i name) entries)\<rparr>)"
| read_error: "runPc s = ReadEntries \<Longrightarrow>
    os_ReadDir (hostCNIConfig (inst s)) (inst s) = (Inl e, i) \<Longrightarrow>
    step L s (returned (Some (OsError e)) (s\<lparr>inst := i\<rparr>))"
| send_entry: "runPc s = SendEntries (e # es) \<Longrightarrow> loopPc s = Receiving \<Longrightarrow>
    step L s (s\<lparr>runPc := SendEntries es, loopPc := Handling e\<rparr>)"
| entries_sent: "runPc s = SendEntries [] \<Longrightarrow> step L s (s\<lparr>runPc := Selecting\<rparr>)"
| select_error: "runPc s = Selecting \<Longrightarrow> errs s = e # rest \<Longrightarrow>
    step L s (returned (Some e) (s\<lparr>errs := rest\<rparr>))"
| select_closed: "runPc s = Selecting \<Longrightarrow> errs s = [] \<Longrightarrow> errsClosed s \<Longrightarrow> step L s (returned None s)"
| select_done: "runPc s = Selecting \<Longrightarrow> cancelled s \<Longrightarrow> step L s (returned None s)"
| handle_ok: "loopPc s = Handling e \<Longrightarrow> handle L e (inst s) = (Inr (), i) \<Longrightarrow>
    step L s (s\<lparr>inst := i, loopPc := Receiving\<rparr>)"
| handle_error: "loopPc s = Handling e \<Longrightarrow> handle L e (inst s) = (Inl x, i) \<Longrightarrow>
    step L s (s\<lparr>inst := i, loopPc := SendErr x\<rparr>)"
| push_error: "loopPc s = SendErr x \<Longrightarrow> length (errs s) < 1 \<Longrightarrow>
    step L s (s\<lparr>errs := errs s @ [x], loopPc := Receiving\<rparr>)"
| notify: "loopPc s = Receiving \<Longrightarrow> step L s (s\<lparr>loopPc := Handling e\<rparr>)"
| watcher_error: "loopPc s = Receiving \<Longrightarrow> step L s (s\<lparr>loopPc := SendErr x\<rparr>)"
| stop: "loopPc s = Receiving \<Longrightarrow> cancelled s \<Longrightarrow> step L s (s\<lparr>loopPc := Done, errsClosed := True\<rparr>)"
| stop_error: "loopPc s = Receiving \<Longrightarrow> cancelled s \<Longrightarrow> step L s (s\<lparr>loopPc := Closing x\<rparr>)"
| push_closing: "loopPc s = Closing x \<Longrightarrow> length (errs s) < 1 \<Longrightarrow>
    step L s (s\<lparr>errs := errs s @ [x], loopPc := Done, errsClosed := True\<rparr>)"
| cancel: "step L s (s\<lparr>cancelled := True\<rparr>)"
| others: "host.more i = host.more (inst s) \<Longrightarrow> environ i = environ (inst s) \<Longrightarrow> step L s (s\<lparr>inst := i\<rparr>)"

inductive_cases stepE: "step L s s'"

text \<open>Any number of steps.\<close>

inductive steps :: "libs \<Rightarrow> machine \<Rightarrow> machine \<Rightarrow> bool" for L where
  none: "steps L s s"
| more: "step L s t \<Longrightarrow> steps L t u \<Longrightarrow> steps L s u"

lemma steps_trans: "steps L s t \<Longrightarrow> steps L t u \<Longrightarrow> steps L s u"
  by (induction rule: steps.induct) (auto intro: steps.more)

lemma steps_one: "step L s t \<Longrightarrow> steps L s t"
  by (blast intro: steps.intros)

lemma steps_snoc: "steps L s t \<Longrightarrow> step L t u \<Longrightarrow> steps L s u"
  by (rule steps_trans [OF _ steps_one])

lemma steps_invariant: "steps L s t \<Longrightarrow> P s \<Longrightarrow> (\<And>u v. step L u v \<Longrightarrow> P u \<Longrightarrow> P v) \<Longrightarrow> P t"
  by (induction rule: steps.induct) blast+

section \<open>What an event does\<close>

lemma dispatch_cases:
  "dispatch ix e = returnE () \<or> (\<exists>p w. ix p = Some w \<and> dispatch ix e = fire w e)"
  by (cases "ix (Name e)"; cases "ix (Dir (Name e))") (auto simp: dispatch_def)

lemma indexOf_SomeD: "indexOf ws p = Some w \<Longrightarrow> w \<in> set ws"
  by (auto simp: indexOf_def dest!: map_of_SomeD)

lemma handle_cases:
  "handle L e i = (Inr (), i) \<or>
   HasSuffix (Name e) ''..data'' \<and>
     handle L e i = reconfigureK8s (kubeConfigFilename i) (serviceAccountTokenFilename i) i \<or>
   isCNIFile (Name e) \<and> handle L e i = reconfigureCNI L (Name e) i"
proof -
  have "fire w e i = (Inr (), i) \<or>
      HasSuffix (Name e) ''..data'' \<and>
        fire w e i = reconfigureK8s (kubeConfigFilename i) (serviceAccountTokenFilename i) i \<or>
      isCNIFile (Name e) \<and> fire w e i = reconfigureCNI L (Name e) i" if "w \<in> set (watches L i)" for w
    using that by (auto simp: watches_def fire_def split: if_splits)
  then show ?thesis
    using dispatch_cases [of "indexOf (watches L i)" e] indexOf_SomeD
    by (fastforce simp: handle_def returnE_def)
qed

lemma handle_event:
  assumes "Name e \<noteq> Dir (serviceAccountTokenFilename i)" and "Name e \<noteq> hostCNIConfig i"
    and "Dir (serviceAccountTokenFilename i) \<noteq> hostCNIConfig i"
  shows "handle L e i =
    (if Create \<notin> set (Op e) \<and> RenameOp \<notin> set (Op e) \<and> Write \<notin> set (Op e) then (Inr (), i)
     else if Dir (Name e) = Dir (serviceAccountTokenFilename i) \<and> HasSuffix (Name e) ''..data''
     then reconfigureK8s (kubeConfigFilename i) (serviceAccountTokenFilename i) i
     else if Dir (Name e) = hostCNIConfig i \<and> (Ext (Name e) = ''.conf'' \<or> Ext (Name e) = ''.conflist'')
     then reconfigureCNI L (Name e) i
     else (Inr (), i))"
  using assms
  by (auto simp: handle_def dispatch_def indexOf_def watches_def applies_def watchOperations_def fire_def
      isCNIFile_def returnE_def)

lemma handle_logs: "logs (handle L e)"
  unfolding logs_def
proof (intro allI impI)
  fix i assume ok: "log_ok i"
  have keeps: "log_ok (snd (handle L e i)) \<and> prefix (log i) (log (snd (handle L e i)))"
    if "logs m" "handle L e i = m i" for m
    using that(1) ok unfolding that(2) logs_def by blast
  consider "handle L e i = (\<lambda>i. (Inr (), i)) i"
    | "handle L e i = reconfigureK8s (kubeConfigFilename i) (serviceAccountTokenFilename i) i"
    | "handle L e i = reconfigureCNI L (Name e) i"
    using handle_cases [of L e i] by blast
  then show "log_ok (snd (handle L e i)) \<and> prefix (log i) (log (snd (handle L e i)))"
  proof cases
    case 1
    then show ?thesis using ok by simp
  next
    case 2
    show ?thesis by (rule keeps [OF reconfigureK8s_logs 2])
  next
    case 3
    show ?thesis by (rule keeps [OF reconfigureCNI_logs 3])
  qed
qed

lemma Ext_installing: "Ext (installing f) = ''.install''"
  by (simp add: Ext_def installing_def)

text \<open>The state of the installer and the channel of errors along every run.\<close>

definition sound :: "entry list \<Rightarrow> machine \<Rightarrow> bool" where
  "sound l s \<longleftrightarrow> log_ok (inst s) \<and> prefix l (log (inst s)) \<and> length (errs s) \<le> 1"

lemma sound_same_log:
  "sound l s \<Longrightarrow> host.more i = host.more (inst s) \<Longrightarrow> log_ok i \<and> prefix l (log i)"
  using more_log [of i "inst s"] by (simp add: sound_def log_ok_def)

lemma sound_handle:
  "sound l s \<Longrightarrow> handle L e (inst s) = (r, i) \<Longrightarrow> log_ok i \<and> prefix l (log i)"
  using handle_logs [of L e] unfolding logs_def sound_def by (metis prefix_order.trans snd_conv)

lemma step_sound: "step L s t \<Longrightarrow> sound l s \<Longrightarrow> sound l t"
proof (induction rule: step.induct)
  case (read_entries s entries i)
  then show ?case
    using sound_same_log [OF read_entries(3) changes_onlyD(4) [OF calls_change(3) read_entries(2)]] by (simp add: sound_def)
next
  case (read_error s e i)
  then show ?case
    using sound_same_log [OF read_error(3) changes_onlyD(4) [OF calls_change(3) read_error(2)]]
    by (simp add: sound_def returned_def)
next
  case (handle_ok s e i)
  then show ?case using sound_handle [OF handle_ok(3,2)] by (simp add: sound_def)
next
  case (handle_error s e x i)
  then show ?case using sound_handle [OF handle_error(3,2)] by (simp add: sound_def)
next
  case (others i s)
  then show ?case using sound_same_log [OF others(3,1)] by (simp add: sound_def)
qed (auto simp: sound_def returned_def)

section \<open>Handing over events\<close>

text \<open>Delivering a list of events one after the other: the errors and the last state.\<close>

fun handleAll :: "libs \<Rightarrow> event list \<Rightarrow> installer \<Rightarrow> cni_error list \<times> installer" where
  "handleAll L [] i = ([], i)"
| "handleAll L (e # es) i =
     (case handle L e i of
        (Inl x, i') \<Rightarrow> (case handleAll L es i' of (xs, i'') \<Rightarrow> (x # xs, i''))
      | (Inr _, i') \<Rightarrow> handleAll L es i')"

lemma deliver_one:
  assumes "runPc s = SendEntries (e # es)" and "loopPc s = Receiving"
  shows "steps L s (case handle L e (inst s) of
      (Inl x, i) \<Rightarrow> s\<lparr>inst := i, runPc := SendEntries es, loopPc := SendErr x\<rparr>
    | (Inr _, i) \<Rightarrow> s\<lparr>inst := i, runPc := SendEntries es, loopPc := Receiving\<rparr>)"
proof -
  let ?t = "s\<lparr>runPc := SendEntries es, loopPc := Handling e\<rparr>"
  have "step L s ?t" using assms by (rule step.send_entry)
  moreover have "step L ?t (case handle L e (inst s) of
      (Inl x, i) \<Rightarrow> s\<lparr>inst := i, runPc := SendEntries es, loopPc := SendErr x\<rparr>
    | (Inr _, i) \<Rightarrow> s\<lparr>inst := i, runPc := SendEntries es, loopPc := Receiving\<rparr>)"
  proof (cases "handle L e (inst s)")
    case (Pair r i)
    show ?thesis
    proof (cases r)
      case (Inl x)
      with Pair have "step L ?t (?t\<lparr>inst := i, loopPc := SendErr x\<rparr>)" by (intro step.handle_error) auto
      then show ?thesis using Pair Inl by (cases s) simp
    next
      case (Inr u)
      with Pair have "step L ?t (?t\<lparr>inst := i, loopPc := Receiving\<rparr>)" by (intro step.handle_ok) auto
      then show ?thesis using Pair Inr by (cases s) simp
    qed
  qed
  ultimately show ?thesis by (blast intro: steps.intros)
qed

lemma deliver_all:
  assumes "runPc s = SendEntries es" and "loopPc s = Receiving"
    and "handleAll L es (inst s) = (xs, i)" and "length (errs s @ xs) \<le> 1"
  shows "steps L s (s\<lparr>inst := i, runPc := Selecting, errs := errs s @ xs\<rparr>)"
  using assms
proof (induction es arbitrary: s xs)
  case Nil
  then show ?case using steps_one [OF step.entries_sent, of s L] by (cases s) simp
next
  case (Cons e es)
  obtain r i1 where h: "handle L e (inst s) = (r, i1)" by fastforce
  show ?case
  proof (cases r)
    case (Inl x)
    obtain xs' where rest: "handleAll L es i1 = (xs', i)" and xs: "xs = x # xs'"
      using Cons.prems(3) h Inl by (auto split: prod.splits)
    then have empty: "errs s = []" "xs' = []" using Cons.prems(4) by simp_all
    let ?t = "s\<lparr>inst := i1, runPc := SendEntries es, loopPc := SendErr x\<rparr>"
    let ?u = "?t\<lparr>errs := errs ?t @ [x], loopPc := Receiving\<rparr>"
    have "steps L s ?t" using deliver_one [OF Cons.prems(1,2), of L] h Inl by simp
    moreover have "step L ?t ?u" using empty by (intro step.push_error) simp_all
    moreover have "steps L ?u (?u\<lparr>inst := i, runPc := Selecting, errs := errs ?u @ xs'\<rparr>)"
      using rest empty by (intro Cons.IH) simp_all
    ultimately have "steps L s (?u\<lparr>inst := i, runPc := Selecting, errs := errs ?u @ xs'\<rparr>)"
      by (blast intro: steps_trans steps.more)
    then show ?thesis using xs empty Cons.prems(2) by (cases s) simp
  next
    case (Inr u)
    let ?t = "s\<lparr>inst := i1, runPc := SendEntries es, loopPc := Receiving\<rparr>"
    have "steps L s ?t" using deliver_one [OF Cons.prems(1,2), of L] h Inr by simp
    moreover have "steps L ?t (?t\<lparr>inst := i, runPc := Selecting, errs := errs ?t @ xs\<rparr>)"
      using Cons.prems(3,4) h Inr by (intro Cons.IH) simp_all
    ultimately have "steps L s (?t\<lparr>inst := i, runPc := Selecting, errs := errs ?t @ xs\<rparr>)" by (rule steps_trans)
    then show ?thesis using Cons.prems(2) by (cases s) simp
  qed
qed

section \<open>Stuck states\<close>

text \<open>\<open>Run\<close> waits to hand over an event, and the other goroutine will never take one: it waits for
  room in the channel of errors, which only \<open>Run\<close> empties, or it has ended.\<close>

definition stuck :: "machine \<Rightarrow> bool" where
  "stuck s \<longleftrightarrow> ((\<exists>e. runPc s = SendToken e) \<or> (\<exists>e es. runPc s = SendEntries (e # es))) \<and>
     (loopPc s = Done \<or> errs s \<noteq> [] \<and> (\<exists>x. loopPc s = SendErr x \<or> loopPc s = Closing x))"

lemma step_stuck: "step L s t \<Longrightarrow> stuck s \<Longrightarrow> stuck t"
  by (induction rule: step.induct) (auto simp: stuck_def)

lemma steps_stuck: "steps L s t \<Longrightarrow> stuck s \<Longrightarrow> stuck t"
  by (rule steps_invariant [where P = stuck]) (auto intro: step_stuck)

lemma stuck_never_returns: "stuck s \<Longrightarrow> steps L s t \<Longrightarrow> runPc t \<noteq> Returned r"
  using steps_stuck [of L s t] by (auto simp: stuck_def)

text \<open>One way there: a signal that comes while \<open>Run\<close> is still handing over events may end the
  loop first.\<close>

lemma early_cancel: "\<exists>s. steps L (started i) s \<and> stuck s"
proof -
  let ?s = "(started i)\<lparr>cancelled := True\<rparr>"
  let ?t = "?s\<lparr>loopPc := Done, errsClosed := True\<rparr>"
  have "step L (started i) ?s" by (rule step.cancel)
  moreover have "step L ?s ?t" by (rule step.stop) (simp_all add: started_def)
  ultimately have "steps L (started i) ?t" by (rule steps_snoc [OF steps_one])
  moreover have "stuck ?t" by (simp add: stuck_def started_def)
  ultimately show ?thesis by blast
qed

text \<open>Another way: two events fail before \<open>Run\<close> has handed over the last one.\<close>

lemma two_failures:
  assumes "handle L (tokenEvent i) i = (Inl x1, i1)"
    and "os_ReadDir (hostCNIConfig i1) i1 = (Inr entries, i2)"
    and "map (\<lambda>(name, _). entryEvent i2 name) entries = e1 # e2 # es"
    and "handle L e1 i2 = (Inl x2, i3)"
  shows "\<exists>s. steps L (started i) s \<and> stuck s \<and> \<not> cancelled s"
proof -
  define s1 where "s1 = (started i)\<lparr>runPc := ReadEntries, loopPc := Handling (tokenEvent i)\<rparr>"
  define s2 where "s2 = s1\<lparr>inst := i1, loopPc := SendErr x1\<rparr>"
  define s3 where "s3 = s2\<lparr>errs := errs s2 @ [x1], loopPc := Receiving\<rparr>"
  define s4 where "s4 = s3\<lparr>inst := i2, runPc := SendEntries (e1 # e2 # es)\<rparr>"
  define s5 where "s5 = s4\<lparr>runPc := SendEntries (e2 # es), loopPc := Handling e1\<rparr>"
  define s6 where "s6 = s5\<lparr>inst := i3, loopPc := SendErr x2\<rparr>"
  have "step L (started i) s1" unfolding s1_def by (rule step.send_token) (simp_all add: started_def)
  moreover have "step L s1 s2" unfolding s2_def
    by (rule step.handle_error [of _ "tokenEvent i"]) (simp_all add: s1_def started_def assms(1))
  moreover have "step L s2 s3" unfolding s3_def
    by (rule step.push_error) (simp_all add: s2_def s1_def started_def)
  moreover have "step L s3 s4" unfolding s4_def assms(3) [symmetric]
    by (rule step.read_entries) (simp_all add: s3_def s2_def s1_def assms(2))
  moreover have "step L s4 s5" unfolding s5_def
    by (rule step.send_entry) (simp_all add: s4_def s3_def)
  moreover have "step L s5 s6" unfolding s6_def
    by (rule step.handle_error [of _ e1]) (simp_all add: s5_def s4_def assms(4))
  ultimately have "steps L (started i) s6" by (meson steps.intros)
  moreover have "stuck s6" "\<not> cancelled s6"
    by (simp_all add: stuck_def s6_def s5_def s4_def s3_def s2_def s1_def started_def)
  ultimately show ?thesis by blast
qed

section \<open>Concrete nodes\<close>

text \<open>A node without a token and with two files that are not JSON.\<close>

definition brokenNode :: installer where
  "brokenNode = exampleNode\<lparr>store := [(exampleNet, Directory), (exampleNet @ ''/a.conf'', Regular ''{'' 0),
     (exampleNet @ ''/b.conf'', Regular ''{'' 0)], environ := Map.empty, sources := []\<rparr>"

lemma brokenNode_paths:
  "hostCNIConfig brokenNode = ''/host/etc/cni/net.d''" "serviceAccountTokenFilename brokenNode = ''/token''"
  "Dir ''/token'' = ''/''" "Clean ''/token'' = ''/token''" "path_Join [''/'', ''..data''] = ''/..data''" "Dir ''/..data'' = ''/''"
  "Clean ''/host/etc/cni/net.d'' = ''/host/etc/cni/net.d''"
  "path_Join [''/host/etc/cni/net.d'', ''a.conf''] = ''/host/etc/cni/net.d/a.conf''"
  "Dir ''/host/etc/cni/net.d/a.conf'' = ''/host/etc/cni/net.d''"
  "Clean ''/host/etc/cni/net.d/a.conf'' = ''/host/etc/cni/net.d/a.conf''"
  "isCNIFile ''/host/etc/cni/net.d/a.conf''" "HasSuffix ''/..data'' ''..data''"
proof -
  have "environ brokenNode = Map.empty" by (simp add: brokenNode_def)
  from default_paths(2) [OF this] show "hostCNIConfig brokenNode = ''/host/etc/cni/net.d''" .
  show "serviceAccountTokenFilename brokenNode = ''/token''" by (simp add: brokenNode_def exampleNode_def)
qed (simp_all add: go_simps isCNIFile_def HasSuffix_def suffix_to_prefix)

lemma brokenNode_token: "handle L (tokenEvent brokenNode) brokenNode = (Inl (OsError ErrNotExist), brokenNode)"
proof -
  have "reconfigureK8s d ''/token'' brokenNode = (Inl (OsError ErrNotExist), brokenNode)" for d
    by (simp add: reconfigureK8s_def k8sData_def brokenNode_paths os_ReadFile_def bindE_def wrapE_def)
       (simp add: brokenNode_def exampleNode_def call_def lookup_def exampleNet_def)
  then show ?thesis
    by (simp add: handle_def dispatch_def indexOf_def watches_def tokenEvent_def brokenNode_paths fire_def
        applies_def watchOperations_def)
qed

lemma brokenNode_children: "children brokenNode ''/host/etc/cni/net.d'' = [''a.conf'', ''b.conf'']"
  by (simp add: children_def brokenNode_def exampleNode_def exampleNet_def go_simps)

lemma brokenNode_entries:
  "\<exists>ns. os_ReadDir (hostCNIConfig brokenNode) brokenNode = (Inr ns, brokenNode) \<and> map fst ns = [''a.conf'', ''b.conf'']"
proof -
  have "lookup brokenNode ''/host/etc/cni/net.d'' = Some Directory" "faults brokenNode = []"
    by (simp_all add: brokenNode_def exampleNode_def lookup_def exampleNet_def)
  then show ?thesis
    by (simp add: os_ReadDir_def call_no_faults brokenNode_paths brokenNode_children)
qed

lemma brokenNode_entry:
  "handle exampleLibs (entryEvent brokenNode ''a.conf'') brokenNode = (Inl errNoConfigurationSource, brokenNode)"
proof -
  have l: "lookup brokenNode ''/host/etc/cni/net.d/a.conf'' = Some (Regular ''{'' 0)" "faults brokenNode = []"
    "sources brokenNode = []" "fileHashSet brokenNode = Map.empty"
    by (simp_all add: brokenNode_def exampleNode_def lookup_def exampleNet_def)
  have "hashEncode exampleLibs ''{'' \<noteq> ''''" by (simp add: hashEncode_def hexEncode_def exampleLibs_def)
  then have "reconfigureCNI exampleLibs ''/host/etc/cni/net.d/a.conf'' brokenNode = (Inl errNoConfigurationSource, brokenNode)"
    by (simp add: reconfigureCNI_def brokenNode_paths ReadFile_no_faults [OF l(2,1)] l mapIndex_def bindE_def)
  then show ?thesis
    by (simp add: handle_def dispatch_def indexOf_def watches_def entryEvent_def brokenNode_paths fire_def
        applies_def watchOperations_def)
qed

section \<open>Properties\<close>

text \<open>C30. An event for a file in one of the two watched directories has the effect that its name
  calls for: a creation, a renaming or a writing of \<open>..data\<close> beside the token rewrites the
  kubeconfig, one of a \<open>.conf\<close> or \<open>.conflist\<close> file of the CNI directory merges that file, and
  no other event does anything.\<close>

theorem handle_child:
  assumes "Name e \<noteq> Dir (serviceAccountTokenFilename i)" and "Name e \<noteq> hostCNIConfig i"
    and "Dir (serviceAccountTokenFilename i) \<noteq> hostCNIConfig i"
  shows "handle L e i =
    (if Create \<notin> set (Op e) \<and> RenameOp \<notin> set (Op e) \<and> Write \<notin> set (Op e) then (Inr (), i)
     else if Dir (Name e) = Dir (serviceAccountTokenFilename i) \<and> HasSuffix (Name e) ''..data''
     then reconfigureK8s (kubeConfigFilename i) (serviceAccountTokenFilename i) i
     else if Dir (Name e) = hostCNIConfig i \<and> (Ext (Name e) = ''.conf'' \<or> Ext (Name e) = ''.conflist'')
     then reconfigureCNI L (Name e) i
     else (Inr (), i))"
  by (rule handle_event [OF assms])

theorem handle_child_witness:
  "handle exampleLibs \<lparr>Name = ''/host/etc/cni/net.d/a.txt'', Op = [Write]\<rparr> brokenNode = (Inr (), brokenNode) \<and>
   handle exampleLibs \<lparr>Name = ''/host/etc/cni/net.d/a.conf'', Op = [RemoveOp]\<rparr> brokenNode = (Inr (), brokenNode)"
proof -
  have "Dir ''/host/etc/cni/net.d/a.txt'' = ''/host/etc/cni/net.d''" "Ext ''/host/etc/cni/net.d/a.txt'' = ''.txt''"
    by (simp_all add: go_simps)
  then show ?thesis
    using handle_child [where e = "\<lparr>Name = ''/host/etc/cni/net.d/a.txt'', Op = [Write]\<rparr>" and i = brokenNode and L = exampleLibs]
      handle_child [where e = "\<lparr>Name = ''/host/etc/cni/net.d/a.conf'', Op = [RemoveOp]\<rparr>" and i = brokenNode and L = exampleLibs]
    by (simp add: brokenNode_paths)
qed

text \<open>The installer does not react to its own temporary files: whatever directory they are in,
  an event for a name that ends in \<open>.install\<close> does nothing.\<close>

theorem temporary_ignored:
  assumes "Name e = installing f"
  shows "handle L e i = (Inr (), i)"
proof -
  have "\<not> HasSuffix (Name e) ''..data''"
    by (auto simp: assms installing_def HasSuffix_def suffix_def append_eq_append_conv2 Cons_eq_append_conv)
  moreover have "\<not> isCNIFile (Name e)" by (simp add: assms isCNIFile_def Ext_installing)
  ultimately show ?thesis using handle_cases [of L e i] by blast
qed

theorem temporary_ignored_witness:
  "handle exampleLibs \<lparr>Name = installing exampleConfFile, Op = [Create, Write]\<rparr> exampleNode = (Inr (), exampleNode)"
  by (rule temporary_ignored [of _ exampleConfFile]) simp



text \<open>C25. \<open>Run\<close> can finish its round: when it is about to hand over the events of the files it
  found, and at most one of them fails, there is an execution in which every event has had its
  effect, in order, and \<open>Run\<close> returns with the error of the one that failed, or without one when
  it is cancelled.\<close>

theorem Run_returns:
  assumes "runPc s = SendEntries es" and "loopPc s = Receiving" and "errs s = []"
    and "handleAll L es (inst s) = (xs, i)" and "length xs \<le> 1"
  shows "\<exists>t. steps L s t \<and> runPc t = Returned (case xs of [] \<Rightarrow> None | x # _ \<Rightarrow> Some x) \<and>
    inst t = i \<and> cancelled t"
proof -
  let ?u = "s\<lparr>inst := i, runPc := Selecting, errs := errs s @ xs\<rparr>"
  have all: "steps L s ?u" using assms by (intro deliver_all) simp_all
  show ?thesis
  proof (cases xs)
    case Nil
    let ?v = "?u\<lparr>cancelled := True\<rparr>"
    have "step L ?u ?v" by (rule step.cancel)
    moreover have "step L ?v (returned None ?v)" by (rule step.select_done) simp_all
    ultimately have "steps L s (returned None ?v)" by (rule steps_snoc [OF steps_snoc [OF all]])
    then show ?thesis using Nil by (intro exI [of _ "returned None ?v"]) (simp add: returned_def)
  next
    case (Cons x rest)
    have "step L ?u (returned (Some x) (?u\<lparr>errs := rest\<rparr>))"
      using Cons assms(3) by (intro step.select_error) simp_all
    then have "steps L s (returned (Some x) (?u\<lparr>errs := rest\<rparr>))" by (rule steps_snoc [OF all])
    then show ?thesis using Cons by (intro exI [of _ "returned (Some x) (?u\<lparr>errs := rest\<rparr>)"]) (simp add: returned_def)
  qed
qed

theorem Run_returns_witness:
  "\<exists>t. steps exampleLibs ((started brokenNode)\<lparr>runPc := SendEntries [entryEvent brokenNode ''a.conf'']\<rparr>) t \<and>
     runPc t = Returned (Some errNoConfigurationSource)"
  using Run_returns [where s = "(started brokenNode)\<lparr>runPc := SendEntries [entryEvent brokenNode ''a.conf'']\<rparr>"
      and L = exampleLibs and xs = "[errNoConfigurationSource]" and i = brokenNode]
  by (auto simp: started_def brokenNode_entry)

text \<open>C11. A deadlock: when the kubeconfig cannot be written at start and the first of two or more
  files in the CNI directory cannot be merged either, there is an execution, without any cancellation, after
  which \<open>Run\<close> never returns, whatever events, cancellations and changes of the node follow. The channel of
  errors has room for one; the loop waits to send it a second, and \<open>Run\<close>, which would take the
  first, waits for the loop to take its next event.\<close>

theorem Run_deadlocks:
  assumes "handle L (tokenEvent i) i = (Inl x1, i1)"
    and "os_ReadDir (hostCNIConfig i1) i1 = (Inr entries, i2)"
    and "map (\<lambda>(name, _). entryEvent i2 name) entries = e1 # e2 # es"
    and "handle L e1 i2 = (Inl x2, i3)"
  shows "\<exists>s. steps L (started i) s \<and> \<not> cancelled s \<and> (\<forall>t r. steps L s t \<longrightarrow> runPc t \<noteq> Returned r)"
  using two_failures [OF assms] stuck_never_returns by blast

theorem Run_deadlocks_witness:
  "\<exists>s. steps exampleLibs (started brokenNode) s \<and> \<not> cancelled s \<and> (\<forall>t r. steps exampleLibs s t \<longrightarrow> runPc t \<noteq> Returned r)"
proof -
  obtain ns where ns: "os_ReadDir (hostCNIConfig brokenNode) brokenNode = (Inr ns, brokenNode)"
    "map fst ns = [''a.conf'', ''b.conf'']" using brokenNode_entries by (elim exE conjE)
  have "map (\<lambda>(name, _). entryEvent brokenNode name) ns = map (entryEvent brokenNode) (map fst ns)"
    by (simp add: case_prod_beta comp_def)
  also have "\<dots> = [entryEvent brokenNode ''a.conf'', entryEvent brokenNode ''b.conf'']" by (simp add: ns)
  finally show ?thesis by (rule Run_deadlocks [OF brokenNode_token ns(1) _ brokenNode_entry])
qed

end
