(* ===== verification/Cni_Events.thy ===== *)
theory Cni_Events
  imports Cni_Watch
begin

text \<open>
  The CNI configuration along a whole sequence of events (\<open>internal/cni/run.go\<close>): the event loop
  handles one event at a time, so what a run of the installer does to the files is what its
  events do one after the other, under any schedule of I/O errors.
\<close>

section \<open>What an action leaves alone\<close>

text \<open>An action that changes no file but those of a set, and neither the environment nor the name of
  the token file; unlike \<open>changes_only\<close> it may enter something in the log.\<close>

definition framed :: "string set \<Rightarrow> (installer \<Rightarrow> 'r \<times> installer) \<Rightarrow> bool" where
  "framed ps m \<longleftrightarrow> (\<forall>i. (\<forall>q. q \<notin> ps \<longrightarrow> lookup (snd (m i)) q = lookup i q) \<and>
     environ (snd (m i)) = environ i \<and> serviceAccountTokenFilename (snd (m i)) = serviceAccountTokenFilename i)"

lemma framedD:
  assumes "framed ps m" and "m i = (r, i')"
  shows "q \<notin> ps \<Longrightarrow> lookup i' q = lookup i q" and "environ i' = environ i"
    and "serviceAccountTokenFilename i' = serviceAccountTokenFilename i"
  using assms unfolding framed_def by (metis snd_conv)+

lemma framed_changes: "changes_only ps m \<Longrightarrow> framed ps m"
  unfolding changes_only_def framed_def using more_log by blast

lemma framed_bindE: "framed ps m \<Longrightarrow> (\<And>x. framed ps (f x)) \<Longrightarrow> framed ps (bindE m f)"
  unfolding framed_def bindE_def by (auto split: prod.split sum.split) (metis snd_conv)+

lemma framed_append: "framed ps (\<lambda>i. (Inr x, appendEntry e i))"
  by (simp add: framed_def) (simp add: appendEntry_def)

lemma reconfigureK8s_framed:
  assumes "properPath dst"
  shows "framed {installing dst, dst} (reconfigureK8s dst src)"
  unfolding reconfigureK8s_shape [OF assms]
  by (intro framed_bindE framed_changes [OF k8sData_touch] framed_changes [OF stream.publish_touches] framed_append)

lemma writeCNI_framed: "framed UNIV (writeCNI L cf prev merged)"
proof -
  have fin: "framed UNIV (\<lambda>i. let i = appendEntry (cniFile cf) i;
        i = i\<lparr>fileHashSet := (fileHashSet i)(cf \<mapsto> hashEncode L merged)\<rparr>
      in if prev \<noteq> '''' then wrapE OsError (os_Remove prev) i else (Inr (), i))"
    using framed_changes [OF changes_only_mono [OF changes_only_wrapE [OF calls_change(9) [of prev], of OsError]], of UNIV]
    by (simp add: framed_def Let_def) (simp add: appendEntry_def)
  show ?thesis
    unfolding writeCNI_def Let_def
    by (intro framed_bindE framed_changes [OF changes_only_mono [OF changes_only_wrapE [OF WriteFile_change]]]
        framed_changes [OF changes_only_mono [OF changes_only_wrapE [OF calls_change(8)]]] fin [unfolded Let_def]) auto
qed

lemma reconfigureCNI_framed: "framed UNIV (reconfigureCNI L f)"
proof -
  let ?merge = "\<lambda>ss data. bindE (configureCNI ss) (\<lambda>configuration.
      bindE (wrapE JsonError (liftE (inject (json L) data configuration))) (\<lambda>merged.
      writeCNI L (fst (renamedConfig f)) (snd (renamedConfig f)) merged))"
  have merge: "framed UNIV (?merge ss data)" for ss data
    by (intro framed_bindE framed_changes [OF configureCNI_touch] writeCNI_framed
        framed_changes [OF changes_only_wrapE [OF changes_only_pure(3)]])
  have read: "framed {} (os_ReadFile (Clean f))" by (rule framed_changes [OF calls_change(1)])
  have "environ i' = environ i \<and> serviceAccountTokenFilename i' = serviceAccountTokenFilename i"
    if run: "reconfigureCNI L f i = (r, i')" for i r i'
  proof -
    obtain rd i1 where rd: "os_ReadFile (Clean f) i = (rd, i1)" by fastforce
    have "i' = i1 \<or> (\<exists>ss data. ?merge ss data i1 = (r, i'))"
      using run rd by (cases rd) (auto simp: reconfigureCNI_def split: if_splits)
    then show ?thesis using framedD(2,3) [OF read rd] framedD(2,3) [OF merge] by metis
  qed
  then show ?thesis unfolding framed_def by (metis UNIV_I prod.collapse)
qed

section \<open>One event\<close>

lemma extLoop_suffix: "extLoop acc cs = '''' \<or> suffix (extLoop acc cs) (rev cs @ acc)"
  by (induction acc cs rule: extLoop.induct) (auto simp: suffix_def)

lemma Ext_suffix: "Ext p \<noteq> '''' \<Longrightarrow> suffix (Ext p) p"
  using extLoop_suffix [of "''''" "rev p"] by (simp add: Ext_def)

lemma conflist_not_renamed:
  assumes "Ext f = ''.conflist''"
  shows "renamedConfig f = (f, '''')"
proof -
  have "\<exists>ys. f = ys @ ''.conflist''" using Ext_suffix [of f] assms by (auto simp: suffix_def)
  then have "\<not> HasSuffix f ''.conf''"
    by (auto simp: HasSuffix_def suffix_def append_eq_append_conv2 Cons_eq_append_conv)
  then show ?thesis by (simp add: renamedConfig_def)
qed

text \<open>A file is as it was, or a complete merged document.\<close>

definition wholeConfig :: "libs \<Rightarrow> string \<Rightarrow> installer \<Rightarrow> installer \<Rightarrow> bool" where
  "wholeConfig L f i i' \<longleftrightarrow> lookup i' f = lookup i f \<or>
     (\<exists>data configuration merged m. inject (json L) data configuration = Inr merged \<and>
        lookup i' f = Some (Regular merged m))"

lemma wholeConfig_trans: "wholeConfig L f i j \<Longrightarrow> wholeConfig L f j k \<Longrightarrow> wholeConfig L f i k"
  by (auto simp: wholeConfig_def)

lemma reconfigureCNI_whole:
  assumes "properPath g" and "reconfigureCNI L g i = (r, i')" and "Ext f = ''.conflist''"
  shows "wholeConfig L f i i'"
proof -
  obtain cf prev where names: "renamedConfig g = (cf, prev)" by fastforce
  note out = reconfigureCNI_outcome [OF assms(1,2) names]
  have "f \<noteq> installing cf" using Ext_installing [of cf] assms(3) by auto
  moreover have "f = cf" if "f = g" using conflist_not_renamed [OF assms(3)] names that by simp
  ultimately consider "f = cf" | "f \<notin> {g, cf, installing cf}" by blast
  then show ?thesis
  proof cases
    case 1
    show ?thesis using out [THEN conjunct2] unfolding wholeConfig_def 1 by blast
  next
    case 2
    then show ?thesis using out [THEN conjunct1] unfolding wholeConfig_def by blast
  qed
qed

lemma handle_whole:
  assumes "handle L e i = (r, i')" and "Ext f = ''.conflist''" and "isCNIFile (Name e) \<Longrightarrow> properPath (Name e)"
    and "properPath (kubeConfigFilename i)" and "f \<noteq> kubeConfigFilename i"
  shows "wholeConfig L f i i' \<and> environ i' = environ i"
proof -
  have tmp: "f \<noteq> installing (kubeConfigFilename i)" using Ext_installing assms(2) by auto
  consider "i' = i" | "reconfigureK8s (kubeConfigFilename i) (serviceAccountTokenFilename i) i = (r, i')"
    | "isCNIFile (Name e)" "reconfigureCNI L (Name e) i = (r, i')"
    using handle_cases [of L e i] assms(1) by auto
  then show ?thesis
  proof cases
    case 2
    from framedD [OF reconfigureK8s_framed [OF assms(4)] 2] show ?thesis
      using tmp assms(5) by (simp add: wholeConfig_def)
  next
    case 3
    then show ?thesis
      using reconfigureCNI_whole [OF assms(3) _ assms(2)] framedD(2) [OF reconfigureCNI_framed] by blast
  qed (simp add: wholeConfig_def)
qed

lemma kubeConfigFilename_environ: "environ i' = environ i \<Longrightarrow> kubeConfigFilename i' = kubeConfigFilename i"
  by (simp add: kubeConfigFilename_def envVar_get_environ [of i' i])

lemma handleAll_whole:
  assumes "handleAll L es i = (xs, i')" and "Ext f = ''.conflist''"
    and "\<forall>e \<in> set es. isCNIFile (Name e) \<longrightarrow> properPath (Name e)"
    and "properPath (kubeConfigFilename i)" and "f \<noteq> kubeConfigFilename i"
  shows "wholeConfig L f i i' \<and> environ i' = environ i"
  using assms
proof (induction es arbitrary: i xs)
  case (Cons e es)
  obtain r j where e: "handle L e i = (r, j)" by fastforce
  obtain ys where rest: "handleAll L es j = (ys, i')" using Cons.prems(1) e by (auto split: sum.splits prod.splits)
  have j: "wholeConfig L f i j" "environ j = environ i"
    using handle_whole [OF e Cons.prems(2) _ Cons.prems(4,5)] Cons.prems(3) by auto
  then show ?case
    using Cons.IH [OF rest Cons.prems(2)] Cons.prems(3-5) kubeConfigFilename_environ [OF j(2)] wholeConfig_trans
    by auto
qed (simp add: wholeConfig_def)

section \<open>Properties\<close>

text \<open>C8. No run of the installer tears a CNI configuration: after any sequence of events, whatever
  calls fail in between, a plugin list of the node is as it was before the first, or holds a
  complete document that merging produced. It is never missing and never cut off.\<close>

theorem events_never_tear:
  assumes "handleAll L es i = (xs, i')" and "Ext f = ''.conflist''" and "lookup i f = Some (Regular data m)"
    and "\<forall>e \<in> set es. isCNIFile (Name e) \<longrightarrow> properPath (Name e)"
    and "properPath (kubeConfigFilename i)" and "f \<noteq> kubeConfigFilename i"
  shows "\<exists>d m'. lookup i' f = Some (Regular d m') \<and>
    (d = data \<or> (\<exists>existing configuration. inject (json L) existing configuration = Inr d))"
  using handleAll_whole [OF assms(1,2,4-6)] assms(3) by (auto simp: wholeConfig_def)

theorem events_never_tear_witness:
  "\<exists>d m'. lookup (snd (handleAll exampleLibs [\<lparr>Name = exampleConfFile, Op = [Write]\<rparr>, tokenEvent exampleNode,
      \<lparr>Name = exampleConfFile, Op = [Create]\<rparr>] (exampleNode\<lparr>faults := [None, Some (Errno ''no space'', 3)]\<rparr>)))
     exampleConfFile = Some (Regular d m')"
proof -
  let ?i = "exampleNode\<lparr>faults := [None, Some (Errno ''no space'', 3)]\<rparr>"
  let ?es = "[\<lparr>Name = exampleConfFile, Op = [Write]\<rparr>, tokenEvent exampleNode, \<lparr>Name = exampleConfFile, Op = [Create]\<rparr>]"
  obtain xs i' where run: "handleAll exampleLibs ?es ?i = (xs, i')" by fastforce
  have k: "kubeConfigFilename ?i = ''/host/etc/cni/net.d/ZZZ-linkerd-cni-kubeconfig''"
    by (simp add: kubeConfigFilename_def envVar_get_def Getenv_def exampleNode_def env_vars go_simps)
  have path: "properPath ''/host/etc/cni/net.d/ZZZ-linkerd-cni-kubeconfig''"
    unfolding properPath_def absPath_def
    by (intro exI [of _ "[''host'', ''etc'', ''cni'', ''net.d'']"] exI [of _ "''ZZZ-linkerd-cni-kubeconfig''"])
      (simp add: proper_def)
  have "\<not> isCNIFile (Name (tokenEvent exampleNode))"
    by (simp add: tokenEvent_def exampleNode_def brokenNode_paths isCNIFile_def go_simps)
  then have names: "\<forall>e \<in> set ?es. isCNIFile (Name e) \<longrightarrow> properPath (Name e)"
    using exampleConfFile_path(1) by simp
  have f: "Ext exampleConfFile = ''.conflist''" "exampleConfFile \<noteq> kubeConfigFilename ?i"
    "lookup ?i exampleConfFile = Some (Regular ''plain'' writeFilePerm)"
    using exampleNode_facts(2) by (simp_all add: k exampleConfFile_def exampleNet_def go_simps)
  from events_never_tear [OF run f(1,3) names _ f(2)] path k run show ?thesis by auto
qed

end
