(* ===== verification/Cni_Supervisor.thy ===== *)
theory Cni_Supervisor
  imports Cni_Watch
begin

text \<open>
  The command of the installer (\<open>cni-install/main.go\<close>): it parses the log level, runs the
  installer until it returns, and removes the installation, unless \<open>Run\<close> failed. Removing is one
  step per entry of the log, interleaved with what the goroutine of \<open>watchFS\<close> still does:
  \<open>Run\<close> cancels it when it returns but does not wait for it. \<open>logrus.ParseLevel\<close> and
  \<open>errors.Is(err, context.Canceled)\<close> are parameters.
\<close>

section \<open>The process\<close>

datatype main_pc =
    Running
  | Removing "entry list" "cni_error list"
  | Exited nat

type_synonym process = "main_pc \<times> machine"

text \<open>What follows the return of \<open>Run\<close>: \<open>Fatal\<close> exits at once, so that the deferred call of
  \<open>Remove\<close> is not made.\<close>

definition afterRun :: "(cni_error \<Rightarrow> bool) \<Rightarrow> cni_error option \<Rightarrow> machine \<Rightarrow> process" where
  "afterRun isCanceled r s =
     (case r of
        Some e \<Rightarrow> if \<not> isCanceled e then (Exited 1, s) else (Removing (log (inst s)) [], s)
      | None \<Rightarrow> (Removing (log (inst s)) [], s))"

text \<open>\<open>Run\<close> failed before its two goroutines run: the one it started, if any, stays where it is.\<close>

definition failedRun :: "cni_error \<Rightarrow> installer \<Rightarrow> machine" where
  "failedRun e i = (started i)\<lparr>runPc := Returned (Some e), loopPc := Done, cancelled := True\<rparr>"

definition mainStart ::
    "(string \<Rightarrow> ('e, 'level) result) \<Rightarrow> (cni_error \<Rightarrow> bool) \<Rightarrow> libs \<Rightarrow> string \<Rightarrow> host \<Rightarrow> process" where
  "mainStart parseLevel isCanceled L logLevel w =
     (case parseLevel logLevel of
        Inl _ \<Rightarrow> (Exited 1, started (NewInstaller w))
      | Inr _ \<Rightarrow>
          (case runSetup L (NewInstaller w) of
             (Inl e, i) \<Rightarrow> afterRun isCanceled (Some e) (failedRun e i)
           | (Inr _, i) \<Rightarrow> (Running, started i)))"

inductive main_step :: "libs \<Rightarrow> (cni_error \<Rightarrow> bool) \<Rightarrow> process \<Rightarrow> process \<Rightarrow> bool" for L isCanceled where
  goroutines: "step L s t \<Longrightarrow> \<forall>n. pc \<noteq> Exited n \<Longrightarrow> main_step L isCanceled (pc, s) (pc, t)"
| run_returned: "runPc s = Returned r \<Longrightarrow> main_step L isCanceled (Running, s) (afterRun isCanceled r s)"
| revert_ok: "revert L e (inst s) = (Inr (), i) \<Longrightarrow>
    main_step L isCanceled (Removing (e # es) errors, s) (Removing es errors, s\<lparr>inst := i\<rparr>)"
| revert_error: "revert L e (inst s) = (Inl x, i) \<Longrightarrow>
    main_step L isCanceled (Removing (e # es) errors, s) (Removing es (errors @ [x]), s\<lparr>inst := i\<rparr>)"
| removed: "main_step L isCanceled (Removing [] errors, s) (Exited (if errors = [] then 0 else 1), s)"

inductive_cases main_stepE: "main_step L isCanceled (pc, s) (pc', s')"

section \<open>Removing, step by step\<close>

lemma removing_alone:
  assumes "removeLoop (revert L) errors es (inst s) = (errors', i)"
  shows "(main_step L isCanceled)\<^sup>*\<^sup>* (Removing es errors, s) (Removing [] errors', s\<lparr>inst := i\<rparr>)"
  using assms
proof (induction es arbitrary: errors s)
  case Nil
  then show ?case by (cases s) auto
next
  case (Cons e es)
  obtain r i1 where e: "revert L e (inst s) = (r, i1)" by fastforce
  define errors1 where "errors1 = (case r of Inl x \<Rightarrow> errors @ [x] | Inr _ \<Rightarrow> errors)"
  have "main_step L isCanceled (Removing (e # es) errors, s) (Removing es errors1, s\<lparr>inst := i1\<rparr>)"
    using e by (cases r) (auto simp: errors1_def intro: main_step.intros)
  moreover have "removeLoop (revert L) errors1 es (inst (s\<lparr>inst := i1\<rparr>)) = (errors', i)"
    using Cons.prems e by (cases r) (simp_all add: errors1_def)
  from Cons.IH [OF this] have
    "(main_step L isCanceled)\<^sup>*\<^sup>* (Removing es errors1, s\<lparr>inst := i1\<rparr>) (Removing [] errors', s\<lparr>inst := i\<rparr>)" by simp
  ultimately show ?case by (rule converse_rtranclp_into_rtranclp)
qed

text \<open>After an error of \<open>Run\<close> the process goes nowhere but to its exit.\<close>

definition fatal :: "cni_error \<Rightarrow> process \<Rightarrow> bool" where
  "fatal e p \<longleftrightarrow> (fst p = Running \<and> runPc (snd p) = Returned (Some e)) \<or> fst p = Exited 1"

lemma step_returned: "step L s t \<Longrightarrow> runPc s = Returned r \<Longrightarrow> runPc t = Returned r"
  by (induction rule: step.induct) (auto simp: returned_def)

lemma main_step_fatal:
  "main_step L isCanceled p q \<Longrightarrow> \<not> isCanceled e \<Longrightarrow> fatal e p \<Longrightarrow> fatal e q"
  by (induction rule: main_step.induct) (auto simp: fatal_def afterRun_def step_returned)

section \<open>A file that is written again\<close>

text \<open>An event for a configuration that differs from what was last written, taken by the goroutine
  at any time before the process exits.\<close>

lemma goroutine_writes:
  assumes "loopPc s = Receiving" and "\<forall>n. pc \<noteq> Exited n" and "handle L e (inst s) = (Inr (), i)"
  shows "(main_step L isCanceled)\<^sup>*\<^sup>* (pc, s) (pc, s\<lparr>inst := i\<rparr>)"
proof -
  let ?t = "s\<lparr>loopPc := Handling e\<rparr>"
  have "main_step L isCanceled (pc, s) (pc, ?t)"
    by (intro main_step.goroutines step.notify assms(1,2))
  moreover have "step L ?t (?t\<lparr>inst := i, loopPc := Receiving\<rparr>)"
    by (rule step.handle_ok [of _ e]) (simp_all add: assms(3))
  from main_step.goroutines [OF this assms(2)]
  have "main_step L isCanceled (pc, ?t) (pc, ?t\<lparr>inst := i, loopPc := Receiving\<rparr>)" .
  moreover have "?t\<lparr>inst := i, loopPc := Receiving\<rparr> = s\<lparr>inst := i\<rparr>" using assms(1) by (cases s) simp
  ultimately show ?thesis by (metis (no_types) converse_rtranclp_into_rtranclp rtranclp.rtrancl_refl)
qed

lemma handle_conflist:
  assumes "Dir f = hostCNIConfig i" and "Ext f = ''.conflist''" and "f \<noteq> hostCNIConfig i"
    and "f \<noteq> Dir (serviceAccountTokenFilename i)" and "Dir (serviceAccountTokenFilename i) \<noteq> hostCNIConfig i"
  shows "handle L \<lparr>Name = f, Op = [Write]\<rparr> i = reconfigureCNI L f i"
  using handle_event [of "\<lparr>Name = f, Op = [Write]\<rparr>" i L] assms by simp

text \<open>Reverting a configuration that can be read.\<close>

lemma revert_known:
  assumes "faults i = []" and "lookup i f = Some (Regular merged m)" and "revertBytes (json L) merged = Inr (Some original)"
  shows "fst (revert L (cniFile f) i) = Inr ()" and "lookup (snd (revert L (cniFile f) i)) f = Some (Regular original m)"
  using WriteFile_no_faults [OF assms(1), of f m m original] assms
  by (auto simp: ReadFile_no_faults [OF assms(1,2)] Stat_no_faults [OF assms(1,2)] wrapE_def)

lemma installedNode_race:
  "Dir exampleConfFile = hostCNIConfig installedNode" "Ext exampleConfFile = ''.conflist''"
  "exampleConfFile \<noteq> Dir (serviceAccountTokenFilename installedNode)"
  "Dir (serviceAccountTokenFilename installedNode) \<noteq> hostCNIConfig installedNode"
  "revertBytes (json exampleLibs) ''merged'' = Inr (Some ''plain'')"
  "inject (json exampleLibs) ''plain'' ''linkerd'' = Inr ''merged''"
  "mapIndex (fileHashSet installedNode) exampleConfFile \<noteq> hashEncode exampleLibs ''plain''"
  "sources installedNode = [environmentSource ''CNI_NETWORK_CONFIG'']"
  "ReplaceAll (Getenv installedNode ''CNI_NETWORK_CONFIG'') ''__KUBECONFIG_FILEPATH__'' (pluginKubeConfigFilename installedNode)
     = ''linkerd''" "''linkerd'' \<noteq> ''''"
  "lookup installedNode (Dir exampleConfFile) = Some Directory"
  "lookup installedNode (installing exampleConfFile) = None"
proof -
  have net: "hostCNIConfig installedNode = exampleNet"
    by (simp add: hostCNIConfig_def envVar_get_def Getenv_def installedNode_def exampleNode_def exampleNet_def env_vars go_simps)
  then show "Dir exampleConfFile = hostCNIConfig installedNode" by (simp add: exampleConfFile_path)
  show "lookup installedNode (Dir exampleConfFile) = Some Directory"
    by (simp add: exampleConfFile_path installedNode_facts)
  show "Ext exampleConfFile = ''.conflist''" by (simp add: exampleConfFile_def exampleNet_def go_simps)
  have tok: "Dir (serviceAccountTokenFilename installedNode) = ''/''"
    by (simp add: installedNode_def exampleNode_def brokenNode_paths)
  then show "exampleConfFile \<noteq> Dir (serviceAccountTokenFilename installedNode)"
    "Dir (serviceAccountTokenFilename installedNode) \<noteq> hostCNIConfig installedNode"
    unfolding net by (simp_all add: exampleConfFile_def exampleNet_def)
  show "lookup installedNode (installing exampleConfFile) = None"
    using exampleConfFile_path(5,6) by (simp add: installedNode_def lookup_def installing_def exampleConfFile_def exampleNet_def)
  show "revertBytes (json exampleLibs) ''merged'' = Inr (Some ''plain'')"
    using example_revert by (simp add: exampleLibs_def)
qed (use exampleNode_facts(5,6) in \<open>simp_all add: installedNode_def exampleNode_def Getenv_def\<close>)

section \<open>Properties\<close>



text \<open>C31. A command whose installer fails leaves the node as it is: from the return of \<open>Run\<close> with an
  error the process exits with status 1, and in no execution does it begin to remove anything,
  so the plugin binary and the rewritten configurations stay in place.\<close>

theorem main_error_skips_Remove:
  assumes "runPc s = Returned (Some e)" and "\<not> isCanceled e"
  shows "main_step L isCanceled (Running, s) (Exited 1, s) \<and>
    (\<forall>p. (main_step L isCanceled)\<^sup>*\<^sup>* (Running, s) p \<longrightarrow> fst p \<in> {Running, Exited 1})"
proof (intro conjI allI impI)
  show "main_step L isCanceled (Running, s) (Exited 1, s)"
    using main_step.run_returned [OF assms(1), of L isCanceled] assms(2) by (simp add: afterRun_def)
next
  fix p assume "(main_step L isCanceled)\<^sup>*\<^sup>* (Running, s) p"
  then have "fatal e p"
    by (induction rule: rtranclp_induct) (use assms main_step_fatal in \<open>auto simp: fatal_def\<close>)
  then show "fst p \<in> {Running, Exited 1}" by (auto simp: fatal_def)
qed

theorem main_error_skips_Remove_witness:
  "main_step exampleLibs (\<lambda>_. False) (Running, returned (Some errNoConfigurationSource) (started installedNode))
     (Exited 1, returned (Some errNoConfigurationSource) (started installedNode))"
  using main_error_skips_Remove [of "returned (Some errNoConfigurationSource) (started installedNode)"
      errNoConfigurationSource "\<lambda>_. False" exampleLibs] by (simp add: returned_def)

text \<open>C23. Removing can be undone by the installer itself: reverting a configuration is a write to the
  watched directory, and the goroutine of \<open>watchFS\<close> may take the event and inject linkerd
  again before the process exits, with status 0.\<close>

theorem uninstall_race:
  assumes "loopPc s = Receiving" and "faults (inst s) = []" and "properPath f"
    and "Dir f = hostCNIConfig (inst s)" and "Ext f = ''.conflist''" and "renamedConfig f = (f, '''')"
    and "f \<noteq> Dir (serviceAccountTokenFilename (inst s))"
    and "Dir (serviceAccountTokenFilename (inst s)) \<noteq> hostCNIConfig (inst s)"
    and "lookup (inst s) f = Some (Regular merged m)" and "revertBytes (json L) merged = Inr (Some original)"
    and "inject (json L) original configuration = Inr merged"
    and "mapIndex (fileHashSet (inst s)) f \<noteq> hashEncode L original"
    and "sources (inst s) = [environmentSource k]"
    and "ReplaceAll (Getenv (inst s) k) ''__KUBECONFIG_FILEPATH__'' (pluginKubeConfigFilename (inst s)) = configuration"
    and "configuration \<noteq> ''''"
    and "lookup (inst s) (Dir f) = Some Directory" and "lookup (inst s) (installing f) = None"
  shows "\<exists>t m'. (main_step L isCanceled)\<^sup>*\<^sup>* (Removing [cniFile f] [], s) (Exited 0, t) \<and>
    lookup (inst t) f = Some (Regular merged m')"
proof -
  obtain r i1 where rev: "revert L (cniFile f) (inst s) = (r, i1)" by fastforce
  note frame = changes_onlyD [OF revert_touch rev]
  have i1: "r = Inr ()" "lookup i1 f = Some (Regular original m)"
    using revert_known [OF assms(2,9,10)] rev by simp_all
  note same = more_log [OF frame(4)]
  have env: "environ i1 = environ (inst s)" "faults i1 = []" using frame assms(2) by simp_all
  have config: "configureCNI (sources i1) i1 = (Inr configuration, i1)"
    using same assms(13-15) env by (simp add: Getenv_def pluginKubeConfigFilename_def envVar_get_environ [OF env(1)])
  have dir: "Dir f \<noteq> f" "installing f \<noteq> f"
    using properPath_parent [OF assms(3)] by (auto simp: installing_def)
  obtain i2 m' where rec: "reconfigureCNI L f i1 = (Inr (), i2)" "lookup i2 f = Some (Regular merged m')"
    using reconfigureCNI_completes [OF assms(3) env(2) assms(6) i1(2) _ config assms(11)]
      same assms(12,16,17) frame(1) i1(2) dir by auto
  have "hostCNIConfig i1 = hostCNIConfig (inst s)" by (simp add: hostCNIConfig_def envVar_get_environ [OF env(1)])
  then have "handle L \<lparr>Name = f, Op = [Write]\<rparr> (inst (s\<lparr>inst := i1\<rparr>)) = (Inr (), i2)"
    using handle_conflist [of f i1 L] same assms(4,5,7,8) rec(1) dir by simp
  from goroutine_writes [OF _ _ this] assms(1)
  have "(main_step L isCanceled)\<^sup>*\<^sup>* (Removing [] [], s\<lparr>inst := i1\<rparr>) (Removing [] [], s\<lparr>inst := i2\<rparr>)" by simp
  moreover have "main_step L isCanceled (Removing [cniFile f] [], s) (Removing [] [], s\<lparr>inst := i1\<rparr>)"
    using rev i1(1) by (intro main_step.revert_ok) simp
  moreover have "main_step L isCanceled (Removing [] [], s\<lparr>inst := i2\<rparr>) (Exited 0, s\<lparr>inst := i2\<rparr>)"
    using main_step.removed [of L isCanceled "[]"] by simp
  ultimately have "(main_step L isCanceled)\<^sup>*\<^sup>* (Removing [cniFile f] [], s) (Exited 0, s\<lparr>inst := i2\<rparr>)"
    by (meson converse_rtranclp_into_rtranclp rtranclp.rtrancl_into_rtrancl)
  then show ?thesis using rec(2) by (intro exI [of _ "s\<lparr>inst := i2\<rparr>"]) auto
qed

theorem uninstall_race_witness:
  "\<exists>t m'. (main_step exampleLibs (\<lambda>_. False))\<^sup>*\<^sup>* (Removing [cniFile exampleConfFile] [], returned None (started installedNode))
     (Exited 0, t) \<and> lookup (inst t) exampleConfFile = Some (Regular ''merged'' m')"
proof -
  let ?s = "returned None (started installedNode)"
  have inst: "inst ?s = installedNode" "loopPc ?s = Receiving" by (simp_all add: returned_def started_def)
  show ?thesis
    by (rule uninstall_race [where original = "''plain''" and configuration = "''linkerd''" and k = "''CNI_NETWORK_CONFIG''"])
       (simp_all only: inst installedNode_race installedNode_race(11) [unfolded installedNode_race(1)]
         exampleConfFile_path installedNode_facts not_False_eq_True)
qed

end
