(* ===== verification/Spec2Isabelle.thy ===== *)
theory Spec2Isabelle
  imports Cni_Plugin Cni_Events Cni_Supervisor
begin

text \<open>
  linkerd2-proxy-init: the programs that put a pod's traffic under the control of the Linkerd
  proxy, verified on a shallow embedding of their Go code.

  The programs and how they interact. \<open>proxy-init\<close> (\<open>proxy-init/cmd/root.go\<close>) runs in an init
  container: it turns its options into a firewall configuration and has \<open>pkg/iptables\<close> install
  it, for IPv4 and then for IPv6. Where init containers may not do that, the CNI plugin
  (\<open>cni-plugin/main.go\<close>) does the same on the node when the runtime adds a pod, with options from
  its configuration, the pod's and namespace's annotations, and the API server's ports; it calls
  the same two functions. \<open>cni-install\<close> (\<open>cni-install/main.go\<close>, \<open>internal/cni\<close>) puts the plugin
  on the node: it copies the binary, writes a kubeconfig, merges the plugin into the CNI
  configuration files, watches both for changes, and takes everything back when it is stopped.

  Theories and what they model, in the order of the imports.

  \<^item> \<open>Prelude\<close>: results, actions on an explicit state (\<open>bindE\<close>, \<open>wrapE\<close>, \<open>onErrorE\<close>) and the
    lemmas on lists that the components share. \<open>Go_Strings\<close>, \<open>Go_Strconv\<close>, \<open>Go_Net\<close>,
    \<open>Go_Path\<close>, \<open>Go_Os\<close>: what the code uses of Go's standard library. \<open>Go_Os\<close> is a file system
    with a schedule of failures: each system call takes the next entry, which may make it fail,
    and a write that fails may have written any initial part.
  \<^item> \<open>Port_Range\<close> (\<open>pkg/util/portrange.go\<close>): \<open>ParsePort\<close>, \<open>ParsePortRange\<close>; which strings are
    accepted, with which error the others are not, and the round trip through printing.
  \<^item> \<open>Firewall_Commands\<close>, \<open>Firewall_Exec\<close> (\<open>pkg/iptables/iptables.go\<close>): every command builder,
    the packing of ports into multiport matches, the rule lists, the choice of binary, the loop
    that runs commands, \<open>ConfigureFirewall\<close> and \<open>CleanupFirewallConfig\<close>, over a process runner.
  \<^item> \<open>Nat_Table\<close>, \<open>Firewall_Table\<close>: the abstract specification. A nat table is a map from chain
    names to rules; the locale \<open>nat_host\<close> says what a runner that behaves as iptables documents
    does to it, and \<open>nat_host_total\<close> that it does what can be done. The rule builders refine the
    table \<open>configured\<close>; configuring is idempotent, cleaning up undoes it, an error leaves an
    initial part.
  \<^item> \<open>Firewall_Packets\<close>: which packets the two chains redirect, over a matcher with the locale
    \<open>netfilter\<close>.
  \<^item> \<open>Root_Command\<close>: options, \<open>BuildFirewallConfiguration\<close>, and the command's \<open>RunE\<close>.
  \<^item> \<open>Cni_Plugin\<close>: \<open>cmdAdd\<close> from the configuration to the printed result, \<open>cmdCheck\<close>, \<open>cmdDel\<close>.
  \<^item> \<open>Cni_Paths\<close>, \<open>Cni_Json\<close>, \<open>Cni_Installer\<close>: the environment, what \<open>inject\<close> and \<open>revert\<close> do
    to a document, and every method of the installer. Its state is a record that extends the
    host's. The locale \<open>staged_write\<close> is the contract of a write through a temporary file,
    interpreted on \<open>os.WriteFile\<close> and on an opened handle.
  \<^item> \<open>Cni_Configure\<close>, \<open>Cni_Install\<close>, \<open>Cni_Remove\<close>: what rewriting, copying and removing leave
    on the node, under every schedule of failures and without any. The locale \<open>revertible\<close> is
    what the loop of \<open>Remove\<close> needs of an entry.
  \<^item> \<open>Cni_Watch\<close>: \<open>Run\<close> and \<open>watchFS\<close>, two goroutines with two channels and a context, as a
    step relation; invariants by rule induction, executions that return and executions that do
    not. \<open>Cni_Events\<close>: no sequence of events leaves a torn configuration. \<open>Cni_Supervisor\<close>: the command around it, whose removal interleaves with the goroutine.
  \<^item> This theory: from the options of \<open>proxy-init\<close> to the verdict on a packet, and the plugin
    and the command as two ways to the same rules.

  Parameters, all of them code that is not in the repository: the process runner and
  \<open>exec.LookPath\<close>; the packet matcher; the Kubernetes client, the CNI library and the decoding of
  the plugin's configuration; the encoder and decoder of \<open>encoding/json\<close>; SHA-256;
  \<open>log.ParseLevel\<close>; \<open>errors.Is\<close> for cancellation. Hypotheses on them state what they document,
  and each property that has one has a witness on a concrete instance. fsnotify has no
  hypothesis: any event and any error may come at any time.

  Bounds. No definition has fuel: all loops of the code are over finite data, and the event loop
  is a relation. Ports and identities are integers, which parsing limits to 64 bits; uids and
  gids are below \<open>2 ^ 32\<close> where a packet is matched. File modes are words of 9 bits.

  Not modelled: logging and the text of log messages; the registration of command line flags
  (cobra, \<open>flag\<close>) and \<open>main\<close> of \<open>proxy-init\<close>, which only calls the command; signal delivery,
  which is the step that cancels the context; symbolic links and the directory entries' order
  beyond what \<open>os.ReadDir\<close> gives; the closing of fsnotify's channels. The integration tests'
  helper programs are no part of the program, and the two Rust programs (\<open>validator\<close>,
  \<open>cni-repair-controller\<close>) are built on asynchronous network libraries and share no code with
  the rest.

  What the model shows beyond correctness. An ignore list in which nothing parses yields a rule
  with an empty port list (\<open>multiport_all_invalid\<close>). \<open>Run\<close> can wait for ever: two failing events
  at start, or a signal before all events are handed over (\<open>Run_deadlocks\<close>, \<open>early_cancel\<close>). The
  goroutine outlives \<open>Run\<close>, so that what \<open>Remove\<close> takes out can be put back
  (\<open>uninstall_race\<close>), and an error of \<open>Run\<close> exits without removing (\<open>main_error_skips_Remove\<close>).
\<close>

section \<open>A packet through a built-in chain\<close>

text \<open>The rules of a built-in chain in order: a rule that applies and jumps to a chain of the table
  takes that chain's verdict, and goes on after it when the chain returns.\<close>

fun traverse :: "(string \<Rightarrow> string \<Rightarrow> bool) \<Rightarrow> nat_table \<Rightarrow> string list list \<Rightarrow> verdict" where
  "traverse s t [] = Passed"
| "traverse s t (r # rs) =
     (if \<not> ruleApplies s r then traverse s t rs
      else case jumpTarget r of
        None \<Rightarrow> target r
      | Some c \<Rightarrow>
          (case t c of
             None \<Rightarrow> target r
           | Some body \<Rightarrow> (case decide s body of Passed \<Rightarrow> traverse s t rs | v \<Rightarrow> v)))"

definition hookVerdict ::
    "('a packet \<Rightarrow> string \<Rightarrow> string \<Rightarrow> bool) \<Rightarrow> nat_table \<Rightarrow> string \<Rightarrow> 'a packet \<Rightarrow> verdict" where
  "hookVerdict sat t hook p = (case t hook of None \<Rightarrow> Passed | Some rules \<Rightarrow> traverse (sat p) t rules)"

text \<open>A host that the rules have not been applied to: empty built-in chains.\<close>

definition pristine :: "nat_table \<Rightarrow> bool" where
  "pristine t \<longleftrightarrow> t IptablesPreroutingChainName = Some [] \<and> t IptablesOutputChainName = Some []"

lemma pristine_builtins: "pristine t \<Longrightarrow> builtins t"
  by (simp add: pristine_def builtins_def)

lemma configured_hooks:
  assumes "pristine t"
  shows "configured fc t IptablesPreroutingChainName = Some [redirectJump]"
    and "configured fc t IptablesOutputChainName = Some [outputJump]"
  using assms
  by (simp_all add: configured_def installed_at pristine_def jumps_def chain_names)

context netfilter
begin

lemma jump_applies: "ruleApplies (sat p) (jumpArgs c comment)"
  by (simp add: jumpArgs_def no_match)

lemma hook_follows_jump:
  assumes "t hook = Some [jumpArgs c comment]" and "t c = Some body"
  shows "hookVerdict sat t hook p = decide (sat p) body"
  by (simp add: hookVerdict_def assms jump_applies split: verdict.split)

lemma configured_hook_verdicts:
  assumes "pristine t"
  shows "hookVerdict sat (configured fc t) IptablesPreroutingChainName p = decide (sat p) (redirectRules fc)"
    and "hookVerdict sat (configured fc t) IptablesOutputChainName p = decide (sat p) (outputRules fc)"
  using configured_hooks [OF assms, of fc]
  by (auto intro!: hook_follows_jump simp: redirectJump_def outputJump_def configured_chains)

end

section \<open>One address family\<close>

text \<open>The plugin and the command build and configure alike; only the names of the errors differ.\<close>

lemma one_family:
  obtains (ok) w' where "buildAndRun lp run options w = (None, w')" "buildAndConfigure lp run options w = (Inr (), w')"
  | (build) e w' where "buildAndRun lp run options w = (Some (BuildFailed e), w')"
      "buildAndConfigure lp run options w = (Inl (PluginBuildError e), w')"
  | (firewall) e w' where "buildAndRun lp run options w = (Some (FirewallFailed e), w')"
      "buildAndConfigure lp run options w = (Inl (PluginFirewallError e), w')"
proof (cases "fst (BuildFirewallConfiguration options)")
  case (Inl e)
  then show thesis by (intro build) (simp_all add: buildAndConfigure_def buildAndRun_def)
next
  case (Inr fc)
  obtain r w' where fw: "ConfigureFirewall lp run fc w = (r, w')" by fastforce
  show thesis
    using Inr fw ok firewall by (cases r) (simp_all add: buildAndConfigure_def buildAndRun_def)
qed

section \<open>Properties that span the components\<close>





end
